(* ===== verification/Prelude.thy ===== *)
theory Prelude
  imports Main "HOL-Library.Word"
begin

text \<open>
  Shared vocabulary of the development: the result type of code that can fail, its
  sequencing operator with the rules that carry the component proofs, the machine types
  of \<^verbatim>\<open>src/linux-compat.h\<close>, and generic facts on lists and words.

  Failing is a value.  A C++ \<^verbatim>\<open>assert\<close> whose condition is false aborts the process
  (\<open>Assertion_failed\<close>), a load or store outside the packet buffer is undefined
  behaviour (\<open>Out_of_bounds\<close>), and the constructor of \<^verbatim>\<open>parser_context\<close> throws
  (\<open>Runtime_error\<close>).
\<close>

unbundle bit_operations_syntax

section \<open>Machine types\<close>

type_synonym u8 = "8 word"
type_synonym u16 = "16 word"
type_synonym u32 = "32 word"
type_synonym u64 = "64 word"
type_synonym byte = "8 word"

section \<open>Results\<close>

datatype ctcm_error = Assertion_failed | Out_of_bounds | Runtime_error

type_synonym 'a res = "ctcm_error + 'a"

definition bind_res :: "'a res \<Rightarrow> ('a \<Rightarrow> 'b res) \<Rightarrow> 'b res" where
  "bind_res m f = (case m of Inl e \<Rightarrow> Inl e | Inr x \<Rightarrow> f x)"

definition map_res :: "('a \<Rightarrow> 'b) \<Rightarrow> 'a res \<Rightarrow> 'b res" where
  "map_res f m = (case m of Inl e \<Rightarrow> Inl e | Inr x \<Rightarrow> Inr (f x))"

definition assert_res :: "bool \<Rightarrow> unit res" where
  "assert_res b = (if b then Inr () else Inl Assertion_failed)"

named_theorems res_simps "evaluation of sequenced computations"
named_theorems layout_simps "sizes, offsets and constants of the wire formats"

lemma bind_res_Inl [simp, res_simps]: "bind_res (Inl e) f = Inl e"
  by (simp add: bind_res_def)

lemma bind_res_Inr [simp, res_simps]: "bind_res (Inr x) f = f x"
  by (simp add: bind_res_def)

lemma map_res_Inl [simp, res_simps]: "map_res f (Inl e) = Inl e"
  by (simp add: map_res_def)

lemma map_res_Inr [simp, res_simps]: "map_res f (Inr x) = Inr (f x)"
  by (simp add: map_res_def)

lemma assert_res_True [simp, res_simps]: "b \<Longrightarrow> assert_res b = Inr ()"
  by (simp add: assert_res_def)

lemma assert_res_False [simp, res_simps]: "\<not> b \<Longrightarrow> assert_res b = Inl Assertion_failed"
  by (simp add: assert_res_def)

lemma bind_res_eq_Inr_iff: "bind_res m f = Inr y \<longleftrightarrow> (\<exists>x. m = Inr x \<and> f x = Inr y)"
  by (cases m) simp_all

lemma bind_res_InrE:
  assumes "bind_res m f = Inr y"
  obtains x where "m = Inr x" "f x = Inr y"
  using assms by (auto simp: bind_res_eq_Inr_iff)

lemma bind_res_eq_Inl_iff:
  "bind_res m f = Inl e \<longleftrightarrow> m = Inl e \<or> (\<exists>x. m = Inr x \<and> f x = Inl e)"
  by (cases m) simp_all

lemma map_res_eq_Inr_iff: "map_res f m = Inr y \<longleftrightarrow> (\<exists>x. m = Inr x \<and> y = f x)"
  by (cases m) auto

lemma assert_res_eq_Inr_iff: "assert_res b = Inr u \<longleftrightarrow> b"
  by (simp add: assert_res_def)

lemma assert_res_eq_Inl_iff: "assert_res b = Inl e \<longleftrightarrow> \<not> b \<and> e = Assertion_failed"
  by (auto simp: assert_res_def)

lemmas res_Inr_iffs = bind_res_eq_Inr_iff map_res_eq_Inr_iff assert_res_eq_Inr_iff

lemma bind_res_assoc: "bind_res (bind_res m f) g = bind_res m (\<lambda>x. bind_res (f x) g)"
  by (cases m) simp_all

lemma bind_res_return: "bind_res m (\<lambda>x. Inr (f x)) = map_res f m"
  by (cases m) simp_all

lemma bind_res_cong [fundef_cong]:
  "m = m' \<Longrightarrow> (\<And>x. m' = Inr x \<Longrightarrow> f x = f' x) \<Longrightarrow> bind_res m f = bind_res m' f'"
  by (cases m') simp_all

section \<open>Words and lists\<close>

lemma bit_ucast_iff':
  "bit (ucast (w :: 'a::len word) :: 'b::len word) n \<longleftrightarrow> n < LENGTH('b) \<and> bit w n"
  by (simp add: bit_simps)

lemma ucast_u64_u32 [simp]: "(ucast (ucast (w :: u32) :: u64) :: u32) = w"
  by (rule bit_word_eqI) (auto simp: bit_simps dest: bit_imp_le_length)

lemma take_append_drop_same:
  "a \<le> length m \<Longrightarrow> length xs = n \<Longrightarrow> take n (drop a (take a m @ xs @ ys)) = xs"
  by (simp add: min_absorb2)

lemma nth_splice:
  assumes "a + length xs \<le> length m" "i < length m"
  shows "(take a m @ xs @ drop (a + length xs) m) ! i =
    (if a \<le> i \<and> i < a + length xs then xs ! (i - a) else m ! i)"
  using assms by (auto simp: nth_append min_def)

section \<open>Maps\<close>

text \<open>A map into the numbers below a bound whose keys can be read off its values has no more entries than the bound.\<close>

lemma card_dom_le:
  assumes "\<And>k a. m k = Some a \<Longrightarrow> a < n \<and> f a = k"
  shows "finite (dom m) \<and> card (dom m) \<le> n"
proof -
  have sub: "dom m \<subseteq> f ` {..<n}" using assms by force
  then show ?thesis using finite_subset [OF sub] surj_card_le [OF _ sub] by simp
qed

end
