(* ===== verification/C_Layout.thy ===== *)
theory C_Layout
  imports Prelude
begin

text \<open>
  Struct layout of the C ABI the headers are compiled with: each member is placed at the next
  multiple of its alignment and the size is rounded up to the largest alignment; a packed
  struct has no padding.  The wire-format theories list the members of a struct in
  source order and take \<^verbatim>\<open>offsetof\<close> and \<^verbatim>\<open>sizeof\<close> from here, so that no offset is written
  by hand.
\<close>

text \<open>A member: its name, its size and its alignment in bytes.\<close>

type_synonym c_member = "string \<times> nat \<times> nat"
type_synonym c_struct = "c_member list"

definition align_up :: "nat \<Rightarrow> nat \<Rightarrow> nat" where
  "align_up al n = ((n + (al - 1)) div al) * al"

definition scalar :: "string \<Rightarrow> nat \<Rightarrow> c_member" where
  "scalar name sz = (name, sz, sz)"

definition byte_array :: "string \<Rightarrow> nat \<Rightarrow> c_member" where
  "byte_array name n = (name, n, 1)"

fun place :: "nat \<Rightarrow> c_struct \<Rightarrow> (string \<times> nat) list" where
  "place off [] = []"
| "place off ((name, sz, al) # ms) = (name, align_up al off) # place (align_up al off + sz) ms"

fun end_of :: "nat \<Rightarrow> c_struct \<Rightarrow> nat" where
  "end_of off [] = off"
| "end_of off ((name, sz, al) # ms) = end_of (align_up al off + sz) ms"

fun max_align :: "c_struct \<Rightarrow> nat" where
  "max_align [] = 1"
| "max_align ((name, sz, al) # ms) = max al (max_align ms)"

definition packed :: "c_struct \<Rightarrow> c_struct" where
  "packed ms = map (\<lambda>(name, sz, al). (name, sz, 1)) ms"

definition offsetof :: "c_struct \<Rightarrow> string \<Rightarrow> nat" where
  "offsetof ms name = (case map_of (place 0 ms) name of None \<Rightarrow> 0 | Some off \<Rightarrow> off)"

definition sizeof :: "c_struct \<Rightarrow> nat" where
  "sizeof ms = align_up (max_align ms) (end_of 0 ms)"

lemmas c_layout_defs = offsetof_def sizeof_def align_up_def scalar_def byte_array_def packed_def

section \<open>Placement is sound\<close>

lemma align_up_ge: "0 < al \<Longrightarrow> n \<le> align_up al n"
proof -
  assume al: "0 < al"
  have "n + (al - 1) = align_up al n + (n + (al - 1)) mod al"
    by (simp add: align_up_def)
  moreover have "(n + (al - 1)) mod al < al" using al by simp
  ultimately show ?thesis by linarith
qed

lemma align_up_dvd: "al dvd align_up al n"
  by (simp add: align_up_def)

definition aligned_members :: "c_struct \<Rightarrow> bool" where
  "aligned_members ms \<longleftrightarrow> (\<forall>(name, sz, al) \<in> set ms. 0 < al)"

lemma place_ge:
  assumes "aligned_members ms" "(name, off') \<in> set (place off ms)"
  shows "off \<le> off'"
  using assms
proof (induction off ms rule: place.induct)
  case (1 off)
  then show ?case by simp
next
  case (2 off nm sz al ms)
  then have "off \<le> align_up al off"
    by (auto simp: aligned_members_def intro: align_up_ge)
  moreover have "align_up al off + sz \<le> off'" if "(name, off') \<in> set (place (align_up al off + sz) ms)"
    using 2 that by (auto simp: aligned_members_def)
  ultimately show ?case using "2.prems"(2) by auto
qed

lemma end_of_ge:
  assumes "aligned_members ms"
  shows "off \<le> end_of off ms"
  using assms
proof (induction off ms rule: end_of.induct)
  case (2 off nm sz al ms)
  then have "off \<le> align_up al off" "align_up al off + sz \<le> end_of (align_up al off + sz) ms"
    by (auto simp: aligned_members_def intro: align_up_ge)
  then show ?case by simp
qed simp

end
