(* ===== verification/Bytes.thy ===== *)
theory Bytes
  imports Prelude
begin

text \<open>
  Packet memory.  A pointer into a packet is an offset into the packet's byte buffer.
  A scalar field is a little-endian load or store, which is how the hosts the library is built
  for (x86-64, BlueField-2) access memory; a big-endian wire field is such a load followed by
  the byte swap of \<^verbatim>\<open>ntohs\<close>, \<^verbatim>\<open>ntohl\<close> or \<^verbatim>\<open>be64toh\<close>
  (\<^verbatim>\<open>src/linux-compat.h\<close> names the same functions \<^verbatim>\<open>be16_to_cpu\<close> and so on).
  Every access outside the buffer is the error \<open>Out_of_bounds\<close>.
\<close>

section \<open>Little-endian codecs\<close>

definition le_bytes :: "'a::len word \<Rightarrow> byte list" where
  "le_bytes w = map (\<lambda>i. ucast (drop_bit (8 * i) w)) [0..<LENGTH('a) div 8]"

fun of_le_bytes :: "byte list \<Rightarrow> 'a::len word" where
  "of_le_bytes [] = 0"
| "of_le_bytes (b # bs) = ucast b OR push_bit 8 (of_le_bytes bs)"

definition bswap :: "'a::len word \<Rightarrow> 'a word" where
  "bswap w = of_le_bytes (rev (le_bytes w))"

definition ntohs :: "u16 \<Rightarrow> u16" where "ntohs w = bswap w"
definition htons :: "u16 \<Rightarrow> u16" where "htons w = bswap w"
definition ntohl :: "u32 \<Rightarrow> u32" where "ntohl w = bswap w"
definition htonl :: "u32 \<Rightarrow> u32" where "htonl w = bswap w"
text \<open>The little-endian conversions do nothing on a little-endian host.\<close>

definition le16_to_cpu :: "u16 \<Rightarrow> u16" where "le16_to_cpu w = w"
definition le32_to_cpu :: "u32 \<Rightarrow> u32" where "le32_to_cpu w = w"
definition le64_to_cpu :: "u64 \<Rightarrow> u64" where "le64_to_cpu w = w"
definition cpu_to_le16 :: "u16 \<Rightarrow> u16" where "cpu_to_le16 w = w"
definition cpu_to_le32 :: "u32 \<Rightarrow> u32" where "cpu_to_le32 w = w"
definition cpu_to_le64 :: "u64 \<Rightarrow> u64" where "cpu_to_le64 w = w"

definition be64toh :: "u64 \<Rightarrow> u64" where "be64toh w = bswap w"
definition htobe64 :: "u64 \<Rightarrow> u64" where "htobe64 w = bswap w"

lemmas byteorder_defs = ntohs_def htons_def ntohl_def htonl_def be64toh_def htobe64_def

section \<open>Loads and stores\<close>

definition load :: "byte list \<Rightarrow> nat \<Rightarrow> 'a::len word res" where
  "load m a =
     (if a + LENGTH('a) div 8 \<le> length m
      then Inr (of_le_bytes (take (LENGTH('a) div 8) (drop a m)))
      else Inl Out_of_bounds)"

definition store :: "byte list \<Rightarrow> nat \<Rightarrow> 'a::len word \<Rightarrow> byte list res" where
  "store m a w =
     (if a + LENGTH('a) div 8 \<le> length m
      then Inr (take a m @ le_bytes w @ drop (a + LENGTH('a) div 8) m)
      else Inl Out_of_bounds)"

definition memset :: "byte list \<Rightarrow> nat \<Rightarrow> byte \<Rightarrow> nat \<Rightarrow> byte list res" where
  "memset m a v n =
     (if a + n \<le> length m then Inr (take a m @ replicate n v @ drop (a + n) m)
      else Inl Out_of_bounds)"

definition load_bytes :: "byte list \<Rightarrow> nat \<Rightarrow> nat \<Rightarrow> byte list res" where
  "load_bytes m a n = (if a + n \<le> length m then Inr (take n (drop a m)) else Inl Out_of_bounds)"

definition store_bytes :: "byte list \<Rightarrow> nat \<Rightarrow> byte list \<Rightarrow> byte list res" where
  "store_bytes m a bs =
     (if a + length bs \<le> length m then Inr (take a m @ bs @ drop (a + length bs) m)
      else Inl Out_of_bounds)"

section \<open>Facts about the codecs\<close>

lemma length_le_bytes [simp]: "length (le_bytes (w :: 'a::len word)) = LENGTH('a) div 8"
  by (simp add: le_bytes_def)

lemma bit_of_le_bytes:
  "bit (of_le_bytes bs :: 'a::len word) n \<longleftrightarrow>
     n < LENGTH('a) \<and> n div 8 < length bs \<and> bit (bs ! (n div 8)) (n mod 8)"
proof (induction bs arbitrary: n)
  case Nil
  then show ?case by simp
next
  case (Cons b bs)
  show ?case
  proof (cases "n < 8")
    case True
    then show ?thesis by (auto simp: bit_simps)
  next
    case False
    then have "n div 8 = Suc ((n - 8) div 8)" "n mod 8 = (n - 8) mod 8"
      by (simp_all add: le_div_geq le_mod_geq)
    moreover have "\<not> bit b n"
      using False bit_imp_le_length [of b n] by auto
    ultimately show ?thesis
      using False Cons.IH [of "n - 8"] by (auto simp: bit_simps)
  qed
qed

lemma bit_le_bytes_nth:
  assumes "i < LENGTH('a) div 8"
  shows "bit (le_bytes (w :: 'a::len word) ! i) n \<longleftrightarrow> n < 8 \<and> bit w (8 * i + n)"
  using assms by (auto simp: le_bytes_def bit_simps)

lemma of_le_bytes_le_bytes:
  assumes "8 dvd LENGTH('a)"
  shows "of_le_bytes (le_bytes (w :: 'a::len word)) = w"
proof (rule bit_word_eqI)
  fix n assume n: "n < LENGTH('a)"
  then have "n div 8 < LENGTH('a) div 8"
    using assms by (auto simp: less_mult_imp_div_less)
  then show "bit (of_le_bytes (le_bytes w) :: 'a word) n = bit w n"
    using n by (simp add: bit_of_le_bytes bit_le_bytes_nth)
qed

lemma le_bytes_of_le_bytes:
  assumes "length bs = LENGTH('a) div 8"
  shows "le_bytes (of_le_bytes bs :: 'a::len word) = bs"
proof (rule nth_equalityI)
  show "length (le_bytes (of_le_bytes bs :: 'a word)) = length bs"
    using assms by simp
next
  fix i assume i: "i < length (le_bytes (of_le_bytes bs :: 'a word))"
  show "le_bytes (of_le_bytes bs :: 'a word) ! i = bs ! i"
  proof (rule bit_word_eqI)
    fix n :: nat assume n: "n < LENGTH(8)"
    have "8 * i + n < LENGTH('a)"
      using i n by simp
    moreover have "(8 * i + n) div 8 = i" "(8 * i + n) mod 8 = n"
      using n by simp_all
    ultimately show "bit (le_bytes (of_le_bytes bs :: 'a word) ! i) n = bit (bs ! i) n"
      using i n assms by (simp add: bit_le_bytes_nth bit_of_le_bytes)
  qed
qed

lemma bit_bswap:
  assumes "8 dvd LENGTH('a)"
  shows "bit (bswap (w :: 'a::len word)) n \<longleftrightarrow>
    n < LENGTH('a) \<and> bit w (8 * (LENGTH('a) div 8 - Suc (n div 8)) + n mod 8)"
proof (cases "n < LENGTH('a)")
  case True
  then have "n div 8 < LENGTH('a) div 8"
    using assms by (auto simp: less_mult_imp_div_less)
  then show ?thesis
    using True by (simp add: bswap_def bit_of_le_bytes rev_nth bit_le_bytes_nth)
next
  case False
  then show ?thesis by (simp add: bit_imp_le_length) (meson bit_imp_le_length)
qed

lemma bswap_bswap [simp]:
  assumes "8 dvd LENGTH('a)"
  shows "bswap (bswap (w :: 'a::len word)) = w"
  by (simp add: bswap_def le_bytes_of_le_bytes of_le_bytes_le_bytes assms)

lemma bswap_and:
  "8 dvd LENGTH('a) \<Longrightarrow> bswap (v AND w :: 'a::len word) = bswap v AND bswap w"
  by (rule bit_word_eqI) (auto simp: bit_bswap bit_and_iff)

lemma bswap_or:
  "8 dvd LENGTH('a) \<Longrightarrow> bswap (v OR w :: 'a::len word) = bswap v OR bswap w"
  by (rule bit_word_eqI) (auto simp: bit_bswap bit_or_iff)

lemma bswap_not:
  assumes "8 dvd LENGTH('a)"
  shows "bswap (NOT w :: 'a::len word) = NOT (bswap w)"
proof (rule bit_word_eqI)
  fix n assume n: "n < LENGTH('a)"
  then have "n div 8 < LENGTH('a) div 8"
    using assms by (auto simp: less_mult_imp_div_less)
  then have "8 * (LENGTH('a) div 8 - Suc (n div 8)) + n mod 8 < LENGTH('a)"
    using assms by auto
  then show "bit (bswap (NOT w)) n = bit (NOT (bswap w)) n"
    using n assms by (simp add: bit_bswap bit_not_iff)
qed

lemma bswap_0 [simp]: "bswap (0 :: 'a::len word) = 0"
  by (rule bit_word_eqI)
    (auto simp: bswap_def bit_of_le_bytes rev_nth bit_le_bytes_nth)


section \<open>Network byte order as an interface\<close>

text \<open>
  What the header accessors rely on of a pair of byte-order conversions, and the field algebra
  that follows: a masked write followed by a masked read, bits outside the mask, and
  flag tests made on the raw (unconverted) word.
\<close>

locale net_order =
  fixes ntoh :: "'a::len word \<Rightarrow> 'a word"
    and hton :: "'a word \<Rightarrow> 'a word"
  assumes ntoh_hton: "ntoh (hton w) = w"
    and hton_ntoh: "hton (ntoh w) = w"
    and ntoh_and: "ntoh (v AND w) = ntoh v AND ntoh w"
    and ntoh_or: "ntoh (v OR w) = ntoh v OR ntoh w"
    and ntoh_not: "ntoh (NOT w) = NOT (ntoh w)"
begin

lemma ntoh_inject: "ntoh v = ntoh w \<longleftrightarrow> v = w"
  using hton_ntoh by metis

lemma ntoh_0: "ntoh 0 = 0"
proof -
  have "ntoh 0 = ntoh (hton 0 AND NOT (hton 0))"
    by simp
  also have "\<dots> = 0 AND NOT 0"
    by (simp only: ntoh_and ntoh_not ntoh_hton)
  finally show ?thesis by simp
qed

lemma masked_read_write:
  "msk AND ntoh (hton ((msk AND v) OR (NOT msk AND old))) = msk AND v"
  by (rule bit_word_eqI) (auto simp: ntoh_hton bit_simps)

lemma masked_write_other:
  assumes "other AND msk = 0"
  shows "other AND ntoh (hton ((msk AND v) OR (NOT msk AND old))) = other AND old"
proof (rule bit_word_eqI)
  fix n assume "n < LENGTH('a)"
  moreover have "\<not> (bit other n \<and> bit msk n)"
    using assms by (metis bit_and_iff bit_0_eq bot_apply bot_bool_def)
  ultimately show "bit (other AND ntoh (hton ((msk AND v) OR (NOT msk AND old)))) n =
      bit (other AND old) n"
    by (auto simp: ntoh_hton bit_simps)
qed

lemma raw_flag_iff: "hton flag AND raw \<noteq> 0 \<longleftrightarrow> flag AND ntoh raw \<noteq> 0"
  by (metis ntoh_0 ntoh_and ntoh_hton ntoh_inject)

lemma ntoh_set_flag: "ntoh (raw OR hton flag) = ntoh raw OR flag"
  by (simp add: ntoh_or ntoh_hton)

lemma ntoh_clear_flag: "ntoh (raw AND NOT (hton flag)) = ntoh raw AND NOT flag"
  by (simp add: ntoh_and ntoh_not ntoh_hton)

end

interpretation n16: net_order ntohs htons
  by unfold_locales (simp_all add: byteorder_defs bswap_and bswap_or bswap_not)

interpretation n32: net_order ntohl htonl
  by unfold_locales (simp_all add: byteorder_defs bswap_and bswap_or bswap_not)

interpretation n64: net_order be64toh htobe64
  by unfold_locales (simp_all add: byteorder_defs bswap_and bswap_or bswap_not)

interpretation le16: net_order le16_to_cpu cpu_to_le16
  by unfold_locales (simp_all add: le16_to_cpu_def cpu_to_le16_def)

interpretation le32: net_order le32_to_cpu cpu_to_le32
  by unfold_locales (simp_all add: le32_to_cpu_def cpu_to_le32_def)

interpretation le64: net_order le64_to_cpu cpu_to_le64
  by unfold_locales (simp_all add: le64_to_cpu_def cpu_to_le64_def)

section \<open>Laws of loads and stores\<close>

lemma load_eq_Inr_iff:
  "load m a = Inr (w :: 'a::len word) \<longleftrightarrow>
     a + LENGTH('a) div 8 \<le> length m \<and> w = of_le_bytes (take (LENGTH('a) div 8) (drop a m))"
  by (auto simp: load_def)

lemma load_in_bounds [intro]:
  "a + LENGTH('a) div 8 \<le> length m \<Longrightarrow> \<exists>w :: 'a::len word. load m a = Inr w"
  by (simp add: load_def)

lemma load_out_of_bounds:
  "length m < a + LENGTH('a) div 8 \<Longrightarrow> (load m a :: 'a::len word res) = Inl Out_of_bounds"
  by (simp add: load_def)

lemma store_length: "store m a w = Inr m' \<Longrightarrow> length m' = length m"
  by (auto simp: store_def split: if_splits)

lemma store_in_bounds [intro]:
  "a + LENGTH('a) div 8 \<le> length m \<Longrightarrow> \<exists>m'. store m a (w :: 'a::len word) = Inr m'"
  by (simp add: store_def)

lemma store_out_of_bounds:
  "length m < a + LENGTH('a) div 8 \<Longrightarrow> store m a (w :: 'a::len word) = Inl Out_of_bounds"
  by (simp add: store_def)

lemma store_nth:
  fixes w :: "'a::len word"
  assumes "store m a w = Inr m'" "i < length m"
  shows "m' ! i = (if a \<le> i \<and> i < a + LENGTH('a) div 8 then le_bytes w ! (i - a) else m ! i)"
  using assms nth_splice [of a "le_bytes w" m i] by (auto simp: store_def split: if_splits)

lemma load_store:
  fixes w :: "'a::len word"
  assumes "8 dvd LENGTH('a)" "store m a w = Inr m'"
  shows "load m' a = Inr w"
proof -
  have "m' = take a m @ le_bytes w @ drop (a + LENGTH('a) div 8) m"
    and "a + LENGTH('a) div 8 \<le> length m"
    using assms(2) by (auto simp: store_def split: if_splits)
  then show ?thesis
    using assms(1) by (simp add: load_def of_le_bytes_le_bytes)
qed

lemma load_cong:
  assumes "length m' = length m"
    and "\<And>i. a \<le> i \<Longrightarrow> i < a + LENGTH('a) div 8 \<Longrightarrow> i < length m \<Longrightarrow> m' ! i = m ! i"
  shows "(load m' a :: 'a::len word res) = load m a"
proof (cases "a + LENGTH('a) div 8 \<le> length m")
  case True
  then have "take (LENGTH('a) div 8) (drop a m') = take (LENGTH('a) div 8) (drop a m)"
    using assms by (auto simp: list_eq_iff_nth_eq)
  then show ?thesis using assms(1) by (simp add: load_def)
next
  case False
  then show ?thesis using assms(1) by (simp add: load_def)
qed

lemma load_store_other:
  fixes w :: "'a::len word"
  assumes "store m a w = Inr m'"
    and "b + LENGTH('b) div 8 \<le> a \<or> a + LENGTH('a) div 8 \<le> b"
  shows "(load m' b :: 'b::len word res) = load m b"
  using assms by (intro load_cong) (auto simp: store_length store_nth)

section \<open>Numbers in memory\<close>

text \<open>The number a list of bytes denotes, least or most significant byte first.\<close>

fun le_nat :: "byte list \<Rightarrow> nat" where
  "le_nat [] = 0"
| "le_nat (b # bs) = unat b + 256 * le_nat bs"

definition be_nat :: "byte list \<Rightarrow> nat" where
  "be_nat bs = foldl (\<lambda>n b. n * 256 + unat b) 0 bs"

lemma le_nat_less: "le_nat bs < 256 ^ length bs"
proof (induction bs)
  case (Cons b bs)
  have "unat b < 256" using unsigned_less [of b, where 'a = nat] by simp
  with Cons show ?case by simp
qed simp

lemma le_nat_append: "le_nat (bs @ cs) = le_nat bs + 256 ^ length bs * le_nat cs"
  by (induction bs) (simp_all add: algebra_simps)

lemma be_nat_eq: "be_nat bs = le_nat (rev bs)"
  by (induction bs rule: rev_induct) (simp_all add: be_nat_def)

lemma of_le_bytes_eq_of_nat: "(of_le_bytes bs :: 'a::len word) = word_of_nat (le_nat bs)"
  if "8 \<le> LENGTH('a)"
proof (induction bs)
  case (Cons b bs)
  have "(of_le_bytes (b # bs) :: 'a word) = ucast b + push_bit 8 (of_le_bytes bs)"
    unfolding of_le_bytes.simps
    by (rule disjunctive_add [symmetric]) (auto simp: bit_simps dest: bit_imp_le_length)
  also have "\<dots> = word_of_nat (unat b) + 256 * word_of_nat (le_nat bs)"
    by (simp add: Cons push_bit_eq_mult mult.commute)
  finally show ?case by simp
qed simp

lemma ntohl_load:
  assumes "(load m a :: u32 res) = Inr w"
  shows "ntohl w = word_of_nat (be_nat (take 4 (drop a m)))"
proof -
  have "w = of_le_bytes (take 4 (drop a m))" "length (take 4 (drop a m)) = 4"
    using assms by (auto simp: load_eq_Inr_iff)
  then have "le_bytes w = take 4 (drop a m)" by (simp add: le_bytes_of_le_bytes)
  then show ?thesis
    by (simp add: byteorder_defs bswap_def be_nat_eq of_le_bytes_eq_of_nat)
qed

lemma ucast_drop_bit_of_nat:
  assumes "N < 2 ^ 32"
  shows "ucast (drop_bit k (word_of_nat N :: u32)) = (word_of_nat (N div 2 ^ k) :: u64)"
proof -
  have "unat (word_of_nat N :: u32) = N"
    using assms by (simp add: unat_of_nat take_bit_nat_eq_self)
  then have "unat (drop_bit k (word_of_nat N :: u32)) = N div 2 ^ k"
    by (subst unat_drop_bit_eq) (simp add: drop_bit_eq_div)
  then show ?thesis by (metis of_nat_unat)
qed

lemma load_u8: "a < length m \<Longrightarrow> load m a = Inr (m ! a :: u8)"
  by (simp add: load_def take_Suc_conv_app_nth hd_drop_conv_nth take_Suc)

lemma be_nat_less: "be_nat bs < 256 ^ length bs"
  using le_nat_less [of "rev bs"] by (simp add: be_nat_eq)

lemma be_nat_take_less: "be_nat (take n bs) < 256 ^ n"
proof -
  have "be_nat (take n bs) < 256 ^ length (take n bs)" by (rule be_nat_less)
  also have "\<dots> \<le> 256 ^ n" by (rule power_increasing) simp_all
  finally show ?thesis .
qed

lemma be_nat_Cons: "be_nat (b # bs) = unat b * 256 ^ length bs + be_nat bs"
  by (simp add: be_nat_eq le_nat_append algebra_simps)

lemma load_u16_be:
  assumes "a + 2 \<le> length m"
  obtains w :: u16 where "load m a = Inr w" "unat (ntohs w) = be_nat (take 2 (drop a m))"
proof -
  let ?bs = "take 2 (drop a m)"
  have len: "length ?bs = 2" using assms by simp
  have "load m a = Inr (of_le_bytes ?bs :: u16)" using assms by (simp add: load_def)
  moreover have "le_bytes (of_le_bytes ?bs :: u16) = ?bs"
    using len by (simp add: le_bytes_of_le_bytes)
  then have "ntohs (of_le_bytes ?bs) = word_of_nat (be_nat ?bs)"
    by (simp add: byteorder_defs bswap_def be_nat_eq of_le_bytes_eq_of_nat)
  then have "unat (ntohs (of_le_bytes ?bs)) = be_nat ?bs"
    using be_nat_take_less [of 2 "drop a m"] by (simp add: unat_of_nat take_bit_nat_eq_self)
  ultimately show ?thesis by (rule that)
qed

lemma load_u32_be:
  assumes "a + 4 \<le> length m"
  obtains w :: u32 where "load m a = Inr w" "ntohl w = word_of_nat (be_nat (take 4 (drop a m)))"
proof -
  obtain w :: u32 where w: "load m a = Inr w"
    using load_in_bounds [where 'a = 32, of a m] assms by auto
  then show ?thesis using ntohl_load that by blast
qed

end
