(* ===== verification/Field_Access.thy ===== *)
theory Field_Access
  imports Bytes
begin

text \<open>
  The contract every header accessor pair \<^verbatim>\<open>__hhh_fff\<close> / \<^verbatim>\<open>__hhh_set_fff\<close> keeps
  (\<^verbatim>\<open>src/rxe_hdr.h\<close>, \<^verbatim>\<open>src/iba.h\<close>, \<^verbatim>\<open>src/ib_mad.h\<close>): both fail exactly when the
  word that holds the field is not inside the buffer, a read after a write returns the value
  the field can hold of what was written, and only that word changes.  The consequences
  clients use are proved once in the locales; the header theories interpret them on
  their accessors.
\<close>

locale field_access =
  fixes get :: "byte list \<Rightarrow> nat \<Rightarrow> 'v res"
    and put :: "byte list \<Rightarrow> nat \<Rightarrow> 'v \<Rightarrow> byte list res"
    and norm :: "'v \<Rightarrow> 'v"
    and lo :: nat
    and hi :: nat
  assumes get_ok: "a + hi \<le> length m \<Longrightarrow> \<exists>v. get m a = Inr v"
    and get_oob: "length m < a + hi \<Longrightarrow> get m a = Inl Out_of_bounds"
    and put_ok: "a + hi \<le> length m \<Longrightarrow> \<exists>m'. put m a v = Inr m'"
    and put_oob: "length m < a + hi \<Longrightarrow> put m a v = Inl Out_of_bounds"
    and put_length: "put m a v = Inr m' \<Longrightarrow> length m' = length m"
    and get_put: "put m a v = Inr m' \<Longrightarrow> get m' a = Inr (norm v)"
    and put_frame: "put m a v = Inr m' \<Longrightarrow> i < length m \<Longrightarrow> i < a + lo \<or> a + hi \<le> i \<Longrightarrow>
      m' ! i = m ! i"
    and get_local: "length m' = length m \<Longrightarrow>
      (\<And>i. a + lo \<le> i \<Longrightarrow> i < a + hi \<Longrightarrow> i < length m \<Longrightarrow> m' ! i = m ! i) \<Longrightarrow> get m' a = get m a"
begin

lemma get_Inr_iff_bounds: "(\<exists>v. get m a = Inr v) \<longleftrightarrow> a + hi \<le> length m"
  using get_ok get_oob by (metis Inl_Inr_False leI)

lemma put_Inr_iff_bounds: "(\<exists>m'. put m a v = Inr m') \<longleftrightarrow> a + hi \<le> length m"
  using put_ok put_oob by (metis Inl_Inr_False leI)

lemma put_then_get: "bind_res (put m a v) (\<lambda>m'. get m' a) =
    (if a + hi \<le> length m then Inr (norm v) else Inl Out_of_bounds)"
proof (cases "a + hi \<le> length m")
  case True
  then obtain m' where "put m a v = Inr m'" using put_ok by blast
  then show ?thesis using True by (simp add: get_put)
next
  case False
  then show ?thesis by (simp add: put_oob)
qed

lemma norm_idem: "norm (norm v) = norm v" if "\<And>m a. put m a (norm v) = put m a v"
proof -
  have len: "0 + hi \<le> length (replicate hi (0 :: byte))" by simp
  then obtain m' where "put (replicate hi 0) 0 v = Inr m'" using put_ok by blast
  then have "get m' 0 = Inr (norm v)" "get m' 0 = Inr (norm (norm v))"
    using that [of "replicate hi 0" 0] get_put by metis+
  then show ?thesis by simp
qed

end

text \<open>Two fields in different words of the same header do not disturb each other.\<close>

locale disjoint_fields =
  f: field_access get1 put1 norm1 lo1 hi1 + g: field_access get2 put2 norm2 lo2 hi2
  for get1 :: "byte list \<Rightarrow> nat \<Rightarrow> 'v res" and put1 norm1 lo1 hi1
    and get2 :: "byte list \<Rightarrow> nat \<Rightarrow> 'w res" and put2 norm2 lo2 hi2 +
  assumes apart: "hi1 \<le> lo2 \<or> hi2 \<le> lo1"
begin

lemma get2_put1: "put1 m a v = Inr m' \<Longrightarrow> get2 m' a = get2 m a"
  using apart by (intro g.get_local) (auto simp: f.put_length intro: f.put_frame)

lemma get1_put2: "put2 m a v = Inr m' \<Longrightarrow> get1 m' a = get1 m a"
  using apart by (intro f.get_local) (auto simp: g.put_length intro: g.put_frame)

end

section \<open>The two shapes of accessor\<close>

text \<open>A setter that reads the word, changes some bits and writes it back.\<close>

lemma field_access_rmw:
  fixes dec :: "'a::len word \<Rightarrow> 'v" and enc :: "'a word \<Rightarrow> 'v \<Rightarrow> 'a word"
  assumes dvd: "8 dvd LENGTH('a)"
    and get: "\<And>m a. get m a = map_res dec (load m (a + k))"
    and put: "\<And>m a v. put m a v = bind_res (load m (a + k)) (\<lambda>old. store m (a + k) (enc old v))"
    and dec_enc: "\<And>old v. dec (enc old v) = norm v"
    and hi: "hi = k + LENGTH('a) div 8"
  shows "field_access get put norm k hi"
proof
  fix m :: "byte list" and a v m' i
  show "a + hi \<le> length m \<Longrightarrow> \<exists>v. get m a = Inr v"
    by (auto simp: get hi map_res_eq_Inr_iff load_eq_Inr_iff)
  show "length m < a + hi \<Longrightarrow> get m a = Inl Out_of_bounds"
    by (simp add: get hi load_out_of_bounds)
  show "a + hi \<le> length m \<Longrightarrow> \<exists>m'. put m a v = Inr m'"
    by (simp add: put hi load_def store_def)
  show "length m < a + hi \<Longrightarrow> put m a v = Inl Out_of_bounds"
    by (simp add: put hi load_out_of_bounds)
  show "put m a v = Inr m' \<Longrightarrow> length m' = length m"
    by (auto simp: put bind_res_eq_Inr_iff dest: store_length)
  show "put m a v = Inr m' \<Longrightarrow> get m' a = Inr (norm v)"
    by (auto simp: put get bind_res_eq_Inr_iff dec_enc dest: load_store [OF dvd])
  show "put m a v = Inr m' \<Longrightarrow> i < length m \<Longrightarrow> i < a + k \<or> a + hi \<le> i \<Longrightarrow> m' ! i = m ! i"
    by (auto simp: put hi bind_res_eq_Inr_iff store_nth)
next
  fix m m' :: "byte list" and a
  assume "length m' = length m"
    and "\<And>i. a + k \<le> i \<Longrightarrow> i < a + hi \<Longrightarrow> i < length m \<Longrightarrow> m' ! i = m ! i"
  then have "(load m' (a + k) :: 'a word res) = load m (a + k)"
    by (intro load_cong) (auto simp: hi)
  then show "get m' a = get m a" by (simp add: get)
qed

text \<open>A setter that overwrites the whole word.\<close>

lemma field_access_overwrite:
  fixes dec :: "'a::len word \<Rightarrow> 'v" and enc :: "'v \<Rightarrow> 'a word"
  assumes dvd: "8 dvd LENGTH('a)"
    and get: "\<And>m a. get m a = map_res dec (load m (a + k))"
    and put: "\<And>m a v. put m a v = store m (a + k) (enc v)"
    and dec_enc: "\<And>v. dec (enc v) = norm v"
    and hi: "hi = k + LENGTH('a) div 8"
  shows "field_access get put norm k hi"
proof (rule field_access_rmw [where enc = "\<lambda>old. enc", OF dvd get _ dec_enc hi])
  fix m a v
  show "put m a v = bind_res (load m (a + k)) (\<lambda>_ :: 'a word. store m (a + k) (enc v))"
    by (simp add: put load_def store_def)
qed

end
