(* ===== verification/Build_Bug.thy ===== *)
theory Build_Bug
  imports Prelude
begin

text \<open>
  The compile-time checks of \<^verbatim>\<open>src/build_bug.h\<close> over \<^verbatim>\<open>compiletime_assert\<close> of \<^verbatim>\<open>src/linux-compat.h\<close>.  A check is a value: the
  message the build stops with, or success.  The macros call an undefined function marked with the \<^verbatim>\<open>error\<close>
  attribute when their condition fails, and expand to nothing in a build without optimisation, so whether \<^verbatim>\<open>__OPTIMIZE__\<close>
  is defined is an argument.  The text of a condition, which the macros quote in the message, is an argument as well.

  Two of the macros are expressions.  \<^verbatim>\<open>BUILD_BUG_ON_ZERO\<close> has a value, or stops the build at a bit field of negative
  width; \<^verbatim>\<open>BUILD_BUG_ON_INVALID\<close> is the operand of \<^verbatim>\<open>sizeof\<close> and so is never evaluated, whatever effect it has on the
  state.
\<close>

type_synonym build = "string + unit"

section \<open>Definitions\<close>

definition compiletime_assert_expansion :: "bool \<Rightarrow> bool \<Rightarrow> string \<Rightarrow> build" where
  "compiletime_assert_expansion optimize condition msg =
     (if optimize then (if \<not> condition then Inl msg else Inr ()) else Inr ())"

definition compiletime_assert :: "bool \<Rightarrow> bool \<Rightarrow> string \<Rightarrow> build" where
  "compiletime_assert optimize condition msg = compiletime_assert_expansion optimize condition msg"

definition BUILD_BUG_ON_MSG :: "bool \<Rightarrow> bool \<Rightarrow> string \<Rightarrow> build" where
  "BUILD_BUG_ON_MSG optimize cond msg = compiletime_assert optimize (\<not> cond) msg"

definition BUILD_BUG_ON :: "bool \<Rightarrow> bool \<Rightarrow> string \<Rightarrow> build" where
  "BUILD_BUG_ON optimize condition txt = BUILD_BUG_ON_MSG optimize condition (''BUILD_BUG_ON failed: '' @ txt)"

definition BUILD_BUG :: "bool \<Rightarrow> build" where
  "BUILD_BUG optimize = BUILD_BUG_ON_MSG optimize True ''BUILD_BUG failed''"

text \<open>
  The size of \<^verbatim>\<open>struct { int : w; }\<close> in GNU C: an unnamed bit field of width zero adds nothing, one of positive width
  takes one \<^verbatim>\<open>int\<close>, and a negative width is an error.
\<close>

definition sizeof_unnamed_bit_field :: "int \<Rightarrow> string + int" where
  "sizeof_unnamed_bit_field w =
     (if w < 0 then Inl ''negative width in bit-field'' else Inr (if w = 0 then 0 else 4))"

definition BUILD_BUG_ON_ZERO :: "bool \<Rightarrow> int \<Rightarrow> string + int" where
  "BUILD_BUG_ON_ZERO checker e = (if checker then Inr 0 else sizeof_unnamed_bit_field (- (if e \<noteq> 0 then 1 else 0)))"

definition BUILD_BUG_ON_INVALID :: "('s \<Rightarrow> int \<times> 's) \<Rightarrow> 's \<Rightarrow> unit \<times> 's" where
  "BUILD_BUG_ON_INVALID e s = ((), s)"

definition BUILD_BUG_ON_NOT_POWER_OF_2_or_0 :: "bool \<Rightarrow> u64 \<Rightarrow> string \<Rightarrow> build" where
  "BUILD_BUG_ON_NOT_POWER_OF_2_or_0 optimize n txt = BUILD_BUG_ON optimize (n AND (n - 1) \<noteq> 0) txt"

definition BUILD_BUG_ON_NOT_POWER_OF_2 :: "bool \<Rightarrow> u64 \<Rightarrow> string \<Rightarrow> build" where
  "BUILD_BUG_ON_NOT_POWER_OF_2 optimize n txt = BUILD_BUG_ON optimize (n = 0 \<or> n AND (n - 1) \<noteq> 0) txt"

definition static_assert :: "bool \<Rightarrow> string \<Rightarrow> build" where
  "static_assert expr msg = (if expr then Inr () else Inl msg)"

text \<open>One check after another.\<close>

definition then_check :: "build \<Rightarrow> build \<Rightarrow> build" where
  "then_check b b' = (case b of Inl msg \<Rightarrow> Inl msg | Inr _ \<Rightarrow> b')"

lemmas build_defs = compiletime_assert_def compiletime_assert_expansion_def BUILD_BUG_ON_MSG_def BUILD_BUG_ON_def
  BUILD_BUG_def BUILD_BUG_ON_NOT_POWER_OF_2_or_0_def BUILD_BUG_ON_NOT_POWER_OF_2_def then_check_def

lemma BUILD_BUG_ON_MSG_ok [simp]: "BUILD_BUG_ON_MSG optimize cond msg = Inr () \<longleftrightarrow> optimize \<longrightarrow> \<not> cond"
  by (simp add: build_defs)

lemma BUILD_BUG_ON_ok [simp]: "BUILD_BUG_ON optimize cond txt = Inr () \<longleftrightarrow> optimize \<longrightarrow> \<not> cond"
  by (simp add: BUILD_BUG_ON_def)

lemma then_check_ok [simp]: "then_check b b' = Inr () \<longleftrightarrow> b = Inr () \<and> b' = Inr ()"
  by (cases b) (simp_all add: then_check_def)

text \<open>As an expression the check never has a value other than zero, and outside the checker it has one exactly if its condition is false.\<close>

lemma BUILD_BUG_ON_ZERO_eq_Inr_iff: "BUILD_BUG_ON_ZERO checker e = Inr v \<longleftrightarrow> v = 0 \<and> (checker \<or> e = 0)"
  by (auto simp: BUILD_BUG_ON_ZERO_def sizeof_unnamed_bit_field_def)

section \<open>The power-of-two test\<close>

text \<open>Subtracting one from a word clears its lowest bit and sets those below.\<close>

lemma minus_1_lowest_bit:
  fixes n :: "'a::len word"
  assumes "bit n k" "\<And>i. i < k \<Longrightarrow> \<not> bit n i"
  shows "n - 1 = (n AND NOT (mask (Suc k))) OR mask k"
proof -
  have "k < LENGTH('a)" using assms(1) by (rule bit_imp_le_length)
  then have "n = (n AND NOT (mask (Suc k))) OR 2 ^ k"
    using assms by (intro bit_word_eqI) (auto simp: bit_simps less_Suc_eq)
  also have "\<dots> = (n AND NOT (mask (Suc k))) + 2 ^ k"
    by (rule disjunctive_add [symmetric]) (auto simp: bit_simps)
  finally have "n - 1 = (n AND NOT (mask (Suc k))) + mask k"
    by (simp add: mask_eq_exp_minus_1 algebra_simps)
  also have "\<dots> = (n AND NOT (mask (Suc k))) OR mask k"
    by (rule disjunctive_add) (auto simp: bit_simps)
  finally show ?thesis .
qed

lemma lowest_bit:
  fixes n :: "'a::len word"
  assumes "n \<noteq> 0"
  obtains k where "bit n k" "\<And>i. i < k \<Longrightarrow> \<not> bit n i"
proof -
  have "\<exists>k. bit n k" using assms by (metis bit_0_eq bit_word_eqI bot_apply bot_bool_def)
  then show thesis using that by (metis LeastI not_less_Least)
qed

lemma and_minus_1_eq_0_iff:
  fixes n :: "'a::len word"
  shows "n AND (n - 1) = 0 \<longleftrightarrow> n = 0 \<or> (\<exists>k < LENGTH('a). n = 2 ^ k)"
proof (cases "n = 0")
  case False
  then obtain k where k: "bit n k" "\<And>i. i < k \<Longrightarrow> \<not> bit n i" using lowest_bit by metis
  have len: "k < LENGTH('a)" using k(1) by (rule bit_imp_le_length)
  have "n - 1 = (n AND NOT (mask (Suc k))) OR mask k" using k by (rule minus_1_lowest_bit)
  then have "n AND (n - 1) = n AND ((n AND NOT (mask (Suc k))) OR mask k)" by simp
  also have "\<dots> = n AND NOT (mask (Suc k))"
    using k(2) by (intro bit_word_eqI) (auto simp: bit_simps)
  finally have "n AND (n - 1) = n AND NOT (mask (Suc k))" .
  moreover have "n AND NOT (mask (Suc k)) = 0 \<longleftrightarrow> n = 2 ^ k"
  proof
    assume z: "n AND NOT (mask (Suc k)) = 0"
    have "\<not> bit n i" if "k < i" for i
      using arg_cong [OF z, of "\<lambda>w. bit w i"] that bit_imp_le_length [of n i] by (auto simp: bit_simps)
    then show "n = 2 ^ k" using k by (intro bit_word_eqI) (auto simp: bit_simps intro: linorder_cases)
  qed (auto intro!: bit_word_eqI simp: bit_simps)
  moreover have "n = 2 ^ k" if "n = 2 ^ j" "j < LENGTH('a)" for j
    using that k(1) by (auto simp: bit_simps)
  ultimately show ?thesis using False len by auto
qed simp

text \<open>The two power-of-two checks accept exactly the powers of two, the first one also zero.\<close>

lemma BUILD_BUG_ON_NOT_POWER_OF_2_ok:
  "BUILD_BUG_ON_NOT_POWER_OF_2 True n txt = Inr () \<longleftrightarrow> (\<exists>k < 64. n = 2 ^ k)"
  using and_minus_1_eq_0_iff [of n] by (auto simp: BUILD_BUG_ON_NOT_POWER_OF_2_def)

lemma BUILD_BUG_ON_NOT_POWER_OF_2_or_0_ok:
  "BUILD_BUG_ON_NOT_POWER_OF_2_or_0 optimize n txt = Inr () \<longleftrightarrow> optimize \<longrightarrow> n = 0 \<or> (\<exists>k < 64. n = 2 ^ k)"
  using and_minus_1_eq_0_iff [of n] by (auto simp: BUILD_BUG_ON_NOT_POWER_OF_2_or_0_def)

end
