(* ===== verification/Bitfield.thy ===== *)
theory Bitfield
  imports Build_Bug
begin

text \<open>
  The mask and bit-field macros: \<^verbatim>\<open>BIT\<close>, \<^verbatim>\<open>GENMASK\<close> of \<^verbatim>\<open>src/linux-compat.h\<close> and
  \<^verbatim>\<open>FIELD_GET\<close>, \<^verbatim>\<open>FIELD_PREP\<close>, \<^verbatim>\<open>FIELD_FIT\<close> with their compile-time check of
  \<^verbatim>\<open>src/bitfield.h\<close>.  Masks are \<^verbatim>\<open>unsigned long\<close>, 64 bits wide, as in the code.  The
  lemmas say which bits a mask has and that reading a field is taking a slice of the word.
\<close>

section \<open>Masks\<close>

definition BIT :: "nat \<Rightarrow> u64" where
  "BIT i = push_bit i 1"

definition GENMASK :: "nat \<Rightarrow> nat \<Rightarrow> u64" where
  "GENMASK h l = (NOT 0 - push_bit l 1 + 1) AND drop_bit (64 - 1 - h) (NOT 0)"

definition GENMASK_ULL :: "nat \<Rightarrow> nat \<Rightarrow> u64" where
  "GENMASK_ULL h l = (NOT 0 - push_bit l 1 + 1) AND drop_bit (64 - 1 - h) (NOT 0)"

text \<open>\<^verbatim>\<open>__builtin_ffsll\<close>: one plus the index of the least significant set bit, 0 for 0.\<close>

definition ffsll :: "u64 \<Rightarrow> nat" where
  "ffsll x = (case find (bit x) [0..<64] of None \<Rightarrow> 0 | Some i \<Rightarrow> Suc i)"

definition bf_shf :: "u64 \<Rightarrow> nat" where
  "bf_shf x = ffsll x - 1"

text \<open>
  The build-time part of the three field macros: the checks on the mask, on the value if the compiler knows it (\<open>val\<close>),
  and on the type of the register, whose largest value \<open>reg_max\<close> is \<^verbatim>\<open>(typeof(_reg))~0ull\<close>.  The checks run in source
  order; \<open>mask_const\<close> is \<^verbatim>\<open>__builtin_constant_p(_mask)\<close>.
\<close>

definition BF_FIELD_CHECK :: "bool \<Rightarrow> bool \<Rightarrow> u64 \<Rightarrow> u64 \<Rightarrow> u64 option \<Rightarrow> string \<Rightarrow> build" where
  "BF_FIELD_CHECK optimize mask_const msk reg_max val pfx =
     then_check (BUILD_BUG_ON_MSG optimize (\<not> mask_const) (pfx @ ''mask is not constant''))
     (then_check (BUILD_BUG_ON_MSG optimize (msk = 0) (pfx @ ''mask is zero''))
     (then_check (BUILD_BUG_ON_MSG optimize
        (case val of Some v \<Rightarrow> NOT (drop_bit (bf_shf msk) msk) AND v \<noteq> 0 | None \<Rightarrow> False)
        (pfx @ ''value too large for the field''))
     (then_check (BUILD_BUG_ON_MSG optimize (msk > reg_max) (pfx @ ''type of reg too small for mask''))
       (BUILD_BUG_ON_NOT_POWER_OF_2_or_0 optimize (msk + push_bit (bf_shf msk) 1)
         ''((_mask) + (1ULL << __bf_shf(_mask))) & (((_mask) + (1ULL << __bf_shf(_mask))) - 1)''))))"

definition FIELD_FIT :: "u64 \<Rightarrow> u64 \<Rightarrow> bool" where
  "FIELD_FIT msk val \<longleftrightarrow> push_bit (bf_shf msk) val AND NOT msk = 0"

definition FIELD_PREP :: "u64 \<Rightarrow> u64 \<Rightarrow> u64" where
  "FIELD_PREP msk val = push_bit (bf_shf msk) val AND msk"

definition FIELD_GET :: "u64 \<Rightarrow> u64 \<Rightarrow> u64" where
  "FIELD_GET msk reg = drop_bit (bf_shf msk) (reg AND msk)"

section \<open>Which bits a mask has\<close>

lemma bit_GENMASK: "h < 64 \<Longrightarrow> bit (GENMASK h l) n \<longleftrightarrow> l \<le> n \<and> n \<le> h"
proof -
  assume h: "h < 64"
  have "NOT 0 - push_bit l 1 + 1 = (- (2 ^ l) :: u64)"
    by (simp add: push_bit_eq_mult)
  also have "\<dots> = NOT (mask l)"
    by (simp add: minus_exp_eq_not_mask)
  finally show ?thesis
    using h by (auto simp: GENMASK_def bit_simps)
qed

lemma GENMASK_ULL_eq: "GENMASK_ULL h l = GENMASK h l"
  by (simp add: GENMASK_def GENMASK_ULL_def)

lemma GENMASK_alt: "l \<le> h \<Longrightarrow> h < 64 \<Longrightarrow> GENMASK h l = push_bit l (mask (Suc (h - l)))"
  by (rule bit_word_eqI) (auto simp: bit_GENMASK bit_simps)

lemma find_upt_least:
  assumes "l < n" "P l" "\<And>i. i < l \<Longrightarrow> \<not> P i"
  shows "find P [0..<n] = Some l"
  using assms by (auto simp: find_Some_iff intro!: exI [of _ l])

lemma ffsll_least:
  assumes "bit x l" "\<And>i. i < l \<Longrightarrow> \<not> bit x i"
  shows "ffsll x = Suc l"
proof -
  have "l < 64" using bit_imp_le_length [OF assms(1)] by simp
  then show ?thesis using assms by (simp add: ffsll_def find_upt_least)
qed

lemma bf_shf_GENMASK [simp]: "l \<le> h \<Longrightarrow> h < 64 \<Longrightarrow> bf_shf (GENMASK h l) = l"
  by (simp add: bf_shf_def ffsll_least [of _ l] bit_GENMASK)

lemma FIELD_GET_GENMASK:
  "l \<le> h \<Longrightarrow> h < 64 \<Longrightarrow> FIELD_GET (GENMASK h l) r = take_bit (Suc h - l) (drop_bit l r)"
  by (rule bit_word_eqI) (auto simp: FIELD_GET_def bit_GENMASK bit_simps)

lemma FIELD_PREP_GENMASK:
  "l \<le> h \<Longrightarrow> h < 64 \<Longrightarrow> FIELD_PREP (GENMASK h l) v = push_bit l (take_bit (Suc h - l) v)"
  by (rule bit_word_eqI) (auto simp: FIELD_PREP_def bit_GENMASK bit_simps)

lemma FIELD_GET_PREP:
  assumes "l \<le> h" "h < 64"
  shows "FIELD_GET (GENMASK h l) (FIELD_PREP (GENMASK h l) v) = take_bit (Suc h - l) v"
  using assms
  by (intro bit_word_eqI) (auto simp: FIELD_GET_GENMASK FIELD_PREP_GENMASK bit_simps)

lemma FIELD_GET_modify:
  assumes "l \<le> h" "h < 64"
  shows "FIELD_GET (GENMASK h l) ((r AND NOT (GENMASK h l)) OR FIELD_PREP (GENMASK h l) v) =
    take_bit (Suc h - l) v"
  using assms
  by (intro bit_word_eqI) (auto simp: FIELD_GET_GENMASK FIELD_PREP_GENMASK bit_GENMASK bit_simps)

section \<open>Which masks the build accepts\<close>

lemma bf_shf_lowest:
  assumes "m \<noteq> 0"
  shows "bit m (bf_shf m)" "\<And>i. i < bf_shf m \<Longrightarrow> \<not> bit m i"
proof -
  obtain l where l: "bit m l" "\<And>i. i < l \<Longrightarrow> \<not> bit m i" using lowest_bit [OF assms] by metis
  then have "bf_shf m = l" using ffsll_least [OF l] by (simp add: bf_shf_def)
  then show "bit m (bf_shf m)" "\<And>i. i < bf_shf m \<Longrightarrow> \<not> bit m i" using l by auto
qed

lemma exp_minus_exp:
  assumes "l < k" "k \<le> 64"
  shows "(2 ^ k - 2 ^ l :: u64) = GENMASK (k - 1) l"
proof -
  have "push_bit l (mask (k - l)) = (2 ^ k - 2 ^ l :: u64)"
    using assms by (simp add: mask_eq_exp_minus_1 push_bit_eq_mult algebra_simps flip: power_add)
  moreover have "GENMASK (k - 1) l = push_bit l (mask (k - l))"
    using assms GENMASK_alt [of l "k - 1"] by (cases k) (auto simp: Suc_diff_le)
  ultimately show ?thesis by simp
qed

lemma run_mask_iff:
  assumes "m \<noteq> 0"
  shows "(m + push_bit (bf_shf m) 1 = 0 \<or> (\<exists>k < 64. m + push_bit (bf_shf m) 1 = 2 ^ k)) \<longleftrightarrow>
    (\<exists>h l. l \<le> h \<and> h < 64 \<and> m = GENMASK h l)"
    (is "?L \<longleftrightarrow> ?R")
proof
  let ?l = "bf_shf m"
  note low = bf_shf_lowest [OF assms]
  have l: "?l < 64" using bit_imp_le_length [OF low(1)] by simp
  have p: "push_bit ?l 1 = (2 ^ ?l :: u64)" by (simp add: push_bit_eq_mult)
  have z: "(2 :: u64) ^ 64 = 0" by simp
  assume ?L
  then obtain k where k: "k \<le> 64" "m + 2 ^ ?l = 2 ^ k"
    unfolding p using z by (metis le_refl less_imp_le)
  then have m: "m = 2 ^ k - 2 ^ ?l" by (simp add: algebra_simps)
  have "?l < k"
  proof (rule ccontr)
    assume "\<not> ?l < k"
    then have "k < ?l" using m assms by (auto simp: linorder_not_less le_less)
    moreover have "?l \<le> n" if "bit m n" for n using low(2) that by (meson leI)
    then have "m = push_bit ?l (drop_bit ?l m)" by (intro bit_word_eqI) (auto simp: bit_simps)
    then have "2 ^ k = push_bit ?l (drop_bit ?l m + 1)" using k(2) by (simp add: push_bit_add p)
    then have "bit (push_bit ?l (drop_bit ?l m + 1)) k \<longleftrightarrow> bit (2 ^ k :: u64) k" by simp
    ultimately show False using l by (simp add: bit_simps)
  qed
  then show ?R using exp_minus_exp [of ?l k] k(1) m by (intro exI [of _ "k - 1"] exI [of _ ?l]) auto
next
  assume ?R
  then obtain h l where hl: "l \<le> h" "h < 64" "m = GENMASK h l" by blast
  then have "m + push_bit (bf_shf m) 1 = 2 ^ Suc h"
    using exp_minus_exp [of l "Suc h"] by (simp add: push_bit_eq_mult del: power_Suc) (metis diff_add_cancel)
  then show ?L using hl(2) by (cases "h = 63") (auto intro: exI [of _ "Suc h"])
qed

lemma take_bit_eq_self_iff_and: "take_bit n v = v \<longleftrightarrow> NOT (mask n) AND v = 0" for v :: "'a::len word"
proof
  assume "take_bit n v = v"
  then have "NOT (mask n) AND v = NOT (mask n) AND take_bit n v" by simp
  also have "\<dots> = 0" by (rule bit_word_eqI) (auto simp: bit_simps)
  finally show "NOT (mask n) AND v = 0" .
next
  assume z: "NOT (mask n) AND v = 0"
  show "take_bit n v = v"
    using arg_cong [OF z, of "\<lambda>w. bit w i" for i]
    by (intro bit_word_eqI) (auto simp: bit_simps)
qed

lemma value_fits_run:
  assumes "l \<le> h" "h < 64"
  shows "NOT (drop_bit (bf_shf (GENMASK h l)) (GENMASK h l)) AND v = 0 \<longleftrightarrow> take_bit (Suc h - l) v = v"
proof -
  have "drop_bit l (GENMASK h l) = mask (Suc h - l)"
    using assms by (intro bit_word_eqI) (auto simp: bit_GENMASK bit_simps)
  then show ?thesis using assms by (simp add: take_bit_eq_self_iff_and)
qed

lemma GENMASK_nonzero: "l \<le> h \<Longrightarrow> h < 64 \<Longrightarrow> GENMASK h l \<noteq> 0"
  using bit_GENMASK [of h l l] by auto

text \<open>
  C33: The field check accepts the right masks: in an optimised build \<^verbatim>\<open>__BF_FIELD_CHECK\<close> lets a constant
  mask pass exactly when it is one run of bits \<^verbatim>\<open>GENMASK(h, l)\<close>, the register is wide enough for it and a
  value known to the compiler fits into the run; without optimisation it lets everything pass.
\<close>

theorem field_check_accepts_run_masks:
  "(BF_FIELD_CHECK True True msk reg_max val pfx = Inr () \<longleftrightarrow>
     (\<exists>h l. l \<le> h \<and> h < 64 \<and> msk = GENMASK h l \<and> msk \<le> reg_max \<and>
        (case val of Some v \<Rightarrow> take_bit (Suc h - l) v = v | None \<Rightarrow> True))) \<and>
   BF_FIELD_CHECK False c msk reg_max val pfx = Inr ()"
proof
  show "BF_FIELD_CHECK False c msk reg_max val pfx = Inr ()"
    by (simp add: BF_FIELD_CHECK_def BUILD_BUG_ON_NOT_POWER_OF_2_or_0_ok)
  have "BF_FIELD_CHECK True True msk reg_max val pfx = Inr () \<longleftrightarrow>
      msk \<noteq> 0 \<and> msk \<le> reg_max \<and> (\<exists>h l. l \<le> h \<and> h < 64 \<and> msk = GENMASK h l) \<and>
      (case val of Some v \<Rightarrow> NOT (drop_bit (bf_shf msk) msk) AND v = 0 | None \<Rightarrow> True)"
    using run_mask_iff [of msk]
    by (cases "msk = 0"; cases val)
      (auto simp: BF_FIELD_CHECK_def BUILD_BUG_ON_NOT_POWER_OF_2_or_0_ok linorder_not_less)
  also have "\<dots> \<longleftrightarrow> (\<exists>h l. l \<le> h \<and> h < 64 \<and> msk = GENMASK h l \<and> msk \<le> reg_max \<and>
        (case val of Some v \<Rightarrow> take_bit (Suc h - l) v = v | None \<Rightarrow> True))"
    using value_fits_run GENMASK_nonzero by (cases val) (auto simp del: bf_shf_GENMASK, blast+)
  finally show "BF_FIELD_CHECK True True msk reg_max val pfx = Inr () \<longleftrightarrow>
     (\<exists>h l. l \<le> h \<and> h < 64 \<and> msk = GENMASK h l \<and> msk \<le> reg_max \<and>
        (case val of Some v \<Rightarrow> take_bit (Suc h - l) v = v | None \<Rightarrow> True))" .
qed

end
