(* ===== verification/Rxe_Opcode.thy ===== *)
theory Rxe_Opcode
  imports Bitfield
begin

text \<open>
  \<^verbatim>\<open>src/ib_pack.h\<close> (the BTH opcode space) and \<^verbatim>\<open>src/rxe_opcode.h\<close> (header types, header and
  work-request masks, the shape of the opcode table).  The table \<^verbatim>\<open>rxe_opcode[]\<close> itself is
  declared \<^verbatim>\<open>extern\<close> and defined in no source of the library, so it is an argument of the
  functions that use it.
\<close>

section \<open>Opcodes\<close>

definition IB_OPCODE :: "nat \<Rightarrow> nat \<Rightarrow> nat" where
  "IB_OPCODE transport op = transport + op"

definition IB_OPCODE_RC :: nat where "IB_OPCODE_RC = 0x00"
definition IB_OPCODE_UC :: nat where "IB_OPCODE_UC = 0x20"
definition IB_OPCODE_RD :: nat where "IB_OPCODE_RD = 0x40"
definition IB_OPCODE_UD :: nat where "IB_OPCODE_UD = 0x60"
definition IB_OPCODE_CNP :: nat where "IB_OPCODE_CNP = 0x80"
definition IB_OPCODE_MSP :: nat where "IB_OPCODE_MSP = 0xe0"
definition IB_OPCODE_SEND_FIRST :: nat where "IB_OPCODE_SEND_FIRST = 0x00"
definition IB_OPCODE_SEND_MIDDLE :: nat where "IB_OPCODE_SEND_MIDDLE = 0x01"
definition IB_OPCODE_SEND_LAST :: nat where "IB_OPCODE_SEND_LAST = 0x02"
definition IB_OPCODE_SEND_LAST_WITH_IMMEDIATE :: nat where "IB_OPCODE_SEND_LAST_WITH_IMMEDIATE = 0x03"
definition IB_OPCODE_SEND_ONLY :: nat where "IB_OPCODE_SEND_ONLY = 0x04"
definition IB_OPCODE_SEND_ONLY_WITH_IMMEDIATE :: nat where "IB_OPCODE_SEND_ONLY_WITH_IMMEDIATE = 0x05"
definition IB_OPCODE_RDMA_WRITE_FIRST :: nat where "IB_OPCODE_RDMA_WRITE_FIRST = 0x06"
definition IB_OPCODE_RDMA_WRITE_MIDDLE :: nat where "IB_OPCODE_RDMA_WRITE_MIDDLE = 0x07"
definition IB_OPCODE_RDMA_WRITE_LAST :: nat where "IB_OPCODE_RDMA_WRITE_LAST = 0x08"
definition IB_OPCODE_RDMA_WRITE_LAST_WITH_IMMEDIATE :: nat where "IB_OPCODE_RDMA_WRITE_LAST_WITH_IMMEDIATE = 0x09"
definition IB_OPCODE_RDMA_WRITE_ONLY :: nat where "IB_OPCODE_RDMA_WRITE_ONLY = 0x0a"
definition IB_OPCODE_RDMA_WRITE_ONLY_WITH_IMMEDIATE :: nat where "IB_OPCODE_RDMA_WRITE_ONLY_WITH_IMMEDIATE = 0x0b"
definition IB_OPCODE_RDMA_READ_REQUEST :: nat where "IB_OPCODE_RDMA_READ_REQUEST = 0x0c"
definition IB_OPCODE_RDMA_READ_RESPONSE_FIRST :: nat where "IB_OPCODE_RDMA_READ_RESPONSE_FIRST = 0x0d"
definition IB_OPCODE_RDMA_READ_RESPONSE_MIDDLE :: nat where "IB_OPCODE_RDMA_READ_RESPONSE_MIDDLE = 0x0e"
definition IB_OPCODE_RDMA_READ_RESPONSE_LAST :: nat where "IB_OPCODE_RDMA_READ_RESPONSE_LAST = 0x0f"
definition IB_OPCODE_RDMA_READ_RESPONSE_ONLY :: nat where "IB_OPCODE_RDMA_READ_RESPONSE_ONLY = 0x10"
definition IB_OPCODE_ACKNOWLEDGE :: nat where "IB_OPCODE_ACKNOWLEDGE = 0x11"
definition IB_OPCODE_ATOMIC_ACKNOWLEDGE :: nat where "IB_OPCODE_ATOMIC_ACKNOWLEDGE = 0x12"
definition IB_OPCODE_COMPARE_SWAP :: nat where "IB_OPCODE_COMPARE_SWAP = 0x13"
definition IB_OPCODE_FETCH_ADD :: nat where "IB_OPCODE_FETCH_ADD = 0x14"
definition IB_OPCODE_SEND_LAST_WITH_INVALIDATE :: nat where "IB_OPCODE_SEND_LAST_WITH_INVALIDATE = 0x16"
definition IB_OPCODE_SEND_ONLY_WITH_INVALIDATE :: nat where "IB_OPCODE_SEND_ONLY_WITH_INVALIDATE = 0x17"
definition IB_OPCODE_RC_SEND_FIRST :: nat where "IB_OPCODE_RC_SEND_FIRST = IB_OPCODE IB_OPCODE_RC IB_OPCODE_SEND_FIRST"
definition IB_OPCODE_RC_SEND_MIDDLE :: nat where "IB_OPCODE_RC_SEND_MIDDLE = IB_OPCODE IB_OPCODE_RC IB_OPCODE_SEND_MIDDLE"
definition IB_OPCODE_RC_SEND_LAST :: nat where "IB_OPCODE_RC_SEND_LAST = IB_OPCODE IB_OPCODE_RC IB_OPCODE_SEND_LAST"
definition IB_OPCODE_RC_SEND_LAST_WITH_IMMEDIATE :: nat where "IB_OPCODE_RC_SEND_LAST_WITH_IMMEDIATE = IB_OPCODE IB_OPCODE_RC IB_OPCODE_SEND_LAST_WITH_IMMEDIATE"
definition IB_OPCODE_RC_SEND_ONLY :: nat where "IB_OPCODE_RC_SEND_ONLY = IB_OPCODE IB_OPCODE_RC IB_OPCODE_SEND_ONLY"
definition IB_OPCODE_RC_SEND_ONLY_WITH_IMMEDIATE :: nat where "IB_OPCODE_RC_SEND_ONLY_WITH_IMMEDIATE = IB_OPCODE IB_OPCODE_RC IB_OPCODE_SEND_ONLY_WITH_IMMEDIATE"
definition IB_OPCODE_RC_RDMA_WRITE_FIRST :: nat where "IB_OPCODE_RC_RDMA_WRITE_FIRST = IB_OPCODE IB_OPCODE_RC IB_OPCODE_RDMA_WRITE_FIRST"
definition IB_OPCODE_RC_RDMA_WRITE_MIDDLE :: nat where "IB_OPCODE_RC_RDMA_WRITE_MIDDLE = IB_OPCODE IB_OPCODE_RC IB_OPCODE_RDMA_WRITE_MIDDLE"
definition IB_OPCODE_RC_RDMA_WRITE_LAST :: nat where "IB_OPCODE_RC_RDMA_WRITE_LAST = IB_OPCODE IB_OPCODE_RC IB_OPCODE_RDMA_WRITE_LAST"
definition IB_OPCODE_RC_RDMA_WRITE_LAST_WITH_IMMEDIATE :: nat where "IB_OPCODE_RC_RDMA_WRITE_LAST_WITH_IMMEDIATE = IB_OPCODE IB_OPCODE_RC IB_OPCODE_RDMA_WRITE_LAST_WITH_IMMEDIATE"
definition IB_OPCODE_RC_RDMA_WRITE_ONLY :: nat where "IB_OPCODE_RC_RDMA_WRITE_ONLY = IB_OPCODE IB_OPCODE_RC IB_OPCODE_RDMA_WRITE_ONLY"
definition IB_OPCODE_RC_RDMA_WRITE_ONLY_WITH_IMMEDIATE :: nat where "IB_OPCODE_RC_RDMA_WRITE_ONLY_WITH_IMMEDIATE = IB_OPCODE IB_OPCODE_RC IB_OPCODE_RDMA_WRITE_ONLY_WITH_IMMEDIATE"
definition IB_OPCODE_RC_RDMA_READ_REQUEST :: nat where "IB_OPCODE_RC_RDMA_READ_REQUEST = IB_OPCODE IB_OPCODE_RC IB_OPCODE_RDMA_READ_REQUEST"
definition IB_OPCODE_RC_RDMA_READ_RESPONSE_FIRST :: nat where "IB_OPCODE_RC_RDMA_READ_RESPONSE_FIRST = IB_OPCODE IB_OPCODE_RC IB_OPCODE_RDMA_READ_RESPONSE_FIRST"
definition IB_OPCODE_RC_RDMA_READ_RESPONSE_MIDDLE :: nat where "IB_OPCODE_RC_RDMA_READ_RESPONSE_MIDDLE = IB_OPCODE IB_OPCODE_RC IB_OPCODE_RDMA_READ_RESPONSE_MIDDLE"
definition IB_OPCODE_RC_RDMA_READ_RESPONSE_LAST :: nat where "IB_OPCODE_RC_RDMA_READ_RESPONSE_LAST = IB_OPCODE IB_OPCODE_RC IB_OPCODE_RDMA_READ_RESPONSE_LAST"
definition IB_OPCODE_RC_RDMA_READ_RESPONSE_ONLY :: nat where "IB_OPCODE_RC_RDMA_READ_RESPONSE_ONLY = IB_OPCODE IB_OPCODE_RC IB_OPCODE_RDMA_READ_RESPONSE_ONLY"
definition IB_OPCODE_RC_ACKNOWLEDGE :: nat where "IB_OPCODE_RC_ACKNOWLEDGE = IB_OPCODE IB_OPCODE_RC IB_OPCODE_ACKNOWLEDGE"
definition IB_OPCODE_RC_ATOMIC_ACKNOWLEDGE :: nat where "IB_OPCODE_RC_ATOMIC_ACKNOWLEDGE = IB_OPCODE IB_OPCODE_RC IB_OPCODE_ATOMIC_ACKNOWLEDGE"
definition IB_OPCODE_RC_COMPARE_SWAP :: nat where "IB_OPCODE_RC_COMPARE_SWAP = IB_OPCODE IB_OPCODE_RC IB_OPCODE_COMPARE_SWAP"
definition IB_OPCODE_RC_FETCH_ADD :: nat where "IB_OPCODE_RC_FETCH_ADD = IB_OPCODE IB_OPCODE_RC IB_OPCODE_FETCH_ADD"
definition IB_OPCODE_RC_SEND_LAST_WITH_INVALIDATE :: nat where "IB_OPCODE_RC_SEND_LAST_WITH_INVALIDATE = IB_OPCODE IB_OPCODE_RC IB_OPCODE_SEND_LAST_WITH_INVALIDATE"
definition IB_OPCODE_RC_SEND_ONLY_WITH_INVALIDATE :: nat where "IB_OPCODE_RC_SEND_ONLY_WITH_INVALIDATE = IB_OPCODE IB_OPCODE_RC IB_OPCODE_SEND_ONLY_WITH_INVALIDATE"
definition IB_OPCODE_UC_SEND_FIRST :: nat where "IB_OPCODE_UC_SEND_FIRST = IB_OPCODE IB_OPCODE_UC IB_OPCODE_SEND_FIRST"
definition IB_OPCODE_UC_SEND_MIDDLE :: nat where "IB_OPCODE_UC_SEND_MIDDLE = IB_OPCODE IB_OPCODE_UC IB_OPCODE_SEND_MIDDLE"
definition IB_OPCODE_UC_SEND_LAST :: nat where "IB_OPCODE_UC_SEND_LAST = IB_OPCODE IB_OPCODE_UC IB_OPCODE_SEND_LAST"
definition IB_OPCODE_UC_SEND_LAST_WITH_IMMEDIATE :: nat where "IB_OPCODE_UC_SEND_LAST_WITH_IMMEDIATE = IB_OPCODE IB_OPCODE_UC IB_OPCODE_SEND_LAST_WITH_IMMEDIATE"
definition IB_OPCODE_UC_SEND_ONLY :: nat where "IB_OPCODE_UC_SEND_ONLY = IB_OPCODE IB_OPCODE_UC IB_OPCODE_SEND_ONLY"
definition IB_OPCODE_UC_SEND_ONLY_WITH_IMMEDIATE :: nat where "IB_OPCODE_UC_SEND_ONLY_WITH_IMMEDIATE = IB_OPCODE IB_OPCODE_UC IB_OPCODE_SEND_ONLY_WITH_IMMEDIATE"
definition IB_OPCODE_UC_RDMA_WRITE_FIRST :: nat where "IB_OPCODE_UC_RDMA_WRITE_FIRST = IB_OPCODE IB_OPCODE_UC IB_OPCODE_RDMA_WRITE_FIRST"
definition IB_OPCODE_UC_RDMA_WRITE_MIDDLE :: nat where "IB_OPCODE_UC_RDMA_WRITE_MIDDLE = IB_OPCODE IB_OPCODE_UC IB_OPCODE_RDMA_WRITE_MIDDLE"
definition IB_OPCODE_UC_RDMA_WRITE_LAST :: nat where "IB_OPCODE_UC_RDMA_WRITE_LAST = IB_OPCODE IB_OPCODE_UC IB_OPCODE_RDMA_WRITE_LAST"
definition IB_OPCODE_UC_RDMA_WRITE_LAST_WITH_IMMEDIATE :: nat where "IB_OPCODE_UC_RDMA_WRITE_LAST_WITH_IMMEDIATE = IB_OPCODE IB_OPCODE_UC IB_OPCODE_RDMA_WRITE_LAST_WITH_IMMEDIATE"
definition IB_OPCODE_UC_RDMA_WRITE_ONLY :: nat where "IB_OPCODE_UC_RDMA_WRITE_ONLY = IB_OPCODE IB_OPCODE_UC IB_OPCODE_RDMA_WRITE_ONLY"
definition IB_OPCODE_UC_RDMA_WRITE_ONLY_WITH_IMMEDIATE :: nat where "IB_OPCODE_UC_RDMA_WRITE_ONLY_WITH_IMMEDIATE = IB_OPCODE IB_OPCODE_UC IB_OPCODE_RDMA_WRITE_ONLY_WITH_IMMEDIATE"
definition IB_OPCODE_RD_SEND_FIRST :: nat where "IB_OPCODE_RD_SEND_FIRST = IB_OPCODE IB_OPCODE_RD IB_OPCODE_SEND_FIRST"
definition IB_OPCODE_RD_SEND_MIDDLE :: nat where "IB_OPCODE_RD_SEND_MIDDLE = IB_OPCODE IB_OPCODE_RD IB_OPCODE_SEND_MIDDLE"
definition IB_OPCODE_RD_SEND_LAST :: nat where "IB_OPCODE_RD_SEND_LAST = IB_OPCODE IB_OPCODE_RD IB_OPCODE_SEND_LAST"
definition IB_OPCODE_RD_SEND_LAST_WITH_IMMEDIATE :: nat where "IB_OPCODE_RD_SEND_LAST_WITH_IMMEDIATE = IB_OPCODE IB_OPCODE_RD IB_OPCODE_SEND_LAST_WITH_IMMEDIATE"
definition IB_OPCODE_RD_SEND_ONLY :: nat where "IB_OPCODE_RD_SEND_ONLY = IB_OPCODE IB_OPCODE_RD IB_OPCODE_SEND_ONLY"
definition IB_OPCODE_RD_SEND_ONLY_WITH_IMMEDIATE :: nat where "IB_OPCODE_RD_SEND_ONLY_WITH_IMMEDIATE = IB_OPCODE IB_OPCODE_RD IB_OPCODE_SEND_ONLY_WITH_IMMEDIATE"
definition IB_OPCODE_RD_RDMA_WRITE_FIRST :: nat where "IB_OPCODE_RD_RDMA_WRITE_FIRST = IB_OPCODE IB_OPCODE_RD IB_OPCODE_RDMA_WRITE_FIRST"
definition IB_OPCODE_RD_RDMA_WRITE_MIDDLE :: nat where "IB_OPCODE_RD_RDMA_WRITE_MIDDLE = IB_OPCODE IB_OPCODE_RD IB_OPCODE_RDMA_WRITE_MIDDLE"
definition IB_OPCODE_RD_RDMA_WRITE_LAST :: nat where "IB_OPCODE_RD_RDMA_WRITE_LAST = IB_OPCODE IB_OPCODE_RD IB_OPCODE_RDMA_WRITE_LAST"
definition IB_OPCODE_RD_RDMA_WRITE_LAST_WITH_IMMEDIATE :: nat where "IB_OPCODE_RD_RDMA_WRITE_LAST_WITH_IMMEDIATE = IB_OPCODE IB_OPCODE_RD IB_OPCODE_RDMA_WRITE_LAST_WITH_IMMEDIATE"
definition IB_OPCODE_RD_RDMA_WRITE_ONLY :: nat where "IB_OPCODE_RD_RDMA_WRITE_ONLY = IB_OPCODE IB_OPCODE_RD IB_OPCODE_RDMA_WRITE_ONLY"
definition IB_OPCODE_RD_RDMA_WRITE_ONLY_WITH_IMMEDIATE :: nat where "IB_OPCODE_RD_RDMA_WRITE_ONLY_WITH_IMMEDIATE = IB_OPCODE IB_OPCODE_RD IB_OPCODE_RDMA_WRITE_ONLY_WITH_IMMEDIATE"
definition IB_OPCODE_RD_RDMA_READ_REQUEST :: nat where "IB_OPCODE_RD_RDMA_READ_REQUEST = IB_OPCODE IB_OPCODE_RD IB_OPCODE_RDMA_READ_REQUEST"
definition IB_OPCODE_RD_RDMA_READ_RESPONSE_FIRST :: nat where "IB_OPCODE_RD_RDMA_READ_RESPONSE_FIRST = IB_OPCODE IB_OPCODE_RD IB_OPCODE_RDMA_READ_RESPONSE_FIRST"
definition IB_OPCODE_RD_RDMA_READ_RESPONSE_MIDDLE :: nat where "IB_OPCODE_RD_RDMA_READ_RESPONSE_MIDDLE = IB_OPCODE IB_OPCODE_RD IB_OPCODE_RDMA_READ_RESPONSE_MIDDLE"
definition IB_OPCODE_RD_RDMA_READ_RESPONSE_LAST :: nat where "IB_OPCODE_RD_RDMA_READ_RESPONSE_LAST = IB_OPCODE IB_OPCODE_RD IB_OPCODE_RDMA_READ_RESPONSE_LAST"
definition IB_OPCODE_RD_RDMA_READ_RESPONSE_ONLY :: nat where "IB_OPCODE_RD_RDMA_READ_RESPONSE_ONLY = IB_OPCODE IB_OPCODE_RD IB_OPCODE_RDMA_READ_RESPONSE_ONLY"
definition IB_OPCODE_RD_ACKNOWLEDGE :: nat where "IB_OPCODE_RD_ACKNOWLEDGE = IB_OPCODE IB_OPCODE_RD IB_OPCODE_ACKNOWLEDGE"
definition IB_OPCODE_RD_ATOMIC_ACKNOWLEDGE :: nat where "IB_OPCODE_RD_ATOMIC_ACKNOWLEDGE = IB_OPCODE IB_OPCODE_RD IB_OPCODE_ATOMIC_ACKNOWLEDGE"
definition IB_OPCODE_RD_COMPARE_SWAP :: nat where "IB_OPCODE_RD_COMPARE_SWAP = IB_OPCODE IB_OPCODE_RD IB_OPCODE_COMPARE_SWAP"
definition IB_OPCODE_RD_FETCH_ADD :: nat where "IB_OPCODE_RD_FETCH_ADD = IB_OPCODE IB_OPCODE_RD IB_OPCODE_FETCH_ADD"
definition IB_OPCODE_UD_SEND_ONLY :: nat where "IB_OPCODE_UD_SEND_ONLY = IB_OPCODE IB_OPCODE_UD IB_OPCODE_SEND_ONLY"
definition IB_OPCODE_UD_SEND_ONLY_WITH_IMMEDIATE :: nat where "IB_OPCODE_UD_SEND_ONLY_WITH_IMMEDIATE = IB_OPCODE IB_OPCODE_UD IB_OPCODE_SEND_ONLY_WITH_IMMEDIATE"

text \<open>The real opcodes with the transport and the operation they were built from.\<close>

definition ib_opcodes :: "(nat \<times> nat \<times> nat) list" where
  "ib_opcodes =
     [(IB_OPCODE_RC_SEND_FIRST, IB_OPCODE_RC, IB_OPCODE_SEND_FIRST),
      (IB_OPCODE_RC_SEND_MIDDLE, IB_OPCODE_RC, IB_OPCODE_SEND_MIDDLE),
      (IB_OPCODE_RC_SEND_LAST, IB_OPCODE_RC, IB_OPCODE_SEND_LAST),
      (IB_OPCODE_RC_SEND_LAST_WITH_IMMEDIATE, IB_OPCODE_RC, IB_OPCODE_SEND_LAST_WITH_IMMEDIATE),
      (IB_OPCODE_RC_SEND_ONLY, IB_OPCODE_RC, IB_OPCODE_SEND_ONLY),
      (IB_OPCODE_RC_SEND_ONLY_WITH_IMMEDIATE, IB_OPCODE_RC, IB_OPCODE_SEND_ONLY_WITH_IMMEDIATE),
      (IB_OPCODE_RC_RDMA_WRITE_FIRST, IB_OPCODE_RC, IB_OPCODE_RDMA_WRITE_FIRST),
      (IB_OPCODE_RC_RDMA_WRITE_MIDDLE, IB_OPCODE_RC, IB_OPCODE_RDMA_WRITE_MIDDLE),
      (IB_OPCODE_RC_RDMA_WRITE_LAST, IB_OPCODE_RC, IB_OPCODE_RDMA_WRITE_LAST),
      (IB_OPCODE_RC_RDMA_WRITE_LAST_WITH_IMMEDIATE, IB_OPCODE_RC, IB_OPCODE_RDMA_WRITE_LAST_WITH_IMMEDIATE),
      (IB_OPCODE_RC_RDMA_WRITE_ONLY, IB_OPCODE_RC, IB_OPCODE_RDMA_WRITE_ONLY),
      (IB_OPCODE_RC_RDMA_WRITE_ONLY_WITH_IMMEDIATE, IB_OPCODE_RC, IB_OPCODE_RDMA_WRITE_ONLY_WITH_IMMEDIATE),
      (IB_OPCODE_RC_RDMA_READ_REQUEST, IB_OPCODE_RC, IB_OPCODE_RDMA_READ_REQUEST),
      (IB_OPCODE_RC_RDMA_READ_RESPONSE_FIRST, IB_OPCODE_RC, IB_OPCODE_RDMA_READ_RESPONSE_FIRST),
      (IB_OPCODE_RC_RDMA_READ_RESPONSE_MIDDLE, IB_OPCODE_RC, IB_OPCODE_RDMA_READ_RESPONSE_MIDDLE),
      (IB_OPCODE_RC_RDMA_READ_RESPONSE_LAST, IB_OPCODE_RC, IB_OPCODE_RDMA_READ_RESPONSE_LAST),
      (IB_OPCODE_RC_RDMA_READ_RESPONSE_ONLY, IB_OPCODE_RC, IB_OPCODE_RDMA_READ_RESPONSE_ONLY),
      (IB_OPCODE_RC_ACKNOWLEDGE, IB_OPCODE_RC, IB_OPCODE_ACKNOWLEDGE),
      (IB_OPCODE_RC_ATOMIC_ACKNOWLEDGE, IB_OPCODE_RC, IB_OPCODE_ATOMIC_ACKNOWLEDGE),
      (IB_OPCODE_RC_COMPARE_SWAP, IB_OPCODE_RC, IB_OPCODE_COMPARE_SWAP),
      (IB_OPCODE_RC_FETCH_ADD, IB_OPCODE_RC, IB_OPCODE_FETCH_ADD),
      (IB_OPCODE_RC_SEND_LAST_WITH_INVALIDATE, IB_OPCODE_RC, IB_OPCODE_SEND_LAST_WITH_INVALIDATE),
      (IB_OPCODE_RC_SEND_ONLY_WITH_INVALIDATE, IB_OPCODE_RC, IB_OPCODE_SEND_ONLY_WITH_INVALIDATE),
      (IB_OPCODE_UC_SEND_FIRST, IB_OPCODE_UC, IB_OPCODE_SEND_FIRST),
      (IB_OPCODE_UC_SEND_MIDDLE, IB_OPCODE_UC, IB_OPCODE_SEND_MIDDLE),
      (IB_OPCODE_UC_SEND_LAST, IB_OPCODE_UC, IB_OPCODE_SEND_LAST),
      (IB_OPCODE_UC_SEND_LAST_WITH_IMMEDIATE, IB_OPCODE_UC, IB_OPCODE_SEND_LAST_WITH_IMMEDIATE),
      (IB_OPCODE_UC_SEND_ONLY, IB_OPCODE_UC, IB_OPCODE_SEND_ONLY),
      (IB_OPCODE_UC_SEND_ONLY_WITH_IMMEDIATE, IB_OPCODE_UC, IB_OPCODE_SEND_ONLY_WITH_IMMEDIATE),
      (IB_OPCODE_UC_RDMA_WRITE_FIRST, IB_OPCODE_UC, IB_OPCODE_RDMA_WRITE_FIRST),
      (IB_OPCODE_UC_RDMA_WRITE_MIDDLE, IB_OPCODE_UC, IB_OPCODE_RDMA_WRITE_MIDDLE),
      (IB_OPCODE_UC_RDMA_WRITE_LAST, IB_OPCODE_UC, IB_OPCODE_RDMA_WRITE_LAST),
      (IB_OPCODE_UC_RDMA_WRITE_LAST_WITH_IMMEDIATE, IB_OPCODE_UC, IB_OPCODE_RDMA_WRITE_LAST_WITH_IMMEDIATE),
      (IB_OPCODE_UC_RDMA_WRITE_ONLY, IB_OPCODE_UC, IB_OPCODE_RDMA_WRITE_ONLY),
      (IB_OPCODE_UC_RDMA_WRITE_ONLY_WITH_IMMEDIATE, IB_OPCODE_UC, IB_OPCODE_RDMA_WRITE_ONLY_WITH_IMMEDIATE),
      (IB_OPCODE_RD_SEND_FIRST, IB_OPCODE_RD, IB_OPCODE_SEND_FIRST),
      (IB_OPCODE_RD_SEND_MIDDLE, IB_OPCODE_RD, IB_OPCODE_SEND_MIDDLE),
      (IB_OPCODE_RD_SEND_LAST, IB_OPCODE_RD, IB_OPCODE_SEND_LAST),
      (IB_OPCODE_RD_SEND_LAST_WITH_IMMEDIATE, IB_OPCODE_RD, IB_OPCODE_SEND_LAST_WITH_IMMEDIATE),
      (IB_OPCODE_RD_SEND_ONLY, IB_OPCODE_RD, IB_OPCODE_SEND_ONLY),
      (IB_OPCODE_RD_SEND_ONLY_WITH_IMMEDIATE, IB_OPCODE_RD, IB_OPCODE_SEND_ONLY_WITH_IMMEDIATE),
      (IB_OPCODE_RD_RDMA_WRITE_FIRST, IB_OPCODE_RD, IB_OPCODE_RDMA_WRITE_FIRST),
      (IB_OPCODE_RD_RDMA_WRITE_MIDDLE, IB_OPCODE_RD, IB_OPCODE_RDMA_WRITE_MIDDLE),
      (IB_OPCODE_RD_RDMA_WRITE_LAST, IB_OPCODE_RD, IB_OPCODE_RDMA_WRITE_LAST),
      (IB_OPCODE_RD_RDMA_WRITE_LAST_WITH_IMMEDIATE, IB_OPCODE_RD, IB_OPCODE_RDMA_WRITE_LAST_WITH_IMMEDIATE),
      (IB_OPCODE_RD_RDMA_WRITE_ONLY, IB_OPCODE_RD, IB_OPCODE_RDMA_WRITE_ONLY),
      (IB_OPCODE_RD_RDMA_WRITE_ONLY_WITH_IMMEDIATE, IB_OPCODE_RD, IB_OPCODE_RDMA_WRITE_ONLY_WITH_IMMEDIATE),
      (IB_OPCODE_RD_RDMA_READ_REQUEST, IB_OPCODE_RD, IB_OPCODE_RDMA_READ_REQUEST),
      (IB_OPCODE_RD_RDMA_READ_RESPONSE_FIRST, IB_OPCODE_RD, IB_OPCODE_RDMA_READ_RESPONSE_FIRST),
      (IB_OPCODE_RD_RDMA_READ_RESPONSE_MIDDLE, IB_OPCODE_RD, IB_OPCODE_RDMA_READ_RESPONSE_MIDDLE),
      (IB_OPCODE_RD_RDMA_READ_RESPONSE_LAST, IB_OPCODE_RD, IB_OPCODE_RDMA_READ_RESPONSE_LAST),
      (IB_OPCODE_RD_RDMA_READ_RESPONSE_ONLY, IB_OPCODE_RD, IB_OPCODE_RDMA_READ_RESPONSE_ONLY),
      (IB_OPCODE_RD_ACKNOWLEDGE, IB_OPCODE_RD, IB_OPCODE_ACKNOWLEDGE),
      (IB_OPCODE_RD_ATOMIC_ACKNOWLEDGE, IB_OPCODE_RD, IB_OPCODE_ATOMIC_ACKNOWLEDGE),
      (IB_OPCODE_RD_COMPARE_SWAP, IB_OPCODE_RD, IB_OPCODE_COMPARE_SWAP),
      (IB_OPCODE_RD_FETCH_ADD, IB_OPCODE_RD, IB_OPCODE_FETCH_ADD),
      (IB_OPCODE_UD_SEND_ONLY, IB_OPCODE_UD, IB_OPCODE_SEND_ONLY),
      (IB_OPCODE_UD_SEND_ONLY_WITH_IMMEDIATE, IB_OPCODE_UD, IB_OPCODE_SEND_ONLY_WITH_IMMEDIATE)]"

lemmas ib_opcode_defs = IB_OPCODE_def
  IB_OPCODE_RC_def
  IB_OPCODE_UC_def
  IB_OPCODE_RD_def
  IB_OPCODE_UD_def
  IB_OPCODE_CNP_def
  IB_OPCODE_MSP_def
  IB_OPCODE_SEND_FIRST_def
  IB_OPCODE_SEND_MIDDLE_def
  IB_OPCODE_SEND_LAST_def
  IB_OPCODE_SEND_LAST_WITH_IMMEDIATE_def
  IB_OPCODE_SEND_ONLY_def
  IB_OPCODE_SEND_ONLY_WITH_IMMEDIATE_def
  IB_OPCODE_RDMA_WRITE_FIRST_def
  IB_OPCODE_RDMA_WRITE_MIDDLE_def
  IB_OPCODE_RDMA_WRITE_LAST_def
  IB_OPCODE_RDMA_WRITE_LAST_WITH_IMMEDIATE_def
  IB_OPCODE_RDMA_WRITE_ONLY_def
  IB_OPCODE_RDMA_WRITE_ONLY_WITH_IMMEDIATE_def
  IB_OPCODE_RDMA_READ_REQUEST_def
  IB_OPCODE_RDMA_READ_RESPONSE_FIRST_def
  IB_OPCODE_RDMA_READ_RESPONSE_MIDDLE_def
  IB_OPCODE_RDMA_READ_RESPONSE_LAST_def
  IB_OPCODE_RDMA_READ_RESPONSE_ONLY_def
  IB_OPCODE_ACKNOWLEDGE_def
  IB_OPCODE_ATOMIC_ACKNOWLEDGE_def
  IB_OPCODE_COMPARE_SWAP_def
  IB_OPCODE_FETCH_ADD_def
  IB_OPCODE_SEND_LAST_WITH_INVALIDATE_def
  IB_OPCODE_SEND_ONLY_WITH_INVALIDATE_def
  IB_OPCODE_RC_SEND_FIRST_def
  IB_OPCODE_RC_SEND_MIDDLE_def
  IB_OPCODE_RC_SEND_LAST_def
  IB_OPCODE_RC_SEND_LAST_WITH_IMMEDIATE_def
  IB_OPCODE_RC_SEND_ONLY_def
  IB_OPCODE_RC_SEND_ONLY_WITH_IMMEDIATE_def
  IB_OPCODE_RC_RDMA_WRITE_FIRST_def
  IB_OPCODE_RC_RDMA_WRITE_MIDDLE_def
  IB_OPCODE_RC_RDMA_WRITE_LAST_def
  IB_OPCODE_RC_RDMA_WRITE_LAST_WITH_IMMEDIATE_def
  IB_OPCODE_RC_RDMA_WRITE_ONLY_def
  IB_OPCODE_RC_RDMA_WRITE_ONLY_WITH_IMMEDIATE_def
  IB_OPCODE_RC_RDMA_READ_REQUEST_def
  IB_OPCODE_RC_RDMA_READ_RESPONSE_FIRST_def
  IB_OPCODE_RC_RDMA_READ_RESPONSE_MIDDLE_def
  IB_OPCODE_RC_RDMA_READ_RESPONSE_LAST_def
  IB_OPCODE_RC_RDMA_READ_RESPONSE_ONLY_def
  IB_OPCODE_RC_ACKNOWLEDGE_def
  IB_OPCODE_RC_ATOMIC_ACKNOWLEDGE_def
  IB_OPCODE_RC_COMPARE_SWAP_def
  IB_OPCODE_RC_FETCH_ADD_def
  IB_OPCODE_RC_SEND_LAST_WITH_INVALIDATE_def
  IB_OPCODE_RC_SEND_ONLY_WITH_INVALIDATE_def
  IB_OPCODE_UC_SEND_FIRST_def
  IB_OPCODE_UC_SEND_MIDDLE_def
  IB_OPCODE_UC_SEND_LAST_def
  IB_OPCODE_UC_SEND_LAST_WITH_IMMEDIATE_def
  IB_OPCODE_UC_SEND_ONLY_def
  IB_OPCODE_UC_SEND_ONLY_WITH_IMMEDIATE_def
  IB_OPCODE_UC_RDMA_WRITE_FIRST_def
  IB_OPCODE_UC_RDMA_WRITE_MIDDLE_def
  IB_OPCODE_UC_RDMA_WRITE_LAST_def
  IB_OPCODE_UC_RDMA_WRITE_LAST_WITH_IMMEDIATE_def
  IB_OPCODE_UC_RDMA_WRITE_ONLY_def
  IB_OPCODE_UC_RDMA_WRITE_ONLY_WITH_IMMEDIATE_def
  IB_OPCODE_RD_SEND_FIRST_def
  IB_OPCODE_RD_SEND_MIDDLE_def
  IB_OPCODE_RD_SEND_LAST_def
  IB_OPCODE_RD_SEND_LAST_WITH_IMMEDIATE_def
  IB_OPCODE_RD_SEND_ONLY_def
  IB_OPCODE_RD_SEND_ONLY_WITH_IMMEDIATE_def
  IB_OPCODE_RD_RDMA_WRITE_FIRST_def
  IB_OPCODE_RD_RDMA_WRITE_MIDDLE_def
  IB_OPCODE_RD_RDMA_WRITE_LAST_def
  IB_OPCODE_RD_RDMA_WRITE_LAST_WITH_IMMEDIATE_def
  IB_OPCODE_RD_RDMA_WRITE_ONLY_def
  IB_OPCODE_RD_RDMA_WRITE_ONLY_WITH_IMMEDIATE_def
  IB_OPCODE_RD_RDMA_READ_REQUEST_def
  IB_OPCODE_RD_RDMA_READ_RESPONSE_FIRST_def
  IB_OPCODE_RD_RDMA_READ_RESPONSE_MIDDLE_def
  IB_OPCODE_RD_RDMA_READ_RESPONSE_LAST_def
  IB_OPCODE_RD_RDMA_READ_RESPONSE_ONLY_def
  IB_OPCODE_RD_ACKNOWLEDGE_def
  IB_OPCODE_RD_ATOMIC_ACKNOWLEDGE_def
  IB_OPCODE_RD_COMPARE_SWAP_def
  IB_OPCODE_RD_FETCH_ADD_def
  IB_OPCODE_UD_SEND_ONLY_def
  IB_OPCODE_UD_SEND_ONLY_WITH_IMMEDIATE_def

section \<open>Header types and masks\<close>

datatype rxe_hdr_type =
  RXE_LRH | RXE_GRH | RXE_BTH | RXE_RETH | RXE_AETH | RXE_ATMETH | RXE_ATMACK | RXE_IETH
| RXE_RDETH | RXE_DETH | RXE_IMMDT | RXE_PAYLOAD

fun hdr_type_num :: "rxe_hdr_type \<Rightarrow> nat" where
  "hdr_type_num RXE_LRH = 0"
| "hdr_type_num RXE_GRH = 1"
| "hdr_type_num RXE_BTH = 2"
| "hdr_type_num RXE_RETH = 3"
| "hdr_type_num RXE_AETH = 4"
| "hdr_type_num RXE_ATMETH = 5"
| "hdr_type_num RXE_ATMACK = 6"
| "hdr_type_num RXE_IETH = 7"
| "hdr_type_num RXE_RDETH = 8"
| "hdr_type_num RXE_DETH = 9"
| "hdr_type_num RXE_IMMDT = 10"
| "hdr_type_num RXE_PAYLOAD = 11"

definition NUM_HDR_TYPES :: nat where "NUM_HDR_TYPES = 12"

definition WR_INLINE_MASK :: u64 where "WR_INLINE_MASK = BIT 0"
definition WR_ATOMIC_MASK :: u64 where "WR_ATOMIC_MASK = BIT 1"
definition WR_SEND_MASK :: u64 where "WR_SEND_MASK = BIT 2"
definition WR_READ_MASK :: u64 where "WR_READ_MASK = BIT 3"
definition WR_WRITE_MASK :: u64 where "WR_WRITE_MASK = BIT 4"
definition WR_LOCAL_MASK :: u64 where "WR_LOCAL_MASK = BIT 5"
definition WR_REG_MASK :: u64 where "WR_REG_MASK = BIT 6"
definition WR_READ_OR_WRITE_MASK :: u64 where "WR_READ_OR_WRITE_MASK = WR_READ_MASK OR WR_WRITE_MASK"
definition WR_READ_WRITE_OR_SEND_MASK :: u64 where "WR_READ_WRITE_OR_SEND_MASK = WR_READ_OR_WRITE_MASK OR WR_SEND_MASK"
definition WR_WRITE_OR_SEND_MASK :: u64 where "WR_WRITE_OR_SEND_MASK = WR_WRITE_MASK OR WR_SEND_MASK"
definition WR_ATOMIC_OR_READ_MASK :: u64 where "WR_ATOMIC_OR_READ_MASK = WR_ATOMIC_MASK OR WR_READ_MASK"
definition RXE_LRH_MASK :: u64 where "RXE_LRH_MASK = BIT (hdr_type_num RXE_LRH)"
definition RXE_GRH_MASK :: u64 where "RXE_GRH_MASK = BIT (hdr_type_num RXE_GRH)"
definition RXE_BTH_MASK :: u64 where "RXE_BTH_MASK = BIT (hdr_type_num RXE_BTH)"
definition RXE_IMMDT_MASK :: u64 where "RXE_IMMDT_MASK = BIT (hdr_type_num RXE_IMMDT)"
definition RXE_RETH_MASK :: u64 where "RXE_RETH_MASK = BIT (hdr_type_num RXE_RETH)"
definition RXE_AETH_MASK :: u64 where "RXE_AETH_MASK = BIT (hdr_type_num RXE_AETH)"
definition RXE_ATMETH_MASK :: u64 where "RXE_ATMETH_MASK = BIT (hdr_type_num RXE_ATMETH)"
definition RXE_ATMACK_MASK :: u64 where "RXE_ATMACK_MASK = BIT (hdr_type_num RXE_ATMACK)"
definition RXE_IETH_MASK :: u64 where "RXE_IETH_MASK = BIT (hdr_type_num RXE_IETH)"
definition RXE_RDETH_MASK :: u64 where "RXE_RDETH_MASK = BIT (hdr_type_num RXE_RDETH)"
definition RXE_DETH_MASK :: u64 where "RXE_DETH_MASK = BIT (hdr_type_num RXE_DETH)"
definition RXE_PAYLOAD_MASK :: u64 where "RXE_PAYLOAD_MASK = BIT (hdr_type_num RXE_PAYLOAD)"
definition RXE_REQ_MASK :: u64 where "RXE_REQ_MASK = BIT (NUM_HDR_TYPES + 0)"
definition RXE_ACK_MASK :: u64 where "RXE_ACK_MASK = BIT (NUM_HDR_TYPES + 1)"
definition RXE_SEND_MASK :: u64 where "RXE_SEND_MASK = BIT (NUM_HDR_TYPES + 2)"
definition RXE_WRITE_MASK :: u64 where "RXE_WRITE_MASK = BIT (NUM_HDR_TYPES + 3)"
definition RXE_READ_MASK :: u64 where "RXE_READ_MASK = BIT (NUM_HDR_TYPES + 4)"
definition RXE_ATOMIC_MASK :: u64 where "RXE_ATOMIC_MASK = BIT (NUM_HDR_TYPES + 5)"
definition RXE_RWR_MASK :: u64 where "RXE_RWR_MASK = BIT (NUM_HDR_TYPES + 6)"
definition RXE_COMP_MASK :: u64 where "RXE_COMP_MASK = BIT (NUM_HDR_TYPES + 7)"
definition RXE_START_MASK :: u64 where "RXE_START_MASK = BIT (NUM_HDR_TYPES + 8)"
definition RXE_MIDDLE_MASK :: u64 where "RXE_MIDDLE_MASK = BIT (NUM_HDR_TYPES + 9)"
definition RXE_END_MASK :: u64 where "RXE_END_MASK = BIT (NUM_HDR_TYPES + 10)"
definition RXE_LOOPBACK_MASK :: u64 where "RXE_LOOPBACK_MASK = BIT (NUM_HDR_TYPES + 12)"
definition RXE_READ_OR_ATOMIC :: u64 where "RXE_READ_OR_ATOMIC = (RXE_READ_MASK OR RXE_ATOMIC_MASK)"
definition RXE_WRITE_OR_SEND :: u64 where "RXE_WRITE_OR_SEND = (RXE_WRITE_MASK OR RXE_SEND_MASK)"

lemmas rxe_mask_defs = BIT_def NUM_HDR_TYPES_def
  WR_INLINE_MASK_def
  WR_ATOMIC_MASK_def
  WR_SEND_MASK_def
  WR_READ_MASK_def
  WR_WRITE_MASK_def
  WR_LOCAL_MASK_def
  WR_REG_MASK_def
  WR_READ_OR_WRITE_MASK_def
  WR_READ_WRITE_OR_SEND_MASK_def
  WR_WRITE_OR_SEND_MASK_def
  WR_ATOMIC_OR_READ_MASK_def
  RXE_LRH_MASK_def
  RXE_GRH_MASK_def
  RXE_BTH_MASK_def
  RXE_IMMDT_MASK_def
  RXE_RETH_MASK_def
  RXE_AETH_MASK_def
  RXE_ATMETH_MASK_def
  RXE_ATMACK_MASK_def
  RXE_IETH_MASK_def
  RXE_RDETH_MASK_def
  RXE_DETH_MASK_def
  RXE_PAYLOAD_MASK_def
  RXE_REQ_MASK_def
  RXE_ACK_MASK_def
  RXE_SEND_MASK_def
  RXE_WRITE_MASK_def
  RXE_READ_MASK_def
  RXE_ATOMIC_MASK_def
  RXE_RWR_MASK_def
  RXE_COMP_MASK_def
  RXE_START_MASK_def
  RXE_MIDDLE_MASK_def
  RXE_END_MASK_def
  RXE_LOOPBACK_MASK_def
  RXE_READ_OR_ATOMIC_def
  RXE_WRITE_OR_SEND_def

text \<open>An entry of the opcode table, without its name.\<close>

record rxe_opcode_info =
  info_mask :: u64
  info_length :: int
  info_offset :: "rxe_hdr_type \<Rightarrow> int"

section \<open>The opcode space\<close>

text \<open>
  The BTH opcodes are unambiguous: no two of the opcodes of the header
  have the same value, each fits the opcode byte, and its upper three bits are the transport it
  was built from while its lower five bits are the operation.
\<close>

lemma ib_opcodes_unambiguous:
  "distinct (map fst ib_opcodes) \<and>
   list_all (\<lambda>(opc, tr, op). opc < 256 \<and> 32 * (opc div 32) = tr \<and> opc mod 32 = op) ib_opcodes"
  by (simp add: ib_opcodes_def ib_opcode_defs)

lemma hdr_type_num_less: "hdr_type_num t < NUM_HDR_TYPES"
  by (cases t) (simp_all add: NUM_HDR_TYPES_def)

lemma hdr_type_num_inject: "hdr_type_num s = hdr_type_num t \<longleftrightarrow> s = t"
  by (cases s; cases t) simp_all

end
