(* ===== verification/Rxe_Hdr.thy ===== *)
theory Rxe_Hdr
  imports C_Layout Field_Access Rxe_Opcode
begin

text \<open>
  \<^verbatim>\<open>src/rxe_hdr.h\<close>, the accessors of the RoCE transport headers.  A C function
  \<^verbatim>\<open>__hhh_fff(void *arg)\<close> is \<open>raw_hhh_fff m arg\<close>, where \<open>m\<close> is the packet memory and \<open>arg\<close>
  the offset \<^verbatim>\<open>arg\<close> points to; a setter returns the new memory.  Parameters and results that
  the code uses as truth values are of type \<open>bool\<close>.  The header structs are member lists, from which
  the offsets are computed.
\<close>

section \<open>Masks\<close>

definition BTH_SE_MASK :: u8 where "BTH_SE_MASK = 0x80"
definition BTH_MIG_MASK :: u8 where "BTH_MIG_MASK = 0x40"
definition BTH_PAD_MASK :: u8 where "BTH_PAD_MASK = 0x30"
definition BTH_TVER_MASK :: u8 where "BTH_TVER_MASK = 0x0f"
definition BTH_FECN_MASK :: u32 where "BTH_FECN_MASK = 0x80000000"
definition BTH_BECN_MASK :: u32 where "BTH_BECN_MASK = 0x40000000"
definition BTH_RESV6A_MASK :: u32 where "BTH_RESV6A_MASK = 0x3f000000"
definition BTH_QPN_MASK :: u32 where "BTH_QPN_MASK = 0x00ffffff"
definition BTH_ACK_MASK :: u32 where "BTH_ACK_MASK = 0x80000000"
definition BTH_RESV7_MASK :: u32 where "BTH_RESV7_MASK = 0x7f000000"
definition BTH_PSN_MASK :: u32 where "BTH_PSN_MASK = 0x00ffffff"
definition RDETH_EEN_MASK :: u32 where "RDETH_EEN_MASK = 0x00ffffff"
definition DETH_SQP_MASK :: u32 where "DETH_SQP_MASK = 0x00ffffff"
definition AETH_SYN_MASK :: u32 where "AETH_SYN_MASK = 0xff000000"
definition AETH_MSN_MASK :: u32 where "AETH_MSN_MASK = 0x00ffffff"
definition RXE_ICRC_SIZE :: int where "RXE_ICRC_SIZE = 4"

lemmas bth_mask_defs = BTH_SE_MASK_def BTH_MIG_MASK_def BTH_PAD_MASK_def BTH_TVER_MASK_def
  BTH_FECN_MASK_def BTH_BECN_MASK_def BTH_RESV6A_MASK_def BTH_QPN_MASK_def BTH_ACK_MASK_def
  BTH_RESV7_MASK_def BTH_PSN_MASK_def

section \<open>Header structs\<close>

definition rxe_bth :: c_struct where
  "rxe_bth = [scalar ''opcode'' 1, scalar ''flags'' 1, scalar ''pkey'' 2, scalar ''qpn'' 4,
     scalar ''apsn'' 4]"

definition rxe_rdeth :: c_struct where
  "rxe_rdeth = [scalar ''een'' 4]"

definition rxe_deth :: c_struct where
  "rxe_deth = [scalar ''qkey'' 4, scalar ''sqp'' 4]"

definition rxe_reth :: c_struct where
  "rxe_reth = [scalar ''va'' 8, scalar ''rkey'' 4, scalar ''len'' 4]"

definition rxe_atmeth :: c_struct where
  "rxe_atmeth =
     packed [scalar ''va'' 8, scalar ''rkey'' 4, scalar ''swap_add'' 8, scalar ''comp'' 8]"

definition rxe_aeth :: c_struct where
  "rxe_aeth = [scalar ''smsn'' 4]"

definition rxe_atmack :: c_struct where
  "rxe_atmack = [scalar ''orig'' 8]"

definition rxe_immdt :: c_struct where
  "rxe_immdt = [scalar ''imm'' 4]"

definition rxe_ieth :: c_struct where
  "rxe_ieth = [scalar ''rkey'' 4]"

lemmas rxe_struct_defs = rxe_bth_def rxe_rdeth_def rxe_deth_def rxe_reth_def rxe_atmeth_def
  rxe_aeth_def rxe_atmack_def rxe_immdt_def rxe_ieth_def

section \<open>Accessors\<close>

subsection \<open>Base Transport Header\<close>

definition raw_bth_opcode :: "byte list \<Rightarrow> nat \<Rightarrow> u8 res" where
  "raw_bth_opcode m arg =
     load m (arg + offsetof rxe_bth ''opcode'')"

definition raw_bth_set_opcode :: "byte list \<Rightarrow> nat \<Rightarrow> u8 \<Rightarrow> byte list res" where
  "raw_bth_set_opcode m arg opc =
     store m (arg + offsetof rxe_bth ''opcode'') opc"

definition raw_bth_se :: "byte list \<Rightarrow> nat \<Rightarrow> bool res" where
  "raw_bth_se m arg =
     map_res (\<lambda>w. BTH_SE_MASK AND w \<noteq> 0) (load m (arg + offsetof rxe_bth ''flags''))"

definition raw_bth_set_se :: "byte list \<Rightarrow> nat \<Rightarrow> bool \<Rightarrow> byte list res" where
  "raw_bth_set_se m arg se =
     bind_res (load m (arg + offsetof rxe_bth ''flags'')) (\<lambda>w.
       store m (arg + offsetof rxe_bth ''flags'')
         (if se then w OR BTH_SE_MASK else w AND NOT BTH_SE_MASK))"

definition raw_bth_mig :: "byte list \<Rightarrow> nat \<Rightarrow> bool res" where
  "raw_bth_mig m arg =
     map_res (\<lambda>w. BTH_MIG_MASK AND w \<noteq> 0) (load m (arg + offsetof rxe_bth ''flags''))"

definition raw_bth_set_mig :: "byte list \<Rightarrow> nat \<Rightarrow> bool \<Rightarrow> byte list res" where
  "raw_bth_set_mig m arg mig =
     bind_res (load m (arg + offsetof rxe_bth ''flags'')) (\<lambda>w.
       store m (arg + offsetof rxe_bth ''flags'')
         (if mig then w OR BTH_MIG_MASK else w AND NOT BTH_MIG_MASK))"

definition raw_bth_pad :: "byte list \<Rightarrow> nat \<Rightarrow> u8 res" where
  "raw_bth_pad m arg =
     map_res (\<lambda>w. drop_bit 4 (BTH_PAD_MASK AND w)) (load m (arg + offsetof rxe_bth ''flags''))"

definition raw_bth_set_pad :: "byte list \<Rightarrow> nat \<Rightarrow> u8 \<Rightarrow> byte list res" where
  "raw_bth_set_pad m arg pad =
     bind_res (load m (arg + offsetof rxe_bth ''flags'')) (\<lambda>w.
       store m (arg + offsetof rxe_bth ''flags'')
         ((BTH_PAD_MASK AND push_bit 4 pad) OR (NOT BTH_PAD_MASK AND w)))"

definition raw_bth_tver :: "byte list \<Rightarrow> nat \<Rightarrow> u8 res" where
  "raw_bth_tver m arg =
     map_res (\<lambda>w. BTH_TVER_MASK AND w) (load m (arg + offsetof rxe_bth ''flags''))"

definition raw_bth_set_tver :: "byte list \<Rightarrow> nat \<Rightarrow> u8 \<Rightarrow> byte list res" where
  "raw_bth_set_tver m arg tver =
     bind_res (load m (arg + offsetof rxe_bth ''flags'')) (\<lambda>w.
       store m (arg + offsetof rxe_bth ''flags'')
         ((BTH_TVER_MASK AND tver) OR (NOT BTH_TVER_MASK AND w)))"

definition raw_bth_pkey :: "byte list \<Rightarrow> nat \<Rightarrow> u16 res" where
  "raw_bth_pkey m arg =
     map_res (\<lambda>w. ntohs w) (load m (arg + offsetof rxe_bth ''pkey''))"

definition raw_bth_set_pkey :: "byte list \<Rightarrow> nat \<Rightarrow> u16 \<Rightarrow> byte list res" where
  "raw_bth_set_pkey m arg pkey =
     store m (arg + offsetof rxe_bth ''pkey'') (htons pkey)"

definition raw_bth_qpn :: "byte list \<Rightarrow> nat \<Rightarrow> u32 res" where
  "raw_bth_qpn m arg =
     map_res (\<lambda>w. BTH_QPN_MASK AND ntohl w) (load m (arg + offsetof rxe_bth ''qpn''))"

definition raw_bth_set_qpn :: "byte list \<Rightarrow> nat \<Rightarrow> u32 \<Rightarrow> byte list res" where
  "raw_bth_set_qpn m arg qpn =
     bind_res (load m (arg + offsetof rxe_bth ''qpn'')) (\<lambda>w.
       store m (arg + offsetof rxe_bth ''qpn'')
         (htonl ((BTH_QPN_MASK AND qpn) OR (NOT BTH_QPN_MASK AND ntohl w))))"

definition raw_bth_fecn :: "byte list \<Rightarrow> nat \<Rightarrow> bool res" where
  "raw_bth_fecn m arg =
     map_res (\<lambda>w. htonl BTH_FECN_MASK AND w \<noteq> 0) (load m (arg + offsetof rxe_bth ''qpn''))"

definition raw_bth_set_fecn :: "byte list \<Rightarrow> nat \<Rightarrow> bool \<Rightarrow> byte list res" where
  "raw_bth_set_fecn m arg fecn =
     bind_res (load m (arg + offsetof rxe_bth ''qpn'')) (\<lambda>w.
       store m (arg + offsetof rxe_bth ''qpn'')
         (if fecn then w OR htonl BTH_FECN_MASK else w AND NOT (htonl BTH_FECN_MASK)))"

definition raw_bth_becn :: "byte list \<Rightarrow> nat \<Rightarrow> bool res" where
  "raw_bth_becn m arg =
     map_res (\<lambda>w. htonl BTH_BECN_MASK AND w \<noteq> 0) (load m (arg + offsetof rxe_bth ''qpn''))"

definition raw_bth_set_becn :: "byte list \<Rightarrow> nat \<Rightarrow> bool \<Rightarrow> byte list res" where
  "raw_bth_set_becn m arg becn =
     bind_res (load m (arg + offsetof rxe_bth ''qpn'')) (\<lambda>w.
       store m (arg + offsetof rxe_bth ''qpn'')
         (if becn then w OR htonl BTH_BECN_MASK else w AND NOT (htonl BTH_BECN_MASK)))"

definition raw_bth_resv6a :: "byte list \<Rightarrow> nat \<Rightarrow> u8 res" where
  "raw_bth_resv6a m arg =
     map_res (\<lambda>w. ucast (drop_bit 24 (BTH_RESV6A_MASK AND ntohl w))) (load m (arg + offsetof rxe_bth ''qpn''))"

definition raw_bth_set_resv6a :: "byte list \<Rightarrow> nat \<Rightarrow> byte list res" where
  "raw_bth_set_resv6a m arg =
     store m (arg + offsetof rxe_bth ''qpn'') (htonl (NOT BTH_RESV6A_MASK))"

definition raw_bth_ack :: "byte list \<Rightarrow> nat \<Rightarrow> bool res" where
  "raw_bth_ack m arg =
     map_res (\<lambda>w. htonl BTH_ACK_MASK AND w \<noteq> 0) (load m (arg + offsetof rxe_bth ''apsn''))"

definition raw_bth_set_ack :: "byte list \<Rightarrow> nat \<Rightarrow> bool \<Rightarrow> byte list res" where
  "raw_bth_set_ack m arg ack =
     bind_res (load m (arg + offsetof rxe_bth ''apsn'')) (\<lambda>w.
       store m (arg + offsetof rxe_bth ''apsn'')
         (if ack then w OR htonl BTH_ACK_MASK else w AND NOT (htonl BTH_ACK_MASK)))"

definition raw_bth_set_resv7 :: "byte list \<Rightarrow> nat \<Rightarrow> byte list res" where
  "raw_bth_set_resv7 m arg =
     bind_res (load m (arg + offsetof rxe_bth ''apsn'')) (\<lambda>w. store m (arg + offsetof rxe_bth ''apsn'') (w AND NOT (htonl BTH_RESV7_MASK)))"

definition raw_bth_psn :: "byte list \<Rightarrow> nat \<Rightarrow> u32 res" where
  "raw_bth_psn m arg =
     map_res (\<lambda>w. BTH_PSN_MASK AND ntohl w) (load m (arg + offsetof rxe_bth ''apsn''))"

definition raw_bth_set_psn :: "byte list \<Rightarrow> nat \<Rightarrow> u32 \<Rightarrow> byte list res" where
  "raw_bth_set_psn m arg psn =
     bind_res (load m (arg + offsetof rxe_bth ''apsn'')) (\<lambda>w.
       store m (arg + offsetof rxe_bth ''apsn'')
         (htonl ((BTH_PSN_MASK AND psn) OR (NOT BTH_PSN_MASK AND ntohl w))))"

subsection \<open>Extended headers\<close>

definition raw_rdeth_een :: "byte list \<Rightarrow> nat \<Rightarrow> u32 res" where
  "raw_rdeth_een m arg =
     map_res (\<lambda>w. RDETH_EEN_MASK AND ntohl w) (load m (arg + offsetof rxe_rdeth ''een''))"

definition raw_rdeth_set_een :: "byte list \<Rightarrow> nat \<Rightarrow> u32 \<Rightarrow> byte list res" where
  "raw_rdeth_set_een m arg een =
     store m (arg + offsetof rxe_rdeth ''een'') (htonl (RDETH_EEN_MASK AND een))"

definition raw_deth_qkey :: "byte list \<Rightarrow> nat \<Rightarrow> u32 res" where
  "raw_deth_qkey m arg =
     map_res (\<lambda>w. ntohl w) (load m (arg + offsetof rxe_deth ''qkey''))"

definition raw_deth_set_qkey :: "byte list \<Rightarrow> nat \<Rightarrow> u32 \<Rightarrow> byte list res" where
  "raw_deth_set_qkey m arg qkey =
     store m (arg + offsetof rxe_deth ''qkey'') (htonl qkey)"

definition raw_deth_sqp :: "byte list \<Rightarrow> nat \<Rightarrow> u32 res" where
  "raw_deth_sqp m arg =
     map_res (\<lambda>w. DETH_SQP_MASK AND ntohl w) (load m (arg + offsetof rxe_deth ''sqp''))"

definition raw_deth_set_sqp :: "byte list \<Rightarrow> nat \<Rightarrow> u32 \<Rightarrow> byte list res" where
  "raw_deth_set_sqp m arg sqp =
     store m (arg + offsetof rxe_deth ''sqp'') (htonl (DETH_SQP_MASK AND sqp))"

definition raw_reth_va :: "byte list \<Rightarrow> nat \<Rightarrow> u64 res" where
  "raw_reth_va m arg =
     map_res (\<lambda>w. be64toh w) (load m (arg + offsetof rxe_reth ''va''))"

definition raw_reth_set_va :: "byte list \<Rightarrow> nat \<Rightarrow> u64 \<Rightarrow> byte list res" where
  "raw_reth_set_va m arg va =
     store m (arg + offsetof rxe_reth ''va'') (htobe64 va)"

definition raw_reth_rkey :: "byte list \<Rightarrow> nat \<Rightarrow> u32 res" where
  "raw_reth_rkey m arg =
     map_res (\<lambda>w. ntohl w) (load m (arg + offsetof rxe_reth ''rkey''))"

definition raw_reth_set_rkey :: "byte list \<Rightarrow> nat \<Rightarrow> u32 \<Rightarrow> byte list res" where
  "raw_reth_set_rkey m arg rkey =
     store m (arg + offsetof rxe_reth ''rkey'') (htonl rkey)"

definition raw_reth_len :: "byte list \<Rightarrow> nat \<Rightarrow> u32 res" where
  "raw_reth_len m arg =
     map_res (\<lambda>w. ntohl w) (load m (arg + offsetof rxe_reth ''len''))"

definition raw_reth_set_len :: "byte list \<Rightarrow> nat \<Rightarrow> u32 \<Rightarrow> byte list res" where
  "raw_reth_set_len m arg ln =
     store m (arg + offsetof rxe_reth ''len'') (htonl ln)"

definition raw_atmeth_va :: "byte list \<Rightarrow> nat \<Rightarrow> u64 res" where
  "raw_atmeth_va m arg =
     map_res (\<lambda>w. be64toh w) (load m (arg + offsetof rxe_atmeth ''va''))"

definition raw_atmeth_set_va :: "byte list \<Rightarrow> nat \<Rightarrow> u64 \<Rightarrow> byte list res" where
  "raw_atmeth_set_va m arg va =
     store m (arg + offsetof rxe_atmeth ''va'') (htobe64 va)"

definition raw_atmeth_rkey :: "byte list \<Rightarrow> nat \<Rightarrow> u32 res" where
  "raw_atmeth_rkey m arg =
     map_res (\<lambda>w. ntohl w) (load m (arg + offsetof rxe_atmeth ''rkey''))"

definition raw_atmeth_set_rkey :: "byte list \<Rightarrow> nat \<Rightarrow> u32 \<Rightarrow> byte list res" where
  "raw_atmeth_set_rkey m arg rkey =
     store m (arg + offsetof rxe_atmeth ''rkey'') (htonl rkey)"

definition raw_atmeth_swap_add :: "byte list \<Rightarrow> nat \<Rightarrow> u64 res" where
  "raw_atmeth_swap_add m arg =
     map_res (\<lambda>w. be64toh w) (load m (arg + offsetof rxe_atmeth ''swap_add''))"

definition raw_atmeth_set_swap_add :: "byte list \<Rightarrow> nat \<Rightarrow> u64 \<Rightarrow> byte list res" where
  "raw_atmeth_set_swap_add m arg swap_add =
     store m (arg + offsetof rxe_atmeth ''swap_add'') (htobe64 swap_add)"

definition raw_atmeth_comp :: "byte list \<Rightarrow> nat \<Rightarrow> u64 res" where
  "raw_atmeth_comp m arg =
     map_res (\<lambda>w. be64toh w) (load m (arg + offsetof rxe_atmeth ''comp''))"

definition raw_atmeth_set_comp :: "byte list \<Rightarrow> nat \<Rightarrow> u64 \<Rightarrow> byte list res" where
  "raw_atmeth_set_comp m arg cmp =
     store m (arg + offsetof rxe_atmeth ''comp'') (htobe64 cmp)"

definition raw_aeth_syn :: "byte list \<Rightarrow> nat \<Rightarrow> u8 res" where
  "raw_aeth_syn m arg =
     map_res (\<lambda>w. ucast (drop_bit 24 (AETH_SYN_MASK AND ntohl w))) (load m (arg + offsetof rxe_aeth ''smsn''))"

definition raw_aeth_set_syn :: "byte list \<Rightarrow> nat \<Rightarrow> u8 \<Rightarrow> byte list res" where
  "raw_aeth_set_syn m arg syn =
     bind_res (load m (arg + offsetof rxe_aeth ''smsn'')) (\<lambda>w.
       store m (arg + offsetof rxe_aeth ''smsn'')
         (htonl ((AETH_SYN_MASK AND push_bit 24 (ucast syn)) OR (NOT AETH_SYN_MASK AND ntohl w))))"

definition raw_aeth_msn :: "byte list \<Rightarrow> nat \<Rightarrow> u32 res" where
  "raw_aeth_msn m arg =
     map_res (\<lambda>w. AETH_MSN_MASK AND ntohl w) (load m (arg + offsetof rxe_aeth ''smsn''))"

definition raw_aeth_set_msn :: "byte list \<Rightarrow> nat \<Rightarrow> u32 \<Rightarrow> byte list res" where
  "raw_aeth_set_msn m arg msn =
     bind_res (load m (arg + offsetof rxe_aeth ''smsn'')) (\<lambda>w.
       store m (arg + offsetof rxe_aeth ''smsn'')
         (htonl ((AETH_MSN_MASK AND msn) OR (NOT AETH_MSN_MASK AND ntohl w))))"

definition raw_atmack_orig :: "byte list \<Rightarrow> nat \<Rightarrow> u64 res" where
  "raw_atmack_orig m arg =
     map_res (\<lambda>w. be64toh w) (load m (arg + offsetof rxe_atmack ''orig''))"

definition raw_atmack_set_orig :: "byte list \<Rightarrow> nat \<Rightarrow> u64 \<Rightarrow> byte list res" where
  "raw_atmack_set_orig m arg orig =
     store m (arg + offsetof rxe_atmack ''orig'') (htobe64 orig)"

definition raw_immdt_imm :: "byte list \<Rightarrow> nat \<Rightarrow> u32 res" where
  "raw_immdt_imm m arg =
     load m (arg + offsetof rxe_immdt ''imm'')"

definition raw_immdt_set_imm :: "byte list \<Rightarrow> nat \<Rightarrow> u32 \<Rightarrow> byte list res" where
  "raw_immdt_set_imm m arg imm =
     store m (arg + offsetof rxe_immdt ''imm'') imm"

definition raw_ieth_rkey :: "byte list \<Rightarrow> nat \<Rightarrow> u32 res" where
  "raw_ieth_rkey m arg =
     map_res (\<lambda>w. ntohl w) (load m (arg + offsetof rxe_ieth ''rkey''))"

definition raw_ieth_set_rkey :: "byte list \<Rightarrow> nat \<Rightarrow> u32 \<Rightarrow> byte list res" where
  "raw_ieth_set_rkey m arg rkey =
     store m (arg + offsetof rxe_ieth ''rkey'') (htonl rkey)"

section \<open>Layout\<close>

lemma sizeof_rxe [simp, layout_simps]:
  "sizeof rxe_bth = 12" "sizeof rxe_deth = 8" "sizeof rxe_rdeth = 4" "sizeof rxe_reth = 16"
  "sizeof rxe_atmeth = 28" "sizeof rxe_aeth = 4" "sizeof rxe_atmack = 8" "sizeof rxe_immdt = 4"
  "sizeof rxe_ieth = 4"
  by (simp_all add: c_layout_defs rxe_struct_defs)

lemma offsetof_rxe_bth [simp, layout_simps]:
  "offsetof rxe_bth ''opcode'' = 0" "offsetof rxe_bth ''flags'' = 1"
  "offsetof rxe_bth ''pkey'' = 2" "offsetof rxe_bth ''qpn'' = 4" "offsetof rxe_bth ''apsn'' = 8"
  by (simp_all add: c_layout_defs rxe_bth_def)

lemma offsetof_rxe_ext [simp, layout_simps]:
  "offsetof rxe_rdeth ''een'' = 0" "offsetof rxe_deth ''qkey'' = 0" "offsetof rxe_deth ''sqp'' = 4"
  "offsetof rxe_reth ''va'' = 0" "offsetof rxe_reth ''rkey'' = 8" "offsetof rxe_reth ''len'' = 12"
  "offsetof rxe_atmeth ''va'' = 0" "offsetof rxe_atmeth ''rkey'' = 8"
  "offsetof rxe_atmeth ''swap_add'' = 12" "offsetof rxe_atmeth ''comp'' = 20"
  "offsetof rxe_aeth ''smsn'' = 0" "offsetof rxe_atmack ''orig'' = 0"
  "offsetof rxe_immdt ''imm'' = 0" "offsetof rxe_ieth ''rkey'' = 0"
  by (simp_all add: c_layout_defs rxe_struct_defs)

section \<open>Field algebra\<close>

lemma flag_read_write:
  fixes flag w :: "'a::len word"
  assumes "flag \<noteq> 0"
  shows "flag AND (if v then w OR flag else w AND NOT flag) \<noteq> 0 \<longleftrightarrow> v"
proof (cases v)
  case True
  have "flag AND (w OR flag) = flag" by (rule bit_word_eqI) (auto simp: bit_simps)
  with True assms show ?thesis by simp
next
  case False
  have "flag AND (w AND NOT flag) = 0" by (rule bit_word_eqI) (auto simp: bit_simps)
  with False show ?thesis by simp
qed

lemma flag_write_other:
  fixes flag w :: "'a::len word"
  assumes "other AND flag = 0"
  shows "other AND (if v then w OR flag else w AND NOT flag) = other AND w"
proof -
  have "bit other n \<Longrightarrow> \<not> bit flag n" for n
    using assms by (metis bit_and_iff bit_0_eq bot_apply bot_bool_def)
  then show ?thesis by (intro bit_word_eqI) (auto simp: bit_simps)
qed

lemma field_read_write:
  "msk AND ((msk AND v) OR (NOT msk AND w)) = msk AND (v :: 'a::len word)"
  by (rule bit_word_eqI) (auto simp: bit_simps)

lemma htonl_neq_0: "v \<noteq> 0 \<Longrightarrow> htonl v \<noteq> 0"
  by (metis n32.ntoh_0 n32.ntoh_hton)

lemma pad_read_write: "drop_bit 4 BTH_PAD_MASK AND drop_bit 4 (push_bit 4 v) = v AND 3"
proof -
  have m: "BTH_PAD_MASK = push_bit 4 (mask 2)" "(3 :: u8) = mask 2"
    by (simp_all add: BTH_PAD_MASK_def push_bit_eq_mult mask_eq_exp_minus_1)
  show ?thesis unfolding m by (rule bit_word_eqI) (auto simp: bit_simps)
qed

lemma syn_read_write:
  "ucast (drop_bit 24 AETH_SYN_MASK AND drop_bit 24 (push_bit 24 (ucast (v :: u8)))) = v"
proof -
  have m: "AETH_SYN_MASK = push_bit 24 (mask 8)"
    by (simp add: AETH_SYN_MASK_def push_bit_eq_mult mask_eq_exp_minus_1)
  show ?thesis unfolding m by (rule bit_word_eqI) (auto simp: bit_simps)
qed

lemmas rxe_byteorder = n16.ntoh_hton n32.ntoh_hton n64.ntoh_hton

lemma map_res_id: "map_res (\<lambda>w. w) m = m"
  by (cases m) simp_all

lemma bth_mask_neq_0:
  "BTH_SE_MASK \<noteq> 0" "BTH_MIG_MASK \<noteq> 0" "BTH_FECN_MASK \<noteq> 0" "BTH_BECN_MASK \<noteq> 0"
  "BTH_ACK_MASK \<noteq> 0"
  by (simp_all add: bth_mask_defs)

section \<open>The accessors meet the field contract\<close>

interpretation bth_opcode_acc: field_access raw_bth_opcode raw_bth_set_opcode "\<lambda>v. v" 0 1
  by (rule field_access_overwrite [where 'a = 8 and dec = "\<lambda>w. w"
        and enc = "\<lambda>v. v"])
    (simp_all add: raw_bth_opcode_def raw_bth_set_opcode_def map_res_id)

interpretation bth_se_acc: field_access raw_bth_se raw_bth_set_se "\<lambda>v. v" 1 2
  by (rule field_access_rmw [where 'a = 8 and dec = "\<lambda>w. BTH_SE_MASK AND w \<noteq> 0"
        and enc = "\<lambda>w v. if v then w OR BTH_SE_MASK else w AND NOT BTH_SE_MASK"])
    (simp_all add: raw_bth_se_def raw_bth_set_se_def flag_read_write bth_mask_neq_0)

interpretation bth_mig_acc: field_access raw_bth_mig raw_bth_set_mig "\<lambda>v. v" 1 2
  by (rule field_access_rmw [where 'a = 8 and dec = "\<lambda>w. BTH_MIG_MASK AND w \<noteq> 0"
        and enc = "\<lambda>w v. if v then w OR BTH_MIG_MASK else w AND NOT BTH_MIG_MASK"])
    (simp_all add: raw_bth_mig_def raw_bth_set_mig_def flag_read_write bth_mask_neq_0)

interpretation bth_pad_acc: field_access raw_bth_pad raw_bth_set_pad "\<lambda>v. v AND 3" 1 2
  by (rule field_access_rmw [where 'a = 8 and dec = "\<lambda>w. drop_bit 4 (BTH_PAD_MASK AND w)"
        and enc = "\<lambda>w v. (BTH_PAD_MASK AND push_bit 4 v) OR (NOT BTH_PAD_MASK AND w)"])
    (simp_all add: raw_bth_pad_def raw_bth_set_pad_def field_read_write pad_read_write)

interpretation bth_tver_acc: field_access raw_bth_tver raw_bth_set_tver "\<lambda>v. BTH_TVER_MASK AND v" 1 2
  by (rule field_access_rmw [where 'a = 8 and dec = "\<lambda>w. BTH_TVER_MASK AND w"
        and enc = "\<lambda>w v. (BTH_TVER_MASK AND v) OR (NOT BTH_TVER_MASK AND w)"])
    (simp_all add: raw_bth_tver_def raw_bth_set_tver_def field_read_write)

interpretation bth_pkey_acc: field_access raw_bth_pkey raw_bth_set_pkey "\<lambda>v. v" 2 4
  by (rule field_access_overwrite [where 'a = 16 and dec = "\<lambda>w. ntohs w"
        and enc = "\<lambda>v. htons v"])
    (simp_all add: raw_bth_pkey_def raw_bth_set_pkey_def rxe_byteorder)

interpretation bth_qpn_acc: field_access raw_bth_qpn raw_bth_set_qpn "\<lambda>v. BTH_QPN_MASK AND v" 4 8
  by (rule field_access_rmw [where 'a = 32 and dec = "\<lambda>w. BTH_QPN_MASK AND ntohl w"
        and enc = "\<lambda>w v. htonl ((BTH_QPN_MASK AND v) OR (NOT BTH_QPN_MASK AND ntohl w))"])
    (simp_all add: raw_bth_qpn_def raw_bth_set_qpn_def n32.masked_read_write)

interpretation bth_fecn_acc: field_access raw_bth_fecn raw_bth_set_fecn "\<lambda>v. v" 4 8
  by (rule field_access_rmw [where 'a = 32 and dec = "\<lambda>w. htonl BTH_FECN_MASK AND w \<noteq> 0"
        and enc = "\<lambda>w v. if v then w OR htonl BTH_FECN_MASK else w AND NOT (htonl BTH_FECN_MASK)"])
    (simp_all add: raw_bth_fecn_def raw_bth_set_fecn_def flag_read_write htonl_neq_0 bth_mask_neq_0)

interpretation bth_becn_acc: field_access raw_bth_becn raw_bth_set_becn "\<lambda>v. v" 4 8
  by (rule field_access_rmw [where 'a = 32 and dec = "\<lambda>w. htonl BTH_BECN_MASK AND w \<noteq> 0"
        and enc = "\<lambda>w v. if v then w OR htonl BTH_BECN_MASK else w AND NOT (htonl BTH_BECN_MASK)"])
    (simp_all add: raw_bth_becn_def raw_bth_set_becn_def flag_read_write htonl_neq_0 bth_mask_neq_0)

interpretation bth_ack_acc: field_access raw_bth_ack raw_bth_set_ack "\<lambda>v. v" 8 12
  by (rule field_access_rmw [where 'a = 32 and dec = "\<lambda>w. htonl BTH_ACK_MASK AND w \<noteq> 0"
        and enc = "\<lambda>w v. if v then w OR htonl BTH_ACK_MASK else w AND NOT (htonl BTH_ACK_MASK)"])
    (simp_all add: raw_bth_ack_def raw_bth_set_ack_def flag_read_write htonl_neq_0 bth_mask_neq_0)

interpretation bth_psn_acc: field_access raw_bth_psn raw_bth_set_psn "\<lambda>v. BTH_PSN_MASK AND v" 8 12
  by (rule field_access_rmw [where 'a = 32 and dec = "\<lambda>w. BTH_PSN_MASK AND ntohl w"
        and enc = "\<lambda>w v. htonl ((BTH_PSN_MASK AND v) OR (NOT BTH_PSN_MASK AND ntohl w))"])
    (simp_all add: raw_bth_psn_def raw_bth_set_psn_def n32.masked_read_write)

interpretation rdeth_een_acc: field_access raw_rdeth_een raw_rdeth_set_een "\<lambda>v. RDETH_EEN_MASK AND v" 0 4
  by (rule field_access_overwrite [where 'a = 32 and dec = "\<lambda>w. RDETH_EEN_MASK AND ntohl w"
        and enc = "\<lambda>v. htonl (RDETH_EEN_MASK AND v)"])
    (simp_all add: raw_rdeth_een_def raw_rdeth_set_een_def rxe_byteorder and.assoc [symmetric])

interpretation deth_qkey_acc: field_access raw_deth_qkey raw_deth_set_qkey "\<lambda>v. v" 0 4
  by (rule field_access_overwrite [where 'a = 32 and dec = "\<lambda>w. ntohl w"
        and enc = "\<lambda>v. htonl v"])
    (simp_all add: raw_deth_qkey_def raw_deth_set_qkey_def rxe_byteorder)

interpretation deth_sqp_acc: field_access raw_deth_sqp raw_deth_set_sqp "\<lambda>v. DETH_SQP_MASK AND v" 4 8
  by (rule field_access_overwrite [where 'a = 32 and dec = "\<lambda>w. DETH_SQP_MASK AND ntohl w"
        and enc = "\<lambda>v. htonl (DETH_SQP_MASK AND v)"])
    (simp_all add: raw_deth_sqp_def raw_deth_set_sqp_def rxe_byteorder and.assoc [symmetric])

interpretation reth_va_acc: field_access raw_reth_va raw_reth_set_va "\<lambda>v. v" 0 8
  by (rule field_access_overwrite [where 'a = 64 and dec = "\<lambda>w. be64toh w"
        and enc = "\<lambda>v. htobe64 v"])
    (simp_all add: raw_reth_va_def raw_reth_set_va_def rxe_byteorder)

interpretation reth_rkey_acc: field_access raw_reth_rkey raw_reth_set_rkey "\<lambda>v. v" 8 12
  by (rule field_access_overwrite [where 'a = 32 and dec = "\<lambda>w. ntohl w"
        and enc = "\<lambda>v. htonl v"])
    (simp_all add: raw_reth_rkey_def raw_reth_set_rkey_def rxe_byteorder)

interpretation reth_len_acc: field_access raw_reth_len raw_reth_set_len "\<lambda>v. v" 12 16
  by (rule field_access_overwrite [where 'a = 32 and dec = "\<lambda>w. ntohl w"
        and enc = "\<lambda>v. htonl v"])
    (simp_all add: raw_reth_len_def raw_reth_set_len_def rxe_byteorder)

interpretation atmeth_va_acc: field_access raw_atmeth_va raw_atmeth_set_va "\<lambda>v. v" 0 8
  by (rule field_access_overwrite [where 'a = 64 and dec = "\<lambda>w. be64toh w"
        and enc = "\<lambda>v. htobe64 v"])
    (simp_all add: raw_atmeth_va_def raw_atmeth_set_va_def rxe_byteorder)

interpretation atmeth_rkey_acc: field_access raw_atmeth_rkey raw_atmeth_set_rkey "\<lambda>v. v" 8 12
  by (rule field_access_overwrite [where 'a = 32 and dec = "\<lambda>w. ntohl w"
        and enc = "\<lambda>v. htonl v"])
    (simp_all add: raw_atmeth_rkey_def raw_atmeth_set_rkey_def rxe_byteorder)

interpretation atmeth_swap_add_acc: field_access raw_atmeth_swap_add raw_atmeth_set_swap_add "\<lambda>v. v" 12 20
  by (rule field_access_overwrite [where 'a = 64 and dec = "\<lambda>w. be64toh w"
        and enc = "\<lambda>v. htobe64 v"])
    (simp_all add: raw_atmeth_swap_add_def raw_atmeth_set_swap_add_def rxe_byteorder)

interpretation atmeth_comp_acc: field_access raw_atmeth_comp raw_atmeth_set_comp "\<lambda>v. v" 20 28
  by (rule field_access_overwrite [where 'a = 64 and dec = "\<lambda>w. be64toh w"
        and enc = "\<lambda>v. htobe64 v"])
    (simp_all add: raw_atmeth_comp_def raw_atmeth_set_comp_def rxe_byteorder)

interpretation aeth_syn_acc: field_access raw_aeth_syn raw_aeth_set_syn "\<lambda>v. v" 0 4
  by (rule field_access_rmw [where 'a = 32 and dec = "\<lambda>w. ucast (drop_bit 24 (AETH_SYN_MASK AND ntohl w))"
        and enc = "\<lambda>w v. htonl ((AETH_SYN_MASK AND push_bit 24 (ucast v)) OR (NOT AETH_SYN_MASK AND ntohl w))"])
    (simp_all add: raw_aeth_syn_def raw_aeth_set_syn_def n32.masked_read_write syn_read_write)

interpretation aeth_msn_acc: field_access raw_aeth_msn raw_aeth_set_msn "\<lambda>v. AETH_MSN_MASK AND v" 0 4
  by (rule field_access_rmw [where 'a = 32 and dec = "\<lambda>w. AETH_MSN_MASK AND ntohl w"
        and enc = "\<lambda>w v. htonl ((AETH_MSN_MASK AND v) OR (NOT AETH_MSN_MASK AND ntohl w))"])
    (simp_all add: raw_aeth_msn_def raw_aeth_set_msn_def n32.masked_read_write)

interpretation atmack_orig_acc: field_access raw_atmack_orig raw_atmack_set_orig "\<lambda>v. v" 0 8
  by (rule field_access_overwrite [where 'a = 64 and dec = "\<lambda>w. be64toh w"
        and enc = "\<lambda>v. htobe64 v"])
    (simp_all add: raw_atmack_orig_def raw_atmack_set_orig_def rxe_byteorder)

interpretation immdt_imm_acc: field_access raw_immdt_imm raw_immdt_set_imm "\<lambda>v. v" 0 4
  by (rule field_access_overwrite [where 'a = 32 and dec = "\<lambda>w. w"
        and enc = "\<lambda>v. v"])
    (simp_all add: raw_immdt_imm_def raw_immdt_set_imm_def map_res_id)

interpretation ieth_rkey_acc: field_access raw_ieth_rkey raw_ieth_set_rkey "\<lambda>v. v" 0 4
  by (rule field_access_overwrite [where 'a = 32 and dec = "\<lambda>w. ntohl w"
        and enc = "\<lambda>v. htonl v"])
    (simp_all add: raw_ieth_rkey_def raw_ieth_set_rkey_def rxe_byteorder)

section \<open>Fields that share a word\<close>

text \<open>Bits of the converted word that a write does not touch are the same afterwards.\<close>

lemma load32_after_store:
  "store m a (w :: u32) = Inr m' \<Longrightarrow> load m' a = Inr w"
  by (rule load_store) simp_all

lemma qpn_masks_disjoint:
  "BTH_FECN_MASK AND BTH_QPN_MASK = 0" "BTH_BECN_MASK AND BTH_QPN_MASK = 0"
  "BTH_RESV6A_MASK AND BTH_QPN_MASK = 0" "BTH_QPN_MASK AND BTH_BECN_MASK = 0"
  "BTH_FECN_MASK AND BTH_BECN_MASK = 0" "BTH_RESV6A_MASK AND BTH_BECN_MASK = 0"
  by (simp_all add: bth_mask_defs)

lemma becn_write_other:
  assumes "other AND BTH_BECN_MASK = 0"
  shows "other AND ntohl (if v then w OR htonl BTH_BECN_MASK else w AND NOT (htonl BTH_BECN_MASK))
    = other AND ntohl w"
  using flag_write_other [OF assms, of v "ntohl w"]
  by (simp add: n32.ntoh_set_flag n32.ntoh_clear_flag split: if_splits)

text \<open>The bytes of the word with the QP number: its lowest address has the congestion bits.\<close>

lemma load32_bytes: "load m a = Inr (w :: u32) \<Longrightarrow> i < 4 \<Longrightarrow> le_bytes w ! i = m ! (a + i)"
  using le_bytes_of_le_bytes [of "take 4 (drop a m)", where 'a = 32]
  by (auto simp: load_def split: if_splits)

lemma htonl_qpn_masks:
  "htonl BTH_QPN_MASK = push_bit 8 (mask 24)"
  "htonl ((BTH_FECN_MASK OR BTH_BECN_MASK) OR BTH_RESV6A_MASK) = mask 8"
  by code_simp+

lemma htonl_bitwise:
  "htonl (v OR w) = htonl v OR htonl w" "htonl (v AND w) = htonl v AND htonl w" "htonl (NOT w) = NOT (htonl w)"
  "htonl (ntohl w) = w"
  by (simp_all add: byteorder_defs bswap_or bswap_and bswap_not bswap_bswap)

lemma nth_le_bytes: "i < LENGTH('a) div 8 \<Longrightarrow> le_bytes (w :: 'a::len word) ! i = ucast (drop_bit (8 * i) w)"
  by (simp add: le_bytes_def)

lemma qpn_word_bytes:
  shows "i < 4 \<Longrightarrow> le_bytes (htonl (BTH_FECN_MASK OR BTH_BECN_MASK OR BTH_RESV6A_MASK OR
      (BTH_QPN_MASK AND ntohl w))) ! i = (if i = 0 then 0xff else le_bytes w ! i)"
    and "le_bytes (htonl ((BTH_QPN_MASK AND v) OR (NOT BTH_QPN_MASK AND ntohl w))) ! 0 = le_bytes w ! 0"
proof -
  have e: "htonl (BTH_FECN_MASK OR BTH_BECN_MASK OR BTH_RESV6A_MASK OR (BTH_QPN_MASK AND ntohl w)) =
      mask 8 OR (push_bit 8 (mask 24) AND w)"
    by (simp only: or.assoc [symmetric] htonl_bitwise(1) [of _ "BTH_QPN_MASK AND ntohl w"] htonl_qpn_masks
        htonl_bitwise(2,4))
  show "le_bytes (htonl (BTH_FECN_MASK OR BTH_BECN_MASK OR BTH_RESV6A_MASK OR
      (BTH_QPN_MASK AND ntohl w))) ! i = (if i = 0 then 0xff else le_bytes w ! i)" if "i < 4"
  proof -
    have m: "(0xff :: byte) = mask 8" by (simp add: mask_eq_exp_minus_1)
    have "le_bytes (mask 8 OR (push_bit 8 (mask 24) AND w)) ! 0 = mask 8"
      by (simp add: nth_le_bytes) (auto simp: bit_simps simp del: unsigned_or_eq intro!: bit_word_eqI)
    moreover have "le_bytes (mask 8 OR (push_bit 8 (mask 24) AND w)) ! i = le_bytes w ! i" if "0 < i" "i < 4"
      using that by (auto simp: nth_le_bytes bit_simps intro!: bit_word_eqI)
    ultimately show ?thesis unfolding e m using that by simp
  qed
  show "le_bytes (htonl ((BTH_QPN_MASK AND v) OR (NOT BTH_QPN_MASK AND ntohl w))) ! 0 = le_bytes w ! 0"
    by (auto simp: nth_le_bytes htonl_bitwise htonl_qpn_masks bit_simps intro!: bit_word_eqI)
qed

lemma qpn_store_frame:
  assumes w: "load m (a + 4) = Inr w"
    and st: "store m (a + 4) (htonl ((BTH_QPN_MASK AND v) OR (NOT BTH_QPN_MASK AND ntohl w))) = Inr m'"
    and i: "i < length m" "i < a + 5 \<or> a + 8 \<le> i"
  shows "m' ! i = m ! i"
  using store_nth [OF st i(1)] i(2) qpn_word_bytes(2) [of v w] load32_bytes [OF w, of 0]
  by (cases "i = a + 4") auto

text \<open>
  C31: \<^verbatim>\<open>__bth_set_qpn\<close> stores the low 24 bits of the QP number and nothing else: the
  FECN and BECN bits and the six reserved bits that share its word, and the opcode, the four fields of the flags byte, the
  P_Key, the PSN and the acknowledge bit read as before, and no byte of the memory changes outside the three of the QP number.
\<close>

theorem bth_set_qpn_spec:
  assumes "raw_bth_set_qpn m a v = Inr m'"
  shows "raw_bth_qpn m' a = Inr (v AND 0x00ffffff)
    \<and> raw_bth_fecn m' a = raw_bth_fecn m a
    \<and> raw_bth_becn m' a = raw_bth_becn m a
    \<and> raw_bth_resv6a m' a = raw_bth_resv6a m a
    \<and> raw_bth_opcode m' a = raw_bth_opcode m a
    \<and> raw_bth_se m' a = raw_bth_se m a \<and> raw_bth_mig m' a = raw_bth_mig m a
    \<and> raw_bth_pad m' a = raw_bth_pad m a \<and> raw_bth_tver m' a = raw_bth_tver m a
    \<and> raw_bth_pkey m' a = raw_bth_pkey m a
    \<and> raw_bth_psn m' a = raw_bth_psn m a
    \<and> raw_bth_ack m' a = raw_bth_ack m a
    \<and> length m' = length m \<and> (\<forall>i < length m. i < a + 5 \<or> a + 8 \<le> i \<longrightarrow> m' ! i = m ! i)"
proof -
  obtain w where w: "load m (a + 4) = Inr w"
    and st: "store m (a + 4) (htonl ((BTH_QPN_MASK AND v) OR (NOT BTH_QPN_MASK AND ntohl w))) = Inr m'"
    using assms by (auto simp: raw_bth_set_qpn_def bind_res_eq_Inr_iff)
  note w' = load32_after_store [OF st]
  note keep = n32.masked_write_other [where msk = BTH_QPN_MASK and v = v]
  have "raw_bth_fecn m' a = raw_bth_fecn m a" "raw_bth_becn m' a = raw_bth_becn m a"
    "raw_bth_resv6a m' a = raw_bth_resv6a m a"
    by (simp_all add: raw_bth_fecn_def raw_bth_becn_def raw_bth_resv6a_def w w' n32.raw_flag_iff
        keep qpn_masks_disjoint del: drop_bit_and)
  moreover have "raw_bth_qpn m' a = Inr (v AND 0x00ffffff)"
    using bth_qpn_acc.get_put [OF assms] by (simp add: BTH_QPN_MASK_def and.commute)
  moreover have "raw_bth_opcode m' a = raw_bth_opcode m a" "raw_bth_pkey m' a = raw_bth_pkey m a"
    "raw_bth_psn m' a = raw_bth_psn m a" "raw_bth_ack m' a = raw_bth_ack m a"
    "raw_bth_se m' a = raw_bth_se m a" "raw_bth_mig m' a = raw_bth_mig m a"
    "raw_bth_pad m' a = raw_bth_pad m a" "raw_bth_tver m' a = raw_bth_tver m a"
    by (simp_all add: raw_bth_opcode_def raw_bth_pkey_def raw_bth_psn_def raw_bth_ack_def raw_bth_se_def
        raw_bth_mig_def raw_bth_pad_def raw_bth_tver_def load_store_other [OF st])
  moreover have "m' ! i = m ! i" if "i < length m" "i < a + 5 \<or> a + 8 \<le> i" for i
    by (rule qpn_store_frame [OF w st that])
  ultimately show ?thesis using store_length [OF st] by simp
qed

theorem bth_set_qpn_spec_witness:
  "\<exists>m'. raw_bth_set_qpn (replicate 12 0xff) 0 0xd2 = Inr m' \<and>
     raw_bth_qpn m' 0 = Inr 0xd2 \<and> raw_bth_becn m' 0 = raw_bth_becn (replicate 12 0xff) 0"
proof -
  obtain m' where m': "raw_bth_set_qpn (replicate 12 0xff) 0 0xd2 = Inr m'"
    using bth_qpn_acc.put_ok [of 0 "replicate 12 0xff"] by auto
  then show ?thesis using bth_set_qpn_spec [OF m'] by auto
qed

text \<open>
  \<^verbatim>\<open>__bth_set_resv6a\<close> does not clear the reserved bits of the word, it replaces the word:
  whatever the header held, afterwards the destination QP number reads \<^verbatim>\<open>0xffffff\<close> and both
  congestion bits read set.  (\<^verbatim>\<open>__bth_set_resv7\<close>, its counterpart for the PSN word, keeps the
  PSN.)
\<close>

theorem bth_set_resv6a_destroys_qpn:
  assumes "raw_bth_set_resv6a m a = Inr m'"
  shows "raw_bth_qpn m' a = Inr 0x00ffffff \<and> raw_bth_fecn m' a = Inr True \<and>
    raw_bth_becn m' a = Inr True \<and> raw_bth_resv6a m' a = Inr 0"
proof -
  have "store m (a + 4) (htonl (NOT BTH_RESV6A_MASK)) = Inr m'"
    using assms by (simp add: raw_bth_set_resv6a_def)
  note w' = load32_after_store [OF this]
  show ?thesis
    by (simp add: raw_bth_qpn_def raw_bth_fecn_def raw_bth_becn_def raw_bth_resv6a_def w'
        n32.raw_flag_iff n32.ntoh_hton bth_mask_defs)
qed

theorem bth_set_resv6a_destroys_qpn_witness:
  "\<exists>m'. raw_bth_set_resv6a (replicate 12 0) 0 = Inr m' \<and> raw_bth_qpn m' 0 = Inr 0xffffff \<and>
     raw_bth_qpn (replicate 12 0) 0 = Inr 0"
proof -
  obtain m' where m': "raw_bth_set_resv6a (replicate 12 0) 0 = Inr m'"
    using store_in_bounds [where 'a = 32, of 4 "replicate 12 0"] by (auto simp: raw_bth_set_resv6a_def)
  moreover have "raw_bth_qpn (replicate 12 0) 0 = Inr 0"
    by code_simp
  ultimately show ?thesis using bth_set_resv6a_destroys_qpn [OF m'] by simp
qed

lemma bth_set_becn_keeps:
  assumes "raw_bth_set_becn m a v = Inr m'"
  shows "raw_bth_qpn m' a = raw_bth_qpn m a" "raw_bth_fecn m' a = raw_bth_fecn m a"
    "raw_bth_resv6a m' a = raw_bth_resv6a m a"
proof -
  obtain w where w: "load m (a + 4) = Inr w"
    and st: "store m (a + 4) (if v then w OR htonl BTH_BECN_MASK else w AND NOT (htonl BTH_BECN_MASK))
      = Inr m'"
    using assms by (auto simp: raw_bth_set_becn_def bind_res_eq_Inr_iff)
  note w' = load32_after_store [OF st]
  show "raw_bth_qpn m' a = raw_bth_qpn m a" "raw_bth_fecn m' a = raw_bth_fecn m a"
    "raw_bth_resv6a m' a = raw_bth_resv6a m a"
    by (simp_all only: raw_bth_qpn_def raw_bth_fecn_def raw_bth_resv6a_def offsetof_rxe_bth w w'
        n32.raw_flag_iff becn_write_other qpn_masks_disjoint res_simps)
qed

end
