(* ===== verification/Rxe_Pkt.thy ===== *)
theory Rxe_Pkt
  imports Rxe_Hdr
begin

text \<open>
  \<^verbatim>\<open>src/rxe_hdr.h\<close>, the accessors that take a \<^verbatim>\<open>rxe_pkt_info\<close>: they find the header from
  the packet's BTH offset and, for the extended headers, from the opcode table, which is the
  argument \<open>tbl\<close> because no source of the library defines it.  \<^verbatim>\<open>bth_init\<close> fills a whole BTH; the
  theorem at the end says what every accessor reads back from it.
\<close>

section \<open>Packet descriptor\<close>

text \<open>The pointers to the device, queue pair and work request are never dereferenced here and are left out.\<close>

record rxe_pkt_info =
  hdr :: nat
  pkt_mask :: u32
  pkt_psn :: u32
  pkey_index :: u16
  paylen :: u16
  port_num :: u8
  pkt_opcode :: u8
  pkt_offset :: u8

definition header_at :: "(u8 \<Rightarrow> rxe_opcode_info) \<Rightarrow> rxe_pkt_info \<Rightarrow> rxe_hdr_type \<Rightarrow> nat" where
  "header_at tbl pkt t =
     nat (int (hdr pkt + unat (pkt_offset pkt)) + info_offset (tbl (pkt_opcode pkt)) t)"

section \<open>Accessors\<close>

subsection \<open>Base Transport Header\<close>

definition bth_opcode :: "byte list \<Rightarrow> rxe_pkt_info \<Rightarrow> u8 res" where
  "bth_opcode m pkt =
     raw_bth_opcode m (hdr pkt + unat (pkt_offset pkt))"

definition bth_set_opcode :: "byte list \<Rightarrow> rxe_pkt_info \<Rightarrow> u8 \<Rightarrow> byte list res" where
  "bth_set_opcode m pkt opc =
     raw_bth_set_opcode m (hdr pkt + unat (pkt_offset pkt)) opc"

definition bth_se :: "byte list \<Rightarrow> rxe_pkt_info \<Rightarrow> bool res" where
  "bth_se m pkt =
     raw_bth_se m (hdr pkt + unat (pkt_offset pkt))"

definition bth_set_se :: "byte list \<Rightarrow> rxe_pkt_info \<Rightarrow> bool \<Rightarrow> byte list res" where
  "bth_set_se m pkt se =
     raw_bth_set_se m (hdr pkt + unat (pkt_offset pkt)) se"

definition bth_mig :: "byte list \<Rightarrow> rxe_pkt_info \<Rightarrow> bool res" where
  "bth_mig m pkt =
     raw_bth_mig m (hdr pkt + unat (pkt_offset pkt))"

definition bth_set_mig :: "byte list \<Rightarrow> rxe_pkt_info \<Rightarrow> bool \<Rightarrow> byte list res" where
  "bth_set_mig m pkt mig =
     raw_bth_set_mig m (hdr pkt + unat (pkt_offset pkt)) mig"

definition bth_pad :: "byte list \<Rightarrow> rxe_pkt_info \<Rightarrow> u8 res" where
  "bth_pad m pkt =
     raw_bth_pad m (hdr pkt + unat (pkt_offset pkt))"

definition bth_set_pad :: "byte list \<Rightarrow> rxe_pkt_info \<Rightarrow> u8 \<Rightarrow> byte list res" where
  "bth_set_pad m pkt pad =
     raw_bth_set_pad m (hdr pkt + unat (pkt_offset pkt)) pad"

definition bth_tver :: "byte list \<Rightarrow> rxe_pkt_info \<Rightarrow> u8 res" where
  "bth_tver m pkt =
     raw_bth_tver m (hdr pkt + unat (pkt_offset pkt))"

definition bth_set_tver :: "byte list \<Rightarrow> rxe_pkt_info \<Rightarrow> u8 \<Rightarrow> byte list res" where
  "bth_set_tver m pkt tver =
     raw_bth_set_tver m (hdr pkt + unat (pkt_offset pkt)) tver"

definition bth_pkey :: "byte list \<Rightarrow> rxe_pkt_info \<Rightarrow> u16 res" where
  "bth_pkey m pkt =
     raw_bth_pkey m (hdr pkt + unat (pkt_offset pkt))"

definition bth_set_pkey :: "byte list \<Rightarrow> rxe_pkt_info \<Rightarrow> u16 \<Rightarrow> byte list res" where
  "bth_set_pkey m pkt pkey =
     raw_bth_set_pkey m (hdr pkt + unat (pkt_offset pkt)) pkey"

definition bth_qpn :: "byte list \<Rightarrow> rxe_pkt_info \<Rightarrow> u32 res" where
  "bth_qpn m pkt =
     raw_bth_qpn m (hdr pkt + unat (pkt_offset pkt))"

definition bth_set_qpn :: "byte list \<Rightarrow> rxe_pkt_info \<Rightarrow> u32 \<Rightarrow> byte list res" where
  "bth_set_qpn m pkt qpn =
     raw_bth_set_qpn m (hdr pkt + unat (pkt_offset pkt)) qpn"

definition bth_fecn :: "byte list \<Rightarrow> rxe_pkt_info \<Rightarrow> bool res" where
  "bth_fecn m pkt =
     raw_bth_fecn m (hdr pkt + unat (pkt_offset pkt))"

definition bth_set_fecn :: "byte list \<Rightarrow> rxe_pkt_info \<Rightarrow> bool \<Rightarrow> byte list res" where
  "bth_set_fecn m pkt fecn =
     raw_bth_set_fecn m (hdr pkt + unat (pkt_offset pkt)) fecn"

definition bth_becn :: "byte list \<Rightarrow> rxe_pkt_info \<Rightarrow> bool res" where
  "bth_becn m pkt =
     raw_bth_becn m (hdr pkt + unat (pkt_offset pkt))"

definition bth_set_becn :: "byte list \<Rightarrow> rxe_pkt_info \<Rightarrow> bool \<Rightarrow> byte list res" where
  "bth_set_becn m pkt becn =
     raw_bth_set_becn m (hdr pkt + unat (pkt_offset pkt)) becn"

definition bth_resv6a :: "byte list \<Rightarrow> rxe_pkt_info \<Rightarrow> u8 res" where
  "bth_resv6a m pkt =
     raw_bth_resv6a m (hdr pkt + unat (pkt_offset pkt))"

definition bth_set_resv6a :: "byte list \<Rightarrow> rxe_pkt_info \<Rightarrow> byte list res" where
  "bth_set_resv6a m pkt =
     raw_bth_set_resv6a m (hdr pkt + unat (pkt_offset pkt))"

definition bth_ack :: "byte list \<Rightarrow> rxe_pkt_info \<Rightarrow> bool res" where
  "bth_ack m pkt =
     raw_bth_ack m (hdr pkt + unat (pkt_offset pkt))"

definition bth_set_ack :: "byte list \<Rightarrow> rxe_pkt_info \<Rightarrow> bool \<Rightarrow> byte list res" where
  "bth_set_ack m pkt ack =
     raw_bth_set_ack m (hdr pkt + unat (pkt_offset pkt)) ack"

definition bth_set_resv7 :: "byte list \<Rightarrow> rxe_pkt_info \<Rightarrow> byte list res" where
  "bth_set_resv7 m pkt =
     raw_bth_set_resv7 m (hdr pkt + unat (pkt_offset pkt))"

definition bth_psn :: "byte list \<Rightarrow> rxe_pkt_info \<Rightarrow> u32 res" where
  "bth_psn m pkt =
     raw_bth_psn m (hdr pkt + unat (pkt_offset pkt))"

definition bth_set_psn :: "byte list \<Rightarrow> rxe_pkt_info \<Rightarrow> u32 \<Rightarrow> byte list res" where
  "bth_set_psn m pkt psn =
     raw_bth_set_psn m (hdr pkt + unat (pkt_offset pkt)) psn"

subsection \<open>Extended headers\<close>

definition rdeth_een :: "(u8 \<Rightarrow> rxe_opcode_info) \<Rightarrow> byte list \<Rightarrow> rxe_pkt_info \<Rightarrow> u32 res" where
  "rdeth_een tbl m pkt =
     raw_rdeth_een m (header_at tbl pkt RXE_RDETH)"

definition rdeth_set_een :: "(u8 \<Rightarrow> rxe_opcode_info) \<Rightarrow> byte list \<Rightarrow> rxe_pkt_info \<Rightarrow> u32 \<Rightarrow> byte list res" where
  "rdeth_set_een tbl m pkt een =
     raw_rdeth_set_een m (header_at tbl pkt RXE_RDETH) een"

definition deth_qkey :: "(u8 \<Rightarrow> rxe_opcode_info) \<Rightarrow> byte list \<Rightarrow> rxe_pkt_info \<Rightarrow> u32 res" where
  "deth_qkey tbl m pkt =
     raw_deth_qkey m (header_at tbl pkt RXE_DETH)"

definition deth_set_qkey :: "(u8 \<Rightarrow> rxe_opcode_info) \<Rightarrow> byte list \<Rightarrow> rxe_pkt_info \<Rightarrow> u32 \<Rightarrow> byte list res" where
  "deth_set_qkey tbl m pkt qkey =
     raw_deth_set_qkey m (header_at tbl pkt RXE_DETH) qkey"

definition deth_sqp :: "(u8 \<Rightarrow> rxe_opcode_info) \<Rightarrow> byte list \<Rightarrow> rxe_pkt_info \<Rightarrow> u32 res" where
  "deth_sqp tbl m pkt =
     raw_deth_sqp m (header_at tbl pkt RXE_DETH)"

definition deth_set_sqp :: "(u8 \<Rightarrow> rxe_opcode_info) \<Rightarrow> byte list \<Rightarrow> rxe_pkt_info \<Rightarrow> u32 \<Rightarrow> byte list res" where
  "deth_set_sqp tbl m pkt sqp =
     raw_deth_set_sqp m (header_at tbl pkt RXE_DETH) sqp"

definition reth_va :: "(u8 \<Rightarrow> rxe_opcode_info) \<Rightarrow> byte list \<Rightarrow> rxe_pkt_info \<Rightarrow> u64 res" where
  "reth_va tbl m pkt =
     raw_reth_va m (header_at tbl pkt RXE_RETH)"

definition reth_set_va :: "(u8 \<Rightarrow> rxe_opcode_info) \<Rightarrow> byte list \<Rightarrow> rxe_pkt_info \<Rightarrow> u64 \<Rightarrow> byte list res" where
  "reth_set_va tbl m pkt va =
     raw_reth_set_va m (header_at tbl pkt RXE_RETH) va"

definition reth_rkey :: "(u8 \<Rightarrow> rxe_opcode_info) \<Rightarrow> byte list \<Rightarrow> rxe_pkt_info \<Rightarrow> u32 res" where
  "reth_rkey tbl m pkt =
     raw_reth_rkey m (header_at tbl pkt RXE_RETH)"

definition reth_set_rkey :: "(u8 \<Rightarrow> rxe_opcode_info) \<Rightarrow> byte list \<Rightarrow> rxe_pkt_info \<Rightarrow> u32 \<Rightarrow> byte list res" where
  "reth_set_rkey tbl m pkt rkey =
     raw_reth_set_rkey m (header_at tbl pkt RXE_RETH) rkey"

definition reth_len :: "(u8 \<Rightarrow> rxe_opcode_info) \<Rightarrow> byte list \<Rightarrow> rxe_pkt_info \<Rightarrow> u32 res" where
  "reth_len tbl m pkt =
     raw_reth_len m (header_at tbl pkt RXE_RETH)"

definition reth_set_len :: "(u8 \<Rightarrow> rxe_opcode_info) \<Rightarrow> byte list \<Rightarrow> rxe_pkt_info \<Rightarrow> u32 \<Rightarrow> byte list res" where
  "reth_set_len tbl m pkt ln =
     raw_reth_set_len m (header_at tbl pkt RXE_RETH) ln"

definition atmeth_va :: "(u8 \<Rightarrow> rxe_opcode_info) \<Rightarrow> byte list \<Rightarrow> rxe_pkt_info \<Rightarrow> u64 res" where
  "atmeth_va tbl m pkt =
     raw_atmeth_va m (header_at tbl pkt RXE_ATMETH)"

definition atmeth_set_va :: "(u8 \<Rightarrow> rxe_opcode_info) \<Rightarrow> byte list \<Rightarrow> rxe_pkt_info \<Rightarrow> u64 \<Rightarrow> byte list res" where
  "atmeth_set_va tbl m pkt va =
     raw_atmeth_set_va m (header_at tbl pkt RXE_ATMETH) va"

definition atmeth_rkey :: "(u8 \<Rightarrow> rxe_opcode_info) \<Rightarrow> byte list \<Rightarrow> rxe_pkt_info \<Rightarrow> u32 res" where
  "atmeth_rkey tbl m pkt =
     raw_atmeth_rkey m (header_at tbl pkt RXE_ATMETH)"

definition atmeth_set_rkey :: "(u8 \<Rightarrow> rxe_opcode_info) \<Rightarrow> byte list \<Rightarrow> rxe_pkt_info \<Rightarrow> u32 \<Rightarrow> byte list res" where
  "atmeth_set_rkey tbl m pkt rkey =
     raw_atmeth_set_rkey m (header_at tbl pkt RXE_ATMETH) rkey"

definition atmeth_swap_add :: "(u8 \<Rightarrow> rxe_opcode_info) \<Rightarrow> byte list \<Rightarrow> rxe_pkt_info \<Rightarrow> u64 res" where
  "atmeth_swap_add tbl m pkt =
     raw_atmeth_swap_add m (header_at tbl pkt RXE_ATMETH)"

definition atmeth_set_swap_add :: "(u8 \<Rightarrow> rxe_opcode_info) \<Rightarrow> byte list \<Rightarrow> rxe_pkt_info \<Rightarrow> u64 \<Rightarrow> byte list res" where
  "atmeth_set_swap_add tbl m pkt swap_add =
     raw_atmeth_set_swap_add m (header_at tbl pkt RXE_ATMETH) swap_add"

definition atmeth_comp :: "(u8 \<Rightarrow> rxe_opcode_info) \<Rightarrow> byte list \<Rightarrow> rxe_pkt_info \<Rightarrow> u64 res" where
  "atmeth_comp tbl m pkt =
     raw_atmeth_comp m (header_at tbl pkt RXE_ATMETH)"

definition atmeth_set_comp :: "(u8 \<Rightarrow> rxe_opcode_info) \<Rightarrow> byte list \<Rightarrow> rxe_pkt_info \<Rightarrow> u64 \<Rightarrow> byte list res" where
  "atmeth_set_comp tbl m pkt cmp =
     raw_atmeth_set_comp m (header_at tbl pkt RXE_ATMETH) cmp"

definition aeth_syn :: "(u8 \<Rightarrow> rxe_opcode_info) \<Rightarrow> byte list \<Rightarrow> rxe_pkt_info \<Rightarrow> u8 res" where
  "aeth_syn tbl m pkt =
     raw_aeth_syn m (header_at tbl pkt RXE_AETH)"

definition aeth_set_syn :: "(u8 \<Rightarrow> rxe_opcode_info) \<Rightarrow> byte list \<Rightarrow> rxe_pkt_info \<Rightarrow> u8 \<Rightarrow> byte list res" where
  "aeth_set_syn tbl m pkt syn =
     raw_aeth_set_syn m (header_at tbl pkt RXE_AETH) syn"

definition aeth_msn :: "(u8 \<Rightarrow> rxe_opcode_info) \<Rightarrow> byte list \<Rightarrow> rxe_pkt_info \<Rightarrow> u32 res" where
  "aeth_msn tbl m pkt =
     raw_aeth_msn m (header_at tbl pkt RXE_AETH)"

definition aeth_set_msn :: "(u8 \<Rightarrow> rxe_opcode_info) \<Rightarrow> byte list \<Rightarrow> rxe_pkt_info \<Rightarrow> u32 \<Rightarrow> byte list res" where
  "aeth_set_msn tbl m pkt msn =
     raw_aeth_set_msn m (header_at tbl pkt RXE_AETH) msn"

definition atmack_orig :: "(u8 \<Rightarrow> rxe_opcode_info) \<Rightarrow> byte list \<Rightarrow> rxe_pkt_info \<Rightarrow> u64 res" where
  "atmack_orig tbl m pkt =
     raw_atmack_orig m (header_at tbl pkt RXE_ATMACK)"

definition atmack_set_orig :: "(u8 \<Rightarrow> rxe_opcode_info) \<Rightarrow> byte list \<Rightarrow> rxe_pkt_info \<Rightarrow> u64 \<Rightarrow> byte list res" where
  "atmack_set_orig tbl m pkt orig =
     raw_atmack_set_orig m (header_at tbl pkt RXE_ATMACK) orig"

definition immdt_imm :: "(u8 \<Rightarrow> rxe_opcode_info) \<Rightarrow> byte list \<Rightarrow> rxe_pkt_info \<Rightarrow> u32 res" where
  "immdt_imm tbl m pkt =
     raw_immdt_imm m (header_at tbl pkt RXE_IMMDT)"

definition immdt_set_imm :: "(u8 \<Rightarrow> rxe_opcode_info) \<Rightarrow> byte list \<Rightarrow> rxe_pkt_info \<Rightarrow> u32 \<Rightarrow> byte list res" where
  "immdt_set_imm tbl m pkt imm =
     raw_immdt_set_imm m (header_at tbl pkt RXE_IMMDT) imm"

definition ieth_rkey :: "(u8 \<Rightarrow> rxe_opcode_info) \<Rightarrow> byte list \<Rightarrow> rxe_pkt_info \<Rightarrow> u32 res" where
  "ieth_rkey tbl m pkt =
     raw_ieth_rkey m (header_at tbl pkt RXE_IETH)"

definition ieth_set_rkey :: "(u8 \<Rightarrow> rxe_opcode_info) \<Rightarrow> byte list \<Rightarrow> rxe_pkt_info \<Rightarrow> u32 \<Rightarrow> byte list res" where
  "ieth_set_rkey tbl m pkt rkey =
     raw_ieth_set_rkey m (header_at tbl pkt RXE_IETH) rkey"

section \<open>Whole headers\<close>

definition bth_init :: "byte list \<Rightarrow> rxe_pkt_info \<Rightarrow> u8 \<Rightarrow> bool \<Rightarrow> bool \<Rightarrow> u32 \<Rightarrow> u16 \<Rightarrow> u32 \<Rightarrow> bool
    \<Rightarrow> u32 \<Rightarrow> byte list res" where
  "bth_init m pkt opc se mig pad pkey qpn ack_req psn =
     (let bth = hdr pkt + unat (pkt_offset pkt);
          flags0 = ucast (push_bit 4 pad AND ucast BTH_PAD_MASK);
          flags1 = (if se then flags0 OR BTH_SE_MASK else flags0);
          flags2 = (if mig then flags1 OR BTH_MIG_MASK else flags1);
          psn1 = psn AND BTH_PSN_MASK;
          psn2 = (if ack_req then psn1 OR BTH_ACK_MASK else psn1)
      in bind_res (store m (bth + offsetof rxe_bth ''opcode'') opc) (\<lambda>m.
         bind_res (store m (bth + offsetof rxe_bth ''flags'') flags2) (\<lambda>m.
         bind_res (store m (bth + offsetof rxe_bth ''pkey'') (htons pkey)) (\<lambda>m.
         bind_res (store m (bth + offsetof rxe_bth ''qpn'') (htonl (qpn AND BTH_QPN_MASK))) (\<lambda>m.
         store m (bth + offsetof rxe_bth ''apsn'') (htonl psn2))))))"

definition header_size :: "(u8 \<Rightarrow> rxe_opcode_info) \<Rightarrow> rxe_pkt_info \<Rightarrow> u64" where
  "header_size tbl pkt = word_of_int (uint (pkt_offset pkt) + info_length (tbl (pkt_opcode pkt)))"

definition payload_addr :: "(u8 \<Rightarrow> rxe_opcode_info) \<Rightarrow> rxe_pkt_info \<Rightarrow> nat" where
  "payload_addr tbl pkt = header_at tbl pkt RXE_PAYLOAD"

definition payload_size :: "(u8 \<Rightarrow> rxe_opcode_info) \<Rightarrow> byte list \<Rightarrow> rxe_pkt_info \<Rightarrow> u64 res" where
  "payload_size tbl m pkt =
     map_res (\<lambda>pad. word_of_int (uint (paylen pkt) - info_offset (tbl (pkt_opcode pkt)) RXE_PAYLOAD
                                 - uint pad - RXE_ICRC_SIZE))
       (bth_pad m pkt)"

section \<open>Reading back an initialised header\<close>

lemma store_chain_loads:
  assumes "store m a (w1 :: u8) = Inr m1" "store m1 (a + 1) (w2 :: u8) = Inr m2"
    "store m2 (a + 2) (w3 :: u16) = Inr m3" "store m3 (a + 4) (w4 :: u32) = Inr m4"
    "store m4 (a + 8) (w5 :: u32) = Inr m5"
  shows "load m5 a = Inr w1" "load m5 (a + 1) = Inr w2" "load m5 (a + 2) = Inr w3"
    "load m5 (a + 4) = Inr w4" "load m5 (a + 8) = Inr w5"
  using load_store [OF _ assms(1)] load_store [OF _ assms(2)] load_store [OF _ assms(3)]
    load_store [OF _ assms(4)] load_store [OF _ assms(5)]
  by (simp_all add: load_store_other [OF assms(2)] load_store_other [OF assms(3)]
      load_store_other [OF assms(4)] load_store_other [OF assms(5)])

text \<open>The flag byte as a number: two pad bits below the migration bit and the event bit.\<close>

lemma word_neq_0_iff: "(w :: 'a::len word) \<noteq> 0 \<longleftrightarrow> (\<exists>n. bit w n)"
  by (metis bit_0_eq bit_eqI bot_apply bot_bool_def)

lemma init_flags:
  fixes p :: u32 and se mig ack :: bool
  defines "f0 \<equiv> ucast (push_bit 4 p AND ucast BTH_PAD_MASK) :: u8"
  defines "f \<equiv> (if mig then (if se then f0 OR BTH_SE_MASK else f0) OR BTH_MIG_MASK
     else (if se then f0 OR BTH_SE_MASK else f0))"
  shows "BTH_SE_MASK AND f \<noteq> 0 \<longleftrightarrow> se" "BTH_MIG_MASK AND f \<noteq> 0 \<longleftrightarrow> mig"
    "drop_bit 4 (BTH_PAD_MASK AND f) = ucast p AND 3" "BTH_TVER_MASK AND f = 0"
proof -
  have m: "BTH_SE_MASK = push_bit 7 1" "BTH_MIG_MASK = push_bit 6 1"
    "BTH_PAD_MASK = push_bit 4 (mask 2)" "BTH_TVER_MASK = mask 4" "(3 :: u8) = mask 2"
    by (simp_all add: bth_mask_defs push_bit_eq_mult mask_eq_exp_minus_1)
  have f0: "bit f0 n \<longleftrightarrow> 4 \<le> n \<and> n < 6 \<and> bit p (n - 4)" for n
    unfolding f0_def m(3) by (auto simp: bit_simps)
  have f: "bit f n \<longleftrightarrow> bit f0 n \<or> (n = 7 \<and> se) \<or> (n = 6 \<and> mig)" for n
    unfolding f_def m(1,2) by (auto simp: bit_simps simp flip: push_bit_of_1)
  have "bit (BTH_SE_MASK AND f) n \<longleftrightarrow> n = 7 \<and> se" for n
    unfolding m(1) by (auto simp: bit_simps f f0 simp flip: push_bit_of_1)
  then show "BTH_SE_MASK AND f \<noteq> 0 \<longleftrightarrow> se" by (simp add: word_neq_0_iff)
  have "bit (BTH_MIG_MASK AND f) n \<longleftrightarrow> n = 6 \<and> mig" for n
    unfolding m(2) by (auto simp: bit_simps f f0 simp flip: push_bit_of_1)
  then show "BTH_MIG_MASK AND f \<noteq> 0 \<longleftrightarrow> mig" by (simp add: word_neq_0_iff)
  show "drop_bit 4 (BTH_PAD_MASK AND f) = ucast p AND 3"
    unfolding m(3,5) by (rule bit_word_eqI) (auto simp: bit_simps f f0)
  show "BTH_TVER_MASK AND f = 0"
    unfolding m(4) by (rule bit_word_eqI) (auto simp: bit_simps f f0)
qed

lemma init_psn:
  fixes p :: u32 and se mig ack :: bool
  defines "w \<equiv> (if ack then (p AND BTH_PSN_MASK) OR BTH_ACK_MASK else p AND BTH_PSN_MASK)"
  shows "BTH_ACK_MASK AND w \<noteq> 0 \<longleftrightarrow> ack" "BTH_PSN_MASK AND w = p AND 0x00ffffff"
proof -
  have "BTH_ACK_MASK AND (p AND BTH_PSN_MASK) = p AND (BTH_PSN_MASK AND BTH_ACK_MASK)"
    by (simp add: ac_simps)
  then have a: "BTH_ACK_MASK AND (p AND BTH_PSN_MASK) = 0"
    by (simp add: bth_mask_defs)
  then show "BTH_ACK_MASK AND w \<noteq> 0 \<longleftrightarrow> ack"
    by (simp add: w_def bit.conj_disj_distrib bth_mask_defs)
  have "BTH_PSN_MASK AND (p AND BTH_PSN_MASK) = p AND 0x00ffffff"
    by (simp add: bth_mask_defs ac_simps)
  moreover have "BTH_PSN_MASK AND BTH_ACK_MASK = 0" by (simp add: bth_mask_defs)
  ultimately show "BTH_PSN_MASK AND w = p AND 0x00ffffff"
    by (simp add: w_def bit.conj_disj_distrib)
qed

text \<open>
  A BTH filled by \<^verbatim>\<open>bth_init\<close> reads back through the accessors as it was asked for:
  opcode, solicited-event and migration flags, the two bits of the pad count, partition key,
  24-bit destination QP number, acknowledge request and 24-bit PSN; header version and reserved
  bits are zero and both congestion bits are clear.
\<close>

theorem bth_init_reads_back:
  assumes "bth_init m pkt opc se mig pad pkey qpn ack psn = Inr m'"
  shows "bth_opcode m' pkt = Inr opc \<and> bth_se m' pkt = Inr se \<and> bth_mig m' pkt = Inr mig
    \<and> bth_pad m' pkt = Inr (ucast pad AND 3) \<and> bth_tver m' pkt = Inr 0
    \<and> bth_pkey m' pkt = Inr pkey \<and> bth_qpn m' pkt = Inr (qpn AND 0x00ffffff)
    \<and> bth_fecn m' pkt = Inr False \<and> bth_becn m' pkt = Inr False \<and> bth_resv6a m' pkt = Inr 0
    \<and> bth_ack m' pkt = Inr ack \<and> bth_psn m' pkt = Inr (psn AND 0x00ffffff)"
proof -
  define a where "a = hdr pkt + unat (pkt_offset pkt)"
  note flags = init_flags [where p = pad and se = se and mig = mig]
  note psns = init_psn [where p = psn and ack = ack]
  obtain m1 m2 m3 m4 where st: "store m a opc = Inr m1"
    "store m1 (a + 1) (if mig then (if se then ucast (push_bit 4 pad AND ucast BTH_PAD_MASK)
        OR BTH_SE_MASK else ucast (push_bit 4 pad AND ucast BTH_PAD_MASK)) OR BTH_MIG_MASK
      else (if se then ucast (push_bit 4 pad AND ucast BTH_PAD_MASK) OR BTH_SE_MASK
        else ucast (push_bit 4 pad AND ucast BTH_PAD_MASK))) = Inr m2"
    "store m2 (a + 2) (htons pkey) = Inr m3"
    "store m3 (a + 4) (htonl (qpn AND BTH_QPN_MASK)) = Inr m4"
    "store m4 (a + 8) (htonl (if ack then (psn AND BTH_PSN_MASK) OR BTH_ACK_MASK
       else psn AND BTH_PSN_MASK)) = Inr m'"
    using assms unfolding bth_init_def Let_def a_def [symmetric] offsetof_rxe_bth add_0_right
      bind_res_eq_Inr_iff by blast
  note ld = store_chain_loads [OF st]
  have q: "BTH_QPN_MASK AND (qpn AND BTH_QPN_MASK) = qpn AND 0x00ffffff"
    by (simp add: bth_mask_defs ac_simps)
  have z: "flag AND (qpn AND BTH_QPN_MASK) = 0" if "flag AND BTH_QPN_MASK = 0" for flag
    using that by (simp add: and.left_commute [of flag])
  show ?thesis
    unfolding bth_opcode_def bth_se_def bth_mig_def bth_pad_def bth_tver_def bth_pkey_def bth_qpn_def
      bth_fecn_def bth_becn_def bth_resv6a_def bth_ack_def bth_psn_def
      raw_bth_opcode_def raw_bth_se_def raw_bth_mig_def raw_bth_pad_def raw_bth_tver_def
      raw_bth_pkey_def raw_bth_qpn_def raw_bth_fecn_def raw_bth_becn_def raw_bth_resv6a_def
      raw_bth_ack_def raw_bth_psn_def a_def [symmetric] offsetof_rxe_bth add_0_right ld
      map_res_Inr n32.raw_flag_iff n32.ntoh_hton n16.ntoh_hton flags psns q z [OF qpn_masks_disjoint(1)]
      z [OF qpn_masks_disjoint(2)] z [OF qpn_masks_disjoint(3)]
    by simp
qed

theorem bth_init_reads_back_witness:
  "\<exists>m'. bth_init (replicate 12 0xff)
       \<lparr>hdr = 0, pkt_mask = 0, pkt_psn = 0, pkey_index = 0, paylen = 0, port_num = 1,
        pkt_opcode = 0x64, pkt_offset = 0\<rparr> 0x64 True False 2 0xffff 0x1000001 True 7 = Inr m' \<and>
     raw_bth_qpn m' 0 = Inr 1"
proof -
  define pkt where "pkt = \<lparr>hdr = 0, pkt_mask = 0, pkt_psn = 0, pkey_index = 0, paylen = 0,
    port_num = 1, pkt_opcode = 0x64, pkt_offset = 0\<rparr>"
  obtain m' where m': "bth_init (replicate 12 0xff) pkt 0x64 True False 2 0xffff 0x1000001 True 7
      = Inr m'"
    by (simp add: bth_init_def Let_def store_def pkt_def)
  have "bth_qpn m' pkt = Inr 1" using bth_init_reads_back [OF m'] by simp
  then show ?thesis using m' by (auto simp: bth_qpn_def pkt_def)
qed

end
