(* ===== verification/Bitfield_Ops.thy ===== *)
theory Bitfield_Ops
  imports Bitfield Bytes
begin

text \<open>
  The function family that \<^verbatim>\<open>____MAKE_OP\<close> of \<^verbatim>\<open>src/bitfield.h\<close> generates for each width and byte order.  The conversions
  to and from the stored order are parameters: the identity for the \<^verbatim>\<open>u8\<close> to \<^verbatim>\<open>u64\<close> and (on a little-endian host) the
  \<^verbatim>\<open>le16\<close> to \<^verbatim>\<open>le64\<close> members, byte reversal for \<^verbatim>\<open>be16\<close> to \<^verbatim>\<open>be64\<close>.  Products and quotients are computed in 64 bits.
\<close>

section \<open>Definitions\<close>

text \<open>The condition under which the build stops with \<^verbatim>\<open>__bad_mask\<close>.\<close>

definition bad_mask :: "u64 \<Rightarrow> bool" where
  "bad_mask field \<longleftrightarrow> (field OR (field - 1)) AND ((field OR (field - 1)) + 1) \<noteq> 0"

definition field_multiplier :: "u64 \<Rightarrow> u64" where
  "field_multiplier field = field AND - field"

definition field_multiplier_check :: "u64 \<Rightarrow> build" where
  "field_multiplier_check field = (if bad_mask field then Inl ''bad bitfield mask'' else Inr ())"

definition field_mask :: "u64 \<Rightarrow> u64" where
  "field_mask field = field div field_multiplier field"

definition encode_bits :: "('a::len word \<Rightarrow> 'a word) \<Rightarrow> 'a word \<Rightarrow> 'a word \<Rightarrow> 'a word" where
  "encode_bits to v field =
     to (ucast ((ucast v AND field_mask (ucast field)) * field_multiplier (ucast field)))"

text \<open>The checks the compiler makes on the way; whether the value is a constant is an argument.\<close>

definition encode_bits_check :: "bool \<Rightarrow> 'a::len word \<Rightarrow> 'a word \<Rightarrow> build" where
  "encode_bits_check is_constant v field =
     then_check (field_multiplier_check (ucast field))
       (if is_constant \<and> ucast v AND NOT (field_mask (ucast field)) \<noteq> 0
        then Inl ''value doesn't fit into mask'' else Inr ())"

definition replace_bits :: "('a::len word \<Rightarrow> 'a word) \<Rightarrow> 'a word \<Rightarrow> 'a word \<Rightarrow> 'a word \<Rightarrow> 'a word" where
  "replace_bits to old val field = (old AND NOT (to field)) OR encode_bits to val field"

definition p_replace_bits ::
    "('a::len word \<Rightarrow> 'a word) \<Rightarrow> byte list \<Rightarrow> nat \<Rightarrow> 'a word \<Rightarrow> 'a word \<Rightarrow> byte list res" where
  "p_replace_bits to m p val field =
     bind_res (load m p) (\<lambda>old. store m p ((old AND NOT (to field)) OR encode_bits to val field))"

definition get_bits :: "('a::len word \<Rightarrow> 'a word) \<Rightarrow> 'a word \<Rightarrow> 'a word \<Rightarrow> 'a word" where
  "get_bits from v field = ucast (ucast (from v AND field) div field_multiplier (ucast field))"

section \<open>Masks of one run of bits\<close>

lemma GENMASK_minus_1:
  assumes "l \<le> h" "h < 64"
  shows "GENMASK h l - 1 = push_bit (Suc l) (mask (h - l)) OR mask l"
proof -
  have "GENMASK h l = push_bit (Suc l) (mask (h - l)) OR 2 ^ l"
    using assms by (intro bit_word_eqI) (auto simp: bit_GENMASK bit_simps simp del: push_bit_Suc)
  also have "\<dots> = push_bit (Suc l) (mask (h - l)) + 2 ^ l"
    by (rule disjunctive_add [symmetric]) (auto simp: bit_simps simp del: push_bit_Suc)
  finally have "GENMASK h l - 1 = push_bit (Suc l) (mask (h - l)) + mask l"
    by (simp add: mask_eq_exp_minus_1)
  also have "\<dots> = push_bit (Suc l) (mask (h - l)) OR mask l"
    by (rule disjunctive_add) (auto simp: bit_simps simp del: push_bit_Suc)
  finally show ?thesis .
qed

lemma field_multiplier_GENMASK [simp]:
  assumes "l \<le> h" "h < 64"
  shows "field_multiplier (GENMASK h l) = 2 ^ l"
  unfolding field_multiplier_def minus_eq_not_minus_1 [of "GENMASK h l"] GENMASK_minus_1 [OF assms]
  using assms by (intro bit_word_eqI) (auto simp: bit_GENMASK bit_simps simp del: push_bit_Suc)

lemma field_mask_GENMASK [simp]:
  assumes "l \<le> h" "h < 64"
  shows "field_mask (GENMASK h l) = mask (Suc h - l)"
  using assms
  by (simp add: field_mask_def flip: drop_bit_eq_div)
    (auto intro!: bit_word_eqI simp: bit_GENMASK bit_simps)

lemma GENMASK_not_bad:
  assumes "l \<le> h" "h < 64"
  shows "\<not> bad_mask (GENMASK h l)"
proof -
  have "GENMASK h l OR (GENMASK h l - 1) = mask (Suc h)"
    unfolding GENMASK_minus_1 [OF assms]
    using assms by (intro bit_word_eqI) (auto simp: bit_GENMASK bit_simps simp del: push_bit_Suc)
  moreover have "mask (Suc h) + 1 = (2 ^ Suc h :: u64)" by (simp add: mask_eq_exp_minus_1)
  moreover have "mask (Suc h) AND (2 ^ Suc h :: u64) = 0" by (rule bit_word_eqI) (auto simp: bit_simps)
  ultimately show ?thesis by (simp add: bad_mask_def)
qed

lemma ucast_GENMASK:
  assumes "l \<le> h" "h < LENGTH('a)" "LENGTH('a) \<le> 64"
  shows "(ucast (ucast (GENMASK h l) :: 'a::len word) :: u64) = GENMASK h l"
  using assms by (intro bit_word_eqI) (auto simp: bit_GENMASK bit_simps)

lemma encode_bits_run:
  assumes "l \<le> h" "h < LENGTH('a)" "LENGTH('a) \<le> 64"
  shows "encode_bits to (v :: 'a::len word) (ucast (GENMASK h l)) = to (push_bit l (take_bit (Suc h - l) v))"
proof -
  have "(ucast ((ucast v AND mask (Suc h - l)) * 2 ^ l :: u64) :: 'a word) = push_bit l (take_bit (Suc h - l) v)"
    using assms
    by (simp flip: push_bit_eq_mult) (auto intro!: bit_word_eqI simp: bit_simps dest: bit_imp_le_length)
  then show ?thesis using assms by (simp add: encode_bits_def ucast_GENMASK)
qed

lemma get_bits_run:
  assumes "l \<le> h" "h < LENGTH('a)" "LENGTH('a) \<le> 64"
  shows "get_bits from (v :: 'a::len word) (ucast (GENMASK h l)) = take_bit (Suc h - l) (drop_bit l (from v))"
  using assms
  by (simp add: get_bits_def ucast_GENMASK flip: drop_bit_eq_div)
    (auto intro!: bit_word_eqI simp: bit_GENMASK bit_simps dest: bit_imp_le_length)

lemma encode_bits_check_run:
  assumes "l \<le> h" "h < LENGTH('a)" "LENGTH('a) \<le> 64"
  shows "encode_bits_check is_constant (v :: 'a::len word) (ucast (GENMASK h l)) = Inr () \<longleftrightarrow>
    (is_constant \<longrightarrow> take_bit (Suc h - l) v = v)"
proof -
  have "ucast v AND NOT (mask (Suc h - l)) = (0 :: u64) \<longleftrightarrow> take_bit (Suc h - l) v = v"
    using assms(3) by (auto simp: bit_eq_iff bit_simps dest: bit_imp_le_length)
  then show ?thesis
    using assms GENMASK_not_bad [of l h] by (simp add: encode_bits_check_def field_multiplier_check_def ucast_GENMASK)
qed

section \<open>Reading what was written\<close>

context net_order
begin

lemma ntoh_replace_bits:
  assumes "l \<le> h" "h < LENGTH('a)" "LENGTH('a) \<le> 64"
  shows "ntoh (replace_bits hton old v (ucast (GENMASK h l))) =
    (ntoh old AND NOT (ucast (GENMASK h l))) OR push_bit l (take_bit (Suc h - l) v)"
  by (simp add: replace_bits_def encode_bits_run [OF assms] ntoh_or ntoh_and ntoh_not ntoh_hton)

lemma get_replace_bits:
  assumes "l \<le> h" "h < LENGTH('a)" "LENGTH('a) \<le> 64"
  shows "get_bits ntoh (replace_bits hton old v (ucast (GENMASK h l))) (ucast (GENMASK h l)) = take_bit (Suc h - l) v"
  unfolding get_bits_run [OF assms] ntoh_replace_bits [OF assms]
  using assms by (intro bit_word_eqI) (auto simp: bit_GENMASK bit_simps)

lemma replace_bits_other:
  assumes "l \<le> h" "h < LENGTH('a)" "LENGTH('a) \<le> 64"
  shows "ntoh (replace_bits hton old v (ucast (GENMASK h l))) AND NOT (ucast (GENMASK h l)) =
    ntoh old AND NOT (ucast (GENMASK h l))"
  unfolding ntoh_replace_bits [OF assms]
  using assms by (intro bit_word_eqI) (auto simp: bit_GENMASK bit_simps)

text \<open>The same through a pointer: the word is replaced in place.\<close>

lemma get_p_replace_bits:
  assumes "l \<le> h" "h < LENGTH('a)" "LENGTH('a) \<le> 64" "8 dvd LENGTH('a)"
    and "p_replace_bits hton m p v (ucast (GENMASK h l)) = Inr m'"
  shows "\<exists>w. load m' p = Inr w \<and> get_bits ntoh w (ucast (GENMASK h l)) = take_bit (Suc h - l) v"
proof -
  obtain old where "store m p (replace_bits hton old v (ucast (GENMASK h l))) = Inr m'"
    using assms(5) by (auto simp: p_replace_bits_def replace_bits_def elim!: bind_res_InrE)
  then have "load m' p = Inr (replace_bits hton old v (ucast (GENMASK h l)))"
    using assms(4) by (intro load_store)
  then show ?thesis using get_replace_bits [OF assms(1-3)] by blast
qed

end

text \<open>The host-order members of the family convert nothing.\<close>

interpretation host_order: net_order "\<lambda>w. w" "\<lambda>w. w"
  by unfold_locales simp_all

end
