(* ===== verification/Bitfield_Members.thy ===== *)
theory Bitfield_Members
  imports Bitfield_Ops
begin

text \<open>
  The members of the family of \<^verbatim>\<open>src/bitfield.h\<close>: what \<^verbatim>\<open>____MAKE_OP(u8,u8,,)\<close> and \<^verbatim>\<open>__MAKE_OP(16)\<close>, \<^verbatim>\<open>(32)\<close>
  and \<^verbatim>\<open>(64)\<close> expand to, each the generic functions of \<^verbatim>\<open>Bitfield_Ops\<close> at one width with the conversions of one byte order.
\<close>

section \<open>Definitions\<close>

definition u8_encode_bits :: "u8 \<Rightarrow> u8 \<Rightarrow> u8" where "u8_encode_bits = encode_bits (\<lambda>w. w)"
definition u8_replace_bits :: "u8 \<Rightarrow> u8 \<Rightarrow> u8 \<Rightarrow> u8" where "u8_replace_bits = replace_bits (\<lambda>w. w)"
definition u8p_replace_bits :: "byte list \<Rightarrow> nat \<Rightarrow> u8 \<Rightarrow> u8 \<Rightarrow> byte list res" where
  "u8p_replace_bits = p_replace_bits (\<lambda>w. w)"
definition u8_get_bits :: "u8 \<Rightarrow> u8 \<Rightarrow> u8" where "u8_get_bits = get_bits (\<lambda>w. w)"

definition le16_encode_bits :: "u16 \<Rightarrow> u16 \<Rightarrow> u16" where "le16_encode_bits = encode_bits cpu_to_le16"
definition le16_replace_bits :: "u16 \<Rightarrow> u16 \<Rightarrow> u16 \<Rightarrow> u16" where "le16_replace_bits = replace_bits cpu_to_le16"
definition le16p_replace_bits :: "byte list \<Rightarrow> nat \<Rightarrow> u16 \<Rightarrow> u16 \<Rightarrow> byte list res" where
  "le16p_replace_bits = p_replace_bits cpu_to_le16"
definition le16_get_bits :: "u16 \<Rightarrow> u16 \<Rightarrow> u16" where "le16_get_bits = get_bits le16_to_cpu"

definition be16_encode_bits :: "u16 \<Rightarrow> u16 \<Rightarrow> u16" where "be16_encode_bits = encode_bits htons"
definition be16_replace_bits :: "u16 \<Rightarrow> u16 \<Rightarrow> u16 \<Rightarrow> u16" where "be16_replace_bits = replace_bits htons"
definition be16p_replace_bits :: "byte list \<Rightarrow> nat \<Rightarrow> u16 \<Rightarrow> u16 \<Rightarrow> byte list res" where
  "be16p_replace_bits = p_replace_bits htons"
definition be16_get_bits :: "u16 \<Rightarrow> u16 \<Rightarrow> u16" where "be16_get_bits = get_bits ntohs"

definition u16_encode_bits :: "u16 \<Rightarrow> u16 \<Rightarrow> u16" where "u16_encode_bits = encode_bits (\<lambda>w. w)"
definition u16_replace_bits :: "u16 \<Rightarrow> u16 \<Rightarrow> u16 \<Rightarrow> u16" where "u16_replace_bits = replace_bits (\<lambda>w. w)"
definition u16p_replace_bits :: "byte list \<Rightarrow> nat \<Rightarrow> u16 \<Rightarrow> u16 \<Rightarrow> byte list res" where
  "u16p_replace_bits = p_replace_bits (\<lambda>w. w)"
definition u16_get_bits :: "u16 \<Rightarrow> u16 \<Rightarrow> u16" where "u16_get_bits = get_bits (\<lambda>w. w)"

definition le32_encode_bits :: "u32 \<Rightarrow> u32 \<Rightarrow> u32" where "le32_encode_bits = encode_bits cpu_to_le32"
definition le32_replace_bits :: "u32 \<Rightarrow> u32 \<Rightarrow> u32 \<Rightarrow> u32" where "le32_replace_bits = replace_bits cpu_to_le32"
definition le32p_replace_bits :: "byte list \<Rightarrow> nat \<Rightarrow> u32 \<Rightarrow> u32 \<Rightarrow> byte list res" where
  "le32p_replace_bits = p_replace_bits cpu_to_le32"
definition le32_get_bits :: "u32 \<Rightarrow> u32 \<Rightarrow> u32" where "le32_get_bits = get_bits le32_to_cpu"

definition be32_encode_bits :: "u32 \<Rightarrow> u32 \<Rightarrow> u32" where "be32_encode_bits = encode_bits htonl"
definition be32_replace_bits :: "u32 \<Rightarrow> u32 \<Rightarrow> u32 \<Rightarrow> u32" where "be32_replace_bits = replace_bits htonl"
definition be32p_replace_bits :: "byte list \<Rightarrow> nat \<Rightarrow> u32 \<Rightarrow> u32 \<Rightarrow> byte list res" where
  "be32p_replace_bits = p_replace_bits htonl"
definition be32_get_bits :: "u32 \<Rightarrow> u32 \<Rightarrow> u32" where "be32_get_bits = get_bits ntohl"

definition u32_encode_bits :: "u32 \<Rightarrow> u32 \<Rightarrow> u32" where "u32_encode_bits = encode_bits (\<lambda>w. w)"
definition u32_replace_bits :: "u32 \<Rightarrow> u32 \<Rightarrow> u32 \<Rightarrow> u32" where "u32_replace_bits = replace_bits (\<lambda>w. w)"
definition u32p_replace_bits :: "byte list \<Rightarrow> nat \<Rightarrow> u32 \<Rightarrow> u32 \<Rightarrow> byte list res" where
  "u32p_replace_bits = p_replace_bits (\<lambda>w. w)"
definition u32_get_bits :: "u32 \<Rightarrow> u32 \<Rightarrow> u32" where "u32_get_bits = get_bits (\<lambda>w. w)"

definition le64_encode_bits :: "u64 \<Rightarrow> u64 \<Rightarrow> u64" where "le64_encode_bits = encode_bits cpu_to_le64"
definition le64_replace_bits :: "u64 \<Rightarrow> u64 \<Rightarrow> u64 \<Rightarrow> u64" where "le64_replace_bits = replace_bits cpu_to_le64"
definition le64p_replace_bits :: "byte list \<Rightarrow> nat \<Rightarrow> u64 \<Rightarrow> u64 \<Rightarrow> byte list res" where
  "le64p_replace_bits = p_replace_bits cpu_to_le64"
definition le64_get_bits :: "u64 \<Rightarrow> u64 \<Rightarrow> u64" where "le64_get_bits = get_bits le64_to_cpu"

definition be64_encode_bits :: "u64 \<Rightarrow> u64 \<Rightarrow> u64" where "be64_encode_bits = encode_bits htobe64"
definition be64_replace_bits :: "u64 \<Rightarrow> u64 \<Rightarrow> u64 \<Rightarrow> u64" where "be64_replace_bits = replace_bits htobe64"
definition be64p_replace_bits :: "byte list \<Rightarrow> nat \<Rightarrow> u64 \<Rightarrow> u64 \<Rightarrow> byte list res" where
  "be64p_replace_bits = p_replace_bits htobe64"
definition be64_get_bits :: "u64 \<Rightarrow> u64 \<Rightarrow> u64" where "be64_get_bits = get_bits be64toh"

definition u64_encode_bits :: "u64 \<Rightarrow> u64 \<Rightarrow> u64" where "u64_encode_bits = encode_bits (\<lambda>w. w)"
definition u64_replace_bits :: "u64 \<Rightarrow> u64 \<Rightarrow> u64 \<Rightarrow> u64" where "u64_replace_bits = replace_bits (\<lambda>w. w)"
definition u64p_replace_bits :: "byte list \<Rightarrow> nat \<Rightarrow> u64 \<Rightarrow> u64 \<Rightarrow> byte list res" where
  "u64p_replace_bits = p_replace_bits (\<lambda>w. w)"
definition u64_get_bits :: "u64 \<Rightarrow> u64 \<Rightarrow> u64" where "u64_get_bits = get_bits (\<lambda>w. w)"

lemmas bit_member_defs =
  u8_encode_bits_def u8_replace_bits_def u8p_replace_bits_def u8_get_bits_def le16_encode_bits_def
  le16_replace_bits_def le16p_replace_bits_def le16_get_bits_def be16_encode_bits_def be16_replace_bits_def
  be16p_replace_bits_def be16_get_bits_def u16_encode_bits_def u16_replace_bits_def u16p_replace_bits_def
  u16_get_bits_def le32_encode_bits_def le32_replace_bits_def le32p_replace_bits_def le32_get_bits_def
  be32_encode_bits_def be32_replace_bits_def be32p_replace_bits_def be32_get_bits_def u32_encode_bits_def
  u32_replace_bits_def u32p_replace_bits_def u32_get_bits_def le64_encode_bits_def le64_replace_bits_def
  le64p_replace_bits_def le64_get_bits_def be64_encode_bits_def be64_replace_bits_def be64p_replace_bits_def
  be64_get_bits_def u64_encode_bits_def u64_replace_bits_def u64p_replace_bits_def u64_get_bits_def

section \<open>Every member reads back what it wrote\<close>

lemma word_members_read_back:
  "l \<le> h \<Longrightarrow> h < 8 \<Longrightarrow> u8_get_bits (u8_replace_bits o8 v8 (ucast (GENMASK h l))) (ucast (GENMASK h l)) =
    take_bit (Suc h - l) v8"
  "l \<le> h \<Longrightarrow> h < 16 \<Longrightarrow> u16_get_bits (u16_replace_bits o16 v16 (ucast (GENMASK h l))) (ucast (GENMASK h l)) =
    take_bit (Suc h - l) v16"
  "l \<le> h \<Longrightarrow> h < 32 \<Longrightarrow> u32_get_bits (u32_replace_bits o32 v32 (ucast (GENMASK h l))) (ucast (GENMASK h l)) =
    take_bit (Suc h - l) v32"
  "l \<le> h \<Longrightarrow> h < 64 \<Longrightarrow> u64_get_bits (u64_replace_bits o64 v64 (ucast (GENMASK h l))) (ucast (GENMASK h l)) =
    take_bit (Suc h - l) v64"
  unfolding bit_member_defs by (intro host_order.get_replace_bits; simp)+

lemma le_members_read_back:
  "l \<le> h \<Longrightarrow> h < 16 \<Longrightarrow> le16_get_bits (le16_replace_bits o16 v16 (ucast (GENMASK h l))) (ucast (GENMASK h l)) =
    take_bit (Suc h - l) v16"
  "l \<le> h \<Longrightarrow> h < 32 \<Longrightarrow> le32_get_bits (le32_replace_bits o32 v32 (ucast (GENMASK h l))) (ucast (GENMASK h l)) =
    take_bit (Suc h - l) v32"
  "l \<le> h \<Longrightarrow> h < 64 \<Longrightarrow> le64_get_bits (le64_replace_bits o64 v64 (ucast (GENMASK h l))) (ucast (GENMASK h l)) =
    take_bit (Suc h - l) v64"
  unfolding bit_member_defs
  by (intro le16.get_replace_bits le32.get_replace_bits le64.get_replace_bits; simp)+

lemma be_members_read_back:
  "l \<le> h \<Longrightarrow> h < 16 \<Longrightarrow> be16_get_bits (be16_replace_bits o16 v16 (ucast (GENMASK h l))) (ucast (GENMASK h l)) =
    take_bit (Suc h - l) v16"
  "l \<le> h \<Longrightarrow> h < 32 \<Longrightarrow> be32_get_bits (be32_replace_bits o32 v32 (ucast (GENMASK h l))) (ucast (GENMASK h l)) =
    take_bit (Suc h - l) v32"
  "l \<le> h \<Longrightarrow> h < 64 \<Longrightarrow> be64_get_bits (be64_replace_bits o64 v64 (ucast (GENMASK h l))) (ucast (GENMASK h l)) =
    take_bit (Suc h - l) v64"
  unfolding bit_member_defs
  by (intro n16.get_replace_bits n32.get_replace_bits n64.get_replace_bits; simp)+

text \<open>
  \<^verbatim>\<open>FIELD_FIT\<close> shifts the value before it compares, so it does not see the bits that the shift moves out of the word: it
  looks at the low \<open>64 - l\<close> bits only and accepts some values that the field cannot hold.
\<close>

lemma FIELD_FIT_run:
  assumes "l \<le> h" "h < 64"
  shows "FIELD_FIT (GENMASK h l) v \<longleftrightarrow> take_bit (Suc h - l) v = take_bit (64 - l) v"
proof
  assume "FIELD_FIT (GENMASK h l) v"
  then have z: "bit (push_bit l v) n \<longrightarrow> bit (GENMASK h l) n" if "n < 64" for n
    using that assms by (auto simp: FIELD_FIT_def bit_eq_iff bit_simps)
  show "take_bit (Suc h - l) v = take_bit (64 - l) v"
    using assms z [of "n + l" for n] by (intro bit_word_eqI) (auto simp: bit_simps bit_GENMASK less_diff_conv less_Suc_eq_le)
next
  assume e: "take_bit (Suc h - l) v = take_bit (64 - l) v"
  have low: "bit v n \<longrightarrow> n < Suc h - l" if "n < 64 - l" for n
    using arg_cong [OF e, of "\<lambda>w. bit w n"] that by (auto simp: bit_simps)
  have "bit v (n - l) \<longrightarrow> n \<le> h" if "l \<le> n" "n < 64" for n
    using low [OF diff_less_mono [OF that(2,1)]] that(1) by linarith
  then show "FIELD_FIT (GENMASK h l) v"
    using assms by (auto simp: FIELD_FIT_def bit_eq_iff bit_simps bit_GENMASK)
qed

lemma FIELD_FIT_misses_lost_bits: "FIELD_FIT (GENMASK 6 4) (2 ^ 60) \<and> FIELD_GET (GENMASK 6 4) (FIELD_PREP (GENMASK 6 4) (2 ^ 60)) = 0"
  by code_simp

text \<open>
  C34: The two ways to access a bit field agree: for the mask of any run of bits of a 64-bit word, the generated
  functions compute what the macros do: \<^verbatim>\<open>u64_encode_bits\<close> is \<^verbatim>\<open>FIELD_PREP\<close> and \<^verbatim>\<open>u64_get_bits\<close> is \<^verbatim>\<open>FIELD_GET\<close>; what
  \<^verbatim>\<open>u64_replace_bits\<close> replaces in an old word is read back by \<^verbatim>\<open>FIELD_GET\<close> and the other bits are kept; and the build accepts a constant
  exactly if it has no bit beyond the width of the field, in which case \<^verbatim>\<open>FIELD_FIT\<close> accepts it as well.
\<close>

theorem bit_functions_agree_with_macros:
  assumes "l \<le> h" "h < 64"
  shows "u64_encode_bits v (GENMASK h l) = FIELD_PREP (GENMASK h l) v \<and>
    u64_get_bits r (GENMASK h l) = FIELD_GET (GENMASK h l) r \<and>
    FIELD_GET (GENMASK h l) (u64_replace_bits old v (GENMASK h l)) = take_bit (Suc h - l) v \<and>
    u64_replace_bits old v (GENMASK h l) AND NOT (GENMASK h l) = old AND NOT (GENMASK h l) \<and>
    (encode_bits_check True v (GENMASK h l) = Inr () \<longleftrightarrow> take_bit (Suc h - l) v = v) \<and>
    (take_bit (Suc h - l) v = v \<longrightarrow> FIELD_FIT (GENMASK h l) v)"
proof (intro conjI)
  show "u64_encode_bits v (GENMASK h l) = FIELD_PREP (GENMASK h l) v"
    using encode_bits_run [of l h "\<lambda>w. w" v] assms by (simp add: u64_encode_bits_def FIELD_PREP_GENMASK)
  have get: "u64_get_bits r (GENMASK h l) = FIELD_GET (GENMASK h l) r" for r
    using get_bits_run [of l h "\<lambda>w. w" r] assms by (simp add: u64_get_bits_def FIELD_GET_GENMASK)
  then show "u64_get_bits r (GENMASK h l) = FIELD_GET (GENMASK h l) r" .
  show "FIELD_GET (GENMASK h l) (u64_replace_bits old v (GENMASK h l)) = take_bit (Suc h - l) v"
    using word_members_read_back(4) [OF assms, of old v] by (simp flip: get)
  show "u64_replace_bits old v (GENMASK h l) AND NOT (GENMASK h l) = old AND NOT (GENMASK h l)"
    using host_order.replace_bits_other [of l h old v] assms by (simp add: u64_replace_bits_def)
  show "encode_bits_check True v (GENMASK h l) = Inr () \<longleftrightarrow> take_bit (Suc h - l) v = v"
    using encode_bits_check_run [of l h True v] assms by simp
  have "take_bit (64 - l) (take_bit (Suc h - l) v) = take_bit (Suc h - l) v"
    using assms by (simp add: min_absorb2)
  then show "take_bit (Suc h - l) v = v \<longrightarrow> FIELD_FIT (GENMASK h l) v"
    unfolding FIELD_FIT_run [OF assms] by (metis (no_types))
qed

theorem bit_functions_agree_with_macros_witness:
  "u64_encode_bits 0x5 (GENMASK 6 4) = FIELD_PREP (GENMASK 6 4) 0x5 \<and> encode_bits_check True 0x5 (GENMASK 6 4) = Inr () \<and>
    u64_replace_bits 0xff 0x5 (GENMASK 6 4) AND NOT (GENMASK 6 4) = 0xff AND NOT (GENMASK 6 4)"
proof -
  have "take_bit (Suc 6 - 4) (0x5 :: u64) = 0x5" by code_simp
  then show ?thesis using bit_functions_agree_with_macros [of 4 6 "0x5" 0 "0xff"] by simp
qed

end
