(* ===== verification/Ib_Mad.thy ===== *)
theory Ib_Mad
  imports C_Layout Field_Access
begin

text \<open>
  \<^verbatim>\<open>src/ib_mad.h\<close> and \<^verbatim>\<open>src/ib_cm.h\<close>: the common MAD header and its size, the management
  class and attribute identifiers the library tests for, and the inline accessors of
  \<^verbatim>\<open>ib_class_port_info\<close> and \<^verbatim>\<open>ib_rmpp_hdr\<close>.
\<close>

section \<open>Constants\<close>

definition IB_MGMT_CLASS_CM :: u8 where "IB_MGMT_CLASS_CM = 0x07"

definition IB_MGMT_MAD_HDR :: nat where "IB_MGMT_MAD_HDR = 24"
definition IB_MGMT_MAD_DATA :: nat where "IB_MGMT_MAD_DATA = 232"
definition IB_MGMT_RMPP_HDR :: nat where "IB_MGMT_RMPP_HDR = 36"
definition IB_MGMT_RMPP_DATA :: nat where "IB_MGMT_RMPP_DATA = 220"
definition IB_MGMT_VENDOR_HDR :: nat where "IB_MGMT_VENDOR_HDR = 40"
definition IB_MGMT_VENDOR_DATA :: nat where "IB_MGMT_VENDOR_DATA = 216"
definition IB_MGMT_SA_HDR :: nat where "IB_MGMT_SA_HDR = 56"
definition IB_MGMT_SA_DATA :: nat where "IB_MGMT_SA_DATA = 200"
definition IB_MGMT_MAD_SIZE :: nat where "IB_MGMT_MAD_SIZE = IB_MGMT_MAD_HDR + IB_MGMT_MAD_DATA"
definition OPA_MGMT_MAD_DATA :: nat where "OPA_MGMT_MAD_DATA = 2024"
definition OPA_MGMT_RMPP_DATA :: nat where "OPA_MGMT_RMPP_DATA = 2012"
definition OPA_MGMT_MAD_SIZE :: nat where "OPA_MGMT_MAD_SIZE = IB_MGMT_MAD_HDR + OPA_MGMT_MAD_DATA"

definition CM_REQ_ATTR_ID :: u16 where "CM_REQ_ATTR_ID = 0x0010"
definition CM_MRA_ATTR_ID :: u16 where "CM_MRA_ATTR_ID = 0x0011"
definition CM_REJ_ATTR_ID :: u16 where "CM_REJ_ATTR_ID = 0x0012"
definition CM_REP_ATTR_ID :: u16 where "CM_REP_ATTR_ID = 0x0013"
definition CM_RTU_ATTR_ID :: u16 where "CM_RTU_ATTR_ID = 0x0014"
definition CM_DREQ_ATTR_ID :: u16 where "CM_DREQ_ATTR_ID = 0x0015"
definition CM_DREP_ATTR_ID :: u16 where "CM_DREP_ATTR_ID = 0x0016"
definition CM_SIDR_REQ_ATTR_ID :: u16 where "CM_SIDR_REQ_ATTR_ID = 0x0017"
definition CM_SIDR_REP_ATTR_ID :: u16 where "CM_SIDR_REP_ATTR_ID = 0x0018"
definition CM_LAP_ATTR_ID :: u16 where "CM_LAP_ATTR_ID = 0x0019"
definition CM_APR_ATTR_ID :: u16 where "CM_APR_ATTR_ID = 0x001A"
definition CM_MAX_ATTR_ID :: u16 where "CM_MAX_ATTR_ID = 0x20"

lemmas cm_attr_defs = CM_REQ_ATTR_ID_def CM_MRA_ATTR_ID_def CM_REJ_ATTR_ID_def CM_REP_ATTR_ID_def
  CM_RTU_ATTR_ID_def CM_DREQ_ATTR_ID_def CM_DREP_ATTR_ID_def CM_SIDR_REQ_ATTR_ID_def
  CM_SIDR_REP_ATTR_ID_def CM_LAP_ATTR_ID_def CM_APR_ATTR_ID_def CM_MAX_ATTR_ID_def

section \<open>Structs\<close>

definition ib_mad_hdr :: c_struct where
  "ib_mad_hdr =
     [scalar ''base_version'' 1, scalar ''mgmt_class'' 1, scalar ''class_version'' 1,
      scalar ''method'' 1, scalar ''status'' 2, scalar ''class_specific'' 2, scalar ''tid'' 8,
      scalar ''attr_id'' 2, scalar ''resv'' 2, scalar ''attr_mod'' 4]"

definition ib_rmpp_hdr :: c_struct where
  "ib_rmpp_hdr =
     [scalar ''rmpp_version'' 1, scalar ''rmpp_type'' 1, scalar ''rmpp_rtime_flags'' 1,
      scalar ''rmpp_status'' 1, scalar ''seg_num'' 4, scalar ''paylen_newwin'' 4]"

definition ib_sa_hdr :: c_struct where
  "ib_sa_hdr = packed
     [scalar ''sm_key'' 8, scalar ''attr_offset'' 2, scalar ''reserved'' 2, scalar ''comp_mask'' 8]"

definition ib_mad :: c_struct where
  "ib_mad =
     [(''mad_hdr'', sizeof ib_mad_hdr, max_align ib_mad_hdr), byte_array ''data'' IB_MGMT_MAD_DATA]"

definition opa_mad :: c_struct where
  "opa_mad =
     [(''mad_hdr'', sizeof ib_mad_hdr, max_align ib_mad_hdr), byte_array ''data'' OPA_MGMT_MAD_DATA]"

definition ib_rmpp_mad :: c_struct where
  "ib_rmpp_mad =
     [(''mad_hdr'', sizeof ib_mad_hdr, max_align ib_mad_hdr),
      (''rmpp_hdr'', sizeof ib_rmpp_hdr, max_align ib_rmpp_hdr),
      byte_array ''data'' IB_MGMT_RMPP_DATA]"

definition opa_rmpp_mad :: c_struct where
  "opa_rmpp_mad =
     [(''mad_hdr'', sizeof ib_mad_hdr, max_align ib_mad_hdr),
      (''rmpp_hdr'', sizeof ib_rmpp_hdr, max_align ib_rmpp_hdr),
      byte_array ''data'' OPA_MGMT_RMPP_DATA]"

definition ib_sa_mad :: c_struct where
  "ib_sa_mad = packed
     [(''mad_hdr'', sizeof ib_mad_hdr, max_align ib_mad_hdr),
      (''rmpp_hdr'', sizeof ib_rmpp_hdr, max_align ib_rmpp_hdr),
      (''sa_hdr'', sizeof ib_sa_hdr, max_align ib_sa_hdr),
      byte_array ''data'' IB_MGMT_SA_DATA]"

definition ib_vendor_mad :: c_struct where
  "ib_vendor_mad =
     [(''mad_hdr'', sizeof ib_mad_hdr, max_align ib_mad_hdr),
      (''rmpp_hdr'', sizeof ib_rmpp_hdr, max_align ib_rmpp_hdr),
      scalar ''reserved'' 1, byte_array ''oui'' 3, byte_array ''data'' IB_MGMT_VENDOR_DATA]"

definition ib_class_port_info :: c_struct where
  "ib_class_port_info =
     [scalar ''base_version'' 1, scalar ''class_version'' 1, scalar ''capability_mask'' 2,
      scalar ''cap_mask2_resp_time'' 4, byte_array ''redirect_gid'' 16,
      scalar ''redirect_tcslfl'' 4, scalar ''redirect_lid'' 2, scalar ''redirect_pkey'' 2,
      scalar ''redirect_qp'' 4, scalar ''redirect_qkey'' 4, byte_array ''trap_gid'' 16,
      scalar ''trap_tcslfl'' 4, scalar ''trap_lid'' 2, scalar ''trap_pkey'' 2,
      scalar ''trap_hlqp'' 4, scalar ''trap_qkey'' 4]"

definition opa_class_port_info :: c_struct where
  "opa_class_port_info = packed
     [scalar ''base_version'' 1, scalar ''class_version'' 1, scalar ''cap_mask'' 2,
      scalar ''cap_mask2_resp_time'' 4, byte_array ''redirect_gid'' 16,
      scalar ''redirect_tc_fl'' 4, scalar ''redirect_lid'' 4, scalar ''redirect_sl_qp'' 4,
      scalar ''redirect_qkey'' 4, byte_array ''trap_gid'' 16, scalar ''trap_tc_fl'' 4,
      scalar ''trap_lid'' 4, scalar ''trap_hl_qp'' 4, scalar ''trap_qkey'' 4,
      scalar ''trap_pkey'' 2, scalar ''redirect_pkey'' 2, scalar ''trap_sl_rsvd'' 1,
      byte_array ''reserved'' 3]"

lemmas ib_mad_struct_defs = ib_mad_hdr_def ib_rmpp_hdr_def ib_sa_hdr_def ib_class_port_info_def
  opa_class_port_info_def

section \<open>Header fields\<close>

definition mad_mgmt_class :: "byte list \<Rightarrow> nat \<Rightarrow> u8 res" where
  "mad_mgmt_class m mad = load m (mad + offsetof ib_mad_hdr ''mgmt_class'')"

definition mad_attr_id :: "byte list \<Rightarrow> nat \<Rightarrow> u16 res" where
  "mad_attr_id m mad = load m (mad + offsetof ib_mad_hdr ''attr_id'')"

section \<open>Class port info\<close>

definition IB_CLASS_PORT_INFO_RESP_TIME_MASK :: u32 where
  "IB_CLASS_PORT_INFO_RESP_TIME_MASK = 0x1F"

definition IB_CLASS_PORT_INFO_RESP_TIME_FIELD_SIZE :: nat where
  "IB_CLASS_PORT_INFO_RESP_TIME_FIELD_SIZE = 5"

definition ib_get_cpi_resp_time :: "byte list \<Rightarrow> nat \<Rightarrow> u8 res" where
  "ib_get_cpi_resp_time m cpi =
     map_res (\<lambda>w. ucast (ntohl w AND IB_CLASS_PORT_INFO_RESP_TIME_MASK))
       (load m (cpi + offsetof ib_class_port_info ''cap_mask2_resp_time''))"

definition ib_set_cpi_resp_time :: "byte list \<Rightarrow> nat \<Rightarrow> u8 \<Rightarrow> byte list res" where
  "ib_set_cpi_resp_time m cpi rtime =
     bind_res (load m (cpi + offsetof ib_class_port_info ''cap_mask2_resp_time'')) (\<lambda>w.
       store m (cpi + offsetof ib_class_port_info ''cap_mask2_resp_time'')
         ((w AND htonl (NOT IB_CLASS_PORT_INFO_RESP_TIME_MASK)) OR
          htonl (ucast rtime AND IB_CLASS_PORT_INFO_RESP_TIME_MASK)))"

definition ib_get_cpi_capmask2 :: "byte list \<Rightarrow> nat \<Rightarrow> u32 res" where
  "ib_get_cpi_capmask2 m cpi =
     map_res (\<lambda>w. drop_bit IB_CLASS_PORT_INFO_RESP_TIME_FIELD_SIZE (ntohl w))
       (load m (cpi + offsetof ib_class_port_info ''cap_mask2_resp_time''))"

definition ib_set_cpi_capmask2 :: "byte list \<Rightarrow> nat \<Rightarrow> u32 \<Rightarrow> byte list res" where
  "ib_set_cpi_capmask2 m cpi capmask2 =
     bind_res (load m (cpi + offsetof ib_class_port_info ''cap_mask2_resp_time'')) (\<lambda>w.
       store m (cpi + offsetof ib_class_port_info ''cap_mask2_resp_time'')
         ((w AND htonl IB_CLASS_PORT_INFO_RESP_TIME_MASK) OR
          htonl (push_bit IB_CLASS_PORT_INFO_RESP_TIME_FIELD_SIZE capmask2)))"

definition opa_get_cpi_capmask2 :: "byte list \<Rightarrow> nat \<Rightarrow> u32 res" where
  "opa_get_cpi_capmask2 m cpi =
     map_res (\<lambda>w. drop_bit IB_CLASS_PORT_INFO_RESP_TIME_FIELD_SIZE (ntohl w))
       (load m (cpi + offsetof opa_class_port_info ''cap_mask2_resp_time''))"

section \<open>RMPP header\<close>

definition ib_get_rmpp_resptime :: "byte list \<Rightarrow> nat \<Rightarrow> u8 res" where
  "ib_get_rmpp_resptime m rmpp =
     map_res (\<lambda>b. drop_bit 3 b) (load m (rmpp + offsetof ib_rmpp_hdr ''rmpp_rtime_flags''))"

definition ib_get_rmpp_flags :: "byte list \<Rightarrow> nat \<Rightarrow> u8 res" where
  "ib_get_rmpp_flags m rmpp =
     map_res (\<lambda>b. b AND 0x7) (load m (rmpp + offsetof ib_rmpp_hdr ''rmpp_rtime_flags''))"

definition ib_set_rmpp_resptime :: "byte list \<Rightarrow> nat \<Rightarrow> u8 \<Rightarrow> byte list res" where
  "ib_set_rmpp_resptime m rmpp rtime =
     bind_res (ib_get_rmpp_flags m rmpp) (\<lambda>flags.
       store m (rmpp + offsetof ib_rmpp_hdr ''rmpp_rtime_flags'') (flags OR push_bit 3 rtime))"

definition ib_set_rmpp_flags :: "byte list \<Rightarrow> nat \<Rightarrow> u8 \<Rightarrow> byte list res" where
  "ib_set_rmpp_flags m rmpp flags =
     bind_res (load m (rmpp + offsetof ib_rmpp_hdr ''rmpp_rtime_flags'')) (\<lambda>b.
       store m (rmpp + offsetof ib_rmpp_hdr ''rmpp_rtime_flags'')
         ((b AND 0xF8) OR (flags AND 0x7)))"

section \<open>Layout facts\<close>

lemma sizeof_ib_mad_hdr [simp, layout_simps]: "sizeof ib_mad_hdr = 24"
  by (simp add: c_layout_defs ib_mad_hdr_def)

lemma offsetof_ib_mad_hdr [simp, layout_simps]:
  "offsetof ib_mad_hdr ''base_version'' = 0"
  "offsetof ib_mad_hdr ''mgmt_class'' = 1"
  "offsetof ib_mad_hdr ''class_version'' = 2"
  "offsetof ib_mad_hdr ''method'' = 3"
  "offsetof ib_mad_hdr ''attr_id'' = 16"
  by (simp_all add: c_layout_defs ib_mad_hdr_def)

lemma offsetof_cpi [simp, layout_simps]:
  "offsetof ib_class_port_info ''cap_mask2_resp_time'' = 4"
  "offsetof opa_class_port_info ''cap_mask2_resp_time'' = 4"
  by (simp_all add: c_layout_defs ib_class_port_info_def opa_class_port_info_def)

lemma offsetof_rmpp [simp, layout_simps]: "offsetof ib_rmpp_hdr ''rmpp_rtime_flags'' = 2"
  by (simp add: c_layout_defs ib_rmpp_hdr_def)

section \<open>The accessors meet the field contract\<close>

interpretation cpi_resp_time:
  field_access ib_get_cpi_resp_time ib_set_cpi_resp_time "\<lambda>v. v AND 0x1F" 4 8
proof (rule field_access_rmw [where 'a = 32
      and dec = "\<lambda>w. ucast (ntohl w AND IB_CLASS_PORT_INFO_RESP_TIME_MASK)"
      and enc = "\<lambda>w v. (w AND htonl (NOT IB_CLASS_PORT_INFO_RESP_TIME_MASK)) OR
        htonl (ucast v AND IB_CLASS_PORT_INFO_RESP_TIME_MASK)"])
  fix w :: u32 and v :: u8
  show "ucast (ntohl ((w AND htonl (NOT IB_CLASS_PORT_INFO_RESP_TIME_MASK)) OR
        htonl (ucast v AND IB_CLASS_PORT_INFO_RESP_TIME_MASK)) AND IB_CLASS_PORT_INFO_RESP_TIME_MASK)
      = v AND 0x1F"
    by (rule bit_word_eqI)
      (auto simp: n32.ntoh_or n32.ntoh_and n32.ntoh_hton IB_CLASS_PORT_INFO_RESP_TIME_MASK_def bit_simps)
qed (simp_all add: ib_get_cpi_resp_time_def ib_set_cpi_resp_time_def)

interpretation cpi_capmask2:
  field_access ib_get_cpi_capmask2 ib_set_cpi_capmask2 "take_bit 27" 4 8
proof (rule field_access_rmw [where 'a = 32
      and dec = "\<lambda>w. drop_bit IB_CLASS_PORT_INFO_RESP_TIME_FIELD_SIZE (ntohl w)"
      and enc = "\<lambda>w v. (w AND htonl IB_CLASS_PORT_INFO_RESP_TIME_MASK) OR
        htonl (push_bit IB_CLASS_PORT_INFO_RESP_TIME_FIELD_SIZE v)"])
  fix w v :: u32
  have "0x1F = (mask 5 :: u32)" by (simp add: mask_eq_exp_minus_1)
  then show "drop_bit IB_CLASS_PORT_INFO_RESP_TIME_FIELD_SIZE (ntohl ((w AND htonl
        IB_CLASS_PORT_INFO_RESP_TIME_MASK) OR htonl (push_bit IB_CLASS_PORT_INFO_RESP_TIME_FIELD_SIZE v)))
      = take_bit 27 v"
    by (intro bit_word_eqI)
      (auto simp: n32.ntoh_or n32.ntoh_and n32.ntoh_hton IB_CLASS_PORT_INFO_RESP_TIME_MASK_def
        IB_CLASS_PORT_INFO_RESP_TIME_FIELD_SIZE_def bit_simps)
qed (simp_all add: ib_get_cpi_capmask2_def ib_set_cpi_capmask2_def)

interpretation rmpp_flags:
  field_access ib_get_rmpp_flags ib_set_rmpp_flags "\<lambda>v. v AND 0x7" 2 3
proof (rule field_access_rmw [where 'a = 8 and dec = "\<lambda>b. b AND 0x7"
      and enc = "\<lambda>b v. (b AND 0xF8) OR (v AND 0x7)"])
  fix b v :: u8
  show "((b AND 0xF8) OR (v AND 0x7)) AND 0x7 = v AND 0x7"
    by (simp add: bit.conj_disj_distrib2 and.assoc)
qed (simp_all add: ib_get_rmpp_flags_def ib_set_rmpp_flags_def)

interpretation rmpp_resptime:
  field_access ib_get_rmpp_resptime ib_set_rmpp_resptime "take_bit 5" 2 3
proof (rule field_access_rmw [where 'a = 8 and dec = "\<lambda>b. drop_bit 3 b"
      and enc = "\<lambda>b v. (b AND 0x7) OR push_bit 3 v"])
  fix b v :: u8
  have "0x7 = (mask 3 :: u8)" by (simp add: mask_eq_exp_minus_1)
  then show "drop_bit 3 ((b AND 0x7) OR push_bit 3 v) = take_bit 5 v"
    by (intro bit_word_eqI) (auto simp: bit_simps)
qed (simp_all add: ib_get_rmpp_resptime_def ib_set_rmpp_resptime_def ib_get_rmpp_flags_def
    bind_res_def map_res_def split: sum.split)

end
