(* ===== verification/Ib_Mad_Defs.thy ===== *)
theory Ib_Mad_Defs
  imports Ib_Mad Bitfield
begin

text \<open>
  The rest of \<^verbatim>\<open>src/ib_mad.h\<close>: the management classes, methods, status and RMPP values, the capability masks, the notice
  attribute with its variants and the send buffer.  Values that the header stores in network byte order keep that order.  The layout
  of \<^verbatim>\<open>union ib_gid\<close> comes from the verbs library and is an argument (size and alignment).
\<close>

section \<open>Constants\<close>

subsection \<open>Management base versions and classes\<close>

definition IB_MGMT_BASE_VERSION :: u8 where "IB_MGMT_BASE_VERSION = 1"
definition OPA_MGMT_BASE_VERSION :: u8 where "OPA_MGMT_BASE_VERSION = 0x80"
definition OPA_SM_CLASS_VERSION :: u8 where "OPA_SM_CLASS_VERSION = 0x80"
definition IB_MGMT_CLASS_SUBN_LID_ROUTED :: u8 where "IB_MGMT_CLASS_SUBN_LID_ROUTED = 0x01"
definition IB_MGMT_CLASS_SUBN_DIRECTED_ROUTE :: u8 where "IB_MGMT_CLASS_SUBN_DIRECTED_ROUTE = 0x81"
definition IB_MGMT_CLASS_SUBN_ADM :: u8 where "IB_MGMT_CLASS_SUBN_ADM = 0x03"
definition IB_MGMT_CLASS_PERF_MGMT :: u8 where "IB_MGMT_CLASS_PERF_MGMT = 0x04"
definition IB_MGMT_CLASS_BM :: u8 where "IB_MGMT_CLASS_BM = 0x05"
definition IB_MGMT_CLASS_DEVICE_MGMT :: u8 where "IB_MGMT_CLASS_DEVICE_MGMT = 0x06"
definition IB_MGMT_CLASS_SNMP :: u8 where "IB_MGMT_CLASS_SNMP = 0x08"
definition IB_MGMT_CLASS_DEVICE_ADM :: u8 where "IB_MGMT_CLASS_DEVICE_ADM = 0x10"
definition IB_MGMT_CLASS_BOOT_MGMT :: u8 where "IB_MGMT_CLASS_BOOT_MGMT = 0x11"
definition IB_MGMT_CLASS_BIS :: u8 where "IB_MGMT_CLASS_BIS = 0x12"
definition IB_MGMT_CLASS_CONG_MGMT :: u8 where "IB_MGMT_CLASS_CONG_MGMT = 0x21"
definition IB_MGMT_CLASS_VENDOR_RANGE2_START :: u8 where "IB_MGMT_CLASS_VENDOR_RANGE2_START = 0x30"
definition IB_MGMT_CLASS_VENDOR_RANGE2_END :: u8 where "IB_MGMT_CLASS_VENDOR_RANGE2_END = 0x4F"
definition IB_OPENIB_OUI :: u32 where "IB_OPENIB_OUI = 0x001405"

subsection \<open>Methods\<close>

definition IB_MGMT_METHOD_GET :: u8 where "IB_MGMT_METHOD_GET = 0x01"
definition IB_MGMT_METHOD_SET :: u8 where "IB_MGMT_METHOD_SET = 0x02"
definition IB_MGMT_METHOD_GET_RESP :: u8 where "IB_MGMT_METHOD_GET_RESP = 0x81"
definition IB_MGMT_METHOD_SEND :: u8 where "IB_MGMT_METHOD_SEND = 0x03"
definition IB_MGMT_METHOD_TRAP :: u8 where "IB_MGMT_METHOD_TRAP = 0x05"
definition IB_MGMT_METHOD_REPORT :: u8 where "IB_MGMT_METHOD_REPORT = 0x06"
definition IB_MGMT_METHOD_REPORT_RESP :: u8 where "IB_MGMT_METHOD_REPORT_RESP = 0x86"
definition IB_MGMT_METHOD_TRAP_REPRESS :: u8 where "IB_MGMT_METHOD_TRAP_REPRESS = 0x07"
definition IB_MGMT_METHOD_RESP :: u8 where "IB_MGMT_METHOD_RESP = 0x80"
definition IB_BM_ATTR_MOD_RESP :: u32 where "IB_BM_ATTR_MOD_RESP = htonl 1"
definition IB_MGMT_MAX_METHODS :: nat where "IB_MGMT_MAX_METHODS = 128"

subsection \<open>Status values\<close>

definition IB_MGMT_MAD_STATUS_SUCCESS :: u16 where "IB_MGMT_MAD_STATUS_SUCCESS = 0x0000"
definition IB_MGMT_MAD_STATUS_BUSY :: u16 where "IB_MGMT_MAD_STATUS_BUSY = 0x0001"
definition IB_MGMT_MAD_STATUS_REDIRECT_REQD :: u16 where "IB_MGMT_MAD_STATUS_REDIRECT_REQD = 0x0002"
definition IB_MGMT_MAD_STATUS_BAD_VERSION :: u16 where "IB_MGMT_MAD_STATUS_BAD_VERSION = 0x0004"
definition IB_MGMT_MAD_STATUS_UNSUPPORTED_METHOD :: u16 where "IB_MGMT_MAD_STATUS_UNSUPPORTED_METHOD = 0x0008"
definition IB_MGMT_MAD_STATUS_UNSUPPORTED_METHOD_ATTRIB :: u16 where "IB_MGMT_MAD_STATUS_UNSUPPORTED_METHOD_ATTRIB = 0x000c"
definition IB_MGMT_MAD_STATUS_INVALID_ATTRIB_VALUE :: u16 where "IB_MGMT_MAD_STATUS_INVALID_ATTRIB_VALUE = 0x001c"

subsection \<open>RMPP\<close>

definition IB_MGMT_RMPP_VERSION :: u8 where "IB_MGMT_RMPP_VERSION = 1"
definition IB_MGMT_RMPP_TYPE_DATA :: u8 where "IB_MGMT_RMPP_TYPE_DATA = 1"
definition IB_MGMT_RMPP_TYPE_ACK :: u8 where "IB_MGMT_RMPP_TYPE_ACK = 2"
definition IB_MGMT_RMPP_TYPE_STOP :: u8 where "IB_MGMT_RMPP_TYPE_STOP = 3"
definition IB_MGMT_RMPP_TYPE_ABORT :: u8 where "IB_MGMT_RMPP_TYPE_ABORT = 4"
definition IB_MGMT_RMPP_FLAG_ACTIVE :: u8 where "IB_MGMT_RMPP_FLAG_ACTIVE = 1"
definition IB_MGMT_RMPP_FLAG_FIRST :: u8 where "IB_MGMT_RMPP_FLAG_FIRST = push_bit 1 1"
definition IB_MGMT_RMPP_FLAG_LAST :: u8 where "IB_MGMT_RMPP_FLAG_LAST = push_bit 2 1"
definition IB_MGMT_RMPP_NO_RESPTIME :: u8 where "IB_MGMT_RMPP_NO_RESPTIME = 0x1F"
definition IB_MGMT_RMPP_STATUS_SUCCESS :: u8 where "IB_MGMT_RMPP_STATUS_SUCCESS = 0"
definition IB_MGMT_RMPP_STATUS_RESX :: u8 where "IB_MGMT_RMPP_STATUS_RESX = 1"
definition IB_MGMT_RMPP_STATUS_ABORT_MIN :: u8 where "IB_MGMT_RMPP_STATUS_ABORT_MIN = 118"
definition IB_MGMT_RMPP_STATUS_T2L :: u8 where "IB_MGMT_RMPP_STATUS_T2L = 118"
definition IB_MGMT_RMPP_STATUS_BAD_LEN :: u8 where "IB_MGMT_RMPP_STATUS_BAD_LEN = 119"
definition IB_MGMT_RMPP_STATUS_BAD_SEG :: u8 where "IB_MGMT_RMPP_STATUS_BAD_SEG = 120"
definition IB_MGMT_RMPP_STATUS_BADT :: u8 where "IB_MGMT_RMPP_STATUS_BADT = 121"
definition IB_MGMT_RMPP_STATUS_W2S :: u8 where "IB_MGMT_RMPP_STATUS_W2S = 122"
definition IB_MGMT_RMPP_STATUS_S2B :: u8 where "IB_MGMT_RMPP_STATUS_S2B = 123"
definition IB_MGMT_RMPP_STATUS_BAD_STATUS :: u8 where "IB_MGMT_RMPP_STATUS_BAD_STATUS = 124"
definition IB_MGMT_RMPP_STATUS_UNV :: u8 where "IB_MGMT_RMPP_STATUS_UNV = 125"
definition IB_MGMT_RMPP_STATUS_TMR :: u8 where "IB_MGMT_RMPP_STATUS_TMR = 126"
definition IB_MGMT_RMPP_STATUS_UNSPEC :: u8 where "IB_MGMT_RMPP_STATUS_UNSPEC = 127"
definition IB_MGMT_RMPP_STATUS_ABORT_MAX :: u8 where "IB_MGMT_RMPP_STATUS_ABORT_MAX = 127"

subsection \<open>Queue pairs and partition keys\<close>

definition IB_QP0 :: u32 where "IB_QP0 = 0"
definition IB_QP1 :: u32 where "IB_QP1 = htonl 1"
definition IB_QP1_QKEY :: u32 where "IB_QP1_QKEY = 0x80010000"
definition IB_QP_SET_QKEY :: u32 where "IB_QP_SET_QKEY = 0x80000000"
definition IB_DEFAULT_PKEY_PARTIAL :: u16 where "IB_DEFAULT_PKEY_PARTIAL = 0x7FFF"
definition IB_DEFAULT_PKEY_FULL :: u16 where "IB_DEFAULT_PKEY_FULL = 0xFFFF"

subsection \<open>Notices\<close>

definition IB_NOTICE_TYPE_FATAL :: u8 where "IB_NOTICE_TYPE_FATAL = 0x80"
definition IB_NOTICE_TYPE_URGENT :: u8 where "IB_NOTICE_TYPE_URGENT = 0x81"
definition IB_NOTICE_TYPE_SECURITY :: u8 where "IB_NOTICE_TYPE_SECURITY = 0x82"
definition IB_NOTICE_TYPE_SM :: u8 where "IB_NOTICE_TYPE_SM = 0x83"
definition IB_NOTICE_TYPE_INFO :: u8 where "IB_NOTICE_TYPE_INFO = 0x84"
definition IB_NOTICE_PROD_CA :: u16 where "IB_NOTICE_PROD_CA = htons 1"
definition IB_NOTICE_PROD_SWITCH :: u16 where "IB_NOTICE_PROD_SWITCH = htons 2"
definition IB_NOTICE_PROD_ROUTER :: u16 where "IB_NOTICE_PROD_ROUTER = htons 3"
definition IB_NOTICE_PROD_CLASS_MGR :: u16 where "IB_NOTICE_PROD_CLASS_MGR = htons 4"
definition IB_MGMT_CLASSPORTINFO_ATTR_ID :: u16 where "IB_MGMT_CLASSPORTINFO_ATTR_ID = htons 0x1"

definition IB_MGMT_DEVICE_HDR :: nat where "IB_MGMT_DEVICE_HDR = 64"
definition IB_MGMT_DEVICE_DATA :: nat where "IB_MGMT_DEVICE_DATA = 192"

definition IB_SA_COMP_MASK :: "nat \<Rightarrow> u64" where
  "IB_SA_COMP_MASK n = htobe64 (push_bit n 1)"

definition OPA_CLASS_PORT_INFO_PR_SUPPORT :: u64 where
  "OPA_CLASS_PORT_INFO_PR_SUPPORT = BIT 26"

section \<open>Capability masks\<close>

text \<open>The members of the two enumerations are single bits; the functions give their position.\<close>

datatype ib_port_capability_mask_bits =
  IB_PORT_SM | IB_PORT_NOTICE_SUP | IB_PORT_TRAP_SUP | IB_PORT_OPT_IPD_SUP | IB_PORT_AUTO_MIGR_SUP
| IB_PORT_SL_MAP_SUP | IB_PORT_MKEY_NVRAM | IB_PORT_PKEY_NVRAM | IB_PORT_LED_INFO_SUP | IB_PORT_SM_DISABLED
| IB_PORT_SYS_IMAGE_GUID_SUP | IB_PORT_PKEY_SW_EXT_PORT_TRAP_SUP | IB_PORT_EXTENDED_SPEEDS_SUP
| IB_PORT_CAP_MASK2_SUP | IB_PORT_CM_SUP | IB_PORT_SNMP_TUNNEL_SUP | IB_PORT_REINIT_SUP | IB_PORT_DEVICE_MGMT_SUP
| IB_PORT_VENDOR_CLASS_SUP | IB_PORT_DR_NOTICE_SUP | IB_PORT_CAP_MASK_NOTICE_SUP | IB_PORT_BOOT_MGMT_SUP
| IB_PORT_LINK_LATENCY_SUP | IB_PORT_CLIENT_REG_SUP | IB_PORT_OTHER_LOCAL_CHANGES_SUP
| IB_PORT_LINK_SPEED_WIDTH_TABLE_SUP | IB_PORT_VENDOR_SPECIFIC_MADS_TABLE_SUP
| IB_PORT_MCAST_PKEY_TRAP_SUPPRESSION_SUP | IB_PORT_MCAST_FDB_TOP_SUP | IB_PORT_HIERARCHY_INFO_SUP

fun port_capability_bit :: "ib_port_capability_mask_bits \<Rightarrow> nat" where
  "port_capability_bit IB_PORT_SM = 1"
| "port_capability_bit IB_PORT_NOTICE_SUP = 2"
| "port_capability_bit IB_PORT_TRAP_SUP = 3"
| "port_capability_bit IB_PORT_OPT_IPD_SUP = 4"
| "port_capability_bit IB_PORT_AUTO_MIGR_SUP = 5"
| "port_capability_bit IB_PORT_SL_MAP_SUP = 6"
| "port_capability_bit IB_PORT_MKEY_NVRAM = 7"
| "port_capability_bit IB_PORT_PKEY_NVRAM = 8"
| "port_capability_bit IB_PORT_LED_INFO_SUP = 9"
| "port_capability_bit IB_PORT_SM_DISABLED = 10"
| "port_capability_bit IB_PORT_SYS_IMAGE_GUID_SUP = 11"
| "port_capability_bit IB_PORT_PKEY_SW_EXT_PORT_TRAP_SUP = 12"
| "port_capability_bit IB_PORT_EXTENDED_SPEEDS_SUP = 14"
| "port_capability_bit IB_PORT_CAP_MASK2_SUP = 15"
| "port_capability_bit IB_PORT_CM_SUP = 16"
| "port_capability_bit IB_PORT_SNMP_TUNNEL_SUP = 17"
| "port_capability_bit IB_PORT_REINIT_SUP = 18"
| "port_capability_bit IB_PORT_DEVICE_MGMT_SUP = 19"
| "port_capability_bit IB_PORT_VENDOR_CLASS_SUP = 20"
| "port_capability_bit IB_PORT_DR_NOTICE_SUP = 21"
| "port_capability_bit IB_PORT_CAP_MASK_NOTICE_SUP = 22"
| "port_capability_bit IB_PORT_BOOT_MGMT_SUP = 23"
| "port_capability_bit IB_PORT_LINK_LATENCY_SUP = 24"
| "port_capability_bit IB_PORT_CLIENT_REG_SUP = 25"
| "port_capability_bit IB_PORT_OTHER_LOCAL_CHANGES_SUP = 26"
| "port_capability_bit IB_PORT_LINK_SPEED_WIDTH_TABLE_SUP = 27"
| "port_capability_bit IB_PORT_VENDOR_SPECIFIC_MADS_TABLE_SUP = 28"
| "port_capability_bit IB_PORT_MCAST_PKEY_TRAP_SUPPRESSION_SUP = 29"
| "port_capability_bit IB_PORT_MCAST_FDB_TOP_SUP = 30"
| "port_capability_bit IB_PORT_HIERARCHY_INFO_SUP = 31"

datatype ib_port_capability_mask2_bits =
  IB_PORT_SET_NODE_DESC_SUP | IB_PORT_EX_PORT_INFO_EX_SUP | IB_PORT_VIRT_SUP
| IB_PORT_SWITCH_PORT_STATE_TABLE_SUP | IB_PORT_LINK_WIDTH_2X_SUP | IB_PORT_LINK_SPEED_HDR_SUP

fun port_capability2_bit :: "ib_port_capability_mask2_bits \<Rightarrow> nat" where
  "port_capability2_bit IB_PORT_SET_NODE_DESC_SUP = 0"
| "port_capability2_bit IB_PORT_EX_PORT_INFO_EX_SUP = 1"
| "port_capability2_bit IB_PORT_VIRT_SUP = 2"
| "port_capability2_bit IB_PORT_SWITCH_PORT_STATE_TABLE_SUP = 3"
| "port_capability2_bit IB_PORT_LINK_WIDTH_2X_SUP = 4"
| "port_capability2_bit IB_PORT_LINK_SPEED_HDR_SUP = 5"

definition capability_value :: "nat \<Rightarrow> u64" where
  "capability_value i = push_bit i 1"

section \<open>The notice attribute\<close>

type_synonym c_layout = "nat \<times> nat"

definition ntc_129_131 :: c_struct where
  "ntc_129_131 = packed [scalar ''reserved'' 2, scalar ''lid'' 2, scalar ''port_num'' 1]"

definition ntc_144 :: c_struct where
  "ntc_144 = packed
     [scalar ''reserved'' 2, scalar ''lid'' 2, scalar ''reserved2'' 1, scalar ''local_changes'' 1,
      scalar ''new_cap_mask'' 4, scalar ''reserved3'' 1, scalar ''change_flags'' 1]"

definition ntc_145 :: c_struct where
  "ntc_145 = packed [scalar ''reserved'' 2, scalar ''lid'' 2, scalar ''reserved2'' 2, scalar ''new_sys_guid'' 8]"

definition ntc_256 :: c_struct where
  "ntc_256 = packed
     [scalar ''reserved'' 2, scalar ''lid'' 2, scalar ''dr_slid'' 2, scalar ''method'' 1, scalar ''reserved2'' 1,
      scalar ''attr_id'' 2, scalar ''attr_mod'' 4, scalar ''mkey'' 8, scalar ''reserved3'' 1,
      scalar ''dr_trunc_hop'' 1, byte_array ''dr_rtn_path'' 30]"

definition ntc_257_258 :: "c_layout \<Rightarrow> c_struct" where
  "ntc_257_258 gid = packed
     [scalar ''reserved'' 2, scalar ''lid1'' 2, scalar ''lid2'' 2, scalar ''key'' 4, scalar ''sl_qp1'' 4,
      scalar ''qp2'' 4, (''gid1'', gid), (''gid2'', gid)]"

definition notice_raw_data :: c_struct where
  "notice_raw_data = [byte_array ''details'' 54]"

text \<open>A union is as large as its largest member, rounded up to the largest alignment.\<close>

definition union_layout :: "c_struct list \<Rightarrow> c_layout" where
  "union_layout ms =
     (let al = foldr (max \<circ> max_align) ms 1 in (align_up al (foldr (max \<circ> sizeof) ms 0), al))"

definition notice_details :: "c_layout \<Rightarrow> c_struct list" where
  "notice_details gid = [notice_raw_data, ntc_129_131, ntc_144, ntc_145, ntc_256, ntc_257_258 gid]"

definition ib_mad_notice_attr :: "c_layout \<Rightarrow> c_struct" where
  "ib_mad_notice_attr gid =
     [scalar ''generic_type'' 1, scalar ''prod_type_msb'' 1, scalar ''prod_type_lsb'' 2, scalar ''trap_num'' 2,
      scalar ''issuer_lid'' 2, scalar ''toggle_count'' 2, (''details'', union_layout (notice_details gid))]"

section \<open>The send buffer\<close>

text \<open>Pointers are 8 bytes and \<^verbatim>\<open>int\<close> is 4 bytes on the 64-bit hosts the library is built for.\<close>

definition ib_mad_send_buf :: c_struct where
  "ib_mad_send_buf =
     [scalar ''next'' 8, scalar ''mad'' 8, scalar ''mad_agent'' 8, scalar ''ah'' 8, (''context'', 16, 8),
      scalar ''hdr_len'' 4, scalar ''data_len'' 4, scalar ''seg_count'' 4, scalar ''seg_size'' 4,
      scalar ''seg_rmpp_size'' 4, scalar ''timeout_ms'' 4, scalar ''retries'' 4]"

section \<open>Responses, statuses and masks\<close>

text \<open>A response method is its request with the response bit; the class-specific abort codes lie in the abort range.\<close>

lemma response_methods:
  "IB_MGMT_METHOD_GET_RESP = IB_MGMT_METHOD_GET OR IB_MGMT_METHOD_RESP"
  "IB_MGMT_METHOD_REPORT_RESP = IB_MGMT_METHOD_REPORT OR IB_MGMT_METHOD_RESP"
  "unat IB_MGMT_METHOD_RESP = IB_MGMT_MAX_METHODS"
  by (simp_all add: IB_MGMT_METHOD_GET_RESP_def IB_MGMT_METHOD_GET_def IB_MGMT_METHOD_RESP_def
      IB_MGMT_METHOD_REPORT_RESP_def IB_MGMT_METHOD_REPORT_def IB_MGMT_MAX_METHODS_def)

lemma port_capability_bit_inject: "port_capability_bit c = port_capability_bit c' \<longleftrightarrow> c = c'"
  by (cases c; cases c') simp_all

lemma port_capability2_bit_inject: "port_capability2_bit c = port_capability2_bit c' \<longleftrightarrow> c = c'"
  by (cases c; cases c') simp_all

lemma port_capability_bounds: "port_capability_bit c < 32" "port_capability2_bit d < 27"
  by (cases c; simp) (cases d; simp)

section \<open>Layout\<close>

lemma notice_details_size: "union_layout (notice_details (16, al)) = (54, 1)"
  by (simp add: union_layout_def notice_details_def notice_raw_data_def ntc_129_131_def ntc_144_def ntc_145_def
      ntc_256_def ntc_257_258_def c_layout_defs)

lemmas mad_frame_defs = ib_mad_def opa_mad_def ib_rmpp_mad_def opa_rmpp_mad_def ib_sa_mad_def ib_vendor_mad_def
  ib_mad_struct_defs IB_MGMT_MAD_SIZE_def IB_MGMT_MAD_HDR_def IB_MGMT_MAD_DATA_def OPA_MGMT_MAD_SIZE_def
  OPA_MGMT_MAD_DATA_def OPA_MGMT_RMPP_DATA_def IB_MGMT_RMPP_HDR_def IB_MGMT_RMPP_DATA_def IB_MGMT_SA_HDR_def
  IB_MGMT_SA_DATA_def IB_MGMT_VENDOR_HDR_def IB_MGMT_VENDOR_DATA_def IB_MGMT_DEVICE_HDR_def IB_MGMT_DEVICE_DATA_def

text \<open>
  C30: The MAD structures have the layout the header's constants announce: every MAD structure is exactly one
  MAD long (256 bytes, 2048 for OPA), the payload of each of the six starts where the matching header length says, the device header and data lengths of the
  enumeration add up to a whole MAD, and the notice attribute is 64 bytes long with its variants at byte 10, whatever the
  alignment of a GID.
\<close>

theorem mad_structs_have_announced_layout:
  "sizeof ib_mad = IB_MGMT_MAD_SIZE \<and> offsetof ib_mad ''data'' = IB_MGMT_MAD_HDR \<and>
   sizeof ib_rmpp_mad = IB_MGMT_MAD_SIZE \<and> offsetof ib_rmpp_mad ''data'' = IB_MGMT_RMPP_HDR \<and>
   sizeof ib_sa_mad = IB_MGMT_MAD_SIZE \<and> offsetof ib_sa_mad ''data'' = IB_MGMT_SA_HDR \<and>
   sizeof ib_vendor_mad = IB_MGMT_MAD_SIZE \<and> offsetof ib_vendor_mad ''data'' = IB_MGMT_VENDOR_HDR \<and>
   sizeof opa_mad = OPA_MGMT_MAD_SIZE \<and> offsetof opa_mad ''data'' = IB_MGMT_MAD_HDR \<and>
   sizeof opa_rmpp_mad = OPA_MGMT_MAD_SIZE \<and> offsetof opa_rmpp_mad ''data'' = IB_MGMT_RMPP_HDR \<and>
   IB_MGMT_DEVICE_HDR + IB_MGMT_DEVICE_DATA = IB_MGMT_MAD_SIZE \<and>
   sizeof (ib_mad_notice_attr (16, al)) = 64 \<and> offsetof (ib_mad_notice_attr (16, al)) ''details'' = 10"
proof (intro conjI)
  show "sizeof (ib_mad_notice_attr (16, al)) = 64" "offsetof (ib_mad_notice_attr (16, al)) ''details'' = 10"
    by (simp_all add: ib_mad_notice_attr_def notice_details_size c_layout_defs flip: numeral_2_eq_2)
qed (simp_all add: mad_frame_defs c_layout_defs)

end
