(* ===== verification/Mbuf.thy ===== *)
theory Mbuf
  imports C_Layout Bytes
begin

text \<open>
  Packets: the fields of DPDK's \<^verbatim>\<open>struct rte_mbuf\<close> that the library uses, the helpers of
  \<^verbatim>\<open>include/libconntrack-cm.h\<close> that keep the BTH and MAD offsets in two 16-bit dynamic
  fields, and the header locators of \<^verbatim>\<open>src/parser.h\<close>.

  A pointer into the packet is its distance from \<^verbatim>\<open>rte_pktmbuf_mtod(packet)\<close>; a null pointer is
  \<open>None\<close>.  \<open>buf\<close> is the memory from that address to the end of the buffer (data and
  tailroom).  What DPDK itself defines is not in the repository: its packet-type
  constants, \<^verbatim>\<open>RTE_ETH_IS_IPV4_HDR\<close>, \<^verbatim>\<open>rte_pktmbuf_append\<close>, \<^verbatim>\<open>rte_mbuf_dynfield_register\<close> and
  \<^verbatim>\<open>rte_net_crc_calc\<close> are the fields of a record \<open>dpdk\<close> that the definitions take as an argument.
\<close>

section \<open>Packets and the DPDK environment\<close>

record rte_mbuf =
  packet_type :: u32
  l2_len :: nat
  l3_len :: nat
  l4_len :: nat
  data_len :: nat
  pkt_len :: nat
  buf :: "byte list"
  dynfield :: "int \<Rightarrow> u16"

record dpdk =
  RTE_PTYPE_L3_IPV4 :: u32
  RTE_PTYPE_L4_UDP :: u32
  RTE_PTYPE_L4_MASK :: u32
  RTE_ETH_IS_IPV4_HDR :: "u32 \<Rightarrow> bool"
  rte_mbuf_dynfield_register :: "string \<Rightarrow> nat \<Rightarrow> nat \<Rightarrow> int"
  rte_pktmbuf_append :: "rte_mbuf \<Rightarrow> u16 \<Rightarrow> (rte_mbuf \<times> nat) option"
  rte_net_crc_calc :: "byte list \<Rightarrow> u32"

text \<open>The IPv4 and UDP headers of the C library.\<close>

definition iphdr :: c_struct where
  "iphdr =
     [scalar ''ihl_version'' 1, scalar ''tos'' 1, scalar ''tot_len'' 2, scalar ''id'' 2,
      scalar ''frag_off'' 2, scalar ''ttl'' 1, scalar ''protocol'' 1, scalar ''check'' 2,
      scalar ''saddr'' 4, scalar ''daddr'' 4]"

definition udphdr :: c_struct where
  "udphdr = [scalar ''uh_sport'' 2, scalar ''uh_dport'' 2, scalar ''uh_ulen'' 2, scalar ''uh_sum'' 2]"

lemma iphdr_layout [simp, layout_simps]:
  "sizeof iphdr = 20" "offsetof iphdr ''ihl_version'' = 0" "offsetof iphdr ''tos'' = 1"
  "offsetof iphdr ''tot_len'' = 2" "offsetof iphdr ''id'' = 4" "offsetof iphdr ''frag_off'' = 6"
  "offsetof iphdr ''ttl'' = 8" "offsetof iphdr ''protocol'' = 9" "offsetof iphdr ''check'' = 10"
  "offsetof iphdr ''saddr'' = 12" "offsetof iphdr ''daddr'' = 16"
  by (simp_all add: c_layout_defs iphdr_def)

lemma udphdr_layout [simp, layout_simps]:
  "sizeof udphdr = 8" "offsetof udphdr ''uh_sport'' = 0" "offsetof udphdr ''uh_dport'' = 2"
  "offsetof udphdr ''uh_ulen'' = 4" "offsetof udphdr ''uh_sum'' = 6"
  by code_simp+

section \<open>Header offsets kept in dynamic fields\<close>

record ctcm_dynfield_offsets =
  off_size :: u32
  off_bth :: int
  off_mad :: int

definition ctcm_dynfield_offsets_struct :: c_struct where
  "ctcm_dynfield_offsets_struct = [scalar ''size'' 4, scalar ''bth'' 4, scalar ''mad'' 4]"

lemma sizeof_ctcm_dynfield_offsets [simp, layout_simps]: "sizeof ctcm_dynfield_offsets_struct = 12"
  by (simp add: c_layout_defs ctcm_dynfield_offsets_struct_def)

definition ctcm_mbuf_bth_offset :: "ctcm_dynfield_offsets \<Rightarrow> int" where
  "ctcm_mbuf_bth_offset offs = off_bth offs"

definition ctcm_mbuf_mad_offset :: "ctcm_dynfield_offsets \<Rightarrow> int" where
  "ctcm_mbuf_mad_offset offs = off_mad offs"

definition ctcm_mbuf_get_bth :: "ctcm_dynfield_offsets \<Rightarrow> rte_mbuf \<Rightarrow> nat option res" where
  "ctcm_mbuf_get_bth offs packet =
     (let offset = dynfield packet (ctcm_mbuf_bth_offset offs)
      in if offset \<noteq> 0
         then bind_res (assert_res (unat offset < pkt_len packet)) (\<lambda>_. Inr (Some (unat offset)))
         else Inr None)"

definition ctcm_mbuf_set_bth :: "ctcm_dynfield_offsets \<Rightarrow> rte_mbuf \<Rightarrow> nat option \<Rightarrow> rte_mbuf res" where
  "ctcm_mbuf_set_bth offs packet bth =
     (let offset = (case bth of Some b \<Rightarrow> b | None \<Rightarrow> 0)
      in bind_res (assert_res (offset < pkt_len packet)) (\<lambda>_.
           Inr (packet\<lparr>dynfield :=
             (dynfield packet)(ctcm_mbuf_bth_offset offs := word_of_nat offset)\<rparr>)))"

definition ctcm_mbuf_get_mad :: "ctcm_dynfield_offsets \<Rightarrow> rte_mbuf \<Rightarrow> nat option res" where
  "ctcm_mbuf_get_mad offs packet =
     (let offset = dynfield packet (ctcm_mbuf_mad_offset offs)
      in if offset \<noteq> 0
         then bind_res (assert_res (unat offset < pkt_len packet)) (\<lambda>_. Inr (Some (unat offset)))
         else Inr None)"

definition ctcm_mbuf_set_mad :: "ctcm_dynfield_offsets \<Rightarrow> rte_mbuf \<Rightarrow> nat option \<Rightarrow> rte_mbuf res" where
  "ctcm_mbuf_set_mad offs packet mad =
     (let offset = (case mad of Some b \<Rightarrow> b | None \<Rightarrow> 0)
      in bind_res (assert_res (offset < pkt_len packet)) (\<lambda>_.
           Inr (packet\<lparr>dynfield :=
             (dynfield packet)(ctcm_mbuf_mad_offset offs := word_of_nat offset)\<rparr>)))"

section \<open>Header locators\<close>

definition UDP_PORT_ROCE_V2 :: u16 where
  "UDP_PORT_ROCE_V2 = 4791"

definition mbuf_ip :: "dpdk \<Rightarrow> rte_mbuf \<Rightarrow> nat res" where
  "mbuf_ip env packet =
     bind_res (assert_res (RTE_ETH_IS_IPV4_HDR env (packet_type packet))) (\<lambda>_. Inr (l2_len packet))"

definition mbuf_udp :: "dpdk \<Rightarrow> rte_mbuf \<Rightarrow> nat res" where
  "mbuf_udp env packet =
     bind_res (assert_res (l3_len packet \<noteq> 0 \<and>
         packet_type packet AND RTE_PTYPE_L4_MASK env = RTE_PTYPE_L4_UDP env)) (\<lambda>_.
       Inr (l2_len packet + l3_len packet))"

definition mbuf_bth :: "rte_mbuf \<Rightarrow> nat res" where
  "mbuf_bth packet =
     bind_res (assert_res (l3_len packet \<noteq> 0 \<and> l4_len packet \<noteq> 0)) (\<lambda>_.
       Inr (l2_len packet + l3_len packet + l4_len packet))"

text \<open>The overloads for a packet that may be written through: the same address, with \<^verbatim>\<open>const\<close> cast away.\<close>

definition mbuf_ip_nonconst :: "dpdk \<Rightarrow> rte_mbuf \<Rightarrow> nat res" where
  "mbuf_ip_nonconst env packet = mbuf_ip env packet"

definition mbuf_udp_nonconst :: "dpdk \<Rightarrow> rte_mbuf \<Rightarrow> nat res" where
  "mbuf_udp_nonconst env packet = mbuf_udp env packet"

definition mbuf_bth_nonconst :: "rte_mbuf \<Rightarrow> nat res" where
  "mbuf_bth_nonconst packet = mbuf_bth packet"

declare mbuf_ip_nonconst_def [simp] mbuf_udp_nonconst_def [simp] mbuf_bth_nonconst_def [simp]

section \<open>The contract of a header slot\<close>

text \<open>
  What the users of \<^verbatim>\<open>ctcm_mbuf_set_*\<close> and \<^verbatim>\<open>ctcm_mbuf_get_*\<close> rely on: a non-null pointer inside the
  packet and below 64 KiB is read back, null is read back as null, a pointer outside the packet is
  refused, and nothing but the dynamic field changes.
\<close>

locale header_slot =
  fixes get_hdr :: "rte_mbuf \<Rightarrow> nat option res"
    and set_hdr :: "rte_mbuf \<Rightarrow> nat option \<Rightarrow> rte_mbuf res"
    and slot :: int
  assumes set_hdr_eq: "set_hdr p h =
      (if (case h of Some b \<Rightarrow> b | None \<Rightarrow> 0) < pkt_len p
       then Inr (p\<lparr>dynfield := (dynfield p)(slot := word_of_nat (case h of Some b \<Rightarrow> b | None \<Rightarrow> 0))\<rparr>)
       else Inl Assertion_failed)"
    and get_hdr_eq: "get_hdr p =
      (if dynfield p slot = 0 then Inr None
       else if unat (dynfield p slot) < pkt_len p then Inr (Some (unat (dynfield p slot)))
       else Inl Assertion_failed)"
begin

lemma set_hdr_None: "0 < pkt_len p \<Longrightarrow>
    set_hdr p None = Inr (p\<lparr>dynfield := (dynfield p)(slot := 0)\<rparr>)"
  by (simp add: set_hdr_eq)

lemma set_hdr_Some: "b < pkt_len p \<Longrightarrow>
    set_hdr p (Some b) = Inr (p\<lparr>dynfield := (dynfield p)(slot := word_of_nat b)\<rparr>)"
  by (simp add: set_hdr_eq)

lemma set_hdr_outside: "pkt_len p \<le> b \<Longrightarrow> set_hdr p (Some b) = Inl Assertion_failed"
  by (simp add: set_hdr_eq)

lemma get_set_hdr:
  assumes "0 < b" "b < 65536" "set_hdr p (Some b) = Inr p'"
  shows "get_hdr p' = Inr (Some b)"
proof -
  have u: "unat (word_of_nat b :: u16) = b"
    using assms(2) by (simp add: unat_of_nat take_bit_nat_eq_self)
  then have "(word_of_nat b :: u16) \<noteq> 0" using assms(1) by (metis not_gr_zero unat_0)
  then show ?thesis using assms(3) u by (auto simp: set_hdr_eq get_hdr_eq split: if_splits)
qed

lemma get_set_hdr_None: "set_hdr p None = Inr p' \<Longrightarrow> get_hdr p' = Inr None"
  by (auto simp: set_hdr_eq get_hdr_eq split: if_splits)

lemma set_hdr_frame:
  assumes "set_hdr p h = Inr p'"
  shows "buf p' = buf p" "pkt_len p' = pkt_len p" "l2_len p' = l2_len p" "l3_len p' = l3_len p"
    "packet_type p' = packet_type p" "s \<noteq> slot \<Longrightarrow> dynfield p' s = dynfield p s"
  using assms by (auto simp: set_hdr_eq split: if_splits)

end

interpretation bth_slot: header_slot "ctcm_mbuf_get_bth offs" "ctcm_mbuf_set_bth offs" "off_bth offs"
  for offs
  by unfold_locales
    (auto simp: ctcm_mbuf_get_bth_def ctcm_mbuf_set_bth_def ctcm_mbuf_bth_offset_def Let_def)

interpretation mad_slot: header_slot "ctcm_mbuf_get_mad offs" "ctcm_mbuf_set_mad offs" "off_mad offs"
  for offs
  by unfold_locales
    (auto simp: ctcm_mbuf_get_mad_def ctcm_mbuf_set_mad_def ctcm_mbuf_mad_offset_def Let_def)

end
