(* ===== verification/Wire_Sizes.thy ===== *)
theory Wire_Sizes
  imports Rxe_Hdr Ib_Mad_Defs Mbuf
begin

text \<open>
  Sizes and layouts the headers announce: the header lengths and the unpacked headers of \<^verbatim>\<open>src/ib_pack.h\<close>, the header
  lengths and syndromes of \<^verbatim>\<open>src/rxe_hdr.h\<close> and the remaining declarations of \<^verbatim>\<open>src/rxe_opcode.h\<close>.  The functions that would
  pack and unpack headers are declared there but defined nowhere in the library.
\<close>

section \<open>Packet headers of \<^verbatim>\<open>ib_pack.h\<close>\<close>

definition IB_LRH_BYTES :: nat where "IB_LRH_BYTES = 8"
definition IB_ETH_BYTES :: nat where "IB_ETH_BYTES = 14"
definition IB_VLAN_BYTES :: nat where "IB_VLAN_BYTES = 4"
definition IB_GRH_BYTES :: nat where "IB_GRH_BYTES = 40"
definition IB_IP4_BYTES :: nat where "IB_IP4_BYTES = 20"
definition IB_UDP_BYTES :: nat where "IB_UDP_BYTES = 8"
definition IB_BTH_BYTES :: nat where "IB_BTH_BYTES = 12"
definition IB_DETH_BYTES :: nat where "IB_DETH_BYTES = 8"
definition IB_EXT_ATOMICETH_BYTES :: nat where "IB_EXT_ATOMICETH_BYTES = 28"
definition IB_EXT_XRC_BYTES :: nat where "IB_EXT_XRC_BYTES = 4"
definition IB_ICRC_BYTES :: nat where "IB_ICRC_BYTES = 4"

record ib_field =
  struct_offset_bytes :: nat
  struct_size_bytes :: nat
  offset_words :: int
  offset_bits :: int
  size_bits :: int
  field_name :: string

definition RESERVED :: "ib_field \<Rightarrow> ib_field" where
  "RESERVED f = f\<lparr>field_name := ''reserved''\<rparr>"

datatype ib_lnh = IB_LNH_RAW | IB_LNH_IP | IB_LNH_IBA_LOCAL | IB_LNH_IBA_GLOBAL

fun lnh_num :: "ib_lnh \<Rightarrow> u8" where
  "lnh_num IB_LNH_RAW = 0"
| "lnh_num IB_LNH_IP = 1"
| "lnh_num IB_LNH_IBA_LOCAL = 2"
| "lnh_num IB_LNH_IBA_GLOBAL = 3"

definition ib_unpacked_lrh :: c_struct where
  "ib_unpacked_lrh =
     [scalar ''virtual_lane'' 1, scalar ''link_version'' 1, scalar ''service_level'' 1, scalar ''link_next_header'' 1,
      scalar ''destination_lid'' 2, scalar ''packet_length'' 2, scalar ''source_lid'' 2]"

definition ib_unpacked_grh :: "c_layout \<Rightarrow> c_struct" where
  "ib_unpacked_grh gid =
     [scalar ''ip_version'' 1, scalar ''traffic_class'' 1, scalar ''flow_label'' 4, scalar ''payload_length'' 2,
      scalar ''next_header'' 1, scalar ''hop_limit'' 1, (''source_gid'', gid), (''destination_gid'', gid)]"

definition ib_unpacked_bth :: c_struct where
  "ib_unpacked_bth =
     [scalar ''opcode'' 1, scalar ''solicited_event'' 1, scalar ''mig_req'' 1, scalar ''pad_count'' 1,
      scalar ''transport_header_version'' 1, scalar ''pkey'' 2, scalar ''destination_qpn'' 4, scalar ''ack_req'' 1,
      scalar ''psn'' 4]"

definition ib_unpacked_deth :: c_struct where
  "ib_unpacked_deth = [scalar ''qkey'' 4, scalar ''source_qpn'' 4]"

definition ib_unpacked_eth :: c_struct where
  "ib_unpacked_eth =
     [byte_array ''dmac_h'' 4, byte_array ''dmac_l'' 2, byte_array ''smac_h'' 2, byte_array ''smac_l'' 4,
      scalar ''type'' 2]"

definition ib_unpacked_ip4 :: c_struct where
  "ib_unpacked_ip4 =
     [scalar ''ver'' 1, scalar ''hdr_len'' 1, scalar ''tos'' 1, scalar ''tot_len'' 2, scalar ''id'' 2,
      scalar ''frag_off'' 2, scalar ''ttl'' 1, scalar ''protocol'' 1, scalar ''check'' 2, scalar ''saddr'' 4,
      scalar ''daddr'' 4]"

definition ib_unpacked_udp :: c_struct where
  "ib_unpacked_udp = [scalar ''sport'' 2, scalar ''dport'' 2, scalar ''length'' 2, scalar ''csum'' 2]"

definition ib_unpacked_vlan :: c_struct where
  "ib_unpacked_vlan = [scalar ''tag'' 2, scalar ''type'' 2]"

text \<open>A member that is itself a structure.\<close>

definition nested :: "string \<Rightarrow> c_struct \<Rightarrow> c_member" where
  "nested name s = (name, sizeof s, max_align s)"

definition ib_ud_header :: "c_layout \<Rightarrow> c_struct" where
  "ib_ud_header gid =
     [scalar ''lrh_present'' 4, nested ''lrh'' ib_unpacked_lrh, scalar ''eth_present'' 4, nested ''eth'' ib_unpacked_eth,
      scalar ''vlan_present'' 4, nested ''vlan'' ib_unpacked_vlan, scalar ''grh_present'' 4,
      nested ''grh'' (ib_unpacked_grh gid), scalar ''ipv4_present'' 4, nested ''ip4'' ib_unpacked_ip4,
      scalar ''udp_present'' 4, nested ''udp'' ib_unpacked_udp, nested ''bth'' ib_unpacked_bth,
      nested ''deth'' ib_unpacked_deth, scalar ''immediate_present'' 4, scalar ''immediate_data'' 4]"

section \<open>Header lengths, keys and syndromes of \<^verbatim>\<open>rxe_hdr.h\<close>\<close>

definition RXE_MAX_HDR_LENGTH :: nat where "RXE_MAX_HDR_LENGTH = 80"
definition BTH_TVER :: u8 where "BTH_TVER = 0"
definition BTH_DEF_PKEY :: u16 where "BTH_DEF_PKEY = 0xffff"
definition GSI_QKEY :: u32 where "GSI_QKEY = 0x80010000"

datatype aeth_syndrome =
  AETH_TYPE_MASK | AETH_ACK | AETH_RNR_NAK | AETH_RSVD | AETH_NAK | AETH_ACK_UNLIMITED | AETH_NAK_PSN_SEQ_ERROR
| AETH_NAK_INVALID_REQ | AETH_NAK_REM_ACC_ERR | AETH_NAK_REM_OP_ERR | AETH_NAK_INV_RD_REQ

fun syndrome_num :: "aeth_syndrome \<Rightarrow> u8" where
  "syndrome_num AETH_TYPE_MASK = 0xe0"
| "syndrome_num AETH_ACK = 0x00"
| "syndrome_num AETH_RNR_NAK = 0x20"
| "syndrome_num AETH_RSVD = 0x40"
| "syndrome_num AETH_NAK = 0x60"
| "syndrome_num AETH_ACK_UNLIMITED = 0x1f"
| "syndrome_num AETH_NAK_PSN_SEQ_ERROR = 0x60"
| "syndrome_num AETH_NAK_INVALID_REQ = 0x61"
| "syndrome_num AETH_NAK_REM_ACC_ERR = 0x62"
| "syndrome_num AETH_NAK_REM_OP_ERR = 0x63"
| "syndrome_num AETH_NAK_INV_RD_REQ = 0x64"

definition RXE_BTH_BYTES :: nat where "RXE_BTH_BYTES = sizeof rxe_bth"
definition RXE_DETH_BYTES :: nat where "RXE_DETH_BYTES = sizeof rxe_deth"
definition RXE_IMMDT_BYTES :: nat where "RXE_IMMDT_BYTES = sizeof rxe_immdt"
definition RXE_RETH_BYTES :: nat where "RXE_RETH_BYTES = sizeof rxe_reth"
definition RXE_AETH_BYTES :: nat where "RXE_AETH_BYTES = sizeof rxe_aeth"
definition RXE_ATMACK_BYTES :: nat where "RXE_ATMACK_BYTES = sizeof rxe_atmack"
definition RXE_ATMETH_BYTES :: nat where "RXE_ATMETH_BYTES = sizeof rxe_atmeth"
definition RXE_IETH_BYTES :: nat where "RXE_IETH_BYTES = sizeof rxe_ieth"
definition RXE_RDETH_BYTES :: nat where "RXE_RDETH_BYTES = sizeof rxe_rdeth"

lemmas rxe_length_defs = RXE_BTH_BYTES_def RXE_DETH_BYTES_def RXE_IMMDT_BYTES_def RXE_RETH_BYTES_def RXE_AETH_BYTES_def
  RXE_ATMACK_BYTES_def RXE_ATMETH_BYTES_def RXE_IETH_BYTES_def RXE_RDETH_BYTES_def

section \<open>Opcode tables of \<^verbatim>\<open>rxe_opcode.h\<close>\<close>

definition WR_MAX_QPT :: nat where "WR_MAX_QPT = 8"
definition OPCODE_NONE :: int where "OPCODE_NONE = -1"
definition RXE_NUM_OPCODE :: nat where "RXE_NUM_OPCODE = 256"

record rxe_wr_opcode_info =
  wr_name :: string
  wr_mask :: "u64 list"

section \<open>The announced lengths agree\<close>

text \<open>
  The lengths of \<^verbatim>\<open>ib_pack.h\<close> are those of the structures the library reads the headers with, and the atomic, immediate and
  invalidate headers have their lengths on the wire.
\<close>

lemma header_lengths_agree:
  "IB_BTH_BYTES = RXE_BTH_BYTES" "IB_DETH_BYTES = RXE_DETH_BYTES" "IB_IP4_BYTES = sizeof iphdr"
  "IB_UDP_BYTES = sizeof udphdr" "int IB_ICRC_BYTES = RXE_ICRC_SIZE" "IB_EXT_ATOMICETH_BYTES = RXE_ATMETH_BYTES"
  "RXE_IMMDT_BYTES = 4" "RXE_RETH_BYTES = 16" "RXE_AETH_BYTES = 4" "RXE_ATMACK_BYTES = 8" "RXE_IETH_BYTES = 4"
  "RXE_RDETH_BYTES = 4"
  by (simp_all add: rxe_length_defs rxe_struct_defs c_layout_defs RXE_ICRC_SIZE_def IB_BTH_BYTES_def IB_DETH_BYTES_def
      iphdr_def udphdr_def IB_IP4_BYTES_def IB_UDP_BYTES_def IB_ICRC_BYTES_def IB_EXT_ATOMICETH_BYTES_def flip: numeral_2_eq_2)

text \<open>The longest header chain, an atomic request over reliable datagram, stays below the announced maximum.\<close>

lemma longest_header_chain:
  "RXE_BTH_BYTES + RXE_RDETH_BYTES + RXE_DETH_BYTES + RXE_ATMETH_BYTES \<le> RXE_MAX_HDR_LENGTH"
  by (simp add: rxe_length_defs rxe_struct_defs c_layout_defs RXE_MAX_HDR_LENGTH_def)

text \<open>The type mask sorts the syndromes: all error codes are NAKs, the unlimited credit is an ACK.\<close>

lemma syndrome_types:
  assumes "s \<in> {AETH_NAK_PSN_SEQ_ERROR, AETH_NAK_INVALID_REQ, AETH_NAK_REM_ACC_ERR, AETH_NAK_REM_OP_ERR, AETH_NAK_INV_RD_REQ}"
  shows "syndrome_num s AND syndrome_num AETH_TYPE_MASK = syndrome_num AETH_NAK"
    "syndrome_num AETH_ACK_UNLIMITED AND syndrome_num AETH_TYPE_MASK = syndrome_num AETH_ACK"
  using assms by auto

lemma gsi_keys_agree: "GSI_QKEY = IB_QP1_QKEY" "BTH_DEF_PKEY = IB_DEFAULT_PKEY_FULL"
  by (simp_all add: GSI_QKEY_def IB_QP1_QKEY_def BTH_DEF_PKEY_def IB_DEFAULT_PKEY_FULL_def)

text \<open>The layout of the unpacked headers, with a GID of 16 bytes aligned to 8 as the verbs library lays it out.\<close>

lemma unpacked_sizes:
  "sizeof ib_unpacked_lrh = 10" "sizeof ib_unpacked_eth = 14" "sizeof ib_unpacked_vlan = 4"
  "sizeof (ib_unpacked_grh (16, 8)) = 48" "sizeof ib_unpacked_ip4 = 24" "sizeof ib_unpacked_udp = 8"
  "sizeof ib_unpacked_bth = 20" "sizeof ib_unpacked_deth = 8"
  by (simp_all add: ib_unpacked_lrh_def ib_unpacked_eth_def ib_unpacked_vlan_def ib_unpacked_grh_def ib_unpacked_ip4_def
      ib_unpacked_udp_def ib_unpacked_bth_def ib_unpacked_deth_def c_layout_defs flip: numeral_2_eq_2)

lemma unpacked_aligns:
  "max_align ib_unpacked_lrh = 2" "max_align ib_unpacked_eth = 2" "max_align ib_unpacked_vlan = 2"
  "max_align (ib_unpacked_grh (16, 8)) = 8" "max_align ib_unpacked_ip4 = 4" "max_align ib_unpacked_udp = 2"
  "max_align ib_unpacked_bth = 4" "max_align ib_unpacked_deth = 4"
  by (simp_all add: ib_unpacked_lrh_def ib_unpacked_eth_def ib_unpacked_vlan_def ib_unpacked_grh_def ib_unpacked_ip4_def
      ib_unpacked_udp_def ib_unpacked_bth_def ib_unpacked_deth_def scalar_def byte_array_def)

lemma ud_header_layout: "sizeof (ib_ud_header (16, 8)) = 176" "offsetof (ib_ud_header (16, 8)) ''bth'' = 136"
  by (simp_all add: ib_ud_header_def nested_def unpacked_sizes unpacked_aligns scalar_def align_up_def sizeof_def
      [of "_ # _"] offsetof_def flip: numeral_2_eq_2)

end
