(* ===== verification/Dpdk_Instance.thy ===== *)
theory Dpdk_Instance
  imports Mbuf
begin

text \<open>
  A concrete DPDK environment: packet-type constants, a registration of the two dynamic fields, an
  append into the tailroom of a single-segment packet, and the Ethernet CRC-32.  The component
  theories are about any environment; this one only serves to run them, in the theorems
  that exercise a property at a concrete packet.
\<close>

definition crc32_bit :: "u32 \<Rightarrow> u32" where
  "crc32_bit c = (if bit c 0 then drop_bit 1 c XOR 0xEDB88320 else drop_bit 1 c)"

definition crc32_byte :: "u32 \<Rightarrow> byte \<Rightarrow> u32" where
  "crc32_byte c b = (crc32_bit ^^ 8) (c XOR ucast b)"

definition crc32_eth :: "byte list \<Rightarrow> u32" where
  "crc32_eth bs = NOT (foldl crc32_byte 0xFFFFFFFF bs)"

definition append_tail :: "rte_mbuf \<Rightarrow> u16 \<Rightarrow> (rte_mbuf \<times> nat) option" where
  "append_tail p n =
     (if data_len p + unat n \<le> length (buf p)
      then Some (p\<lparr>data_len := data_len p + unat n, pkt_len := pkt_len p + unat n\<rparr>, data_len p)
      else None)"

definition sample_dpdk :: dpdk where
  "sample_dpdk =
     \<lparr> RTE_PTYPE_L3_IPV4 = 0x10, RTE_PTYPE_L4_UDP = 0x200, RTE_PTYPE_L4_MASK = 0xf00,
       RTE_ETH_IS_IPV4_HDR = (\<lambda>t. t AND 0x10 \<noteq> 0),
       rte_mbuf_dynfield_register = (\<lambda>name sz al. if name = ''BTH'' then 64 else 66),
       rte_pktmbuf_append = append_tail,
       rte_net_crc_calc = crc32_eth \<rparr>"

lemma sample_dpdk_simps [simp]:
  "RTE_PTYPE_L3_IPV4 sample_dpdk = 0x10" "RTE_PTYPE_L4_UDP sample_dpdk = 0x200"
  "RTE_PTYPE_L4_MASK sample_dpdk = 0xf00"
  "RTE_ETH_IS_IPV4_HDR sample_dpdk t \<longleftrightarrow> t AND 0x10 \<noteq> 0"
  "rte_pktmbuf_append sample_dpdk = append_tail" "rte_net_crc_calc sample_dpdk = crc32_eth"
  "rte_mbuf_dynfield_register sample_dpdk ''BTH'' n al = 64"
  "rte_mbuf_dynfield_register sample_dpdk ''IB_MAD_HDR'' n al = 66"
  by (simp_all add: sample_dpdk_def)

definition sample_offsets :: ctcm_dynfield_offsets where
  "sample_offsets = \<lparr>off_size = 12, off_bth = 64, off_mad = 66\<rparr>"

lemma sample_offsets_simps [simp]:
  "off_bth sample_offsets = 64" "off_mad sample_offsets = 66"
  by (simp_all add: sample_offsets_def)

text \<open>
  A RoCE v2 UD packet to QP 1: an Ethernet header, an IPv4 header from \<open>src\<close> to \<open>dst\<close> (four bytes
  each), a UDP header with length field \<open>ulen\<close>, BTH, DETH and the MAD bytes.
\<close>

definition ud_packet :: "byte list \<Rightarrow> byte list \<Rightarrow> byte list \<Rightarrow> byte list \<Rightarrow> rte_mbuf" where
  "ud_packet src dst ulen mad =
     (let bs = replicate 14 0 @
           [0x45, 0, 0, 0, 0, 0, 0, 0, 0x40, 0x11, 0, 0] @ src @ dst @
           [0xf0, 0, 0x12, 0xb7] @ ulen @ [0, 0] @
           [0x64, 0, 0xff, 0xff, 0, 0, 0, 1, 0, 0, 0, 0] @
           [0x80, 0x01, 0, 0, 0, 0, 0, 1] @ mad
      in \<lparr>packet_type = 0x210, l2_len = 14, l3_len = 20, l4_len = 8, data_len = length bs,
          pkt_len = length bs, buf = bs, dynfield = (\<lambda>_. 0)\<rparr>)"

text \<open>A CM MAD header with the given attribute identifier.\<close>

definition cm_mad_hdr :: "byte \<Rightarrow> byte list" where
  "cm_mad_hdr attr = [1, 7, 2, 3, 0, 0, 0, 0, 0, 0, 0, 0, 0, 0, 0, 0, 0, attr, 0, 0, 0, 0, 0, 0]"

end
