(* ===== verification/Cnp.thy ===== *)
theory Cnp
  imports Rxe_Hdr Dpdk_Instance
begin

text \<open>
  \<^verbatim>\<open>src/cnp.cpp\<close>: congestion notification packets.  \<open>write_cnp_template\<close> is the part of
  \<^verbatim>\<open>ctcm_fill_cnp_template\<close> after the append, \<open>cnp_pseudo_packet\<close> the construction of the pseudo packet over
  which \<^verbatim>\<open>ctcm_generate_cnp\<close> computes the invariant CRC.  The CRC itself and the append are
  DPDK's and come from the \<open>dpdk\<close> environment.  Both functions of the code ignore their context argument.
\<close>

section \<open>Definitions\<close>

definition CTCM_UDP_LENGTH :: nat where "CTCM_UDP_LENGTH = 8"
definition CTCM_BTH_LENGTH :: nat where "CTCM_BTH_LENGTH = 12"
definition CTCM_ICRC_LENGTH :: nat where "CTCM_ICRC_LENGTH = 4"
definition CTCM_CNP_LENGTH :: nat where "CTCM_CNP_LENGTH = 16"

definition CTCM_CNP_TOTAL_LENGTH :: nat where
  "CTCM_CNP_TOTAL_LENGTH = CTCM_BTH_LENGTH + CTCM_CNP_LENGTH + CTCM_ICRC_LENGTH"

lemmas cnp_length_defs [layout_simps] = CTCM_UDP_LENGTH_def CTCM_BTH_LENGTH_def CTCM_ICRC_LENGTH_def
  CTCM_CNP_LENGTH_def CTCM_CNP_TOTAL_LENGTH_def

text \<open>The two four-bit fields of the first byte of the IPv4 header, on a little-endian machine.\<close>

definition set_ip_version :: "byte list \<Rightarrow> nat \<Rightarrow> u8 \<Rightarrow> byte list res" where
  "set_ip_version m ip v =
     bind_res (load m (ip + offsetof iphdr ''ihl_version'')) (\<lambda>b.
       store m (ip + offsetof iphdr ''ihl_version'') ((b AND 0x0f) OR push_bit 4 v))"

definition set_ip_ihl :: "byte list \<Rightarrow> nat \<Rightarrow> u8 \<Rightarrow> byte list res" where
  "set_ip_ihl m ip v =
     bind_res (load m (ip + offsetof iphdr ''ihl_version'')) (\<lambda>b.
       store m (ip + offsetof iphdr ''ihl_version'') ((b AND 0xf0) OR (v AND 0x0f)))"

definition write_cnp_template :: "byte list \<Rightarrow> nat \<Rightarrow> byte list res" where
  "write_cnp_template m ip =
     (let len = sizeof iphdr + sizeof udphdr + CTCM_CNP_TOTAL_LENGTH;
          udp = ip + sizeof iphdr;
          bth = udp + sizeof udphdr
      in bind_res (memset m ip 0 len) (\<lambda>m.
         bind_res (set_ip_version m ip 4) (\<lambda>m.
         bind_res (set_ip_ihl m ip (word_of_nat (sizeof iphdr div 4))) (\<lambda>m.
         bind_res (store m (ip + offsetof iphdr ''ttl'') (255 :: u8)) (\<lambda>m.
         bind_res (store m (ip + offsetof iphdr ''protocol'') (17 :: u8)) (\<lambda>m.
         bind_res (store m (ip + offsetof iphdr ''frag_off'') (htons 0x4000)) (\<lambda>m.
         bind_res (store m (ip + offsetof iphdr ''tos'') (0xc2 :: u8)) (\<lambda>m.
         bind_res (store m (ip + offsetof iphdr ''tot_len'') (htons (word_of_nat len))) (\<lambda>m.
         bind_res (store m (udp + offsetof udphdr ''uh_sport'') (htons 0xf000)) (\<lambda>m.
         bind_res (store m (udp + offsetof udphdr ''uh_dport'') (htons UDP_PORT_ROCE_V2)) (\<lambda>m.
         bind_res (store m (udp + offsetof udphdr ''uh_ulen'')
             (htons (word_of_nat (sizeof udphdr + CTCM_CNP_TOTAL_LENGTH)))) (\<lambda>m.
         bind_res (raw_bth_set_opcode m bth 0x81) (\<lambda>m.
         bind_res (raw_bth_set_becn m bth True) (\<lambda>m.
         raw_bth_set_pkey m bth 0xffff))))))))))))))"

definition ctcm_fill_cnp_template :: "dpdk \<Rightarrow> rte_mbuf \<Rightarrow> (rte_mbuf \<times> int) res" where
  "ctcm_fill_cnp_template env cnp =
     (let cnp = cnp\<lparr>packet_type := RTE_PTYPE_L4_UDP env OR RTE_PTYPE_L3_IPV4 env,
                    l3_len := sizeof iphdr, l4_len := sizeof udphdr\<rparr>;
          len = sizeof iphdr + sizeof udphdr + CTCM_CNP_TOTAL_LENGTH
      in case rte_pktmbuf_append env cnp (word_of_nat len) of
           None \<Rightarrow> Inr (cnp, -1)
         | Some (cnp, ip) \<Rightarrow>
             bind_res (write_cnp_template (buf cnp) ip) (\<lambda>m. Inr (cnp\<lparr>buf := m\<rparr>, 0)))"

definition cnp_icrc_pseudo_packet :: c_struct where
  "cnp_icrc_pseudo_packet =
     [byte_array ''reserved_1'' 8, (''ip'', 20, 4), (''udp'', 8, 2), (''bth'', 12, 4),
      byte_array ''reserved_2'' CTCM_CNP_LENGTH]"

definition cnp_pseudo_packet :: "byte list \<Rightarrow> nat \<Rightarrow> byte list res" where
  "cnp_pseudo_packet m ip =
     (let phdr_ip = offsetof cnp_icrc_pseudo_packet ''ip'';
          phdr_udp = offsetof cnp_icrc_pseudo_packet ''udp'';
          phdr_bth = offsetof cnp_icrc_pseudo_packet ''bth''
      in bind_res (load_bytes m ip (sizeof cnp_icrc_pseudo_packet - 8)) (\<lambda>bs.
         bind_res (store (replicate 8 0xff @ bs) (phdr_ip + offsetof iphdr ''check'') (0xffff :: u16)) (\<lambda>ph.
         bind_res (store ph (phdr_ip + offsetof iphdr ''ttl'') (0xff :: u8)) (\<lambda>ph.
         bind_res (store ph (phdr_ip + offsetof iphdr ''tos'') (0xff :: u8)) (\<lambda>ph.
         bind_res (store ph (phdr_udp + offsetof udphdr ''uh_sum'') (0xffff :: u16)) (\<lambda>ph.
         bind_res (raw_bth_qpn ph phdr_bth) (\<lambda>qpn.
         store ph (phdr_bth + offsetof rxe_bth ''qpn'')
           (htonl (BTH_FECN_MASK OR BTH_BECN_MASK OR BTH_RESV6A_MASK OR qpn)))))))))"

definition ctcm_generate_cnp :: "dpdk \<Rightarrow> rte_mbuf \<Rightarrow> u32 \<Rightarrow> rte_mbuf res" where
  "ctcm_generate_cnp env cnp dest_qpn =
     bind_res (mbuf_ip_nonconst env cnp) (\<lambda>ip.
     bind_res (mbuf_bth_nonconst cnp) (\<lambda>bth.
     bind_res (raw_bth_set_qpn (buf cnp) bth dest_qpn) (\<lambda>m.
     bind_res (cnp_pseudo_packet m ip) (\<lambda>phdr.
     bind_res (store m (bth + sizeof rxe_bth + CTCM_CNP_LENGTH) (rte_net_crc_calc env phdr)) (\<lambda>m.
       Inr (cnp\<lparr>buf := m\<rparr>))))))"

lemma cnp_icrc_pseudo_packet_layout [simp, layout_simps]:
  "sizeof cnp_icrc_pseudo_packet = 64" "offsetof cnp_icrc_pseudo_packet ''ip'' = 8"
  "offsetof cnp_icrc_pseudo_packet ''udp'' = 28" "offsetof cnp_icrc_pseudo_packet ''bth'' = 36"
  by (simp_all add: c_layout_defs cnp_icrc_pseudo_packet_def cnp_length_defs)

section \<open>The template\<close>

text \<open>The 60 bytes of the template.\<close>

definition cnp_template :: "byte list" where
  "cnp_template =
     [0x45, 0xc2, 0, 60, 0, 0, 0x40, 0, 255, 17, 0, 0, 0, 0, 0, 0, 0, 0, 0, 0] @
     [0xf0, 0, 0x12, 0xb7, 0, 40, 0, 0] @
     [0x81, 0, 0xff, 0xff, 0x40, 0, 0, 0, 0, 0, 0, 0] @ replicate 16 0 @ replicate 4 0"

text \<open>Loads and stores inside the middle part of a buffer.\<close>

lemma store_middle:
  fixes w :: "'a::len word"
  assumes "k + LENGTH('a) div 8 \<le> length mid"
  shows "store (pre @ mid @ post) (length pre + k) w = map_res (\<lambda>x. pre @ x @ post) (store mid k w)"
  using assms by (simp add: store_def)

lemma load_middle:
  assumes "k + LENGTH('a) div 8 \<le> length mid"
  shows "(load (pre @ mid @ post) (length pre + k) :: 'a::len word res) = load mid k"
  using assms by (simp add: load_def)

text \<open>
  A writer is local if what it does to a region of 60 bytes does not depend on where
  the region lies.
\<close>

definition local_writer :: "(byte list \<Rightarrow> nat \<Rightarrow> byte list res) \<Rightarrow> bool" where
  "local_writer f \<longleftrightarrow> (\<forall>pre mid post. length mid = 60 \<longrightarrow>
     f (pre @ mid @ post) (length pre) = map_res (\<lambda>x. pre @ x @ post) (f mid 0) \<and>
     (\<forall>x. f mid 0 = Inr x \<longrightarrow> length x = 60))"

lemma local_writer_bind:
  assumes f: "local_writer f" and g: "local_writer g"
  shows "local_writer (\<lambda>m ip. bind_res (f m ip) (\<lambda>m. g m ip))"
  unfolding local_writer_def
proof (intro allI impI)
  fix pre mid post :: "byte list"
  assume len: "length mid = 60"
  note f' = f [unfolded local_writer_def, rule_format, OF len, of pre post]
  show "bind_res (f (pre @ mid @ post) (length pre)) (\<lambda>m. g m (length pre)) =
      map_res (\<lambda>x. pre @ x @ post) (bind_res (f mid 0) (\<lambda>m. g m 0)) \<and>
    (\<forall>x. bind_res (f mid 0) (\<lambda>m. g m 0) = Inr x \<longrightarrow> length x = 60)"
  proof (cases "f mid 0")
    case (Inr x)
    then have "length x = 60" using f' by simp
    from g [unfolded local_writer_def, rule_format, OF this, of pre post] show ?thesis using f' Inr by simp
  qed (use f' in simp)
qed

lemma local_writer_store:
  fixes w :: "'a::len word"
  shows "k + LENGTH('a) div 8 \<le> 60 \<Longrightarrow> local_writer (\<lambda>m ip. store m (ip + k) w)"
  by (auto simp: local_writer_def store_middle dest: store_length)

lemma local_writer_update:
  fixes g :: "'a::len word \<Rightarrow> 'a word"
  assumes "k + LENGTH('a) div 8 \<le> 60"
  shows "local_writer (\<lambda>m ip. bind_res (load m (ip + k)) (\<lambda>w. store m (ip + k) (g w)))"
  unfolding local_writer_def
proof (intro allI impI)
  fix pre mid post :: "byte list"
  assume len: "length mid = 60"
  then obtain w :: "'a word" where "load mid k = Inr w" using load_in_bounds [of k mid] assms by auto
  then show "bind_res (load (pre @ mid @ post) (length pre + k)) (\<lambda>w. store (pre @ mid @ post) (length pre + k) (g w)) =
      map_res (\<lambda>x. pre @ x @ post) (bind_res (load mid (0 + k)) (\<lambda>w. store mid (0 + k) (g w))) \<and>
    (\<forall>x. bind_res (load mid (0 + k)) (\<lambda>w. store mid (0 + k) (g w)) = Inr x \<longrightarrow> length x = 60)"
    using assms len by (auto simp: load_middle store_middle dest: store_length)
qed

lemma local_writer_memset: "local_writer (\<lambda>m ip. memset m ip v 60)"
  by (simp add: local_writer_def memset_def)

lemma local_writer_template: "local_writer write_cnp_template"
proof -
  have st: "local_writer (\<lambda>m ip. store m (ip + k) (w :: u8))" "local_writer (\<lambda>m ip. store m (ip + k) (w' :: u16))"
    if "k \<le> 58" for k w w' using that by (auto intro: local_writer_store)
  have up: "local_writer (\<lambda>m ip. set_ip_version m ip v)" "local_writer (\<lambda>m ip. set_ip_ihl m ip v)" for v
    using local_writer_update [where 'a = 8 and k = 0] by (simp_all add: set_ip_version_def set_ip_ihl_def)
  have becn: "local_writer (\<lambda>m ip. raw_bth_set_becn m (ip + k) b)" if "k \<le> 48" for b k
    using local_writer_update [where 'a = 32 and k = "k + 4"] that
    by (simp add: raw_bth_set_becn_def add.assoc)
  have len: "sizeof iphdr + sizeof udphdr + CTCM_CNP_TOTAL_LENGTH = 60" by (simp add: cnp_length_defs)
  show ?thesis
    unfolding write_cnp_template_def [abs_def] Let_def len raw_bth_set_opcode_def raw_bth_set_pkey_def
    unfolding add.assoc
    by (intro local_writer_bind local_writer_memset up st becn) simp_all
qed

lemma write_cnp_template_zero: "write_cnp_template (replicate 60 0) 0 = Inr cnp_template"
  by code_simp

lemma write_cnp_template_eq:
  assumes "ip + 60 \<le> length m"
  shows "write_cnp_template m ip = Inr (take ip m @ cnp_template @ drop (ip + 60) m)"
proof -
  let ?mid = "take 60 (drop ip m)"
  have m: "m = take ip m @ ?mid @ drop (ip + 60) m" "length (take ip m) = ip" "length ?mid = 60"
    using assms append_take_drop_id [of 60 "drop ip m"] by (simp_all add: add.commute)
  have "write_cnp_template ?mid 0 = write_cnp_template (replicate 60 0) 0"
    using m(3) by (simp add: write_cnp_template_def memset_def cnp_length_defs Let_def)
  moreover have "write_cnp_template (take ip m @ ?mid @ drop (ip + 60) m) (length (take ip m)) =
      map_res (\<lambda>x. take ip m @ x @ drop (ip + 60) m) (write_cnp_template ?mid 0)"
    using local_writer_template m(3) unfolding local_writer_def by blast
  ultimately show ?thesis using m(1,2) write_cnp_template_zero by simp
qed

section \<open>The invariant CRC\<close>

text \<open>
  What the ICRC covers, as the RoCE v2 annex has it: eight bytes of ones, then the headers and the
  payload with the fields that routers may change replaced by ones: type of service, time to
  live, IPv4 checksum, UDP checksum, and the byte with the congestion bits of the BTH.
\<close>

definition icrc_variant :: "nat set" where
  "icrc_variant = {1, 8, 10, 11, 26, 27, 32}"

definition icrc_input :: "byte list \<Rightarrow> nat \<Rightarrow> byte list" where
  "icrc_input m ip =
     replicate 8 0xff @ map (\<lambda>i. if i \<in> icrc_variant then 0xff else m ! (ip + i)) [0..<56]"

lemma cnp_pseudo_packet_eq:
  assumes "ip + 56 \<le> length m"
  shows "cnp_pseudo_packet m ip = Inr (icrc_input m ip)"
proof -
  let ?p0 = "replicate 8 0xff @ take 56 (drop ip m)"
  have l0: "length ?p0 = 64" using assms by simp
  obtain p1 where p1: "store ?p0 18 (0xffff :: u16) = Inr p1" "length p1 = 64"
    using store_in_bounds [of 18 ?p0 "0xffff :: u16"] l0 store_length by force
  obtain p2 where p2: "store p1 16 (0xff :: u8) = Inr p2" "length p2 = 64"
    using store_in_bounds [of 16 p1 "0xff :: u8"] p1 store_length by force
  obtain p3 where p3: "store p2 9 (0xff :: u8) = Inr p3" "length p3 = 64"
    using store_in_bounds [of 9 p2 "0xff :: u8"] p2 store_length by force
  obtain p4 where p4: "store p3 34 (0xffff :: u16) = Inr p4" "length p4 = 64"
    using store_in_bounds [of 34 p3 "0xffff :: u16"] p3 store_length by force
  obtain w :: u32 where w: "load p4 40 = Inr w" using load_in_bounds [of 40 p4, where 'a = 32] p4 by auto
  let ?w = "htonl (BTH_FECN_MASK OR BTH_BECN_MASK OR BTH_RESV6A_MASK OR (BTH_QPN_MASK AND ntohl w))"
  obtain p5 where p5: "store p4 40 ?w = Inr p5" "length p5 = 64"
    using store_in_bounds [of 40 p4 ?w] p4 store_length by force
  have ff: "le_bytes (0xffff :: u16) = [0xff, 0xff]" "le_bytes (0xff :: u8) = [0xff]" by code_simp+
  have w': "le_bytes ?w ! (i - 40) = (if i = 40 then 0xff else p4 ! i)" if "40 \<le> i" "i < 44" for i
    using qpn_word_bytes(1) [of "i - 40" w] load32_bytes [OF w, of "i - 40"] that by auto
  have "p5 = icrc_input m ip"
  proof (rule nth_equalityI)
    show "length p5 = length (icrc_input m ip)" using p5 by (simp add: icrc_input_def)
    fix i
    assume "i < length p5"
    then have i: "i < 64" using p5 by simp
    have "p5 ! i = (if i = 40 then 0xff else p4 ! i)"
      using store_nth [OF p5(1), of i] i p4(2) w' [of i] by (cases "40 \<le> i \<and> i < 44") auto
    also have "\<dots> = (if i \<in> {40, 34, 35, 9, 16, 18, 19} then 0xff else ?p0 ! i)"
      using store_nth [OF p4(1)] store_nth [OF p3(1)] store_nth [OF p2(1)] store_nth [OF p1(1)] i l0
        p1(2) p2(2) p3(2) p4(2)
      by (auto simp: ff nth_Cons')
    also have "\<dots> = icrc_input m ip ! i"
      using i assms by (auto simp: icrc_input_def icrc_variant_def nth_append)
    finally show "p5 ! i = icrc_input m ip ! i" .
  qed
  then show ?thesis
    using p1(1) p2(1) p3(1) p4(1) p5(1) w assms
    by (simp add: cnp_pseudo_packet_def load_bytes_def raw_bth_qpn_def)
qed

section \<open>Properties\<close>

text \<open>
  The documented behaviour of \<^verbatim>\<open>rte_pktmbuf_append\<close> on a packet of one segment: it fails without an
  effect, or it extends the packet by the requested number of bytes, which lie in the buffer, and
  returns their address.
\<close>

definition append_contract :: "dpdk \<Rightarrow> bool" where
  "append_contract env \<longleftrightarrow> (\<forall>p n p' a. rte_pktmbuf_append env p n = Some (p', a) \<longrightarrow>
     a = data_len p \<and> a + unat n \<le> length (buf p) \<and>
     p' = p\<lparr>data_len := data_len p + unat n, pkt_len := pkt_len p + unat n\<rparr>)"

lemma append_contractD:
  assumes "append_contract env" "rte_pktmbuf_append env p n = Some (p', a)"
  shows "a = data_len p" "a + unat n \<le> length (buf p)"
    "p' = p\<lparr>data_len := data_len p + unat n, pkt_len := pkt_len p + unat n\<rparr>"
  using assms unfolding append_contract_def by blast+

lemma append_contract_sample: "append_contract sample_dpdk"
  by (simp add: append_contract_def append_tail_def)

lemma fill_template_eq:
  assumes "append_contract env"
  shows "ctcm_fill_cnp_template env cnp =
    (let p = cnp\<lparr>packet_type := RTE_PTYPE_L4_UDP env OR RTE_PTYPE_L3_IPV4 env, l3_len := 20, l4_len := 8\<rparr>
     in case rte_pktmbuf_append env p 60 of
          None \<Rightarrow> Inr (p, -1)
        | Some _ \<Rightarrow> Inr (p\<lparr>data_len := data_len cnp + 60, pkt_len := pkt_len cnp + 60,
            buf := take (data_len cnp) (buf cnp) @ cnp_template @ drop (data_len cnp + 60) (buf cnp)\<rparr>, 0))"
proof -
  let ?p = "cnp\<lparr>packet_type := RTE_PTYPE_L4_UDP env OR RTE_PTYPE_L3_IPV4 env, l3_len := 20, l4_len := 8\<rparr>"
  show ?thesis
  proof (cases "rte_pktmbuf_append env ?p 60")
    case (Some pa)
    then obtain p' a where pa: "rte_pktmbuf_append env ?p 60 = Some (p', a)" by (cases pa) simp
    show ?thesis
      using pa append_contractD [OF assms pa] write_cnp_template_eq [of a "buf p'"]
      by (simp add: ctcm_fill_cnp_template_def cnp_length_defs)
  qed (simp add: ctcm_fill_cnp_template_def cnp_length_defs)
qed

lemma fill_template_room:
  assumes "append_contract env" "ctcm_fill_cnp_template env cnp = Inr (p', 0)"
  shows "data_len cnp + 60 \<le> length (buf cnp)"
  using append_contractD(1,2) [OF assms(1)] assms(2)
  by (fastforce simp: fill_template_eq [OF assms(1)] Let_def split: option.splits)

text \<open>
  C24: \<^verbatim>\<open>ctcm_fill_cnp_template\<close> never fails to return: without room it returns -1 and leaves the
  bytes of the packet alone; otherwise it returns 0, the packet has grown by exactly the 60 bytes of
  the CNP template (an IPv4 header of five words with DF, TTL 255 and DSCP 48, a UDP header to port
  4791 and a BTH with the CNP opcode 0x81, BECN and the default P_Key), the bytes before and after are
  kept, and the header lengths and the packet type are those of IPv4/UDP.
\<close>

theorem ctcm_fill_cnp_template_spec:
  assumes "append_contract env"
  shows "\<exists>p' r. ctcm_fill_cnp_template env cnp = Inr (p', r) \<and>
    l2_len p' = l2_len cnp \<and> l3_len p' = 20 \<and> l4_len p' = 8 \<and>
    packet_type p' = (RTE_PTYPE_L4_UDP env OR RTE_PTYPE_L3_IPV4 env) \<and>
    (if r = 0
     then buf p' = take (data_len cnp) (buf cnp) @ cnp_template @ drop (data_len cnp + 60) (buf cnp) \<and>
       data_len p' = data_len cnp + 60 \<and> pkt_len p' = pkt_len cnp + 60
     else r = -1 \<and> buf p' = buf cnp \<and> data_len p' = data_len cnp)"
  by (cases "rte_pktmbuf_append env
      (cnp\<lparr>packet_type := RTE_PTYPE_L4_UDP env OR RTE_PTYPE_L3_IPV4 env, l3_len := 20, l4_len := 8\<rparr>) 60")
    (simp_all add: fill_template_eq [OF assms] Let_def)

definition empty_packet :: rte_mbuf where
  "empty_packet = \<lparr>packet_type = 0, l2_len = 14, l3_len = 0, l4_len = 0, data_len = 14, pkt_len = 14,
     buf = replicate 80 0x5a, dynfield = (\<lambda>_. 0)\<rparr>"

theorem ctcm_fill_cnp_template_spec_witness:
  "\<exists>p'. ctcm_fill_cnp_template sample_dpdk empty_packet = Inr (p', 0) \<and>
     buf p' = replicate 14 0x5a @ cnp_template @ replicate 6 0x5a"
proof -
  obtain p' r where r: "ctcm_fill_cnp_template sample_dpdk empty_packet = Inr (p', r)"
    "if r = 0 then buf p' = take 14 (replicate 80 0x5a) @ cnp_template @ drop 74 (replicate 80 0x5a)
     else buf p' = buf empty_packet \<and> data_len p' = 14"
    using ctcm_fill_cnp_template_spec [OF append_contract_sample, of empty_packet]
    by (auto simp: empty_packet_def split: if_splits)
  moreover have "r = 0"
    using r(1)
    by (auto simp: ctcm_fill_cnp_template_def cnp_length_defs append_tail_def empty_packet_def
        write_cnp_template_eq elim!: bind_res_InrE)
  ultimately show ?thesis by auto
qed

lemma generate_cnp_run:
  assumes ip: "RTE_ETH_IS_IPV4_HDR env (packet_type cnp)" and lens: "l3_len cnp = 20" "l4_len cnp = 8"
    and room: "l2_len cnp + 60 \<le> length (buf cnp)"
  obtains m' where "ctcm_generate_cnp env cnp dest_qpn = Inr (cnp\<lparr>buf := m'\<rparr>)" "length m' = length (buf cnp)"
    "raw_bth_qpn m' (l2_len cnp + 28) = Inr (dest_qpn AND 0x00ffffff)"
    "load m' (l2_len cnp + 56) = Inr (rte_net_crc_calc env (icrc_input m' (l2_len cnp)))"
    "\<And>i. i < length (buf cnp) \<Longrightarrow> i \<notin> {l2_len cnp + 33..<l2_len cnp + 36} \<Longrightarrow>
       i \<notin> {l2_len cnp + 56..<l2_len cnp + 60} \<Longrightarrow> m' ! i = buf cnp ! i"
proof -
  let ?ip = "l2_len cnp"
  let ?a = "?ip + 28"
  obtain w :: u32 where w: "load (buf cnp) (?a + 4) = Inr w"
    using load_in_bounds [of "?a + 4" "buf cnp", where 'a = 32] room by auto
  let ?w = "htonl ((BTH_QPN_MASK AND dest_qpn) OR (NOT BTH_QPN_MASK AND ntohl w))"
  obtain m where m: "store (buf cnp) (?a + 4) ?w = Inr m"
    using store_in_bounds [of "?a + 4" "buf cnp" ?w] room by auto
  have q: "raw_bth_set_qpn (buf cnp) ?a dest_qpn = Inr m" using w m by (simp add: raw_bth_set_qpn_def)
  have len: "length m = length (buf cnp)" by (rule store_length [OF m])
  let ?icrc = "rte_net_crc_calc env (icrc_input m ?ip)"
  obtain m' where m': "store m (?ip + 56) ?icrc = Inr m'"
    using store_in_bounds [of "?ip + 56" m ?icrc] room len by auto
  have len': "length m' = length (buf cnp)" using store_length [OF m'] len by simp
  have m'_nth: "m' ! i = m ! i" if "i < length (buf cnp)" "i \<notin> {?ip + 56..<?ip + 60}" for i
    using store_nth [OF m', of i] that len by auto
  have m_nth: "m ! i = buf cnp ! i" if "i < length (buf cnp)" "i \<notin> {?ip + 33..<?ip + 36}" for i
    using store_nth [OF m, of i] that qpn_word_bytes(2) [of dest_qpn w] load32_bytes [OF w, of 0]
    by (cases "i = ?ip + 32") (auto simp: add.commute)
  have "icrc_input m' ?ip = icrc_input m ?ip"
    unfolding icrc_input_def using m'_nth room by (intro arg_cong2 [where f = "(@)"] map_cong) auto
  then have icrc: "load m' (?ip + 56) = Inr (rte_net_crc_calc env (icrc_input m' ?ip))"
    using load_store [OF _ m'] by simp
  have qpn: "raw_bth_qpn m' ?a = Inr (dest_qpn AND 0x00ffffff)"
    using bth_qpn_acc.get_put [OF q] load_store_other [OF m', of "?a + 4", where 'b = 32]
    by (simp add: raw_bth_qpn_def BTH_QPN_MASK_def and.commute)
  have "ctcm_generate_cnp env cnp dest_qpn = Inr (cnp\<lparr>buf := m'\<rparr>)"
    using ip lens q m' cnp_pseudo_packet_eq [of ?ip m] room len
    by (simp add: ctcm_generate_cnp_def mbuf_ip_def mbuf_bth_def cnp_length_defs add.assoc add.commute [of 28])
  then show thesis using that len' qpn icrc m'_nth m_nth by metis
qed

text \<open>
  C23: \<^verbatim>\<open>ctcm_generate_cnp\<close> completes a template for a QP: the BTH carries the low 24 bits
  of the QP number, the last four bytes are the CRC of the finished packet with exactly
  the fields that may change on the way replaced by ones, and no other byte of the packet changes.
\<close>

theorem ctcm_generate_cnp_spec:
  assumes ip: "RTE_ETH_IS_IPV4_HDR env (packet_type cnp)" and lens: "l3_len cnp = 20" "l4_len cnp = 8"
    and room: "l2_len cnp + 60 \<le> length (buf cnp)"
  shows "\<exists>m'. ctcm_generate_cnp env cnp dest_qpn = Inr (cnp\<lparr>buf := m'\<rparr>) \<and> length m' = length (buf cnp) \<and>
    raw_bth_qpn m' (l2_len cnp + 28) = Inr (dest_qpn AND 0x00ffffff) \<and>
    load m' (l2_len cnp + 56) = Inr (rte_net_crc_calc env (icrc_input m' (l2_len cnp))) \<and>
    (\<forall>i < length (buf cnp). i \<notin> {l2_len cnp + 33..<l2_len cnp + 36} \<and>
       i \<notin> {l2_len cnp + 56..<l2_len cnp + 60} \<longrightarrow> m' ! i = buf cnp ! i)"
  by (rule generate_cnp_run [OF assms, where dest_qpn = dest_qpn]) blast

text \<open>
  The example packet of the test suite (\<^verbatim>\<open>tests/test_cnp.cpp\<close>): the template with addresses, identification,
  TTL, TOS and source port filled in.
\<close>

definition test_cnp_headers :: "byte list" where
  "test_cnp_headers =
     [0x45, 0x89, 0, 0x3c, 0x98, 0xc6, 0x40, 0, 0x20, 0x11, 0, 0, 22, 22, 22, 8, 22, 22, 22, 7] @
     [0xdb, 0xae, 0x12, 0xb7, 0, 40, 0, 0] @ [0x81, 0, 0xff, 0xff, 0x40, 0, 0]"

definition test_cnp :: rte_mbuf where
  "test_cnp = \<lparr>packet_type = 0x210, l2_len = 0, l3_len = 20, l4_len = 8, data_len = 60, pkt_len = 60,
     buf = test_cnp_headers @ [0] @ replicate 4 0 @ replicate 16 0 @ replicate 4 0, dynfield = (\<lambda>_. 0)\<rparr>"

lemma crc32_byte_unfold:
  "crc32_byte c b = crc32_bit (crc32_bit (crc32_bit (crc32_bit (crc32_bit (crc32_bit (crc32_bit
     (crc32_bit (c XOR ucast b))))))))"
  by (simp add: crc32_byte_def numeral_eq_Suc)

lemma test_cnp_crc_chunks:
  "foldl crc32_byte 0xffffffff
     [0xff, 0xff, 0xff, 0xff, 0xff, 0xff, 0xff, 0xff, 0x45, 0xff, 0, 0x3c, 0x98, 0xc6, 0x40, 0] = 0xe1f8612"
  "foldl crc32_byte 0xe1f8612
     [0xff, 0x11, 0xff, 0xff, 0x16, 0x16, 0x16, 8, 0x16, 0x16, 0x16, 7, 0xdb, 0xae, 0x12, 0xb7] = 0xd78d03fa"
  "foldl crc32_byte 0xd78d03fa
     [0, 0x28, 0xff, 0xff, 0x81, 0, 0xff, 0xff, 0xff, 0, 0, 0xd2, 0, 0, 0, 0] = 0x457141de"
  "foldl crc32_byte 0x457141de
     [0, 0, 0, 0, 0, 0, 0, 0, 0, 0, 0, 0, 0, 0, 0, 0] = 0x10e40325"
  by (simp_all add: crc32_byte_unfold crc32_bit_def)

text \<open>The packet the test expects, without its last four bytes.\<close>

definition test_cnp_expected :: "byte list" where
  "test_cnp_expected = test_cnp_headers @ [0xd2] @ replicate 4 0 @ replicate 16 0"

lemma test_cnp_icrc_input:
  "icrc_input test_cnp_expected 0 =
     [0xff, 0xff, 0xff, 0xff, 0xff, 0xff, 0xff, 0xff, 0x45, 0xff, 0, 0x3c, 0x98, 0xc6, 0x40, 0] @
     [0xff, 0x11, 0xff, 0xff, 0x16, 0x16, 0x16, 8, 0x16, 0x16, 0x16, 7, 0xdb, 0xae, 0x12, 0xb7] @
     [0, 0x28, 0xff, 0xff, 0x81, 0, 0xff, 0xff, 0xff, 0, 0, 0xd2, 0, 0, 0, 0] @
     [0, 0, 0, 0, 0, 0, 0, 0, 0, 0, 0, 0, 0, 0, 0, 0]"
  by code_simp

lemma icrc_input_append: "56 \<le> length m \<Longrightarrow> icrc_input (m @ bs) 0 = icrc_input m 0"
  by (simp add: icrc_input_def nth_append)

lemma test_cnp_icrc: "crc32_eth (icrc_input (test_cnp_expected @ bs) 0) = 0xEF1BFCDA"
proof -
  have "length test_cnp_expected = 56" by (simp add: test_cnp_expected_def test_cnp_headers_def)
  then have "icrc_input (test_cnp_expected @ bs) 0 = icrc_input test_cnp_expected 0"
    by (simp add: icrc_input_append)
  then show ?thesis
    unfolding test_cnp_icrc_input crc32_eth_def by (simp only: foldl_append test_cnp_crc_chunks) simp
qed

lemma test_cnp_fields:
  "RTE_ETH_IS_IPV4_HDR sample_dpdk (packet_type test_cnp)" "l3_len test_cnp = 20"
  "l4_len test_cnp = 8" "l2_len test_cnp = 0" "length (buf test_cnp) = 60"
  by code_simp+

lemma test_cnp_run:
  "ctcm_generate_cnp sample_dpdk test_cnp 0xd2 =
     Inr (test_cnp\<lparr>buf := test_cnp_expected @ [0xda, 0xfc, 0x1b, 0xef]\<rparr>)"
proof -
  have "raw_bth_set_qpn (buf test_cnp) 28 0xd2 = Inr (test_cnp_expected @ replicate 4 0)"
    "store (test_cnp_expected @ replicate 4 0) 56 (0xEF1BFCDA :: u32) =
       Inr (test_cnp_expected @ [0xda, 0xfc, 0x1b, 0xef])"
    by code_simp+
  moreover have "cnp_pseudo_packet (test_cnp_expected @ replicate 4 0) 0 =
      Inr (icrc_input (test_cnp_expected @ replicate 4 0) 0)"
    by (rule cnp_pseudo_packet_eq) (simp add: test_cnp_expected_def test_cnp_headers_def)
  ultimately show ?thesis
    using test_cnp_fields
    by (simp add: ctcm_generate_cnp_def mbuf_ip_def mbuf_bth_def cnp_length_defs test_cnp_icrc)
qed

theorem ctcm_generate_cnp_spec_witness:
  "\<exists>m'. ctcm_generate_cnp sample_dpdk test_cnp 0xd2 = Inr (test_cnp\<lparr>buf := m'\<rparr>) \<and>
     raw_bth_qpn m' 28 = Inr 0xd2 \<and> load m' 56 = Inr (crc32_eth (icrc_input m' 0))"
proof -
  have "l2_len test_cnp + 60 \<le> length (buf test_cnp)" by (simp add: test_cnp_fields)
  from ctcm_generate_cnp_spec [OF test_cnp_fields(1-3) this, of "0xd2"]
  obtain m' where "ctcm_generate_cnp sample_dpdk test_cnp 0xd2 = Inr (test_cnp\<lparr>buf := m'\<rparr>)"
    "raw_bth_qpn m' (0 + 28) = Inr (0xd2 AND 0x00ffffff)"
    "load m' (0 + 56) = Inr (rte_net_crc_calc sample_dpdk (icrc_input m' 0))"
    unfolding test_cnp_fields(4) by blast
  then show ?thesis by (intro exI [of _ m']) simp
qed

lemma icrc_input_cong:
  assumes "\<And>i. i < 56 \<Longrightarrow> i \<notin> icrc_variant \<Longrightarrow> m' ! (ip + i) = m ! (ip + i)"
  shows "icrc_input m' ip = icrc_input m ip"
  unfolding icrc_input_def using assms by (intro arg_cong2 [where f = "(@)"] map_cong) auto

text \<open>
  C26: The ICRC is invariant on the way: two packets that differ only in the type of service, the time to
  live, the IPv4 checksum, the UDP checksum, the congestion byte of the BTH and the
  ICRC field itself have the same pseudo packet, hence the same CRC.
\<close>

theorem icrc_ignores_variant_fields:
  assumes "ip + 60 \<le> length m" "length m' = length m"
    and "\<And>i. i < 56 \<Longrightarrow> i \<notin> {1, 8, 10, 11, 26, 27, 32} \<Longrightarrow> m' ! (ip + i) = m ! (ip + i)"
  shows "cnp_pseudo_packet m' ip = cnp_pseudo_packet m ip"
proof -
  have "icrc_input m' ip = icrc_input m ip"
    using assms(3) by (intro icrc_input_cong) (simp add: icrc_variant_def)
  then show ?thesis using assms(1,2) by (simp add: cnp_pseudo_packet_eq)
qed

theorem icrc_ignores_variant_fields_witness:
  "cnp_pseudo_packet ((replicate 60 7)[8 := 3, 1 := 9]) 0 = cnp_pseudo_packet (replicate 60 7) 0"
  by (rule icrc_ignores_variant_fields) (auto simp: nth_list_update)

section \<open>A congestion notification from template to receiver\<close>

text \<open>
  C25: The life of a CNP: the template is filled in behind a layer 2 header, the caller then writes whatever it wants
  into the IPv4 and UDP headers, and \<^verbatim>\<open>ctcm_generate_cnp\<close> completes the packet.  The result is the caller's layer 2, IPv4 and UDP headers,
  a BTH with the CNP opcode, the default P_Key, BECN, the low 24 bits of the QP number and PSN 0, 16 bytes of zeros and the ICRC, with
  the bytes behind it untouched.  A receiver that computes the ICRC the same way finds it equal to the one in the packet,
  however routers have changed type of service, time to live, checksums and congestion bits.
\<close>

theorem cnp_verifies_at_receiver:
  assumes env: "append_contract env" "RTE_ETH_IS_IPV4_HDR env (RTE_PTYPE_L4_UDP env OR RTE_PTYPE_L3_IPV4 env)"
    and fill: "l2_len p = data_len p" "ctcm_fill_cnp_template env p = Inr (p1, 0)"
    and caller: "length m = length (buf p1)"
      "\<And>i. i < length m \<Longrightarrow> i \<notin> {data_len p..<data_len p + 28} \<Longrightarrow> m ! i = buf p1 ! i"
  shows "\<exists>m'. ctcm_generate_cnp env (p1\<lparr>buf := m\<rparr>) dest_qpn = Inr (p1\<lparr>buf := m'\<rparr>) \<and>
    length m' = length (buf p) \<and> take (data_len p) m' = take (data_len p) (buf p) \<and>
    take 28 (drop (data_len p) m') = take 28 (drop (data_len p) m) \<and>
    take 5 (drop (data_len p + 28) m') = [0x81, 0, 0xff, 0xff, 0x40] \<and>
    raw_bth_qpn m' (data_len p + 28) = Inr (dest_qpn AND 0x00ffffff) \<and>
    take 20 (drop (data_len p + 36) m') = replicate 20 0 \<and>
    drop (data_len p + 60) m' = drop (data_len p + 60) (buf p) \<and>
    (\<forall>r. length r = length m' \<and> (\<forall>i < length r. i \<notin> (+) (data_len p) ` icrc_variant \<longrightarrow> r ! i = m' ! i) \<longrightarrow>
      (\<exists>phdr. cnp_pseudo_packet r (data_len p) = Inr phdr \<and> load r (data_len p + 56) = Inr (rte_net_crc_calc env phdr)))"
proof -
  let ?ip = "data_len p"
  note room = fill_template_room [OF env(1) fill(2)]
  have p1: "packet_type p1 = RTE_PTYPE_L4_UDP env OR RTE_PTYPE_L3_IPV4 env" "l3_len p1 = 20" "l4_len p1 = 8" "l2_len p1 = ?ip"
    "buf p1 = take ?ip (buf p) @ cnp_template @ drop (?ip + 60) (buf p)"
    using fill by (auto simp: fill_template_eq [OF env(1)] Let_def split: option.splits)
  have tmpl: "length cnp_template = 60" "take 5 (drop 28 cnp_template) = [0x81, 0, 0xff, 0xff, 0x40]"
    "take 20 (drop 36 cnp_template) = replicate 20 0" by code_simp+
  have len: "length m = length (buf p)" using caller(1) p1(5) room tmpl(1) by simp
  obtain m' where m': "ctcm_generate_cnp env (p1\<lparr>buf := m\<rparr>) dest_qpn = Inr (p1\<lparr>buf := m'\<rparr>)" "length m' = length m"
    "raw_bth_qpn m' (?ip + 28) = Inr (dest_qpn AND 0x00ffffff)"
    "load m' (?ip + 56) = Inr (rte_net_crc_calc env (icrc_input m' ?ip))"
    "\<And>i. i < length m \<Longrightarrow> i \<notin> {?ip + 33..<?ip + 36} \<Longrightarrow> i \<notin> {?ip + 56..<?ip + 60} \<Longrightarrow> m' ! i = m ! i"
    using generate_cnp_run [of env "p1\<lparr>buf := m\<rparr>" dest_qpn] p1(1-4) env(2) room len by auto
  have kept: "take n (drop k m') = take n (drop k (buf p1))"
    if "k + n \<le> ?ip \<or> ?ip + 28 \<le> k \<and> k + n \<le> ?ip + 33 \<or> ?ip + 36 \<le> k \<and> k + n \<le> ?ip + 56 \<or> ?ip + 60 \<le> k" for n k
    using that m'(2,5) caller by (intro nth_equalityI) auto
  have b: "take ?ip m' = take ?ip (buf p)" "take 5 (drop (?ip + 28) m') = [0x81, 0, 0xff, 0xff, 0x40]"
    "take 20 (drop (?ip + 36) m') = replicate 20 0" "drop (?ip + 60) m' = drop (?ip + 60) (buf p)"
    using kept [of 0 ?ip] kept [of "?ip + 28" 5] kept [of "?ip + 36" 20] kept [of "?ip + 60" "length m'"] p1(5) room tmpl m'(2) len
    by simp_all
  have h: "take 28 (drop ?ip m') = take 28 (drop ?ip m)" using m'(2,5) by (intro nth_equalityI) auto
  have "\<exists>phdr. cnp_pseudo_packet r ?ip = Inr phdr \<and> load r (?ip + 56) = Inr (rte_net_crc_calc env phdr)"
    if r: "length r = length m'" "\<And>i. i < length r \<Longrightarrow> i \<notin> (+) ?ip ` icrc_variant \<Longrightarrow> r ! i = m' ! i" for r
  proof -
    have "icrc_input r ?ip = icrc_input m' ?ip" using room m'(2) len r(1) by (intro icrc_input_cong r(2)) auto
    moreover have "take 4 (drop (?ip + 56) r) = take 4 (drop (?ip + 56) m')"
      using r by (intro nth_equalityI) (auto simp: icrc_variant_def)
    then have "(load r (?ip + 56) :: u32 res) = load m' (?ip + 56)" using r(1) by (simp add: load_def)
    ultimately show ?thesis using cnp_pseudo_packet_eq [of ?ip r] r(1) room m'(2,4) len by simp
  qed
  then show ?thesis using m'(1-3) len b h by (intro exI [of _ m']) auto
qed

theorem cnp_verifies_at_receiver_witness:
  "\<exists>p1 m'. ctcm_fill_cnp_template sample_dpdk empty_packet = Inr (p1, 0) \<and>
     ctcm_generate_cnp sample_dpdk (p1\<lparr>buf := (buf p1)[29 := 7]\<rparr>) 0x123456 = Inr (p1\<lparr>buf := m'\<rparr>) \<and>
     raw_bth_qpn m' 42 = Inr 0x123456 \<and>
     (\<exists>phdr. cnp_pseudo_packet (m'[22 := 3]) 14 = Inr phdr \<and> load (m'[22 := 3]) 70 = Inr (crc32_eth phdr))"
proof -
  have e: "l2_len empty_packet = data_len empty_packet" "data_len empty_packet = 14" by (simp_all add: empty_packet_def)
  have ipv4: "RTE_ETH_IS_IPV4_HDR sample_dpdk (RTE_PTYPE_L4_UDP sample_dpdk OR RTE_PTYPE_L3_IPV4 sample_dpdk)" by code_simp
  obtain p1 where p1: "ctcm_fill_cnp_template sample_dpdk empty_packet = Inr (p1, 0)"
    by (auto simp: fill_template_eq [OF append_contract_sample] append_tail_def empty_packet_def)
  have caller: "(buf p1)[29 := 7] ! i = buf p1 ! i" if "i \<notin> {data_len empty_packet..<data_len empty_packet + 28}" for i
    using that by (cases "i = 29") (auto simp: e(2))
  from cnp_verifies_at_receiver [OF append_contract_sample ipv4 e(1) p1 length_list_update caller, of "0x123456"]
  obtain m' where m': "ctcm_generate_cnp sample_dpdk (p1\<lparr>buf := (buf p1)[29 := 7]\<rparr>) 0x123456 = Inr (p1\<lparr>buf := m'\<rparr>)"
    "raw_bth_qpn m' 42 = Inr (0x123456 AND 0x00ffffff)"
    "\<forall>r. length r = length m' \<and> (\<forall>i < length r. i \<notin> (+) 14 ` icrc_variant \<longrightarrow> r ! i = m' ! i) \<longrightarrow>
      (\<exists>phdr. cnp_pseudo_packet r 14 = Inr phdr \<and> load r 70 = Inr (crc32_eth phdr))"
    unfolding e(2) by auto
  have "22 \<in> (+) 14 ` icrc_variant" by (simp add: icrc_variant_def)
  then have "\<exists>phdr. cnp_pseudo_packet (m'[22 := 3]) 14 = Inr phdr \<and> load (m'[22 := 3]) 70 = Inr (crc32_eth phdr)"
    using m'(3) by (metis length_list_update nth_list_update_neq)
  then show ?thesis using p1 m'(1,2) by (intro exI [of _ p1] exI [of _ m']) simp
qed

end
