(* ===== verification/Parser.thy ===== *)
theory Parser
  imports Mbuf Rxe_Hdr Ib_Mad Dpdk_Instance
begin

text \<open>
  \<^verbatim>\<open>src/parser.cpp\<close>: recognising a CM packet.  \<^verbatim>\<open>size_t& len\<close> parameters are returned beside the
  result; \<open>len\<close> starts as a 16-bit value and every subtraction is guarded by the test before it,
  so it is a \<open>nat\<close>.
\<close>

definition IB_OPCODE_UD_SEND_ONLY_byte :: u8 where
  "IB_OPCODE_UD_SEND_ONLY_byte = word_of_nat IB_OPCODE_UD_SEND_ONLY"

record parser_context =
  dynfield_offsets :: ctcm_dynfield_offsets

section \<open>Finding the headers\<close>

definition extract_bth :: "byte list \<Rightarrow> nat \<Rightarrow> nat \<Rightarrow> (nat option \<times> nat) res" where
  "extract_bth m udp len =
     (if len < sizeof rxe_bth + sizeof udphdr + 4 then Inr (None, len)
      else bind_res (load m (udp + offsetof udphdr ''uh_dport'')) (\<lambda>dport.
        if dport \<noteq> htons UDP_PORT_ROCE_V2 then Inr (None, len)
        else Inr (Some (udp + sizeof udphdr), len - (sizeof rxe_bth + 4))))"

definition extract_deth :: "byte list \<Rightarrow> nat \<Rightarrow> nat \<Rightarrow> (nat option \<times> nat) res" where
  "extract_deth m bth len =
     bind_res (raw_bth_opcode m bth) (\<lambda>opc.
       if opc \<noteq> IB_OPCODE_UD_SEND_ONLY_byte \<or> len < sizeof rxe_deth then Inr (None, len)
       else Inr (Some (bth + sizeof rxe_bth), len - sizeof rxe_deth))"

definition extract_mad :: "nat \<Rightarrow> nat \<Rightarrow> nat option" where
  "extract_mad deth len =
     (if len < sizeof ib_mad_hdr then None else Some (deth + sizeof rxe_deth))"

definition parse_packet :: "dpdk \<Rightarrow> parser_context \<Rightarrow> rte_mbuf \<Rightarrow> (rte_mbuf \<times> nat option) res" where
  "parse_packet env self packet =
     bind_res (mbuf_udp_nonconst env packet) (\<lambda>udp.
     bind_res (load (buf packet) (udp + offsetof udphdr ''uh_ulen'')) (\<lambda>ulen.
     bind_res (extract_bth (buf packet) udp (unat (ntohs ulen))) (\<lambda>(bth, len).
     bind_res (ctcm_mbuf_set_bth (dynfield_offsets self) packet bth) (\<lambda>packet.
     bind_res (ctcm_mbuf_set_mad (dynfield_offsets self) packet None) (\<lambda>packet.
     case bth of
       None \<Rightarrow> Inr (packet, None)
     | Some bth \<Rightarrow>
         bind_res (extract_deth (buf packet) bth len) (\<lambda>(deth, len).
         case deth of
           None \<Rightarrow> Inr (packet, None)
         | Some deth \<Rightarrow>
             bind_res (raw_bth_qpn (buf packet) bth) (\<lambda>qpn.
             if qpn \<noteq> 1 then Inr (packet, None)
             else case extract_mad deth len of
                    None \<Rightarrow> Inr (packet, None)
                  | Some mad \<Rightarrow>
                      bind_res (mad_mgmt_class (buf packet) mad) (\<lambda>cls.
                      if cls \<noteq> IB_MGMT_CLASS_CM then Inr (packet, None)
                      else bind_res (ctcm_mbuf_set_mad (dynfield_offsets self) packet (Some mad)) (\<lambda>packet.
                        Inr (packet, Some mad))))))))))"

text \<open>
  The constructor registers the two dynamic fields in turn and throws when the registration of
  either fails.
\<close>

definition parser_context_ctor :: "dpdk \<Rightarrow> parser_context res" where
  "parser_context_ctor env =
     (let ret0 = rte_mbuf_dynfield_register env ''BTH'' 2 2
      in if ret0 < 0 then Inl Runtime_error
         else let ret1 = rte_mbuf_dynfield_register env ''IB_MAD_HDR'' 2 2
              in if ret1 < 0 then Inl Runtime_error
                 else Inr \<lparr>dynfield_offsets =
                   \<lparr>off_size = word_of_nat (sizeof ctcm_dynfield_offsets_struct),
                    off_bth = ret0, off_mad = ret1\<rparr>\<rparr>)"


section \<open>What the parser accepts\<close>

text \<open>
  The specification reads the bytes of the packet as big-endian numbers at fixed distances from
  the UDP header: length at 4, destination port at 2, BTH opcode at 8, destination QP number
  at 13 (three bytes), MAD class at 29.
\<close>

definition udp_at :: "rte_mbuf \<Rightarrow> nat" where
  "udp_at p = l2_len p + l3_len p"

definition be_field :: "rte_mbuf \<Rightarrow> nat \<Rightarrow> nat \<Rightarrow> nat" where
  "be_field p off n = be_nat (take n (drop (udp_at p + off) (buf p)))"

definition carries_bth :: "rte_mbuf \<Rightarrow> bool" where
  "carries_bth p \<longleftrightarrow> 24 \<le> be_field p 4 2 \<and> be_field p 2 2 = 4791"

definition carries_cm :: "rte_mbuf \<Rightarrow> bool" where
  "carries_cm p \<longleftrightarrow> carries_bth p \<and> 48 \<le> be_field p 4 2 \<and>
     be_field p 8 1 = 0x64 \<and> be_field p 13 3 = 1 \<and> be_field p 29 1 = 7"

definition parsed :: "parser_context \<Rightarrow> rte_mbuf \<Rightarrow> rte_mbuf" where
  "parsed self p =
     p\<lparr>dynfield := (dynfield p)
        (off_bth (dynfield_offsets self) := (if carries_bth p then word_of_nat (udp_at p + 8) else 0),
         off_mad (dynfield_offsets self) := (if carries_cm p then word_of_nat (udp_at p + 28) else 0))\<rparr>"

lemma take_1_nth: "a < length m \<Longrightarrow> take 1 (drop a m) = [m ! a]"
  by (simp add: take_Suc hd_drop_conv_nth)

lemma bth_qpn_value:
  assumes "a + 8 \<le> length m"
  shows "raw_bth_qpn m a = Inr (word_of_nat (be_nat (take 3 (drop (a + 5) m))))"
proof -
  obtain w :: u32 where w: "load m (a + 4) = Inr w"
    "ntohl w = word_of_nat (be_nat (take 4 (drop (a + 4) m)))"
    using load_u32_be [of "a + 4" m] assms by auto
  have "drop (a + 4) m = m ! (a + 4) # drop (a + 5) m"
    using assms Cons_nth_drop_Suc [of "a + 4" m] by (simp add: add.commute)
  then have "take 4 (drop (a + 4) m) = m ! (a + 4) # take 3 (drop (a + 5) m)"
    by simp
  moreover have "length (take 3 (drop (a + 5) m)) = 3" using assms by simp
  ultimately have "be_nat (take 4 (drop (a + 4) m)) =
      unat (m ! (a + 4)) * 2 ^ 24 + be_nat (take 3 (drop (a + 5) m))"
    by (simp add: be_nat_Cons)
  then have "take_bit 24 (be_nat (take 4 (drop (a + 4) m))) = be_nat (take 3 (drop (a + 5) m))"
    using be_nat_take_less [of 3 "drop (a + 5) m"] by (simp add: take_bit_eq_mod)
  then have "take_bit 24 (ntohl w) = word_of_nat (be_nat (take 3 (drop (a + 5) m)))"
    by (simp add: w(2) flip: of_nat_take_bit)
  then show ?thesis
    using w(1) by (simp add: raw_bth_qpn_def BTH_QPN_MASK_def and.commute [of "0xFFFFFF"]
        take_bit_eq_mask mask_eq_exp_minus_1)
qed

lemma UD_SEND_ONLY_value: "IB_OPCODE_UD_SEND_ONLY_byte = 0x64"
  by (simp add: IB_OPCODE_UD_SEND_ONLY_byte_def ib_opcode_defs)

lemma extract_bth_eq:
  assumes "udp + 4 \<le> length m"
  shows "extract_bth m udp len =
    Inr (if 24 \<le> len \<and> be_nat (take 2 (drop (udp + 2) m)) = 4791
         then (Some (udp + 8), len - 16) else (None, len))"
proof -
  obtain w :: u16 where w: "load m (udp + 2) = Inr w"
    "unat (ntohs w) = be_nat (take 2 (drop (udp + 2) m))"
    using load_u16_be [of "udp + 2" m] assms by auto
  have "w = htons UDP_PORT_ROCE_V2 \<longleftrightarrow> ntohs w = 4791"
    using n16.ntoh_hton n16.hton_ntoh by (metis UDP_PORT_ROCE_V2_def)
  also have "\<dots> \<longleftrightarrow> unat (ntohs w) = 4791"
    by (simp add: word_unat_eq_iff)
  finally show ?thesis using w by (simp add: extract_bth_def)
qed

lemma extract_deth_eq:
  assumes "bth < length m"
  shows "extract_deth m bth len =
    Inr (if unat (m ! bth) = 0x64 \<and> 8 \<le> len then (Some (bth + 12), len - 8) else (None, len))"
proof -
  have "m ! bth = 0x64 \<longleftrightarrow> unat (m ! bth) = 0x64" by (simp add: word_unat_eq_iff)
  then show ?thesis
    using assms by (simp add: extract_deth_def raw_bth_opcode_def load_u8 UD_SEND_ONLY_value)
qed

lemma extract_mad_eq: "extract_mad deth len = (if 24 \<le> len then Some (deth + 8) else None)"
  by (simp add: extract_mad_def)

lemma mad_mgmt_class_eq: "mad + 1 < length m \<Longrightarrow> mad_mgmt_class m mad = Inr (m ! (mad + 1))"
  by (simp add: mad_mgmt_class_def load_u8)

lemma bth_qpn_is_1:
  assumes "a + 8 \<le> length m"
  shows "raw_bth_qpn m a = Inr q \<Longrightarrow> q = 1 \<longleftrightarrow> be_nat (take 3 (drop (a + 5) m)) = 1"
proof -
  assume "raw_bth_qpn m a = Inr q"
  then have "q = word_of_nat (be_nat (take 3 (drop (a + 5) m)))"
    using bth_qpn_value [OF assms] by simp
  then have "unat q = be_nat (take 3 (drop (a + 5) m))"
    using be_nat_take_less [of 3 "drop (a + 5) m"] by (simp add: unat_of_nat take_bit_nat_eq_self)
  then show ?thesis by (simp add: word_unat_eq_iff)
qed

lemma be_field_byte: "udp_at p + off < length (buf p) \<Longrightarrow> be_field p off 1 = unat (buf p ! (udp_at p + off))"
  by (simp only: be_field_def take_1_nth) (simp add: be_nat_def)

lemma parse_packet_eq:
  assumes udp: "l3_len p \<noteq> 0" "packet_type p AND RTE_PTYPE_L4_MASK env = RTE_PTYPE_L4_UDP env"
    and room: "udp_at p + 30 \<le> length (buf p)" "udp_at p + 28 < pkt_len p"
  shows "parse_packet env self p =
    Inr (parsed self p, if carries_cm p then Some (udp_at p + 28) else None)"
proof -
  let ?u = "udp_at p"
  obtain w :: u16 where w: "load (buf p) (?u + 4) = Inr w" "unat (ntohs w) = be_field p 4 2"
    using load_u16_be [of "?u + 4" "buf p"] room by (auto simp: be_field_def)
  have hd: "mbuf_udp env p = Inr ?u"
    using udp by (simp add: mbuf_udp_def udp_at_def)
  obtain q where q: "raw_bth_qpn (buf p) (?u + 8) = Inr q" "q = 1 \<longleftrightarrow> be_field p 13 3 = 1"
    using bth_qpn_acc.get_ok [of "?u + 8" "buf p"] bth_qpn_is_1 [of "?u + 8" "buf p"] room
    by (auto simp: be_field_def ac_simps)
  have cls: "mad_mgmt_class (buf p) (?u + 28) = Inr (buf p ! (?u + 29))"
    "buf p ! (?u + 29) = IB_MGMT_CLASS_CM \<longleftrightarrow> be_field p 29 1 = 7"
    using room be_field_byte [of p 29] mad_mgmt_class_eq [of "?u + 28" "buf p"]
    by (simp_all add: IB_MGMT_CLASS_CM_def word_unat_eq_iff add.commute [of 29])
  have bth: "extract_bth (buf p) ?u (be_field p 4 2) = Inr (if carries_bth p
      then (Some (?u + 8), be_field p 4 2 - 16) else (None, be_field p 4 2))"
    using room by (simp add: extract_bth_eq carries_bth_def be_field_def)
  have deth: "carries_bth p \<Longrightarrow> extract_deth (buf p) (?u + 8) (be_field p 4 2 - 16) =
      Inr (if be_field p 8 1 = 0x64 then (Some (?u + 20), be_field p 4 2 - 24)
           else (None, be_field p 4 2 - 16))"
    using room be_field_byte [of p 8] by (auto simp: extract_deth_eq carries_bth_def)
  have mad: "extract_mad (?u + 20) (be_field p 4 2 - 24) =
      (if 48 \<le> be_field p 4 2 then Some (?u + 28) else None)"
    by (auto simp: extract_mad_eq)
  note steps = parse_packet_def parsed_def carries_cm_def hd w bth deth q cls mad
    bth_slot.set_hdr_Some bth_slot.set_hdr_None mad_slot.set_hdr_Some mad_slot.set_hdr_None
  show ?thesis
  proof (cases "carries_bth p \<and> be_field p 8 1 = 0x64 \<and> be_field p 13 3 = 1 \<and> 48 \<le> be_field p 4 2")
    case True
    then show ?thesis using room by (simp add: steps)
  next
    case False
    then show ?thesis using room by (auto simp add: steps)
  qed
qed

text \<open>
  C22: What \<^verbatim>\<open>parse_packet\<close> accepts, byte by byte.  On a UDP packet
  whose buffer reaches the MAD class byte and whose length reaches the MAD header it never fails; it
  returns the MAD header (28 bytes after the UDP header) iff the destination port is 4791, the
  UDP length is at least 48, the BTH opcode is UD SEND ONLY, the destination QP is 1 and the
  class is CM; it records the BTH offset iff port and length admit a BTH and the MAD offset iff
  the packet is accepted, and it changes nothing else of the packet.
\<close>

theorem parse_packet_spec:
  assumes "l3_len p \<noteq> 0" "packet_type p AND RTE_PTYPE_L4_MASK env = RTE_PTYPE_L4_UDP env"
    and "udp_at p + 30 \<le> length (buf p)" "udp_at p + 28 < pkt_len p"
  shows "parse_packet env self p =
    Inr (parsed self p, if carries_cm p then Some (udp_at p + 28) else None)"
  using assms by (rule parse_packet_eq)

text \<open>A REQ packet (attribute 0x10) with an empty body, for the concrete runs below.\<close>

definition sample_parser :: parser_context where
  "sample_parser = \<lparr>dynfield_offsets = sample_offsets\<rparr>"

definition short_cm_packet :: rte_mbuf where
  "short_cm_packet = ud_packet [10, 0, 0, 1] [10, 0, 0, 2] [0, 48] (cm_mad_hdr 0x10)"

lemma short_cm_packet_facts:
  "l3_len short_cm_packet \<noteq> 0" "packet_type short_cm_packet AND 0xf00 = 0x200"
  "udp_at short_cm_packet = 34" "pkt_len short_cm_packet = 86" "length (buf short_cm_packet) = 86"
  "be_field short_cm_packet 4 2 = 48" "carries_cm short_cm_packet"
  by code_simp+

theorem parse_packet_spec_witness:
  "parse_packet sample_dpdk sample_parser short_cm_packet =
     Inr (parsed sample_parser short_cm_packet, Some 62)"
  using parse_packet_spec [of short_cm_packet sample_dpdk sample_parser]
  by (simp add: short_cm_packet_facts)

text \<open>
  C40: The length tests of the parser never take off the UDP header, so a datagram
  may be accepted although its MAD header does not fit: with a UDP length from 48 to 51 the accepted
  MAD header ends beyond the end of the datagram.
\<close>

theorem parse_packet_accepts_truncated_mad:
  assumes udp: "l3_len p \<noteq> 0" "packet_type p AND RTE_PTYPE_L4_MASK env = RTE_PTYPE_L4_UDP env"
    and room: "udp_at p + 30 \<le> length (buf p)" "udp_at p + 28 < pkt_len p"
    and cm: "carries_cm p" and short: "be_field p 4 2 < 52"
  shows "\<exists>p' mad. parse_packet env self p = Inr (p', Some mad) \<and>
    udp_at p + be_field p 4 2 < mad + sizeof ib_mad_hdr"
proof -
  have "parse_packet env self p = Inr (parsed self p, Some (udp_at p + 28))"
    using parse_packet_eq [OF udp room] cm by simp
  then show ?thesis using short by auto
qed

theorem parse_packet_accepts_truncated_mad_witness:
  "\<exists>p' mad. parse_packet sample_dpdk sample_parser short_cm_packet = Inr (p', Some mad) \<and>
     34 + 48 < mad + sizeof ib_mad_hdr"
  using parse_packet_accepts_truncated_mad [of short_cm_packet sample_dpdk sample_parser]
  by (simp add: short_cm_packet_facts)

text \<open>
  The parser trusts the UDP length field over the length of the packet: a packet that
  ends with its UDP header (or earlier) but announces at least 24 bytes to port 4791 makes
  the assertion in \<^verbatim>\<open>ctcm_mbuf_set_bth\<close> fail.
\<close>

theorem parse_packet_truncated_aborts:
  assumes udp: "l3_len p \<noteq> 0" "packet_type p AND RTE_PTYPE_L4_MASK env = RTE_PTYPE_L4_UDP env"
    and room: "udp_at p + 6 \<le> length (buf p)"
    and trunc: "pkt_len p \<le> udp_at p + 8" and bth: "carries_bth p"
  shows "parse_packet env self p = Inl Assertion_failed"
proof -
  let ?u = "udp_at p"
  obtain w :: u16 where w: "load (buf p) (?u + 4) = Inr w" "unat (ntohs w) = be_field p 4 2"
    using load_u16_be [of "?u + 4" "buf p"] room by (auto simp: be_field_def)
  have "mbuf_udp env p = Inr ?u" using udp by (simp add: mbuf_udp_def udp_at_def)
  moreover have "extract_bth (buf p) ?u (be_field p 4 2) = Inr (Some (?u + 8), be_field p 4 2 - 16)"
    using room bth by (simp add: extract_bth_eq carries_bth_def be_field_def)
  ultimately show ?thesis
    using trunc by (simp add: parse_packet_def w bth_slot.set_hdr_outside)
qed

definition truncated_packet :: rte_mbuf where
  "truncated_packet =
     (ud_packet [10, 0, 0, 1] [10, 0, 0, 2] [1, 24] [])\<lparr>pkt_len := 42, data_len := 42\<rparr>"

theorem parse_packet_truncated_aborts_witness:
  "parse_packet sample_dpdk sample_parser truncated_packet = Inl Assertion_failed"
proof -
  have "l3_len truncated_packet \<noteq> 0" "packet_type truncated_packet AND 0xf00 = 0x200"
    "udp_at truncated_packet + 6 \<le> length (buf truncated_packet)"
    "pkt_len truncated_packet \<le> udp_at truncated_packet + 8" "carries_bth truncated_packet"
    by code_simp+
  then show ?thesis using parse_packet_truncated_aborts [of truncated_packet sample_dpdk] by simp
qed

lemma parse_packet_requires_udp:
  assumes "parse_packet env self p = Inr r"
  shows "l3_len p \<noteq> 0 \<and> packet_type p AND RTE_PTYPE_L4_MASK env = RTE_PTYPE_L4_UDP env"
  using assms by (auto simp: parse_packet_def mbuf_udp_def bind_res_eq_Inr_iff assert_res_eq_Inr_iff)

section \<open>Construction\<close>

lemma parser_context_ctor_ok:
  "parser_context_ctor env = Inr self \<longleftrightarrow>
     0 \<le> rte_mbuf_dynfield_register env ''BTH'' 2 2 \<and>
     0 \<le> rte_mbuf_dynfield_register env ''IB_MAD_HDR'' 2 2 \<and>
     self = \<lparr>dynfield_offsets = \<lparr>off_size = 12, off_bth = rte_mbuf_dynfield_register env ''BTH'' 2 2,
       off_mad = rte_mbuf_dynfield_register env ''IB_MAD_HDR'' 2 2\<rparr>\<rparr>"
  by (auto simp: parser_context_ctor_def Let_def)

end
