(* ===== verification/Iba.thy ===== *)
theory Iba
  imports Field_Access Bitfield
begin

text \<open>
  \<^verbatim>\<open>src/iba.h\<close>: big-endian loads and read-modify-write stores of 8 to 64 bits, the
  \<^verbatim>\<open>IBA_GET\<close> / \<^verbatim>\<open>IBA_SET\<close> accessors and the macros that turn a row of an IBTA message
  table into a byte offset, a mask and an access width.  The main result is that
  every descriptor whose mask is a run of bits inside its word meets the accessor
  contract \<open>field_access\<close>.
\<close>

section \<open>Raw accessors\<close>

definition iba_get8 :: "byte list \<Rightarrow> nat \<Rightarrow> u32 res" where
  "iba_get8 m ptr = map_res (\<lambda>v :: u8. ucast v) (load m ptr)"

definition iba_set8 :: "byte list \<Rightarrow> nat \<Rightarrow> u8 \<Rightarrow> u8 \<Rightarrow> byte list res" where
  "iba_set8 m ptr msk prep_value =
     bind_res (load m ptr) (\<lambda>v. store m ptr ((v AND NOT msk) OR prep_value))"

definition iba_get16 :: "byte list \<Rightarrow> nat \<Rightarrow> u16 res" where
  "iba_get16 m ptr = map_res ntohs (load m ptr)"

definition iba_set16 :: "byte list \<Rightarrow> nat \<Rightarrow> u16 \<Rightarrow> u16 \<Rightarrow> byte list res" where
  "iba_set16 m ptr msk prep_value =
     bind_res (load m ptr) (\<lambda>v. store m ptr (htons ((ntohs v AND NOT msk) OR prep_value)))"

definition iba_get32 :: "byte list \<Rightarrow> nat \<Rightarrow> u32 res" where
  "iba_get32 m ptr = map_res ntohl (load m ptr)"

definition iba_set32 :: "byte list \<Rightarrow> nat \<Rightarrow> u32 \<Rightarrow> u32 \<Rightarrow> byte list res" where
  "iba_set32 m ptr msk prep_value =
     bind_res (load m ptr) (\<lambda>v. store m ptr (htonl ((ntohl v AND NOT msk) OR prep_value)))"

definition iba_get64 :: "byte list \<Rightarrow> nat \<Rightarrow> u64 res" where
  "iba_get64 m ptr = map_res be64toh (load m ptr)"

definition iba_set64 :: "byte list \<Rightarrow> nat \<Rightarrow> u64 \<Rightarrow> u64 \<Rightarrow> byte list res" where
  "iba_set64 m ptr msk prep_value =
     bind_res (iba_get64 m ptr) (\<lambda>v. store m ptr (htobe64 ((v AND NOT msk) OR prep_value)))"

section \<open>Field descriptors\<close>

datatype iba_width = W8 | W16 | W32 | W64

record iba_field =
  field_offset :: nat
  field_msk :: u64
  num_bits :: iba_width

record iba_mem_field =
  mem_offset :: nat
  mem_num_bits :: nat

definition IBA_FIELD_BLOC :: "nat \<Rightarrow> nat \<Rightarrow> nat \<Rightarrow> iba_field" where
  "IBA_FIELD_BLOC byte_offset bit_offset nbits =
     \<lparr> field_offset = byte_offset,
       field_msk = GENMASK (7 - bit_offset) (7 - bit_offset - (nbits - 1)),
       num_bits = W8 \<rparr>"

definition IBA_FIELD8_LOC :: "nat \<Rightarrow> nat \<Rightarrow> iba_field" where
  "IBA_FIELD8_LOC byte_offset nbits = IBA_FIELD_BLOC byte_offset 0 nbits"

definition IBA_FIELD16_LOC :: "nat \<Rightarrow> nat \<Rightarrow> iba_field" where
  "IBA_FIELD16_LOC byte_offset nbits =
     \<lparr> field_offset = byte_offset AND 0xFFFE,
       field_msk = GENMASK (15 - (byte_offset mod 2) * 8)
                           (15 - (byte_offset mod 2) * 8 - (nbits - 1)),
       num_bits = W16 \<rparr>"

definition IBA_FIELD32_LOC :: "nat \<Rightarrow> nat \<Rightarrow> iba_field" where
  "IBA_FIELD32_LOC byte_offset nbits =
     \<lparr> field_offset = byte_offset AND 0xFFFC,
       field_msk = GENMASK (31 - (byte_offset mod 4) * 8)
                           (31 - (byte_offset mod 4) * 8 - (nbits - 1)),
       num_bits = W32 \<rparr>"

definition IBA_FIELD64_LOC :: "nat \<Rightarrow> iba_field" where
  "IBA_FIELD64_LOC byte_offset =
     \<lparr> field_offset = byte_offset, field_msk = GENMASK_ULL 63 0, num_bits = W64 \<rparr>"

definition IBA_FIELD_MLOC :: "nat \<Rightarrow> nat \<Rightarrow> iba_mem_field" where
  "IBA_FIELD_MLOC byte_offset nbits = \<lparr> mem_offset = byte_offset, mem_num_bits = nbits \<rparr>"

section \<open>IBA_GET and IBA_SET\<close>

definition IBA_GET :: "iba_field \<Rightarrow> byte list \<Rightarrow> nat \<Rightarrow> u64 res" where
  "IBA_GET f m ptr =
     (case num_bits f of
        W8 \<Rightarrow> map_res (\<lambda>v. ucast (ucast (FIELD_GET (field_msk f) (ucast v)) :: u8))
                (iba_get8 m (ptr + field_offset f))
      | W16 \<Rightarrow> map_res (\<lambda>v. ucast (ucast (FIELD_GET (field_msk f) (ucast v)) :: u16))
                (iba_get16 m (ptr + field_offset f))
      | W32 \<Rightarrow> map_res (\<lambda>v. ucast (ucast (FIELD_GET (field_msk f) (ucast v)) :: u32))
                (iba_get32 m (ptr + field_offset f))
      | W64 \<Rightarrow> map_res (\<lambda>v. FIELD_GET (field_msk f) v)
                (iba_get64 m (ptr + field_offset f)))"

definition IBA_SET :: "iba_field \<Rightarrow> byte list \<Rightarrow> nat \<Rightarrow> u64 \<Rightarrow> byte list res" where
  "IBA_SET f m ptr val =
     (case num_bits f of
        W8 \<Rightarrow> iba_set8 m (ptr + field_offset f) (ucast (field_msk f))
                (ucast (FIELD_PREP (field_msk f) val))
      | W16 \<Rightarrow> iba_set16 m (ptr + field_offset f) (ucast (field_msk f))
                (ucast (FIELD_PREP (field_msk f) val))
      | W32 \<Rightarrow> iba_set32 m (ptr + field_offset f) (ucast (field_msk f))
                (ucast (FIELD_PREP (field_msk f) val))
      | W64 \<Rightarrow> iba_set64 m (ptr + field_offset f) (field_msk f)
                (FIELD_PREP (field_msk f) val))"

definition IBA_GET_MEM_PTR :: "iba_mem_field \<Rightarrow> nat \<Rightarrow> nat" where
  "IBA_GET_MEM_PTR f ptr = ptr + mem_offset f"

text \<open>
  \<^verbatim>\<open>IBA_GET_MEM\<close> and \<^verbatim>\<open>IBA_SET_MEM\<close> copy \<open>n\<close> bytes out of or into the field; the destination
  of the first is an array of its own, returned as the copy leaves it.  A size beyond
  the field is only warned about (\<^verbatim>\<open>WARN_ON\<close>); a null pointer (\<open>None\<close>) copies nothing.
\<close>

definition IBA_GET_MEM :: "iba_mem_field \<Rightarrow> byte list \<Rightarrow> nat \<Rightarrow> byte list option \<Rightarrow> nat \<Rightarrow> byte list option res" where
  "IBA_GET_MEM f m ptr out n =
     (case out of
        None \<Rightarrow> Inr None
      | Some dst \<Rightarrow>
          if n \<noteq> 0
          then bind_res (load_bytes m (IBA_GET_MEM_PTR f ptr) n) (\<lambda>bs.
            bind_res (store_bytes dst 0 bs) (\<lambda>dst. Inr (Some dst)))
          else Inr (Some dst))"

definition IBA_SET_MEM :: "iba_mem_field \<Rightarrow> byte list \<Rightarrow> nat \<Rightarrow> byte list option \<Rightarrow> byte list res" where
  "IBA_SET_MEM f m ptr src =
     (case src of
        None \<Rightarrow> Inr m
      | Some bs \<Rightarrow> (if bs \<noteq> [] then store_bytes m (IBA_GET_MEM_PTR f ptr) bs else Inr m))"

section \<open>Widths and extents\<close>

fun width_bits :: "iba_width \<Rightarrow> nat" where
  "width_bits W8 = 8"
| "width_bits W16 = 16"
| "width_bits W32 = 32"
| "width_bits W64 = 64"

text \<open>A descriptor is well formed when its mask is the run of bits \<open>l..h\<close> of its word.\<close>

definition field_run :: "iba_field \<Rightarrow> nat \<Rightarrow> nat \<Rightarrow> bool" where
  "field_run f h l \<longleftrightarrow> field_msk f = GENMASK h l \<and> l \<le> h \<and> h < width_bits (num_bits f)"

text \<open>
  The half-open range of bit positions a field occupies in its message, counted from the most
  significant bit of the first byte as the IBTA tables do.
\<close>

definition field_extent :: "iba_field \<Rightarrow> nat \<times> nat" where
  "field_extent f =
     (let w = width_bits (num_bits f);
          top = length (dropWhile (\<lambda>i. \<not> bit (field_msk f) i) (rev [0..<w]))
      in (8 * field_offset f + (w - top), 8 * field_offset f + (w - bf_shf (field_msk f))))"

definition mem_extent :: "iba_mem_field \<Rightarrow> nat \<times> nat" where
  "mem_extent f = (8 * mem_offset f, 8 * mem_offset f + mem_num_bits f)"

section \<open>Every well-formed descriptor meets the accessor contract\<close>

lemmas iba_raw_defs = iba_get8_def iba_get16_def iba_get32_def iba_get64_def
  iba_set8_def iba_set16_def iba_set32_def iba_set64_def

lemma width_bits_le: "width_bits w \<le> 64"
  by (cases w) simp_all

lemma ucast_ucast_up: "ucast (ucast (w :: u8) :: u32) = (ucast w :: u64)"
  by (rule bit_word_eqI) (auto simp: bit_simps dest: bit_imp_le_length)

lemma map_res_map_res: "map_res f (map_res g m) = map_res (\<lambda>x. f (g x)) m"
  by (cases m) simp_all

lemma FIELD_GET_ucast_modify:
  fixes r :: "'a::len word"
  assumes "l \<le> h" "h < LENGTH('a)" "LENGTH('a) \<le> 64"
  shows "ucast (ucast (FIELD_GET (GENMASK h l)
      (ucast ((r AND NOT (ucast (GENMASK h l))) OR ucast (FIELD_PREP (GENMASK h l) v)))) :: 'a word)
    = take_bit (Suc h - l) v"
  using assms
  by (intro bit_word_eqI)
    (auto simp: FIELD_GET_GENMASK FIELD_PREP_GENMASK bit_GENMASK bit_simps)

lemma iba_field_access:
  assumes "field_run f h l"
  shows "field_access (IBA_GET f) (IBA_SET f) (take_bit (Suc h - l)) (field_offset f)
    (field_offset f + width_bits (num_bits f) div 8)"
proof (cases "num_bits f")
  case W8
  show ?thesis
    by (rule field_access_rmw [where 'a = 8
          and dec = "\<lambda>v. ucast (ucast (FIELD_GET (field_msk f) (ucast (ucast v :: u32))) :: u8)"
          and enc = "\<lambda>old v. (old AND NOT (ucast (field_msk f)))
            OR ucast (FIELD_PREP (field_msk f) v)"])
      (use assms W8 FIELD_GET_ucast_modify [where 'a = 8] in
        \<open>auto simp: IBA_GET_def IBA_SET_def iba_raw_defs map_res_map_res field_run_def ucast_ucast_up\<close>)
next
  case W16
  show ?thesis
    by (rule field_access_rmw [where 'a = 16
          and dec = "\<lambda>v. ucast (ucast (FIELD_GET (field_msk f) (ucast (ntohs v))) :: u16)"
          and enc = "\<lambda>old v. htons ((ntohs old AND NOT (ucast (field_msk f)))
            OR ucast (FIELD_PREP (field_msk f) v))"])
      (use assms W16 FIELD_GET_ucast_modify [where 'a = 16] in
        \<open>auto simp: IBA_GET_def IBA_SET_def iba_raw_defs map_res_map_res field_run_def n16.ntoh_hton\<close>)
next
  case W32
  show ?thesis
    by (rule field_access_rmw [where 'a = 32
          and dec = "\<lambda>v. ucast (ucast (FIELD_GET (field_msk f) (ucast (ntohl v))) :: u32)"
          and enc = "\<lambda>old v. htonl ((ntohl old AND NOT (ucast (field_msk f)))
            OR ucast (FIELD_PREP (field_msk f) v))"])
      (use assms W32 FIELD_GET_ucast_modify [where 'a = 32] in
        \<open>auto simp: IBA_GET_def IBA_SET_def iba_raw_defs map_res_map_res field_run_def n32.ntoh_hton\<close>)
next
  case W64
  show ?thesis
    by (rule field_access_rmw [where 'a = 64
          and dec = "\<lambda>v. FIELD_GET (field_msk f) (be64toh v)"
          and enc = "\<lambda>old v. htobe64 ((be64toh old AND NOT (field_msk f))
            OR FIELD_PREP (field_msk f) v)"])
      (use assms W64 in \<open>auto simp: IBA_GET_def IBA_SET_def iba_raw_defs map_res_map_res
          field_run_def n64.ntoh_hton FIELD_GET_modify bind_res_def map_res_def split: sum.splits\<close>)
qed

section \<open>Extents\<close>

lemma length_dropWhile_rev_upt:
  assumes "h < w" "P h" "\<And>i. h < i \<Longrightarrow> i < w \<Longrightarrow> \<not> P i"
  shows "length (dropWhile (\<lambda>i. \<not> P i) (rev [0..<w])) = Suc h"
proof -
  have "rev [0..<w] = rev [Suc h..<w] @ rev [0..<Suc h]"
    using assms(1) upt_add_eq_append [of 0 "Suc h" "w - Suc h"] by (simp flip: rev_append)
  moreover have "dropWhile (\<lambda>i. \<not> P i) (rev [Suc h..<w] @ rev [0..<Suc h]) = rev [0..<Suc h]"
    using assms by (subst dropWhile_append2) auto
  ultimately show ?thesis by simp
qed

lemma field_extent_run:
  assumes "field_run f h l"
  shows "field_extent f =
    (8 * field_offset f + (width_bits (num_bits f) - Suc h),
     8 * field_offset f + (width_bits (num_bits f) - l))"
proof -
  have "h < 64" using assms width_bits_le [of "num_bits f"] by (simp add: field_run_def)
  then have "length (dropWhile (\<lambda>i. \<not> bit (field_msk f) i) (rev [0..<width_bits (num_bits f)])) = Suc h"
    using assms by (intro length_dropWhile_rev_upt) (auto simp: field_run_def bit_GENMASK)
  moreover have "bf_shf (field_msk f) = l"
    using assms \<open>h < 64\<close> by (simp add: field_run_def)
  ultimately show ?thesis by (simp add: field_extent_def Let_def)
qed

lemma and_clear_low:
  fixes b :: nat
  assumes "b < 2 ^ (k + n)"
  shows "b AND push_bit k (mask n) = b - b mod 2 ^ k"
proof -
  have "b AND push_bit k (mask n) = push_bit k (take_bit n (drop_bit k b))"
    by (rule bit_eqI) (auto simp: bit_simps)
  also have "take_bit n (drop_bit k b) = drop_bit k b"
    using assms
    by (simp add: take_bit_nat_eq_self_iff drop_bit_eq_div less_mult_imp_div_less power_add
        mult.commute)
  also have "push_bit k (drop_bit k b) = b - b mod 2 ^ k"
    by (simp add: push_bit_eq_mult drop_bit_eq_div minus_mod_eq_div_mult)
  finally show ?thesis .
qed

lemma and_0xFFFC: "b < 65536 \<Longrightarrow> b AND 0xFFFC = b - b mod 4" for b :: nat
  using and_clear_low [of b 2 14] by (simp add: push_bit_eq_mult mask_eq_exp_minus_1)

lemma and_0xFFFE: "b < 65536 \<Longrightarrow> b AND 0xFFFE = b - b mod 2" for b :: nat
  using and_clear_low [of b 1 15] by (simp add: push_bit_eq_mult mask_eq_exp_minus_1)

lemma field_run_32:
  assumes "1 \<le> n" "8 * (b mod 4) + n \<le> 32"
  shows "field_run (IBA_FIELD32_LOC b n) (31 - 8 * (b mod 4)) (32 - 8 * (b mod 4) - n)"
  using assms by (auto simp: field_run_def IBA_FIELD32_LOC_def mult.commute diff_diff_eq)

lemma field_run_16:
  assumes "1 \<le> n" "8 * (b mod 2) + n \<le> 16"
  shows "field_run (IBA_FIELD16_LOC b n) (15 - 8 * (b mod 2)) (16 - 8 * (b mod 2) - n)"
  using assms by (auto simp: field_run_def IBA_FIELD16_LOC_def mult.commute diff_diff_eq)

lemma field_run_8:
  assumes "1 \<le> n" "k + n \<le> 8"
  shows "field_run (IBA_FIELD_BLOC b k n) (7 - k) (8 - k - n)"
  using assms by (auto simp: field_run_def IBA_FIELD_BLOC_def diff_diff_eq)

lemma field_run_64: "field_run (IBA_FIELD64_LOC b) 63 0"
  by (simp add: field_run_def IBA_FIELD64_LOC_def GENMASK_ULL_eq)

lemma field_extent_IBA:
  "1 \<le> n \<Longrightarrow> 8 * (b mod 4) + n \<le> 32 \<Longrightarrow> b < 65536 \<Longrightarrow>
    field_extent (IBA_FIELD32_LOC b n) = (8 * b, 8 * b + n)"
  "1 \<le> n \<Longrightarrow> 8 * (b mod 2) + n \<le> 16 \<Longrightarrow> b < 65536 \<Longrightarrow>
    field_extent (IBA_FIELD16_LOC b n) = (8 * b, 8 * b + n)"
  "1 \<le> n \<Longrightarrow> k + n \<le> 8 \<Longrightarrow> field_extent (IBA_FIELD_BLOC b k n) = (8 * b + k, 8 * b + k + n)"
  "field_extent (IBA_FIELD64_LOC b) = (8 * b, 8 * b + 64)"
proof -
  assume *: "1 \<le> n" "8 * (b mod 4) + n \<le> 32" "b < 65536"
  have "field_offset (IBA_FIELD32_LOC b n) = b - b mod 4"
    "num_bits (IBA_FIELD32_LOC b n) = W32"
    using * by (simp_all add: IBA_FIELD32_LOC_def and_0xFFFC)
  moreover have "b mod 4 \<le> b" by simp
  ultimately show "field_extent (IBA_FIELD32_LOC b n) = (8 * b, 8 * b + n)"
    using field_extent_run [OF field_run_32, OF *(1,2)] * by (simp add: diff_mult_distrib2)
next
  assume *: "1 \<le> n" "8 * (b mod 2) + n \<le> 16" "b < 65536"
  have "field_offset (IBA_FIELD16_LOC b n) = b - b mod 2"
    "num_bits (IBA_FIELD16_LOC b n) = W16"
    using * by (simp_all add: IBA_FIELD16_LOC_def and_0xFFFE)
  moreover have "b mod 2 \<le> b" by simp
  ultimately show "field_extent (IBA_FIELD16_LOC b n) = (8 * b, 8 * b + n)"
    using field_extent_run [OF field_run_16, OF *(1,2)] * by (simp add: diff_mult_distrib2)
next
  assume *: "1 \<le> n" "k + n \<le> 8"
  have "field_offset (IBA_FIELD_BLOC b k n) = b" "num_bits (IBA_FIELD_BLOC b k n) = W8"
    by (simp_all add: IBA_FIELD_BLOC_def)
  then show "field_extent (IBA_FIELD_BLOC b k n) = (8 * b + k, 8 * b + k + n)"
    using field_extent_run [OF field_run_8, OF *] * by simp
next
  show "field_extent (IBA_FIELD64_LOC b) = (8 * b, 8 * b + 64)"
    using field_extent_run [OF field_run_64] by (simp add: IBA_FIELD64_LOC_def)
qed

lemma mem_extent_IBA: "mem_extent (IBA_FIELD_MLOC b n) = (8 * b, 8 * b + n)"
  by (simp add: mem_extent_def IBA_FIELD_MLOC_def)

end
