(* ===== verification/Cm_Msgs.thy ===== *)
theory Cm_Msgs
  imports Iba Ib_Mad
begin

text \<open>
  \<^verbatim>\<open>src/ibta_vol1_c12.h\<close>: the message tables of the communication management chapter.  Each
  row of the header is one definition with the same name and arguments; the struct argument
  of the macros only gives the C type of the pointer and is dropped.  For each message
  \<open>..._extents\<close> lists the bit ranges of its fields in table order and \<open>..._size\<close> is
  the size of the struct.  The results are that every message is one MAD long, that the fields of
  a message follow each other without overlapping, and what an \<^verbatim>\<open>IBA_GET\<close> of an aligned
  32-bit row returns.
\<close>

section \<open>Row macros\<close>

definition CM_FIELD_BLOC :: "nat \<Rightarrow> nat \<Rightarrow> nat \<Rightarrow> iba_field" where
  "CM_FIELD_BLOC byte_offset bits_offset width =
     IBA_FIELD_BLOC (byte_offset + sizeof ib_mad_hdr) bits_offset width"

definition CM_FIELD8_LOC :: "nat \<Rightarrow> nat \<Rightarrow> iba_field" where
  "CM_FIELD8_LOC byte_offset width = IBA_FIELD8_LOC (byte_offset + sizeof ib_mad_hdr) width"

definition CM_FIELD16_LOC :: "nat \<Rightarrow> nat \<Rightarrow> iba_field" where
  "CM_FIELD16_LOC byte_offset width = IBA_FIELD16_LOC (byte_offset + sizeof ib_mad_hdr) width"

definition CM_FIELD32_LOC :: "nat \<Rightarrow> nat \<Rightarrow> iba_field" where
  "CM_FIELD32_LOC byte_offset width = IBA_FIELD32_LOC (byte_offset + sizeof ib_mad_hdr) width"

definition CM_FIELD64_LOC :: "nat \<Rightarrow> iba_field" where
  "CM_FIELD64_LOC byte_offset = IBA_FIELD64_LOC (byte_offset + sizeof ib_mad_hdr)"

definition CM_FIELD_MLOC :: "nat \<Rightarrow> nat \<Rightarrow> iba_mem_field" where
  "CM_FIELD_MLOC byte_offset width = IBA_FIELD_MLOC (byte_offset + sizeof ib_mad_hdr) width"

text \<open>The size of the struct: the MAD header followed by an array of 32-bit words.\<close>

definition CM_STRUCT :: "nat \<Rightarrow> nat" where
  "CM_STRUCT total_len = sizeof ib_mad_hdr + 4 * (total_len div 32)"

lemmas cm_row_defs = CM_FIELD_BLOC_def CM_FIELD8_LOC_def CM_FIELD16_LOC_def CM_FIELD32_LOC_def
  CM_FIELD64_LOC_def CM_FIELD_MLOC_def CM_STRUCT_def
  IBA_FIELD_BLOC_def IBA_FIELD8_LOC_def IBA_FIELD16_LOC_def IBA_FIELD32_LOC_def
  IBA_FIELD64_LOC_def IBA_FIELD_MLOC_def

section \<open>Message tables\<close>

subsection \<open>REQ\<close>

definition CM_REQ_LOCAL_COMM_ID :: iba_field where "CM_REQ_LOCAL_COMM_ID = CM_FIELD32_LOC 0 32"
definition CM_REQ_SERVICE_ID :: iba_field where "CM_REQ_SERVICE_ID = CM_FIELD64_LOC 8"
definition CM_REQ_LOCAL_CA_GUID :: iba_field where "CM_REQ_LOCAL_CA_GUID = CM_FIELD64_LOC 16"
definition CM_REQ_LOCAL_Q_KEY :: iba_field where "CM_REQ_LOCAL_Q_KEY = CM_FIELD32_LOC 28 32"
definition CM_REQ_LOCAL_QPN :: iba_field where "CM_REQ_LOCAL_QPN = CM_FIELD32_LOC 32 24"
definition CM_REQ_RESPONDER_RESOURCES :: iba_field where "CM_REQ_RESPONDER_RESOURCES = CM_FIELD8_LOC 35 8"
definition CM_REQ_LOCAL_EECN :: iba_field where "CM_REQ_LOCAL_EECN = CM_FIELD32_LOC 36 24"
definition CM_REQ_INITIATOR_DEPTH :: iba_field where "CM_REQ_INITIATOR_DEPTH = CM_FIELD8_LOC 39 8"
definition CM_REQ_REMOTE_EECN :: iba_field where "CM_REQ_REMOTE_EECN = CM_FIELD32_LOC 40 24"
definition CM_REQ_REMOTE_CM_RESPONSE_TIMEOUT :: iba_field where "CM_REQ_REMOTE_CM_RESPONSE_TIMEOUT = CM_FIELD8_LOC 43 5"
definition CM_REQ_TRANSPORT_SERVICE_TYPE :: iba_field where "CM_REQ_TRANSPORT_SERVICE_TYPE = CM_FIELD_BLOC 43 5 2"
definition CM_REQ_END_TO_END_FLOW_CONTROL :: iba_field where "CM_REQ_END_TO_END_FLOW_CONTROL = CM_FIELD_BLOC 43 7 1"
definition CM_REQ_STARTING_PSN :: iba_field where "CM_REQ_STARTING_PSN = CM_FIELD32_LOC 44 24"
definition CM_REQ_LOCAL_CM_RESPONSE_TIMEOUT :: iba_field where "CM_REQ_LOCAL_CM_RESPONSE_TIMEOUT = CM_FIELD8_LOC 47 5"
definition CM_REQ_RETRY_COUNT :: iba_field where "CM_REQ_RETRY_COUNT = CM_FIELD_BLOC 47 5 3"
definition CM_REQ_PARTITION_KEY :: iba_field where "CM_REQ_PARTITION_KEY = CM_FIELD16_LOC 48 16"
definition CM_REQ_PATH_PACKET_PAYLOAD_MTU :: iba_field where "CM_REQ_PATH_PACKET_PAYLOAD_MTU = CM_FIELD8_LOC 50 4"
definition CM_REQ_RDC_EXISTS :: iba_field where "CM_REQ_RDC_EXISTS = CM_FIELD_BLOC 50 4 1"
definition CM_REQ_RNR_RETRY_COUNT :: iba_field where "CM_REQ_RNR_RETRY_COUNT = CM_FIELD_BLOC 50 5 3"
definition CM_REQ_MAX_CM_RETRIES :: iba_field where "CM_REQ_MAX_CM_RETRIES = CM_FIELD8_LOC 51 4"
definition CM_REQ_SRQ :: iba_field where "CM_REQ_SRQ = CM_FIELD_BLOC 51 4 1"
definition CM_REQ_EXTENDED_TRANSPORT_TYPE :: iba_field where "CM_REQ_EXTENDED_TRANSPORT_TYPE = CM_FIELD_BLOC 51 5 3"
definition CM_REQ_PRIMARY_LOCAL_PORT_LID :: iba_field where "CM_REQ_PRIMARY_LOCAL_PORT_LID = CM_FIELD16_LOC 52 16"
definition CM_REQ_PRIMARY_REMOTE_PORT_LID :: iba_field where "CM_REQ_PRIMARY_REMOTE_PORT_LID = CM_FIELD16_LOC 54 16"
definition CM_REQ_PRIMARY_LOCAL_PORT_GID :: iba_mem_field where "CM_REQ_PRIMARY_LOCAL_PORT_GID = CM_FIELD_MLOC 56 128"
definition CM_REQ_PRIMARY_REMOTE_PORT_GID :: iba_mem_field where "CM_REQ_PRIMARY_REMOTE_PORT_GID = CM_FIELD_MLOC 72 128"
definition CM_REQ_PRIMARY_FLOW_LABEL :: iba_field where "CM_REQ_PRIMARY_FLOW_LABEL = CM_FIELD32_LOC 88 20"
definition CM_REQ_PRIMARY_PACKET_RATE :: iba_field where "CM_REQ_PRIMARY_PACKET_RATE = CM_FIELD_BLOC 91 2 6"
definition CM_REQ_PRIMARY_TRAFFIC_CLASS :: iba_field where "CM_REQ_PRIMARY_TRAFFIC_CLASS = CM_FIELD8_LOC 92 8"
definition CM_REQ_PRIMARY_HOP_LIMIT :: iba_field where "CM_REQ_PRIMARY_HOP_LIMIT = CM_FIELD8_LOC 93 8"
definition CM_REQ_PRIMARY_SL :: iba_field where "CM_REQ_PRIMARY_SL = CM_FIELD8_LOC 94 4"
definition CM_REQ_PRIMARY_SUBNET_LOCAL :: iba_field where "CM_REQ_PRIMARY_SUBNET_LOCAL = CM_FIELD_BLOC 94 4 1"
definition CM_REQ_PRIMARY_LOCAL_ACK_TIMEOUT :: iba_field where "CM_REQ_PRIMARY_LOCAL_ACK_TIMEOUT = CM_FIELD8_LOC 95 5"
definition CM_REQ_ALTERNATE_LOCAL_PORT_LID :: iba_field where "CM_REQ_ALTERNATE_LOCAL_PORT_LID = CM_FIELD16_LOC 96 16"
definition CM_REQ_ALTERNATE_REMOTE_PORT_LID :: iba_field where "CM_REQ_ALTERNATE_REMOTE_PORT_LID = CM_FIELD16_LOC 98 16"
definition CM_REQ_ALTERNATE_LOCAL_PORT_GID :: iba_mem_field where "CM_REQ_ALTERNATE_LOCAL_PORT_GID = CM_FIELD_MLOC 100 128"
definition CM_REQ_ALTERNATE_REMOTE_PORT_GID :: iba_mem_field where "CM_REQ_ALTERNATE_REMOTE_PORT_GID = CM_FIELD_MLOC 116 128"
definition CM_REQ_ALTERNATE_FLOW_LABEL :: iba_field where "CM_REQ_ALTERNATE_FLOW_LABEL = CM_FIELD32_LOC 132 20"
definition CM_REQ_ALTERNATE_PACKET_RATE :: iba_field where "CM_REQ_ALTERNATE_PACKET_RATE = CM_FIELD_BLOC 135 2 6"
definition CM_REQ_ALTERNATE_TRAFFIC_CLASS :: iba_field where "CM_REQ_ALTERNATE_TRAFFIC_CLASS = CM_FIELD8_LOC 136 8"
definition CM_REQ_ALTERNATE_HOP_LIMIT :: iba_field where "CM_REQ_ALTERNATE_HOP_LIMIT = CM_FIELD8_LOC 137 8"
definition CM_REQ_ALTERNATE_SL :: iba_field where "CM_REQ_ALTERNATE_SL = CM_FIELD8_LOC 138 4"
definition CM_REQ_ALTERNATE_SUBNET_LOCAL :: iba_field where "CM_REQ_ALTERNATE_SUBNET_LOCAL = CM_FIELD_BLOC 138 4 1"
definition CM_REQ_ALTERNATE_LOCAL_ACK_TIMEOUT :: iba_field where "CM_REQ_ALTERNATE_LOCAL_ACK_TIMEOUT = CM_FIELD8_LOC 139 5"
definition CM_REQ_SAP_SUPPORTED :: iba_field where "CM_REQ_SAP_SUPPORTED = CM_FIELD_BLOC 139 5 1"
definition CM_REQ_PRIVATE_DATA :: iba_mem_field where "CM_REQ_PRIVATE_DATA = CM_FIELD_MLOC 140 736"
definition cm_req_msg_size :: nat where "cm_req_msg_size = CM_STRUCT (140 * 8 + 736)"

definition cm_req_msg_extents :: "(nat \<times> nat) list" where
  "cm_req_msg_extents =
     [field_extent CM_REQ_LOCAL_COMM_ID,
      field_extent CM_REQ_SERVICE_ID,
      field_extent CM_REQ_LOCAL_CA_GUID,
      field_extent CM_REQ_LOCAL_Q_KEY,
      field_extent CM_REQ_LOCAL_QPN,
      field_extent CM_REQ_RESPONDER_RESOURCES,
      field_extent CM_REQ_LOCAL_EECN,
      field_extent CM_REQ_INITIATOR_DEPTH,
      field_extent CM_REQ_REMOTE_EECN,
      field_extent CM_REQ_REMOTE_CM_RESPONSE_TIMEOUT,
      field_extent CM_REQ_TRANSPORT_SERVICE_TYPE,
      field_extent CM_REQ_END_TO_END_FLOW_CONTROL,
      field_extent CM_REQ_STARTING_PSN,
      field_extent CM_REQ_LOCAL_CM_RESPONSE_TIMEOUT,
      field_extent CM_REQ_RETRY_COUNT,
      field_extent CM_REQ_PARTITION_KEY,
      field_extent CM_REQ_PATH_PACKET_PAYLOAD_MTU,
      field_extent CM_REQ_RDC_EXISTS,
      field_extent CM_REQ_RNR_RETRY_COUNT,
      field_extent CM_REQ_MAX_CM_RETRIES,
      field_extent CM_REQ_SRQ,
      field_extent CM_REQ_EXTENDED_TRANSPORT_TYPE,
      field_extent CM_REQ_PRIMARY_LOCAL_PORT_LID,
      field_extent CM_REQ_PRIMARY_REMOTE_PORT_LID,
      mem_extent CM_REQ_PRIMARY_LOCAL_PORT_GID,
      mem_extent CM_REQ_PRIMARY_REMOTE_PORT_GID,
      field_extent CM_REQ_PRIMARY_FLOW_LABEL,
      field_extent CM_REQ_PRIMARY_PACKET_RATE,
      field_extent CM_REQ_PRIMARY_TRAFFIC_CLASS,
      field_extent CM_REQ_PRIMARY_HOP_LIMIT,
      field_extent CM_REQ_PRIMARY_SL,
      field_extent CM_REQ_PRIMARY_SUBNET_LOCAL,
      field_extent CM_REQ_PRIMARY_LOCAL_ACK_TIMEOUT,
      field_extent CM_REQ_ALTERNATE_LOCAL_PORT_LID,
      field_extent CM_REQ_ALTERNATE_REMOTE_PORT_LID,
      mem_extent CM_REQ_ALTERNATE_LOCAL_PORT_GID,
      mem_extent CM_REQ_ALTERNATE_REMOTE_PORT_GID,
      field_extent CM_REQ_ALTERNATE_FLOW_LABEL,
      field_extent CM_REQ_ALTERNATE_PACKET_RATE,
      field_extent CM_REQ_ALTERNATE_TRAFFIC_CLASS,
      field_extent CM_REQ_ALTERNATE_HOP_LIMIT,
      field_extent CM_REQ_ALTERNATE_SL,
      field_extent CM_REQ_ALTERNATE_SUBNET_LOCAL,
      field_extent CM_REQ_ALTERNATE_LOCAL_ACK_TIMEOUT,
      field_extent CM_REQ_SAP_SUPPORTED,
      mem_extent CM_REQ_PRIVATE_DATA]"

lemmas cm_req_msg_defs =
  CM_REQ_LOCAL_COMM_ID_def
  CM_REQ_SERVICE_ID_def
  CM_REQ_LOCAL_CA_GUID_def
  CM_REQ_LOCAL_Q_KEY_def
  CM_REQ_LOCAL_QPN_def
  CM_REQ_RESPONDER_RESOURCES_def
  CM_REQ_LOCAL_EECN_def
  CM_REQ_INITIATOR_DEPTH_def
  CM_REQ_REMOTE_EECN_def
  CM_REQ_REMOTE_CM_RESPONSE_TIMEOUT_def
  CM_REQ_TRANSPORT_SERVICE_TYPE_def
  CM_REQ_END_TO_END_FLOW_CONTROL_def
  CM_REQ_STARTING_PSN_def
  CM_REQ_LOCAL_CM_RESPONSE_TIMEOUT_def
  CM_REQ_RETRY_COUNT_def
  CM_REQ_PARTITION_KEY_def
  CM_REQ_PATH_PACKET_PAYLOAD_MTU_def
  CM_REQ_RDC_EXISTS_def
  CM_REQ_RNR_RETRY_COUNT_def
  CM_REQ_MAX_CM_RETRIES_def
  CM_REQ_SRQ_def
  CM_REQ_EXTENDED_TRANSPORT_TYPE_def
  CM_REQ_PRIMARY_LOCAL_PORT_LID_def
  CM_REQ_PRIMARY_REMOTE_PORT_LID_def
  CM_REQ_PRIMARY_LOCAL_PORT_GID_def
  CM_REQ_PRIMARY_REMOTE_PORT_GID_def
  CM_REQ_PRIMARY_FLOW_LABEL_def
  CM_REQ_PRIMARY_PACKET_RATE_def
  CM_REQ_PRIMARY_TRAFFIC_CLASS_def
  CM_REQ_PRIMARY_HOP_LIMIT_def
  CM_REQ_PRIMARY_SL_def
  CM_REQ_PRIMARY_SUBNET_LOCAL_def
  CM_REQ_PRIMARY_LOCAL_ACK_TIMEOUT_def
  CM_REQ_ALTERNATE_LOCAL_PORT_LID_def
  CM_REQ_ALTERNATE_REMOTE_PORT_LID_def
  CM_REQ_ALTERNATE_LOCAL_PORT_GID_def
  CM_REQ_ALTERNATE_REMOTE_PORT_GID_def
  CM_REQ_ALTERNATE_FLOW_LABEL_def
  CM_REQ_ALTERNATE_PACKET_RATE_def
  CM_REQ_ALTERNATE_TRAFFIC_CLASS_def
  CM_REQ_ALTERNATE_HOP_LIMIT_def
  CM_REQ_ALTERNATE_SL_def
  CM_REQ_ALTERNATE_SUBNET_LOCAL_def
  CM_REQ_ALTERNATE_LOCAL_ACK_TIMEOUT_def
  CM_REQ_SAP_SUPPORTED_def
  CM_REQ_PRIVATE_DATA_def
  cm_req_msg_size_def

subsection \<open>MRA\<close>

definition CM_MRA_LOCAL_COMM_ID :: iba_field where "CM_MRA_LOCAL_COMM_ID = CM_FIELD32_LOC 0 32"
definition CM_MRA_REMOTE_COMM_ID :: iba_field where "CM_MRA_REMOTE_COMM_ID = CM_FIELD32_LOC 4 32"
definition CM_MRA_MESSAGE_MRAED :: iba_field where "CM_MRA_MESSAGE_MRAED = CM_FIELD8_LOC 8 2"
definition CM_MRA_SERVICE_TIMEOUT :: iba_field where "CM_MRA_SERVICE_TIMEOUT = CM_FIELD8_LOC 9 5"
definition CM_MRA_PRIVATE_DATA :: iba_mem_field where "CM_MRA_PRIVATE_DATA = CM_FIELD_MLOC 10 1776"
definition cm_mra_msg_size :: nat where "cm_mra_msg_size = CM_STRUCT (10 * 8 + 1776)"

definition cm_mra_msg_extents :: "(nat \<times> nat) list" where
  "cm_mra_msg_extents =
     [field_extent CM_MRA_LOCAL_COMM_ID,
      field_extent CM_MRA_REMOTE_COMM_ID,
      field_extent CM_MRA_MESSAGE_MRAED,
      field_extent CM_MRA_SERVICE_TIMEOUT,
      mem_extent CM_MRA_PRIVATE_DATA]"

lemmas cm_mra_msg_defs =
  CM_MRA_LOCAL_COMM_ID_def
  CM_MRA_REMOTE_COMM_ID_def
  CM_MRA_MESSAGE_MRAED_def
  CM_MRA_SERVICE_TIMEOUT_def
  CM_MRA_PRIVATE_DATA_def
  cm_mra_msg_size_def

subsection \<open>REJ\<close>

definition CM_REJ_LOCAL_COMM_ID :: iba_field where "CM_REJ_LOCAL_COMM_ID = CM_FIELD32_LOC 0 32"
definition CM_REJ_REMOTE_COMM_ID :: iba_field where "CM_REJ_REMOTE_COMM_ID = CM_FIELD32_LOC 4 32"
definition CM_REJ_MESSAGE_REJECTED :: iba_field where "CM_REJ_MESSAGE_REJECTED = CM_FIELD8_LOC 8 2"
definition CM_REJ_REJECTED_INFO_LENGTH :: iba_field where "CM_REJ_REJECTED_INFO_LENGTH = CM_FIELD8_LOC 9 7"
definition CM_REJ_REASON :: iba_field where "CM_REJ_REASON = CM_FIELD16_LOC 10 16"
definition CM_REJ_ARI :: iba_mem_field where "CM_REJ_ARI = CM_FIELD_MLOC 12 576"
definition CM_REJ_PRIVATE_DATA :: iba_mem_field where "CM_REJ_PRIVATE_DATA = CM_FIELD_MLOC 84 1184"
definition cm_rej_msg_size :: nat where "cm_rej_msg_size = CM_STRUCT (84 * 8 + 1184)"

definition cm_rej_msg_extents :: "(nat \<times> nat) list" where
  "cm_rej_msg_extents =
     [field_extent CM_REJ_LOCAL_COMM_ID,
      field_extent CM_REJ_REMOTE_COMM_ID,
      field_extent CM_REJ_MESSAGE_REJECTED,
      field_extent CM_REJ_REJECTED_INFO_LENGTH,
      field_extent CM_REJ_REASON,
      mem_extent CM_REJ_ARI,
      mem_extent CM_REJ_PRIVATE_DATA]"

lemmas cm_rej_msg_defs =
  CM_REJ_LOCAL_COMM_ID_def
  CM_REJ_REMOTE_COMM_ID_def
  CM_REJ_MESSAGE_REJECTED_def
  CM_REJ_REJECTED_INFO_LENGTH_def
  CM_REJ_REASON_def
  CM_REJ_ARI_def
  CM_REJ_PRIVATE_DATA_def
  cm_rej_msg_size_def

subsection \<open>REP\<close>

definition CM_REP_LOCAL_COMM_ID :: iba_field where "CM_REP_LOCAL_COMM_ID = CM_FIELD32_LOC 0 32"
definition CM_REP_REMOTE_COMM_ID :: iba_field where "CM_REP_REMOTE_COMM_ID = CM_FIELD32_LOC 4 32"
definition CM_REP_LOCAL_Q_KEY :: iba_field where "CM_REP_LOCAL_Q_KEY = CM_FIELD32_LOC 8 32"
definition CM_REP_LOCAL_QPN :: iba_field where "CM_REP_LOCAL_QPN = CM_FIELD32_LOC 12 24"
definition CM_REP_LOCAL_EE_CONTEXT_NUMBER :: iba_field where "CM_REP_LOCAL_EE_CONTEXT_NUMBER = CM_FIELD32_LOC 16 24"
definition CM_REP_STARTING_PSN :: iba_field where "CM_REP_STARTING_PSN = CM_FIELD32_LOC 20 24"
definition CM_REP_RESPONDER_RESOURCES :: iba_field where "CM_REP_RESPONDER_RESOURCES = CM_FIELD8_LOC 24 8"
definition CM_REP_INITIATOR_DEPTH :: iba_field where "CM_REP_INITIATOR_DEPTH = CM_FIELD8_LOC 25 8"
definition CM_REP_TARGET_ACK_DELAY :: iba_field where "CM_REP_TARGET_ACK_DELAY = CM_FIELD8_LOC 26 5"
definition CM_REP_FAILOVER_ACCEPTED :: iba_field where "CM_REP_FAILOVER_ACCEPTED = CM_FIELD_BLOC 26 5 2"
definition CM_REP_END_TO_END_FLOW_CONTROL :: iba_field where "CM_REP_END_TO_END_FLOW_CONTROL = CM_FIELD_BLOC 26 7 1"
definition CM_REP_RNR_RETRY_COUNT :: iba_field where "CM_REP_RNR_RETRY_COUNT = CM_FIELD8_LOC 27 3"
definition CM_REP_SRQ :: iba_field where "CM_REP_SRQ = CM_FIELD_BLOC 27 3 1"
definition CM_REP_LOCAL_CA_GUID :: iba_field where "CM_REP_LOCAL_CA_GUID = CM_FIELD64_LOC 28"
definition CM_REP_PRIVATE_DATA :: iba_mem_field where "CM_REP_PRIVATE_DATA = CM_FIELD_MLOC 36 1568"
definition cm_rep_msg_size :: nat where "cm_rep_msg_size = CM_STRUCT (36 * 8 + 1568)"

definition cm_rep_msg_extents :: "(nat \<times> nat) list" where
  "cm_rep_msg_extents =
     [field_extent CM_REP_LOCAL_COMM_ID,
      field_extent CM_REP_REMOTE_COMM_ID,
      field_extent CM_REP_LOCAL_Q_KEY,
      field_extent CM_REP_LOCAL_QPN,
      field_extent CM_REP_LOCAL_EE_CONTEXT_NUMBER,
      field_extent CM_REP_STARTING_PSN,
      field_extent CM_REP_RESPONDER_RESOURCES,
      field_extent CM_REP_INITIATOR_DEPTH,
      field_extent CM_REP_TARGET_ACK_DELAY,
      field_extent CM_REP_FAILOVER_ACCEPTED,
      field_extent CM_REP_END_TO_END_FLOW_CONTROL,
      field_extent CM_REP_RNR_RETRY_COUNT,
      field_extent CM_REP_SRQ,
      field_extent CM_REP_LOCAL_CA_GUID,
      mem_extent CM_REP_PRIVATE_DATA]"

lemmas cm_rep_msg_defs =
  CM_REP_LOCAL_COMM_ID_def
  CM_REP_REMOTE_COMM_ID_def
  CM_REP_LOCAL_Q_KEY_def
  CM_REP_LOCAL_QPN_def
  CM_REP_LOCAL_EE_CONTEXT_NUMBER_def
  CM_REP_STARTING_PSN_def
  CM_REP_RESPONDER_RESOURCES_def
  CM_REP_INITIATOR_DEPTH_def
  CM_REP_TARGET_ACK_DELAY_def
  CM_REP_FAILOVER_ACCEPTED_def
  CM_REP_END_TO_END_FLOW_CONTROL_def
  CM_REP_RNR_RETRY_COUNT_def
  CM_REP_SRQ_def
  CM_REP_LOCAL_CA_GUID_def
  CM_REP_PRIVATE_DATA_def
  cm_rep_msg_size_def

subsection \<open>RTU\<close>

definition CM_RTU_LOCAL_COMM_ID :: iba_field where "CM_RTU_LOCAL_COMM_ID = CM_FIELD32_LOC 0 32"
definition CM_RTU_REMOTE_COMM_ID :: iba_field where "CM_RTU_REMOTE_COMM_ID = CM_FIELD32_LOC 4 32"
definition CM_RTU_PRIVATE_DATA :: iba_mem_field where "CM_RTU_PRIVATE_DATA = CM_FIELD_MLOC 8 1792"
definition cm_rtu_msg_size :: nat where "cm_rtu_msg_size = CM_STRUCT (8 * 8 + 1792)"

definition cm_rtu_msg_extents :: "(nat \<times> nat) list" where
  "cm_rtu_msg_extents =
     [field_extent CM_RTU_LOCAL_COMM_ID,
      field_extent CM_RTU_REMOTE_COMM_ID,
      mem_extent CM_RTU_PRIVATE_DATA]"

lemmas cm_rtu_msg_defs =
  CM_RTU_LOCAL_COMM_ID_def
  CM_RTU_REMOTE_COMM_ID_def
  CM_RTU_PRIVATE_DATA_def
  cm_rtu_msg_size_def

subsection \<open>DREQ\<close>

definition CM_DREQ_LOCAL_COMM_ID :: iba_field where "CM_DREQ_LOCAL_COMM_ID = CM_FIELD32_LOC 0 32"
definition CM_DREQ_REMOTE_COMM_ID :: iba_field where "CM_DREQ_REMOTE_COMM_ID = CM_FIELD32_LOC 4 32"
definition CM_DREQ_REMOTE_QPN_EECN :: iba_field where "CM_DREQ_REMOTE_QPN_EECN = CM_FIELD32_LOC 8 24"
definition CM_DREQ_PRIVATE_DATA :: iba_mem_field where "CM_DREQ_PRIVATE_DATA = CM_FIELD_MLOC 12 1760"
definition cm_dreq_msg_size :: nat where "cm_dreq_msg_size = CM_STRUCT (12 * 8 + 1760)"

definition cm_dreq_msg_extents :: "(nat \<times> nat) list" where
  "cm_dreq_msg_extents =
     [field_extent CM_DREQ_LOCAL_COMM_ID,
      field_extent CM_DREQ_REMOTE_COMM_ID,
      field_extent CM_DREQ_REMOTE_QPN_EECN,
      mem_extent CM_DREQ_PRIVATE_DATA]"

lemmas cm_dreq_msg_defs =
  CM_DREQ_LOCAL_COMM_ID_def
  CM_DREQ_REMOTE_COMM_ID_def
  CM_DREQ_REMOTE_QPN_EECN_def
  CM_DREQ_PRIVATE_DATA_def
  cm_dreq_msg_size_def

subsection \<open>DREP\<close>

definition CM_DREP_LOCAL_COMM_ID :: iba_field where "CM_DREP_LOCAL_COMM_ID = CM_FIELD32_LOC 0 32"
definition CM_DREP_REMOTE_COMM_ID :: iba_field where "CM_DREP_REMOTE_COMM_ID = CM_FIELD32_LOC 4 32"
definition CM_DREP_PRIVATE_DATA :: iba_mem_field where "CM_DREP_PRIVATE_DATA = CM_FIELD_MLOC 8 1792"
definition cm_drep_msg_size :: nat where "cm_drep_msg_size = CM_STRUCT (8 * 8 + 1792)"

definition cm_drep_msg_extents :: "(nat \<times> nat) list" where
  "cm_drep_msg_extents =
     [field_extent CM_DREP_LOCAL_COMM_ID,
      field_extent CM_DREP_REMOTE_COMM_ID,
      mem_extent CM_DREP_PRIVATE_DATA]"

lemmas cm_drep_msg_defs =
  CM_DREP_LOCAL_COMM_ID_def
  CM_DREP_REMOTE_COMM_ID_def
  CM_DREP_PRIVATE_DATA_def
  cm_drep_msg_size_def

subsection \<open>LAP\<close>

definition CM_LAP_LOCAL_COMM_ID :: iba_field where "CM_LAP_LOCAL_COMM_ID = CM_FIELD32_LOC 0 32"
definition CM_LAP_REMOTE_COMM_ID :: iba_field where "CM_LAP_REMOTE_COMM_ID = CM_FIELD32_LOC 4 32"
definition CM_LAP_REMOTE_QPN_EECN :: iba_field where "CM_LAP_REMOTE_QPN_EECN = CM_FIELD32_LOC 12 24"
definition CM_LAP_REMOTE_CM_RESPONSE_TIMEOUT :: iba_field where "CM_LAP_REMOTE_CM_RESPONSE_TIMEOUT = CM_FIELD8_LOC 15 5"
definition CM_LAP_ALTERNATE_LOCAL_PORT_LID :: iba_field where "CM_LAP_ALTERNATE_LOCAL_PORT_LID = CM_FIELD16_LOC 20 16"
definition CM_LAP_ALTERNATE_REMOTE_PORT_LID :: iba_field where "CM_LAP_ALTERNATE_REMOTE_PORT_LID = CM_FIELD16_LOC 22 16"
definition CM_LAP_ALTERNATE_LOCAL_PORT_GID :: iba_mem_field where "CM_LAP_ALTERNATE_LOCAL_PORT_GID = CM_FIELD_MLOC 24 128"
definition CM_LAP_ALTERNATE_REMOTE_PORT_GID :: iba_mem_field where "CM_LAP_ALTERNATE_REMOTE_PORT_GID = CM_FIELD_MLOC 40 128"
definition CM_LAP_ALTERNATE_FLOW_LABEL :: iba_field where "CM_LAP_ALTERNATE_FLOW_LABEL = CM_FIELD32_LOC 56 20"
definition CM_LAP_ALTERNATE_TRAFFIC_CLASS :: iba_field where "CM_LAP_ALTERNATE_TRAFFIC_CLASS = CM_FIELD8_LOC 59 8"
definition CM_LAP_ALTERNATE_HOP_LIMIT :: iba_field where "CM_LAP_ALTERNATE_HOP_LIMIT = CM_FIELD8_LOC 60 8"
definition CM_LAP_ALTERNATE_PACKET_RATE :: iba_field where "CM_LAP_ALTERNATE_PACKET_RATE = CM_FIELD_BLOC 61 2 6"
definition CM_LAP_ALTERNATE_SL :: iba_field where "CM_LAP_ALTERNATE_SL = CM_FIELD8_LOC 62 4"
definition CM_LAP_ALTERNATE_SUBNET_LOCAL :: iba_field where "CM_LAP_ALTERNATE_SUBNET_LOCAL = CM_FIELD_BLOC 62 4 1"
definition CM_LAP_ALTERNATE_LOCAL_ACK_TIMEOUT :: iba_field where "CM_LAP_ALTERNATE_LOCAL_ACK_TIMEOUT = CM_FIELD8_LOC 63 5"
definition CM_LAP_PRIVATE_DATA :: iba_mem_field where "CM_LAP_PRIVATE_DATA = CM_FIELD_MLOC 64 1344"
definition cm_lap_msg_size :: nat where "cm_lap_msg_size = CM_STRUCT (64 * 8 + 1344)"

definition cm_lap_msg_extents :: "(nat \<times> nat) list" where
  "cm_lap_msg_extents =
     [field_extent CM_LAP_LOCAL_COMM_ID,
      field_extent CM_LAP_REMOTE_COMM_ID,
      field_extent CM_LAP_REMOTE_QPN_EECN,
      field_extent CM_LAP_REMOTE_CM_RESPONSE_TIMEOUT,
      field_extent CM_LAP_ALTERNATE_LOCAL_PORT_LID,
      field_extent CM_LAP_ALTERNATE_REMOTE_PORT_LID,
      mem_extent CM_LAP_ALTERNATE_LOCAL_PORT_GID,
      mem_extent CM_LAP_ALTERNATE_REMOTE_PORT_GID,
      field_extent CM_LAP_ALTERNATE_FLOW_LABEL,
      field_extent CM_LAP_ALTERNATE_TRAFFIC_CLASS,
      field_extent CM_LAP_ALTERNATE_HOP_LIMIT,
      field_extent CM_LAP_ALTERNATE_PACKET_RATE,
      field_extent CM_LAP_ALTERNATE_SL,
      field_extent CM_LAP_ALTERNATE_SUBNET_LOCAL,
      field_extent CM_LAP_ALTERNATE_LOCAL_ACK_TIMEOUT,
      mem_extent CM_LAP_PRIVATE_DATA]"

lemmas cm_lap_msg_defs =
  CM_LAP_LOCAL_COMM_ID_def
  CM_LAP_REMOTE_COMM_ID_def
  CM_LAP_REMOTE_QPN_EECN_def
  CM_LAP_REMOTE_CM_RESPONSE_TIMEOUT_def
  CM_LAP_ALTERNATE_LOCAL_PORT_LID_def
  CM_LAP_ALTERNATE_REMOTE_PORT_LID_def
  CM_LAP_ALTERNATE_LOCAL_PORT_GID_def
  CM_LAP_ALTERNATE_REMOTE_PORT_GID_def
  CM_LAP_ALTERNATE_FLOW_LABEL_def
  CM_LAP_ALTERNATE_TRAFFIC_CLASS_def
  CM_LAP_ALTERNATE_HOP_LIMIT_def
  CM_LAP_ALTERNATE_PACKET_RATE_def
  CM_LAP_ALTERNATE_SL_def
  CM_LAP_ALTERNATE_SUBNET_LOCAL_def
  CM_LAP_ALTERNATE_LOCAL_ACK_TIMEOUT_def
  CM_LAP_PRIVATE_DATA_def
  cm_lap_msg_size_def

subsection \<open>APR\<close>

definition CM_APR_LOCAL_COMM_ID :: iba_field where "CM_APR_LOCAL_COMM_ID = CM_FIELD32_LOC 0 32"
definition CM_APR_REMOTE_COMM_ID :: iba_field where "CM_APR_REMOTE_COMM_ID = CM_FIELD32_LOC 4 32"
definition CM_APR_ADDITIONAL_INFORMATION_LENGTH :: iba_field where "CM_APR_ADDITIONAL_INFORMATION_LENGTH = CM_FIELD8_LOC 8 8"
definition CM_APR_AR_STATUS :: iba_field where "CM_APR_AR_STATUS = CM_FIELD8_LOC 9 8"
definition CM_APR_ADDITIONAL_INFORMATION :: iba_mem_field where "CM_APR_ADDITIONAL_INFORMATION = CM_FIELD_MLOC 12 576"
definition CM_APR_PRIVATE_DATA :: iba_mem_field where "CM_APR_PRIVATE_DATA = CM_FIELD_MLOC 84 1184"
definition cm_apr_msg_size :: nat where "cm_apr_msg_size = CM_STRUCT (84 * 8 + 1184)"

definition cm_apr_msg_extents :: "(nat \<times> nat) list" where
  "cm_apr_msg_extents =
     [field_extent CM_APR_LOCAL_COMM_ID,
      field_extent CM_APR_REMOTE_COMM_ID,
      field_extent CM_APR_ADDITIONAL_INFORMATION_LENGTH,
      field_extent CM_APR_AR_STATUS,
      mem_extent CM_APR_ADDITIONAL_INFORMATION,
      mem_extent CM_APR_PRIVATE_DATA]"

lemmas cm_apr_msg_defs =
  CM_APR_LOCAL_COMM_ID_def
  CM_APR_REMOTE_COMM_ID_def
  CM_APR_ADDITIONAL_INFORMATION_LENGTH_def
  CM_APR_AR_STATUS_def
  CM_APR_ADDITIONAL_INFORMATION_def
  CM_APR_PRIVATE_DATA_def
  cm_apr_msg_size_def

subsection \<open>SIDR_REQ\<close>

definition CM_SIDR_REQ_REQUESTID :: iba_field where "CM_SIDR_REQ_REQUESTID = CM_FIELD32_LOC 0 32"
definition CM_SIDR_REQ_PARTITION_KEY :: iba_field where "CM_SIDR_REQ_PARTITION_KEY = CM_FIELD16_LOC 4 16"
definition CM_SIDR_REQ_SERVICEID :: iba_field where "CM_SIDR_REQ_SERVICEID = CM_FIELD64_LOC 8"
definition CM_SIDR_REQ_PRIVATE_DATA :: iba_mem_field where "CM_SIDR_REQ_PRIVATE_DATA = CM_FIELD_MLOC 16 1728"
definition cm_sidr_req_msg_size :: nat where "cm_sidr_req_msg_size = CM_STRUCT (16 * 8 + 1728)"

definition cm_sidr_req_msg_extents :: "(nat \<times> nat) list" where
  "cm_sidr_req_msg_extents =
     [field_extent CM_SIDR_REQ_REQUESTID,
      field_extent CM_SIDR_REQ_PARTITION_KEY,
      field_extent CM_SIDR_REQ_SERVICEID,
      mem_extent CM_SIDR_REQ_PRIVATE_DATA]"

lemmas cm_sidr_req_msg_defs =
  CM_SIDR_REQ_REQUESTID_def
  CM_SIDR_REQ_PARTITION_KEY_def
  CM_SIDR_REQ_SERVICEID_def
  CM_SIDR_REQ_PRIVATE_DATA_def
  cm_sidr_req_msg_size_def

subsection \<open>SIDR_REP\<close>

definition CM_SIDR_REP_REQUESTID :: iba_field where "CM_SIDR_REP_REQUESTID = CM_FIELD32_LOC 0 32"
definition CM_SIDR_REP_STATUS :: iba_field where "CM_SIDR_REP_STATUS = CM_FIELD8_LOC 4 8"
definition CM_SIDR_REP_ADDITIONAL_INFORMATION_LENGTH :: iba_field where "CM_SIDR_REP_ADDITIONAL_INFORMATION_LENGTH = CM_FIELD8_LOC 5 8"
definition CM_SIDR_REP_QPN :: iba_field where "CM_SIDR_REP_QPN = CM_FIELD32_LOC 8 24"
definition CM_SIDR_REP_SERVICEID :: iba_field where "CM_SIDR_REP_SERVICEID = CM_FIELD64_LOC 12"
definition CM_SIDR_REP_Q_KEY :: iba_field where "CM_SIDR_REP_Q_KEY = CM_FIELD32_LOC 20 32"
definition CM_SIDR_REP_ADDITIONAL_INFORMATION :: iba_mem_field where "CM_SIDR_REP_ADDITIONAL_INFORMATION = CM_FIELD_MLOC 24 576"
definition CM_SIDR_REP_PRIVATE_DATA :: iba_mem_field where "CM_SIDR_REP_PRIVATE_DATA = CM_FIELD_MLOC 96 1088"
definition cm_sidr_rep_msg_size :: nat where "cm_sidr_rep_msg_size = CM_STRUCT (96 * 8 + 1088)"

definition cm_sidr_rep_msg_extents :: "(nat \<times> nat) list" where
  "cm_sidr_rep_msg_extents =
     [field_extent CM_SIDR_REP_REQUESTID,
      field_extent CM_SIDR_REP_STATUS,
      field_extent CM_SIDR_REP_ADDITIONAL_INFORMATION_LENGTH,
      field_extent CM_SIDR_REP_QPN,
      field_extent CM_SIDR_REP_SERVICEID,
      field_extent CM_SIDR_REP_Q_KEY,
      mem_extent CM_SIDR_REP_ADDITIONAL_INFORMATION,
      mem_extent CM_SIDR_REP_PRIVATE_DATA]"

lemmas cm_sidr_rep_msg_defs =
  CM_SIDR_REP_REQUESTID_def
  CM_SIDR_REP_STATUS_def
  CM_SIDR_REP_ADDITIONAL_INFORMATION_LENGTH_def
  CM_SIDR_REP_QPN_def
  CM_SIDR_REP_SERVICEID_def
  CM_SIDR_REP_Q_KEY_def
  CM_SIDR_REP_ADDITIONAL_INFORMATION_def
  CM_SIDR_REP_PRIVATE_DATA_def
  cm_sidr_rep_msg_size_def

section \<open>The tables are consistent\<close>

text \<open>Ranges in increasing order, none empty, none overlapping the next, all below \<open>n\<close>.\<close>

definition ranges_ok :: "nat \<Rightarrow> (nat \<times> nat) list \<Rightarrow> bool" where
  "ranges_ok n rs \<longleftrightarrow>
     sorted_wrt (\<lambda>r s. snd r \<le> fst s) rs \<and> list_all (\<lambda>r. fst r < snd r \<and> snd r \<le> n) rs"

definition cm_tables :: "(nat \<times> (nat \<times> nat) list) list" where
  "cm_tables =
     [(cm_req_msg_size, cm_req_msg_extents), (cm_mra_msg_size, cm_mra_msg_extents),
      (cm_rej_msg_size, cm_rej_msg_extents), (cm_rep_msg_size, cm_rep_msg_extents),
      (cm_rtu_msg_size, cm_rtu_msg_extents), (cm_dreq_msg_size, cm_dreq_msg_extents),
      (cm_drep_msg_size, cm_drep_msg_extents), (cm_lap_msg_size, cm_lap_msg_extents),
      (cm_apr_msg_size, cm_apr_msg_extents), (cm_sidr_req_msg_size, cm_sidr_req_msg_extents),
      (cm_sidr_rep_msg_size, cm_sidr_rep_msg_extents)]"

lemma field_extent_CM:
  "1 \<le> n \<Longrightarrow> 8 * (b mod 4) + n \<le> 32 \<Longrightarrow> b < 65000 \<Longrightarrow>
    field_extent (CM_FIELD32_LOC b n) = (8 * (b + 24), 8 * (b + 24) + n)"
  "1 \<le> n \<Longrightarrow> 8 * (b mod 2) + n \<le> 16 \<Longrightarrow> b < 65000 \<Longrightarrow>
    field_extent (CM_FIELD16_LOC b n) = (8 * (b + 24), 8 * (b + 24) + n)"
  "1 \<le> n \<Longrightarrow> n \<le> 8 \<Longrightarrow> field_extent (CM_FIELD8_LOC b n) = (8 * (b + 24), 8 * (b + 24) + n)"
  "1 \<le> n \<Longrightarrow> k + n \<le> 8 \<Longrightarrow>
    field_extent (CM_FIELD_BLOC b k n) = (8 * (b + 24) + k, 8 * (b + 24) + k + n)"
  "field_extent (CM_FIELD64_LOC b) = (8 * (b + 24), 8 * (b + 24) + 64)"
  "mem_extent (CM_FIELD_MLOC b n) = (8 * (b + 24), 8 * (b + 24) + n)"
proof -
  have "(b + 24) mod 4 = b mod 4" "(b + 24) mod 2 = b mod 2" by presburger+
  then show "1 \<le> n \<Longrightarrow> 8 * (b mod 4) + n \<le> 32 \<Longrightarrow> b < 65000 \<Longrightarrow>
      field_extent (CM_FIELD32_LOC b n) = (8 * (b + 24), 8 * (b + 24) + n)"
    and "1 \<le> n \<Longrightarrow> 8 * (b mod 2) + n \<le> 16 \<Longrightarrow> b < 65000 \<Longrightarrow>
      field_extent (CM_FIELD16_LOC b n) = (8 * (b + 24), 8 * (b + 24) + n)"
    by (simp_all add: CM_FIELD32_LOC_def CM_FIELD16_LOC_def field_extent_IBA)
qed (simp_all add: CM_FIELD8_LOC_def IBA_FIELD8_LOC_def CM_FIELD_BLOC_def CM_FIELD64_LOC_def
    CM_FIELD_MLOC_def field_extent_IBA mem_extent_IBA)

lemmas cm_table_simps = ranges_ok_def CM_STRUCT_def field_extent_CM IB_MGMT_MAD_SIZE_def
  IB_MGMT_MAD_HDR_def IB_MGMT_MAD_DATA_def

lemma req_table_ok:
  "cm_req_msg_size = IB_MGMT_MAD_SIZE" "ranges_ok (8 * IB_MGMT_MAD_SIZE) cm_req_msg_extents"
  "snd (last cm_req_msg_extents) = 8 * IB_MGMT_MAD_SIZE"
  by (simp_all add: cm_req_msg_extents_def cm_req_msg_defs cm_table_simps)

lemma mra_table_ok:
  "cm_mra_msg_size = IB_MGMT_MAD_SIZE" "ranges_ok (8 * IB_MGMT_MAD_SIZE) cm_mra_msg_extents"
  "snd (last cm_mra_msg_extents) = 8 * IB_MGMT_MAD_SIZE"
  by (simp_all add: cm_mra_msg_extents_def cm_mra_msg_defs cm_table_simps)

lemma rej_table_ok:
  "cm_rej_msg_size = IB_MGMT_MAD_SIZE" "ranges_ok (8 * IB_MGMT_MAD_SIZE) cm_rej_msg_extents"
  "snd (last cm_rej_msg_extents) = 8 * IB_MGMT_MAD_SIZE"
  by (simp_all add: cm_rej_msg_extents_def cm_rej_msg_defs cm_table_simps)

lemma rep_table_ok:
  "cm_rep_msg_size = IB_MGMT_MAD_SIZE" "ranges_ok (8 * IB_MGMT_MAD_SIZE) cm_rep_msg_extents"
  "snd (last cm_rep_msg_extents) = 8 * IB_MGMT_MAD_SIZE"
  by (simp_all add: cm_rep_msg_extents_def cm_rep_msg_defs cm_table_simps)

lemma rtu_table_ok:
  "cm_rtu_msg_size = IB_MGMT_MAD_SIZE" "ranges_ok (8 * IB_MGMT_MAD_SIZE) cm_rtu_msg_extents"
  "snd (last cm_rtu_msg_extents) = 8 * IB_MGMT_MAD_SIZE"
  by (simp_all add: cm_rtu_msg_extents_def cm_rtu_msg_defs cm_table_simps)

lemma dreq_table_ok:
  "cm_dreq_msg_size = IB_MGMT_MAD_SIZE" "ranges_ok (8 * IB_MGMT_MAD_SIZE) cm_dreq_msg_extents"
  "snd (last cm_dreq_msg_extents) = 8 * IB_MGMT_MAD_SIZE"
  by (simp_all add: cm_dreq_msg_extents_def cm_dreq_msg_defs cm_table_simps)

lemma drep_table_ok:
  "cm_drep_msg_size = IB_MGMT_MAD_SIZE" "ranges_ok (8 * IB_MGMT_MAD_SIZE) cm_drep_msg_extents"
  "snd (last cm_drep_msg_extents) = 8 * IB_MGMT_MAD_SIZE"
  by (simp_all add: cm_drep_msg_extents_def cm_drep_msg_defs cm_table_simps)

lemma lap_table_ok:
  "cm_lap_msg_size = IB_MGMT_MAD_SIZE" "ranges_ok (8 * IB_MGMT_MAD_SIZE) cm_lap_msg_extents"
  "snd (last cm_lap_msg_extents) = 8 * IB_MGMT_MAD_SIZE"
  by (simp_all add: cm_lap_msg_extents_def cm_lap_msg_defs cm_table_simps)

lemma apr_table_ok:
  "cm_apr_msg_size = IB_MGMT_MAD_SIZE" "ranges_ok (8 * IB_MGMT_MAD_SIZE) cm_apr_msg_extents"
  "snd (last cm_apr_msg_extents) = 8 * IB_MGMT_MAD_SIZE"
  by (simp_all add: cm_apr_msg_extents_def cm_apr_msg_defs cm_table_simps)

lemma sidr_req_table_ok:
  "cm_sidr_req_msg_size = IB_MGMT_MAD_SIZE" "ranges_ok (8 * IB_MGMT_MAD_SIZE) cm_sidr_req_msg_extents"
  "snd (last cm_sidr_req_msg_extents) = 8 * IB_MGMT_MAD_SIZE"
  by (simp_all add: cm_sidr_req_msg_extents_def cm_sidr_req_msg_defs cm_table_simps)

lemma sidr_rep_table_ok:
  "cm_sidr_rep_msg_size = IB_MGMT_MAD_SIZE" "ranges_ok (8 * IB_MGMT_MAD_SIZE) cm_sidr_rep_msg_extents"
  "snd (last cm_sidr_rep_msg_extents) = 8 * IB_MGMT_MAD_SIZE"
  by (simp_all add: cm_sidr_rep_msg_extents_def cm_sidr_rep_msg_defs cm_table_simps)

text \<open>
  C29: In each of the eleven CM message tables the struct is exactly one MAD
  (256 bytes) long, the fields follow each other in table order without sharing a bit and stay
  inside the struct, and the last one (the private data) ends where the struct ends.
\<close>

theorem cm_tables_consistent:
  "list_all (\<lambda>(sz, rs). sz = IB_MGMT_MAD_SIZE \<and> ranges_ok (8 * sz) rs \<and> snd (last rs) = 8 * sz)
     cm_tables"
  by (simp add: cm_tables_def req_table_ok mra_table_ok rej_table_ok rep_table_ok rtu_table_ok dreq_table_ok drep_table_ok
    lap_table_ok apr_table_ok sidr_req_table_ok sidr_rep_table_ok)

section \<open>What the handlers read\<close>

text \<open>Every 32-bit row whose offset is a multiple of four has its bits at the top of the word.\<close>

lemma cm_field_run_32:
  assumes "4 dvd b" "1 \<le> n" "n \<le> 32"
  shows "field_run (CM_FIELD32_LOC b n) 31 (32 - n)"
proof -
  have "(b + 24) mod 4 = 0" using assms(1) by presburger
  then show ?thesis using field_run_32 [of n "b + 24"] assms by (simp add: CM_FIELD32_LOC_def)
qed

lemma cm_field_32_simps:
  assumes "4 dvd b" "b < 65000"
  shows "field_offset (CM_FIELD32_LOC b n) = b + 24" "num_bits (CM_FIELD32_LOC b n) = W32"
proof -
  have "(b + 24) mod 4 = 0" using assms(1) by presburger
  then show "field_offset (CM_FIELD32_LOC b n) = b + 24"
    using assms(2) by (simp add: CM_FIELD32_LOC_def IBA_FIELD32_LOC_def and_0xFFFC)
  show "num_bits (CM_FIELD32_LOC b n) = W32"
    by (simp add: CM_FIELD32_LOC_def IBA_FIELD32_LOC_def)
qed

lemma cm_field_access_32:
  assumes "4 dvd b" "b < 65000" "1 \<le> n" "n \<le> 32"
  shows "field_access (IBA_GET (CM_FIELD32_LOC b n)) (IBA_SET (CM_FIELD32_LOC b n)) (take_bit n)
    (b + 24) (b + 28)"
  using iba_field_access [OF cm_field_run_32, OF assms(1,3,4)] assms
  by (simp add: cm_field_32_simps Suc_diff_le add.commute [of 28])

lemma IBA_GET_row32:
  assumes "4 dvd b" "b < 65000" "1 \<le> n" "n \<le> 32"
  shows "IBA_GET (CM_FIELD32_LOC b n) m ptr =
    map_res (\<lambda>w. ucast (drop_bit (32 - n) (ntohl w))) (load m (ptr + (b + 24)))"
proof -
  have "field_msk (CM_FIELD32_LOC b n) = GENMASK 31 (32 - n)"
    using cm_field_run_32 [of b n] assms by (simp add: field_run_def)
  then have "ucast (ucast (FIELD_GET (field_msk (CM_FIELD32_LOC b n)) (ucast (v :: u32))) :: u32)
      = (ucast (drop_bit (32 - n) v) :: u64)" for v
    using assms by (intro bit_word_eqI) (auto simp: FIELD_GET_GENMASK bit_simps dest: bit_imp_le_length)
  then show ?thesis
    using assms by (simp add: IBA_GET_def cm_field_32_simps iba_get32_def map_res_map_res)
qed

text \<open>
  C27: \<^verbatim>\<open>IBA_GET\<close> of a 32-bit row of the tables (offset \<open>b\<close>, \<open>n\<close> bits wide) returns the
  top \<open>n\<close> bits of the big-endian number in the four bytes at \<open>24 + b\<close> of the message, and
  is out of bounds exactly when those bytes are not in the buffer.
\<close>

theorem IBA_GET_CM_FIELD32_value:
  assumes "4 dvd b" "b < 65000" "1 \<le> n" "n \<le> 32"
  shows "IBA_GET (CM_FIELD32_LOC b n) m ptr =
    (if ptr + (b + 24) + 4 \<le> length m
     then Inr (word_of_nat (be_nat (take 4 (drop (ptr + (b + 24)) m)) div 2 ^ (32 - n)))
     else Inl Out_of_bounds)"
proof (cases "ptr + (b + 24) + 4 \<le> length m")
  case True
  then obtain w :: u32 where w: "load m (ptr + (b + 24)) = Inr w"
    using load_in_bounds [where 'a = 32] by fastforce
  have "length (rev (take 4 (drop (ptr + (b + 24)) m))) = 4" using True by simp
  then have "be_nat (take 4 (drop (ptr + (b + 24)) m)) < 2 ^ 32"
    using le_nat_less [of "rev (take 4 (drop (ptr + (b + 24)) m))"] by (simp add: be_nat_eq)
  then have "ucast (drop_bit (32 - n) (ntohl w)) =
      (word_of_nat (be_nat (take 4 (drop (ptr + (b + 24)) m)) div 2 ^ (32 - n)) :: u64)"
    unfolding ntohl_load [OF w] by (rule ucast_drop_bit_of_nat)
  then show ?thesis using True w by (simp add: IBA_GET_row32 [OF assms])
next
  case False
  then show ?thesis by (simp add: IBA_GET_row32 [OF assms] load_def)
qed

theorem IBA_GET_CM_FIELD32_value_witness:
  "IBA_GET (CM_FIELD32_LOC 0 32) (replicate 24 0 @ [1, 2, 3, 4]) 0 = Inr 0x01020304"
  by (subst IBA_GET_CM_FIELD32_value) (simp_all add: be_nat_def)

text \<open>The rows the connection tracker reads, as instances of the accessor contract.\<close>

interpretation req_local_comm_id:
  field_access "IBA_GET CM_REQ_LOCAL_COMM_ID" "IBA_SET CM_REQ_LOCAL_COMM_ID" "take_bit 32" 24 28
  using cm_field_access_32 [of 0 32] by (simp add: CM_REQ_LOCAL_COMM_ID_def)

interpretation req_local_qpn:
  field_access "IBA_GET CM_REQ_LOCAL_QPN" "IBA_SET CM_REQ_LOCAL_QPN" "take_bit 24" 56 60
  using cm_field_access_32 [of 32 24] by (simp add: CM_REQ_LOCAL_QPN_def)

interpretation rej_local_comm_id:
  field_access "IBA_GET CM_REJ_LOCAL_COMM_ID" "IBA_SET CM_REJ_LOCAL_COMM_ID" "take_bit 32" 24 28
  using cm_field_access_32 [of 0 32] by (simp add: CM_REJ_LOCAL_COMM_ID_def)

interpretation rej_remote_comm_id:
  field_access "IBA_GET CM_REJ_REMOTE_COMM_ID" "IBA_SET CM_REJ_REMOTE_COMM_ID" "take_bit 32" 28 32
  using cm_field_access_32 [of 4 32] by (simp add: CM_REJ_REMOTE_COMM_ID_def)

interpretation rep_local_comm_id:
  field_access "IBA_GET CM_REP_LOCAL_COMM_ID" "IBA_SET CM_REP_LOCAL_COMM_ID" "take_bit 32" 24 28
  using cm_field_access_32 [of 0 32] by (simp add: CM_REP_LOCAL_COMM_ID_def)

interpretation rep_remote_comm_id:
  field_access "IBA_GET CM_REP_REMOTE_COMM_ID" "IBA_SET CM_REP_REMOTE_COMM_ID" "take_bit 32" 28 32
  using cm_field_access_32 [of 4 32] by (simp add: CM_REP_REMOTE_COMM_ID_def)

interpretation rep_local_qpn:
  field_access "IBA_GET CM_REP_LOCAL_QPN" "IBA_SET CM_REP_LOCAL_QPN" "take_bit 24" 36 40
  using cm_field_access_32 [of 12 24] by (simp add: CM_REP_LOCAL_QPN_def)

interpretation rtu_local_comm_id:
  field_access "IBA_GET CM_RTU_LOCAL_COMM_ID" "IBA_SET CM_RTU_LOCAL_COMM_ID" "take_bit 32" 24 28
  using cm_field_access_32 [of 0 32] by (simp add: CM_RTU_LOCAL_COMM_ID_def)

interpretation rtu_remote_comm_id:
  field_access "IBA_GET CM_RTU_REMOTE_COMM_ID" "IBA_SET CM_RTU_REMOTE_COMM_ID" "take_bit 32" 28 32
  using cm_field_access_32 [of 4 32] by (simp add: CM_RTU_REMOTE_COMM_ID_def)

interpretation dreq_local_comm_id:
  field_access "IBA_GET CM_DREQ_LOCAL_COMM_ID" "IBA_SET CM_DREQ_LOCAL_COMM_ID" "take_bit 32" 24 28
  using cm_field_access_32 [of 0 32] by (simp add: CM_DREQ_LOCAL_COMM_ID_def)

interpretation dreq_remote_comm_id:
  field_access "IBA_GET CM_DREQ_REMOTE_COMM_ID" "IBA_SET CM_DREQ_REMOTE_COMM_ID" "take_bit 32" 28 32
  using cm_field_access_32 [of 4 32] by (simp add: CM_DREQ_REMOTE_COMM_ID_def)

interpretation drep_local_comm_id:
  field_access "IBA_GET CM_DREP_LOCAL_COMM_ID" "IBA_SET CM_DREP_LOCAL_COMM_ID" "take_bit 32" 24 28
  using cm_field_access_32 [of 0 32] by (simp add: CM_DREP_LOCAL_COMM_ID_def)

interpretation drep_remote_comm_id:
  field_access "IBA_GET CM_DREP_REMOTE_COMM_ID" "IBA_SET CM_DREP_REMOTE_COMM_ID" "take_bit 32" 28 32
  using cm_field_access_32 [of 4 32] by (simp add: CM_DREP_REMOTE_COMM_ID_def)

text \<open>The two identifiers of a message lie in different words, so writing one keeps the other.\<close>

interpretation rep_comm_ids: disjoint_fields
    "IBA_GET CM_REP_LOCAL_COMM_ID" "IBA_SET CM_REP_LOCAL_COMM_ID" "take_bit 32" 24 28
    "IBA_GET CM_REP_REMOTE_COMM_ID" "IBA_SET CM_REP_REMOTE_COMM_ID" "take_bit 32" 28 32
  by unfold_locales simp

interpretation rep_id_qpn: disjoint_fields
    "IBA_GET CM_REP_LOCAL_COMM_ID" "IBA_SET CM_REP_LOCAL_COMM_ID" "take_bit 32" 24 28
    "IBA_GET CM_REP_LOCAL_QPN" "IBA_SET CM_REP_LOCAL_QPN" "take_bit 24" 36 40
  by unfold_locales simp

interpretation rep_remote_id_qpn: disjoint_fields
    "IBA_GET CM_REP_REMOTE_COMM_ID" "IBA_SET CM_REP_REMOTE_COMM_ID" "take_bit 32" 28 32
    "IBA_GET CM_REP_LOCAL_QPN" "IBA_SET CM_REP_LOCAL_QPN" "take_bit 24" 36 40
  by unfold_locales simp

interpretation req_id_qpn: disjoint_fields
    "IBA_GET CM_REQ_LOCAL_COMM_ID" "IBA_SET CM_REQ_LOCAL_COMM_ID" "take_bit 32" 24 28
    "IBA_GET CM_REQ_LOCAL_QPN" "IBA_SET CM_REQ_LOCAL_QPN" "take_bit 24" 56 60
  by unfold_locales simp

text \<open>
  C28: Round trip of the CM message rows: writing a value into an aligned 32-bit row with
  \<^verbatim>\<open>IBA_SET\<close> and reading the row back returns the value cut to the row's width, and neither the
  length of the message nor any byte outside the row's word changes.
\<close>

theorem IBA_SET_GET_roundtrip:
  assumes "4 dvd b" "b < 65000" "1 \<le> n" "n \<le> 32"
    and "IBA_SET (CM_FIELD32_LOC b n) m ptr v = Inr m'"
  shows "IBA_GET (CM_FIELD32_LOC b n) m' ptr = Inr (take_bit n v)
    \<and> length m' = length m
    \<and> take (ptr + (b + 24)) m' = take (ptr + (b + 24)) m
    \<and> drop (ptr + (b + 28)) m' = drop (ptr + (b + 28)) m"
proof -
  note fa = cm_field_access_32 [OF assms(1-4)]
  have len: "length m' = length m" by (rule field_access.put_length [OF fa assms(5)])
  have "m' ! i = m ! i" if "i < length m" "i < ptr + (b + 24) \<or> ptr + (b + 28) \<le> i" for i
    using field_access.put_frame [OF fa assms(5)] that by blast
  then have "take (ptr + (b + 24)) m' = take (ptr + (b + 24)) m"
    "drop (ptr + (b + 28)) m' = drop (ptr + (b + 28)) m"
    using len by (auto simp: list_eq_iff_nth_eq)
  then show ?thesis using field_access.get_put [OF fa assms(5)] len by simp
qed

theorem IBA_SET_GET_roundtrip_witness:
  "\<exists>m'. IBA_SET CM_REQ_LOCAL_QPN (replicate 256 0) 0 0x1ABCDEF = Inr m' \<and>
     IBA_GET CM_REQ_LOCAL_QPN m' 0 = Inr 0xABCDEF"
proof -
  obtain m' where m': "IBA_SET (CM_FIELD32_LOC 32 24) (replicate 256 0) 0 0x1ABCDEF = Inr m'"
    using req_local_qpn.put_ok [of 0 "replicate 256 0"] by (auto simp: CM_REQ_LOCAL_QPN_def)
  have "(4 :: nat) dvd 32" by simp
  then have "IBA_GET (CM_FIELD32_LOC 32 24) m' 0 = Inr (take_bit 24 0x1ABCDEF)"
    using IBA_SET_GET_roundtrip [of 32 24, OF _ _ _ _ m'] by simp
  then show ?thesis using m' by (auto simp: CM_REQ_LOCAL_QPN_def take_bit_eq_mod)
qed

text \<open>
  Building and reading a REP: after the two communication identifiers and the QPN have been written with
  \<^verbatim>\<open>IBA_SET\<close>, in this order, \<^verbatim>\<open>IBA_GET\<close> returns each of them, the identifiers as 32-bit and the QPN as
  24-bit numbers: none of the three writes disturbs another field.
\<close>

theorem rep_message_roundtrip:
  assumes "IBA_SET CM_REP_LOCAL_COMM_ID m msg lid = Inr m1" "IBA_SET CM_REP_REMOTE_COMM_ID m1 msg rid = Inr m2"
    and "IBA_SET CM_REP_LOCAL_QPN m2 msg qpn = Inr m3"
  shows "IBA_GET CM_REP_LOCAL_COMM_ID m3 msg = Inr (take_bit 32 lid) \<and>
    IBA_GET CM_REP_REMOTE_COMM_ID m3 msg = Inr (take_bit 32 rid) \<and>
    IBA_GET CM_REP_LOCAL_QPN m3 msg = Inr (take_bit 24 qpn)"
  using rep_local_comm_id.get_put [OF assms(1)] rep_comm_ids.get1_put2 [OF assms(2)]
    rep_remote_comm_id.get_put [OF assms(2)] rep_id_qpn.get1_put2 [OF assms(3)]
    rep_remote_id_qpn.get1_put2 [OF assms(3)] rep_local_qpn.get_put [OF assms(3)]
  by simp

theorem rep_message_roundtrip_witness:
  "\<exists>m1 m2 m3. IBA_SET CM_REP_LOCAL_COMM_ID (replicate 256 0xff) 0 7 = Inr m1 \<and>
     IBA_SET CM_REP_REMOTE_COMM_ID m1 0 9 = Inr m2 \<and> IBA_SET CM_REP_LOCAL_QPN m2 0 0x1000203 = Inr m3 \<and>
     IBA_GET CM_REP_LOCAL_COMM_ID m3 0 = Inr 7 \<and> IBA_GET CM_REP_LOCAL_QPN m3 0 = Inr 0x203"
proof -
  obtain m1 where m1: "IBA_SET CM_REP_LOCAL_COMM_ID (replicate 256 0xff) 0 7 = Inr m1" "length m1 = 256"
    using rep_local_comm_id.put_ok [of 0 "replicate 256 0xff" 7] rep_local_comm_id.put_length by fastforce
  obtain m2 where m2: "IBA_SET CM_REP_REMOTE_COMM_ID m1 0 9 = Inr m2" "length m2 = 256"
    using rep_remote_comm_id.put_ok [of 0 m1 9] rep_remote_comm_id.put_length m1(2) by fastforce
  obtain m3 where m3: "IBA_SET CM_REP_LOCAL_QPN m2 0 0x1000203 = Inr m3"
    using rep_local_qpn.put_ok [of 0 m2 "0x1000203"] m2(2) by fastforce
  show ?thesis
    using rep_message_roundtrip [OF m1(1) m2(1) m3] m1(1) m2(1) m3 by (auto simp: take_bit_eq_mod)
qed

end
