(* ===== verification/Tracker.thy ===== *)
theory Tracker
  imports Parser Cm_Msgs
begin

text \<open>
  \<^verbatim>\<open>src/cm_connection_tracker.h\<close> and \<^verbatim>\<open>src/cm_connection_tracker.cpp\<close>: the connection tracker.

  A \<^verbatim>\<open>shared_ptr<flow_state>\<close> is an address of the \<open>heap\<close>; the two hash maps share the objects
  they point to, and a handler's local \<^verbatim>\<open>state\<close> variable is such an address too, so updates are
  seen through every alias, as in the code.  An object no map refers to any more stays in the
  model's heap, where nothing can reach it; new objects are numbered by \<open>next_ptr\<close>.  The hash maps
  are never iterated, so a map \<open>'k \<rightharpoonup> 'v\<close> is all the code can observe of them.  Logging is output
  only and is left out here (\<open>Logging\<close> has the calls).  IPv4 addresses are kept as the code keeps them, in network byte order.
\<close>

section \<open>Data\<close>

type_synonym id_t = u32
type_synonym qpn_t = u32
type_synonym in_addr_t = u32
type_synonym flow_key = "in_addr_t \<times> qpn_t"
type_synonym cm_flow_key = "in_addr_t \<times> id_t"

text \<open>A \<^verbatim>\<open>shared_ptr<flow_state>\<close>, and the query table.\<close>

type_synonym flow_state_ptr = nat
type_synonym qpn_map_t = "flow_key \<rightharpoonup> qpn_t"

datatype flow_state_name =
  IDLE | REQ_SENT | REQ_RCVD | MRA_REQ_RCVD | MRA_REQ_SENT | MRA_REP_SENT | MRA_REP_RCVD
| REP_SENT | REP_RCVD | ESTABLISHED | DREQ_SENT | DREQ_RCVD | TIMEWAIT

text \<open>The values of the C enumeration, their order, and the names the code prints for them.\<close>

fun flow_state_num :: "flow_state_name \<Rightarrow> nat" where
  "flow_state_num IDLE = 0"
| "flow_state_num REQ_SENT = 1"
| "flow_state_num REQ_RCVD = 2"
| "flow_state_num MRA_REQ_RCVD = 3"
| "flow_state_num MRA_REQ_SENT = 4"
| "flow_state_num MRA_REP_SENT = 5"
| "flow_state_num MRA_REP_RCVD = 6"
| "flow_state_num REP_SENT = 7"
| "flow_state_num REP_RCVD = 8"
| "flow_state_num ESTABLISHED = 9"
| "flow_state_num DREQ_SENT = 10"
| "flow_state_num DREQ_RCVD = 11"
| "flow_state_num TIMEWAIT = 12"

definition state_names :: "string list" where
  "state_names =
     [''IDLE'', ''REQ_SENT'', ''REQ_RCVD'', ''MRA_REQ_RCVD'', ''MRA_REQ_SENT'', ''MRA_REP_SENT'', ''MRA_REP_RCVD'',
      ''REP_SENT'', ''REP_RCVD'', ''ESTABLISHED'', ''DREQ_SENT'', ''DREQ_RCVD'', ''TIMEWAIT'']"

lemma flow_state_num_inject: "flow_state_num s = flow_state_num s' \<longleftrightarrow> s = s'"
  by (cases s; cases s') simp_all

lemma state_names_defined: "flow_state_num s < length state_names"
  by (cases s) (simp_all add: state_names_def)

instantiation flow_state_name :: linorder
begin

definition less_eq_flow_state_name :: "flow_state_name \<Rightarrow> flow_state_name \<Rightarrow> bool" where
  "less_eq_flow_state_name s s' \<longleftrightarrow> flow_state_num s \<le> flow_state_num s'"

definition less_flow_state_name :: "flow_state_name \<Rightarrow> flow_state_name \<Rightarrow> bool" where
  "less_flow_state_name s s' \<longleftrightarrow> flow_state_num s < flow_state_num s'"

instance
  by standard (auto simp: less_eq_flow_state_name_def less_flow_state_name_def flow_state_num_inject)

end

datatype ctcm_direction = CTCM_FROM_HOST | CTCM_FROM_NET

definition cm_flow_key_null :: cm_flow_key where
  "cm_flow_key_null = (0, 0)"

definition cm_flow_key_bool :: "cm_flow_key \<Rightarrow> bool" where
  "cm_flow_key_bool k \<longleftrightarrow> fst k \<noteq> 0 \<and> snd k \<noteq> 0"

definition from_dest :: "dpdk \<Rightarrow> rte_mbuf \<Rightarrow> id_t \<Rightarrow> cm_flow_key res" where
  "from_dest env p rid =
     bind_res (mbuf_ip env p) (\<lambda>ip.
     bind_res (load (buf p) (ip + offsetof iphdr ''daddr'')) (\<lambda>daddr. Inr (daddr, rid)))"

definition from_src :: "dpdk \<Rightarrow> rte_mbuf \<Rightarrow> id_t \<Rightarrow> cm_flow_key res" where
  "from_src env p rid =
     bind_res (mbuf_ip env p) (\<lambda>ip.
     bind_res (load (buf p) (ip + offsetof iphdr ''saddr'')) (\<lambda>saddr. Inr (saddr, rid)))"

record flow_state =
  fstate :: flow_state_name
  local_id :: id_t
  remote_id :: cm_flow_key
  local_qpn :: qpn_t
  remote_qpn :: qpn_t
  in_qpn_map :: bool

definition new_flow_state :: flow_state where
  "new_flow_state =
     \<lparr> fstate = IDLE, local_id = 0, remote_id = cm_flow_key_null, local_qpn = 0, remote_qpn = 0,
       in_qpn_map = False \<rparr>"

definition get_cm_flow_key :: "flow_state \<Rightarrow> cm_flow_key" where
  "get_cm_flow_key s = remote_id s"

definition get_flow_key :: "flow_state \<Rightarrow> flow_key" where
  "get_flow_key s = (fst (remote_id s), remote_qpn s)"

definition flow_value :: "flow_state \<Rightarrow> flow_key \<times> qpn_t" where
  "flow_value s = (get_flow_key s, local_qpn s)"

record tracker =
  local_map :: "id_t \<rightharpoonup> flow_state_ptr"
  remote_map :: "cm_flow_key \<rightharpoonup> flow_state_ptr"
  qpn_map :: qpn_map_t
  heap :: "flow_state_ptr \<Rightarrow> flow_state"
  next_ptr :: nat

definition new_tracker :: tracker where
  "new_tracker =
     \<lparr> local_map = Map.empty, remote_map = Map.empty, qpn_map = Map.empty,
       heap = (\<lambda>_. new_flow_state), next_ptr = 0 \<rparr>"

text \<open>Assignment through a flow pointer.\<close>

definition upd_flow :: "tracker \<Rightarrow> nat \<Rightarrow> (flow_state \<Rightarrow> flow_state) \<Rightarrow> tracker" where
  "upd_flow t st f = t\<lparr>heap := (heap t)(st := f (heap t st))\<rparr>"

section \<open>The flow tables\<close>

definition link_local :: "tracker \<Rightarrow> nat \<Rightarrow> id_t \<Rightarrow> nat option \<Rightarrow> tracker res" where
  "link_local t st lid local_it =
     (if local_it = None \<and> lid \<noteq> 0
      then bind_res (assert_res (local_id (heap t st) = 0)) (\<lambda>_.
        Inr ((upd_flow t st (local_id_update (\<lambda>_. lid)))\<lparr>local_map := (local_map t)(lid \<mapsto> st)\<rparr>))
      else Inr t)"

definition link_remote :: "tracker \<Rightarrow> nat \<Rightarrow> cm_flow_key \<Rightarrow> nat option \<Rightarrow> tracker res" where
  "link_remote t st rid remote_it =
     (if remote_it = None \<and> cm_flow_key_bool rid
      then bind_res (assert_res (\<not> cm_flow_key_bool (remote_id (heap t st)))) (\<lambda>_.
        Inr ((upd_flow t st (remote_id_update (\<lambda>_. rid)))\<lparr>remote_map := (remote_map t)(rid \<mapsto> st)\<rparr>))
      else Inr t)"

definition add_new_flow :: "tracker \<Rightarrow> id_t \<Rightarrow> cm_flow_key \<Rightarrow> (tracker \<times> nat) res" where
  "add_new_flow t lid rid =
     (let local_it = local_map t lid;
          remote_it = remote_map t rid;
          link = (\<lambda>t st.
            bind_res (link_local t st lid local_it) (\<lambda>t.
            bind_res (link_remote t st rid remote_it) (\<lambda>t. Inr (t, st))))
      in case (local_it, remote_it) of
           (Some l, Some r) \<Rightarrow>
             bind_res (assert_res (l = r)) (\<lambda>_.
             bind_res (assert_res (local_id (heap t l) = lid \<and> remote_id (heap t l) = rid)) (\<lambda>_.
             Inr (t, l)))
         | (None, None) \<Rightarrow>
             bind_res (assert_res (lid \<noteq> 0 \<or> cm_flow_key_bool rid)) (\<lambda>_.
             link (t\<lparr>heap := (heap t)(next_ptr t := new_flow_state), next_ptr := Suc (next_ptr t)\<rparr>)
               (next_ptr t))
         | (Some l, None) \<Rightarrow> link t l
         | (None, Some r) \<Rightarrow> link t r)"

definition get_flow :: "tracker \<Rightarrow> id_t \<Rightarrow> cm_flow_key \<Rightarrow> (tracker \<times> nat) res" where
  "get_flow t lid rid =
     bind_res (assert_res (lid \<noteq> 0 \<or> cm_flow_key_bool rid)) (\<lambda>_.
       case (if lid \<noteq> 0 then local_map t lid else remote_map t rid) of
         None \<Rightarrow> add_new_flow t lid rid
       | Some st \<Rightarrow> Inr (t, st))"

definition on_established :: "tracker \<Rightarrow> nat \<Rightarrow> tracker" where
  "on_established t st =
     (let s = heap t st
      in if local_qpn s = 0 \<or> remote_qpn s = 0 then t
         else case qpn_map t (fst (flow_value s)) of
                Some _ \<Rightarrow> t
              | None \<Rightarrow>
                  upd_flow (t\<lparr>qpn_map := (qpn_map t)(fst (flow_value s) \<mapsto> snd (flow_value s))\<rparr>) st
                    (in_qpn_map_update (\<lambda>_. True)))"

definition on_disconnected :: "tracker \<Rightarrow> nat \<Rightarrow> tracker" where
  "on_disconnected t st =
     (let s = heap t st
      in if local_qpn s = 0 \<or> remote_qpn s = 0 then t
         else case qpn_map t (get_flow_key s) of
                None \<Rightarrow> t
              | Some _ \<Rightarrow>
                  upd_flow (t\<lparr>qpn_map := (qpn_map t)(get_flow_key s := None)\<rparr>) st
                    (in_qpn_map_update (\<lambda>_. False)))"

definition erase_flow :: "tracker \<Rightarrow> id_t \<Rightarrow> cm_flow_key \<Rightarrow> tracker res" where
  "erase_flow t lid rid =
     bind_res (assert_res (lid \<noteq> 0 \<or> cm_flow_key_bool rid)) (\<lambda>_.
       case (if lid \<noteq> 0 then local_map t lid else remote_map t rid) of
         None \<Rightarrow> Inr t
       | Some st \<Rightarrow>
           let t' = (if in_qpn_map (heap t st) then on_disconnected t st else t)
           in Inr (t'\<lparr>local_map := (local_map t')(lid := None),
                      remote_map := (remote_map t')(rid := None)\<rparr>))"

definition get_source_qpn :: "tracker \<Rightarrow> flow_key \<Rightarrow> qpn_t" where
  "get_source_qpn t flow = (case qpn_map t flow of Some q \<Rightarrow> q | None \<Rightarrow> 0)"

section \<open>Reading the message of a packet\<close>

definition parser_mbuf_mad :: "parser_context \<Rightarrow> rte_mbuf \<Rightarrow> nat option res" where
  "parser_mbuf_mad self p = ctcm_mbuf_get_mad (dynfield_offsets self) p"

text \<open>The message pointer a handler dereferences; a null pointer has no bytes behind it.\<close>

definition cm_msg :: "parser_context \<Rightarrow> rte_mbuf \<Rightarrow> nat res" where
  "cm_msg self p =
     bind_res (parser_mbuf_mad self p) (\<lambda>mad.
       case mad of None \<Rightarrow> Inl Out_of_bounds | Some msg \<Rightarrow> Inr msg)"

text \<open>\<^verbatim>\<open>IBA_GET\<close> of a 32-bit row, converted to the 32-bit type of the variable it initialises.\<close>

definition IBA_GET_u32 :: "iba_field \<Rightarrow> rte_mbuf \<Rightarrow> nat \<Rightarrow> u32 res" where
  "IBA_GET_u32 f p msg = map_res (\<lambda>v. ucast v) (IBA_GET f (buf p) msg)"

definition get_attr_id :: "parser_context \<Rightarrow> rte_mbuf \<Rightarrow> u16 res" where
  "get_attr_id self p =
     bind_res (cm_msg self p) (\<lambda>mad. map_res ntohs (mad_attr_id (buf p) mad))"

section \<open>Handlers\<close>

type_synonym handler = "dpdk \<Rightarrow> parser_context \<Rightarrow> rte_mbuf \<Rightarrow> tracker \<Rightarrow> tracker res"

definition req_sent :: handler where
  "req_sent env self p t =
     bind_res (cm_msg self p) (\<lambda>msg.
     bind_res (IBA_GET_u32 CM_REQ_LOCAL_COMM_ID p msg) (\<lambda>lid.
     bind_res (get_flow t lid cm_flow_key_null) (\<lambda>(t, st).
     if fstate (heap t st) \<in> {IDLE, REQ_SENT}
     then bind_res (IBA_GET_u32 CM_REQ_LOCAL_QPN p msg) (\<lambda>qpn.
       Inr (upd_flow t st (\<lambda>s. s\<lparr>fstate := REQ_SENT, local_qpn := qpn\<rparr>)))
     else Inr t)))"

definition req_received :: handler where
  "req_received env self p t =
     bind_res (cm_msg self p) (\<lambda>msg.
     bind_res (IBA_GET_u32 CM_REQ_LOCAL_COMM_ID p msg) (\<lambda>rid.
     bind_res (from_src env p rid) (\<lambda>remote_flow.
     bind_res (get_flow t 0 remote_flow) (\<lambda>(t, st).
     if fstate (heap t st) \<in> {REQ_RCVD, IDLE}
     then bind_res (IBA_GET_u32 CM_REQ_LOCAL_QPN p msg) (\<lambda>qpn.
       bind_res (assert_res (fstate (heap t st) = REQ_RCVD \<longrightarrow> remote_qpn (heap t st) = qpn)) (\<lambda>_.
       Inr (upd_flow t st (\<lambda>s. s\<lparr>fstate := REQ_RCVD, remote_qpn := qpn\<rparr>))))
     else Inr t))))"

definition rej_sent :: handler where
  "rej_sent env self p t =
     bind_res (cm_msg self p) (\<lambda>msg.
     bind_res (IBA_GET_u32 CM_REJ_LOCAL_COMM_ID p msg) (\<lambda>lid.
     bind_res (IBA_GET_u32 CM_REJ_REMOTE_COMM_ID p msg) (\<lambda>rid.
     bind_res (from_dest env p rid) (\<lambda>remote_flow.
     bind_res (get_flow t lid remote_flow) (\<lambda>(t, st).
     if fstate (heap t st) \<in> {IDLE, REQ_RCVD, REQ_SENT, MRA_REQ_RCVD, MRA_REQ_SENT, REP_RCVD,
          MRA_REP_SENT}
     then erase_flow t lid remote_flow
     else if fstate (heap t st) \<in> {REP_SENT, MRA_REP_RCVD}
     then erase_flow t lid remote_flow
     else Inr t)))))"

definition rej_received :: handler where
  "rej_received env self p t =
     bind_res (cm_msg self p) (\<lambda>msg.
     bind_res (IBA_GET_u32 CM_REJ_REMOTE_COMM_ID p msg) (\<lambda>lid.
     bind_res (IBA_GET_u32 CM_REJ_LOCAL_COMM_ID p msg) (\<lambda>rid.
     bind_res (from_src env p rid) (\<lambda>remote_flow.
     bind_res (get_flow t lid remote_flow) (\<lambda>(t, st).
     if fstate (heap t st) \<in> {IDLE, REQ_SENT, MRA_REQ_RCVD, REP_SENT, MRA_REP_RCVD, MRA_REQ_SENT}
     then erase_flow t lid remote_flow
     else if fstate (heap t st) \<in> {DREQ_SENT, REP_RCVD, MRA_REP_SENT, ESTABLISHED}
     then erase_flow t lid remote_flow
     else Inr t)))))"

definition rep_sent :: handler where
  "rep_sent env self p t =
     bind_res (cm_msg self p) (\<lambda>msg.
     bind_res (IBA_GET_u32 CM_REP_LOCAL_COMM_ID p msg) (\<lambda>lid.
     bind_res (IBA_GET_u32 CM_REP_REMOTE_COMM_ID p msg) (\<lambda>rid.
     bind_res (from_dest env p rid) (\<lambda>remote_flow.
     bind_res (get_flow t lid remote_flow) (\<lambda>(t, st).
     if fstate (heap t st) \<in> {REQ_RCVD, MRA_REQ_SENT}
     then bind_res (add_new_flow (upd_flow t st (fstate_update (\<lambda>_. REP_SENT))) lid remote_flow)
       (\<lambda>(t, _).
       bind_res (IBA_GET_u32 CM_REP_LOCAL_QPN p msg) (\<lambda>qpn.
       Inr (upd_flow t st (local_qpn_update (\<lambda>_. qpn)))))
     else Inr t)))))"

definition rep_received :: handler where
  "rep_received env self p t =
     bind_res (cm_msg self p) (\<lambda>msg.
     bind_res (IBA_GET_u32 CM_REP_REMOTE_COMM_ID p msg) (\<lambda>lid.
     bind_res (IBA_GET_u32 CM_REP_LOCAL_COMM_ID p msg) (\<lambda>rid.
     bind_res (from_src env p rid) (\<lambda>remote_flow.
     bind_res (get_flow t lid cm_flow_key_null) (\<lambda>(t, st).
     if fstate (heap t st) \<in> {REQ_SENT, MRA_REQ_RCVD}
     then bind_res (IBA_GET_u32 CM_REP_LOCAL_QPN p msg) (\<lambda>qpn.
       bind_res (add_new_flow
           (upd_flow t st (\<lambda>s. s\<lparr>fstate := REP_RCVD, remote_qpn := qpn\<rparr>)) lid remote_flow)
         (\<lambda>(t, _). Inr t))
     else Inr t)))))"

definition rtu_sent :: handler where
  "rtu_sent env self p t =
     bind_res (cm_msg self p) (\<lambda>msg.
     bind_res (IBA_GET_u32 CM_RTU_LOCAL_COMM_ID p msg) (\<lambda>lid.
     bind_res (get_flow t lid cm_flow_key_null) (\<lambda>(t, st).
     if fstate (heap t st) \<in> {REP_RCVD, MRA_REP_SENT}
     then Inr (on_established (upd_flow t st (fstate_update (\<lambda>_. ESTABLISHED))) st)
     else Inr t)))"

definition rtu_received :: handler where
  "rtu_received env self p t =
     bind_res (cm_msg self p) (\<lambda>msg.
     bind_res (IBA_GET_u32 CM_RTU_REMOTE_COMM_ID p msg) (\<lambda>lid.
     bind_res (get_flow t lid cm_flow_key_null) (\<lambda>(t, st).
     if fstate (heap t st) \<in> {REP_SENT, MRA_REP_RCVD}
     then Inr (on_established (upd_flow t st (fstate_update (\<lambda>_. ESTABLISHED))) st)
     else Inr t)))"

definition dreq_sent :: handler where
  "dreq_sent env self p t =
     bind_res (cm_msg self p) (\<lambda>msg.
     bind_res (IBA_GET_u32 CM_DREQ_LOCAL_COMM_ID p msg) (\<lambda>lid.
     bind_res (get_flow t lid cm_flow_key_null) (\<lambda>(t, st).
     if fstate (heap t st) \<in> {IDLE, ESTABLISHED, DREQ_SENT, DREQ_RCVD}
     then Inr (upd_flow t st (fstate_update (\<lambda>_. DREQ_SENT)))
     else Inr t)))"

definition dreq_received :: handler where
  "dreq_received env self p t =
     bind_res (cm_msg self p) (\<lambda>msg.
     bind_res (IBA_GET_u32 CM_DREQ_REMOTE_COMM_ID p msg) (\<lambda>lid.
     bind_res (get_flow t lid cm_flow_key_null) (\<lambda>(t, st).
     if fstate (heap t st) \<in> {REP_SENT, DREQ_SENT, ESTABLISHED, MRA_REP_RCVD, TIMEWAIT, DREQ_RCVD}
     then Inr (upd_flow t st (fstate_update (\<lambda>_. DREQ_RCVD)))
     else Inr t)))"

definition drep_sent :: handler where
  "drep_sent env self p t =
     bind_res (cm_msg self p) (\<lambda>msg.
     bind_res (IBA_GET_u32 CM_DREP_LOCAL_COMM_ID p msg) (\<lambda>lid.
     bind_res (IBA_GET_u32 CM_DREP_REMOTE_COMM_ID p msg) (\<lambda>rid.
     bind_res (from_dest env p rid) (\<lambda>remote_flow.
     bind_res (get_flow t lid cm_flow_key_null) (\<lambda>(t, st).
     if fstate (heap t st) \<in> {DREQ_SENT, DREQ_RCVD}
     then erase_flow t lid remote_flow
     else Inr t)))))"

definition drep_received :: handler where
  "drep_received env self p t =
     bind_res (cm_msg self p) (\<lambda>msg.
     bind_res (IBA_GET_u32 CM_DREP_REMOTE_COMM_ID p msg) (\<lambda>lid.
     bind_res (IBA_GET_u32 CM_DREP_LOCAL_COMM_ID p msg) (\<lambda>rid.
     bind_res (from_src env p rid) (\<lambda>remote_flow.
     bind_res (get_flow t lid cm_flow_key_null) (\<lambda>(t, st).
     if fstate (heap t st) \<in> {DREQ_SENT, DREQ_RCVD}
     then erase_flow t lid remote_flow
     else Inr t)))))"

section \<open>Dispatch\<close>

definition host_handlers :: "handler option list" where
  "host_handlers =
     (replicate (unat CM_MAX_ATTR_ID) None)
       [unat CM_REQ_ATTR_ID := Some req_sent,
        unat CM_REJ_ATTR_ID := Some rej_sent,
        unat CM_REP_ATTR_ID := Some rep_sent,
        unat CM_RTU_ATTR_ID := Some rtu_sent,
        unat CM_DREQ_ATTR_ID := Some dreq_sent,
        unat CM_DREP_ATTR_ID := Some drep_sent]"

definition net_handlers :: "handler option list" where
  "net_handlers =
     (replicate (unat CM_MAX_ATTR_ID) None)
       [unat CM_REQ_ATTR_ID := Some req_received,
        unat CM_REJ_ATTR_ID := Some rej_received,
        unat CM_REP_ATTR_ID := Some rep_received,
        unat CM_RTU_ATTR_ID := Some rtu_received,
        unat CM_DREQ_ATTR_ID := Some dreq_received,
        unat CM_DREP_ATTR_ID := Some drep_received]"

text \<open>
  For an attribute without a handler the code prints four bytes of the MAD header; they lie before the attribute,
  which has been read by then.
\<close>

definition process_packet :: "handler option list \<Rightarrow> handler" where
  "process_packet handlers env self p t =
     bind_res (get_attr_id self p) (\<lambda>attr_id.
       case (if attr_id < CM_MAX_ATTR_ID then handlers ! unat attr_id else None) of
         Some h \<Rightarrow> h env self p t
       | None \<Rightarrow> Inr t)"

definition process :: "dpdk \<Rightarrow> parser_context \<Rightarrow> rte_mbuf \<Rightarrow> ctcm_direction \<Rightarrow> tracker \<Rightarrow> tracker res" where
  "process env self p dir t =
     (case dir of
        CTCM_FROM_HOST \<Rightarrow> process_packet host_handlers env self p t
      | CTCM_FROM_NET \<Rightarrow> process_packet net_handlers env self p t)"

end
