(* ===== verification/Tracker_Msg.thy ===== *)
theory Tracker_Msg
  imports Tracker
begin

text \<open>
  The abstract specification of the tracker: what a CM message means to it, apart from how
  the message lies in the packet.

  A \<open>cm_message\<close> names the direction, the kind, the communication identifier of this host, the key
  of the peer and the QPN of the sender.  \<open>decode\<close> is the reading of a packet as such a message: the
  columns of \<open>own_row\<close>, \<open>peer_row\<close> and \<open>qpn_row\<close> say which CM row holds what for which direction.
  \<open>react\<close> is the state machine of one flow as a table, and \<open>message_step\<close> runs it on the flow tables.
  The main result is that the twelve handlers and their dispatch are this machine.
\<close>

section \<open>Messages\<close>

datatype cm_kind = Kind_REQ | Kind_REJ | Kind_REP | Kind_RTU | Kind_DREQ | Kind_DREP

record cm_message =
  msg_dir :: ctcm_direction
  msg_kind :: cm_kind
  msg_id :: id_t
  msg_peer :: cm_flow_key
  msg_qpn :: qpn_t

fun attr_of :: "cm_kind \<Rightarrow> u16" where
  "attr_of Kind_REQ = CM_REQ_ATTR_ID"
| "attr_of Kind_REJ = CM_REJ_ATTR_ID"
| "attr_of Kind_REP = CM_REP_ATTR_ID"
| "attr_of Kind_RTU = CM_RTU_ATTR_ID"
| "attr_of Kind_DREQ = CM_DREQ_ATTR_ID"
| "attr_of Kind_DREP = CM_DREP_ATTR_ID"

definition kind_of :: "u16 \<Rightarrow> cm_kind option" where
  "kind_of a =
     find (\<lambda>k. attr_of k = a) [Kind_REQ, Kind_REJ, Kind_REP, Kind_RTU, Kind_DREQ, Kind_DREP]"

text \<open>The sender's and the receiver's communication identifier in each kind of message.\<close>

fun sender_row :: "cm_kind \<Rightarrow> iba_field option" where
  "sender_row Kind_REQ = Some CM_REQ_LOCAL_COMM_ID"
| "sender_row Kind_REJ = Some CM_REJ_LOCAL_COMM_ID"
| "sender_row Kind_REP = Some CM_REP_LOCAL_COMM_ID"
| "sender_row Kind_RTU = Some CM_RTU_LOCAL_COMM_ID"
| "sender_row Kind_DREQ = Some CM_DREQ_LOCAL_COMM_ID"
| "sender_row Kind_DREP = Some CM_DREP_LOCAL_COMM_ID"

fun receiver_row :: "cm_kind \<Rightarrow> iba_field option" where
  "receiver_row Kind_REQ = None"
| "receiver_row Kind_REJ = Some CM_REJ_REMOTE_COMM_ID"
| "receiver_row Kind_REP = Some CM_REP_REMOTE_COMM_ID"
| "receiver_row Kind_RTU = Some CM_RTU_REMOTE_COMM_ID"
| "receiver_row Kind_DREQ = Some CM_DREQ_REMOTE_COMM_ID"
| "receiver_row Kind_DREP = Some CM_DREP_REMOTE_COMM_ID"

fun qpn_row :: "cm_kind \<Rightarrow> iba_field option" where
  "qpn_row Kind_REQ = Some CM_REQ_LOCAL_QPN"
| "qpn_row Kind_REP = Some CM_REP_LOCAL_QPN"
| "qpn_row _ = None"

fun own_row :: "ctcm_direction \<Rightarrow> cm_kind \<Rightarrow> iba_field option" where
  "own_row CTCM_FROM_HOST k = sender_row k"
| "own_row CTCM_FROM_NET k = receiver_row k"

fun peer_row :: "ctcm_direction \<Rightarrow> cm_kind \<Rightarrow> iba_field option" where
  "peer_row CTCM_FROM_HOST k = receiver_row k"
| "peer_row CTCM_FROM_NET k = sender_row k"

definition read_row :: "iba_field option \<Rightarrow> rte_mbuf \<Rightarrow> nat \<Rightarrow> u32 res" where
  "read_row row p msg = (case row of None \<Rightarrow> Inr 0 | Some f \<Rightarrow> IBA_GET_u32 f p msg)"

lemma read_row_simps [simp]:
  "read_row None p msg = Inr 0" "read_row (Some f) p msg = IBA_GET_u32 f p msg"
  by (simp_all add: read_row_def)

fun peer_key :: "ctcm_direction \<Rightarrow> dpdk \<Rightarrow> rte_mbuf \<Rightarrow> id_t \<Rightarrow> cm_flow_key res" where
  "peer_key CTCM_FROM_HOST env p rid = from_dest env p rid"
| "peer_key CTCM_FROM_NET env p rid = from_src env p rid"

definition decode :: "dpdk \<Rightarrow> parser_context \<Rightarrow> rte_mbuf \<Rightarrow> ctcm_direction \<Rightarrow> cm_message option res" where
  "decode env self p dir =
     bind_res (get_attr_id self p) (\<lambda>attr_id.
       case kind_of attr_id of
         None \<Rightarrow> Inr None
       | Some k \<Rightarrow>
           bind_res (cm_msg self p) (\<lambda>msg.
           bind_res (read_row (own_row dir k) p msg) (\<lambda>lid.
           bind_res (read_row (peer_row dir k) p msg) (\<lambda>rid.
           bind_res (peer_key dir env p rid) (\<lambda>peer.
           bind_res (read_row (qpn_row k) p msg) (\<lambda>qpn.
             Inr (Some \<lparr>msg_dir = dir, msg_kind = k, msg_id = lid, msg_peer = peer,
               msg_qpn = qpn\<rparr>)))))))"

section \<open>The state machine of a flow\<close>

datatype reaction =
  Ignore
| Requested flow_state_name
| Replied flow_state_name
| Established
| Closing flow_state_name
| Forget

definition react :: "ctcm_direction \<Rightarrow> cm_kind \<Rightarrow> flow_state_name \<Rightarrow> reaction" where
  "react dir k s =
     (case (dir, k) of
        (CTCM_FROM_HOST, Kind_REQ) \<Rightarrow> if s \<in> {IDLE, REQ_SENT} then Requested REQ_SENT else Ignore
      | (CTCM_FROM_NET, Kind_REQ) \<Rightarrow> if s \<in> {IDLE, REQ_RCVD} then Requested REQ_RCVD else Ignore
      | (CTCM_FROM_HOST, Kind_REP) \<Rightarrow> if s \<in> {REQ_RCVD, MRA_REQ_SENT} then Replied REP_SENT else Ignore
      | (CTCM_FROM_NET, Kind_REP) \<Rightarrow> if s \<in> {REQ_SENT, MRA_REQ_RCVD} then Replied REP_RCVD else Ignore
      | (CTCM_FROM_HOST, Kind_RTU) \<Rightarrow> if s \<in> {REP_RCVD, MRA_REP_SENT} then Established else Ignore
      | (CTCM_FROM_NET, Kind_RTU) \<Rightarrow> if s \<in> {REP_SENT, MRA_REP_RCVD} then Established else Ignore
      | (CTCM_FROM_HOST, Kind_DREQ) \<Rightarrow>
          if s \<in> {IDLE, ESTABLISHED, DREQ_SENT, DREQ_RCVD} then Closing DREQ_SENT else Ignore
      | (CTCM_FROM_NET, Kind_DREQ) \<Rightarrow>
          if s \<in> {REP_SENT, MRA_REP_RCVD, ESTABLISHED, DREQ_SENT, DREQ_RCVD, TIMEWAIT}
          then Closing DREQ_RCVD else Ignore
      | (_, Kind_DREP) \<Rightarrow> if s \<in> {DREQ_SENT, DREQ_RCVD} then Forget else Ignore
      | (CTCM_FROM_HOST, Kind_REJ) \<Rightarrow>
          if s \<in> {ESTABLISHED, DREQ_SENT, DREQ_RCVD, TIMEWAIT} then Ignore else Forget
      | (CTCM_FROM_NET, Kind_REJ) \<Rightarrow> if s \<in> {REQ_RCVD, DREQ_RCVD, TIMEWAIT} then Ignore else Forget)"

text \<open>
  Which flow a message is about.  A message that opens a flow on the passive side, a
  rejection and the host's reply may name it by the peer's key; all others only by the host's
  own identifier.
\<close>

definition lookup_peer :: "cm_message \<Rightarrow> cm_flow_key" where
  "lookup_peer m =
     (if (msg_dir m, msg_kind m) \<in> {(CTCM_FROM_NET, Kind_REQ), (CTCM_FROM_HOST, Kind_REJ),
        (CTCM_FROM_NET, Kind_REJ), (CTCM_FROM_HOST, Kind_REP)}
      then msg_peer m else cm_flow_key_null)"

definition set_qpn :: "ctcm_direction \<Rightarrow> qpn_t \<Rightarrow> flow_state \<Rightarrow> flow_state" where
  "set_qpn dir q s =
     (case dir of CTCM_FROM_HOST \<Rightarrow> s\<lparr>local_qpn := q\<rparr> | CTCM_FROM_NET \<Rightarrow> s\<lparr>remote_qpn := q\<rparr>)"

definition apply_reaction :: "cm_message \<Rightarrow> reaction \<Rightarrow> tracker \<Rightarrow> nat \<Rightarrow> tracker res" where
  "apply_reaction m r t st =
     (case r of
        Ignore \<Rightarrow> Inr t
      | Requested s \<Rightarrow>
          bind_res (assert_res (s = REQ_RCVD \<and> fstate (heap t st) = REQ_RCVD \<longrightarrow>
              remote_qpn (heap t st) = msg_qpn m)) (\<lambda>_.
            Inr (upd_flow t st (\<lambda>f. set_qpn (msg_dir m) (msg_qpn m) (f\<lparr>fstate := s\<rparr>))))
      | Replied s \<Rightarrow>
          (case msg_dir m of
             CTCM_FROM_HOST \<Rightarrow>
               bind_res (add_new_flow (upd_flow t st (fstate_update (\<lambda>_. s))) (msg_id m) (msg_peer m))
                 (\<lambda>(t, _). Inr (upd_flow t st (set_qpn (msg_dir m) (msg_qpn m))))
           | CTCM_FROM_NET \<Rightarrow>
               bind_res (add_new_flow
                   (upd_flow t st (\<lambda>f. set_qpn (msg_dir m) (msg_qpn m) (f\<lparr>fstate := s\<rparr>)))
                   (msg_id m) (msg_peer m))
                 (\<lambda>(t, _). Inr t))
      | Established \<Rightarrow> Inr (on_established (upd_flow t st (fstate_update (\<lambda>_. ESTABLISHED))) st)
      | Closing s \<Rightarrow> Inr (upd_flow t st (fstate_update (\<lambda>_. s)))
      | Forget \<Rightarrow> erase_flow t (msg_id m) (msg_peer m))"

definition message_step :: "cm_message \<Rightarrow> tracker \<Rightarrow> tracker res" where
  "message_step m t =
     bind_res (get_flow t (msg_id m) (lookup_peer m)) (\<lambda>(t, st).
       apply_reaction m (react (msg_dir m) (msg_kind m) (fstate (heap t st))) t st)"

section \<open>Dispatch\<close>

fun handler_of :: "ctcm_direction \<Rightarrow> cm_kind \<Rightarrow> handler" where
  "handler_of CTCM_FROM_HOST Kind_REQ = req_sent"
| "handler_of CTCM_FROM_HOST Kind_REJ = rej_sent"
| "handler_of CTCM_FROM_HOST Kind_REP = rep_sent"
| "handler_of CTCM_FROM_HOST Kind_RTU = rtu_sent"
| "handler_of CTCM_FROM_HOST Kind_DREQ = dreq_sent"
| "handler_of CTCM_FROM_HOST Kind_DREP = drep_sent"
| "handler_of CTCM_FROM_NET Kind_REQ = req_received"
| "handler_of CTCM_FROM_NET Kind_REJ = rej_received"
| "handler_of CTCM_FROM_NET Kind_REP = rep_received"
| "handler_of CTCM_FROM_NET Kind_RTU = rtu_received"
| "handler_of CTCM_FROM_NET Kind_DREQ = dreq_received"
| "handler_of CTCM_FROM_NET Kind_DREP = drep_received"

lemma kind_of_cases:
  obtains k where "kind_of a = Some k" "a = attr_of k"
  | "kind_of a = None" "a \<notin> range attr_of"
proof (cases "kind_of a")
  case None
  have "a \<noteq> attr_of k" for k
    using None by (cases k) (auto simp: kind_of_def split: if_splits)
  then show ?thesis using that(2) None by auto
next
  case (Some k)
  then have "a = attr_of k" by (auto simp: kind_of_def split: if_splits)
  then show ?thesis using that(1) Some by simp
qed

lemma kind_of_attr_of [simp]: "kind_of (attr_of k) = Some k"
  by (cases k) (simp_all add: kind_of_def cm_attr_defs)

lemma handlers_attr:
  "attr_of k < CM_MAX_ATTR_ID"
  "host_handlers ! unat (attr_of k) = Some (handler_of CTCM_FROM_HOST k)"
  "net_handlers ! unat (attr_of k) = Some (handler_of CTCM_FROM_NET k)"
  by (cases k; simp add: cm_attr_defs host_handlers_def net_handlers_def)+

lemma handlers_other:
  assumes "a < CM_MAX_ATTR_ID" "a \<notin> range attr_of"
  shows "host_handlers ! unat a = None" "net_handlers ! unat a = None"
proof -
  have n: "unat a < 32" using assms(1) by (simp add: CM_MAX_ATTR_ID_def word_less_nat_alt)
  have ne: "unat a \<noteq> unat (attr_of k)" for k using assms(2) by (metis rangeI unsigned_word_eqI)
  have "unat a \<notin> {0x10, 0x12, 0x13, 0x14, 0x15, 0x16}"
    using ne [of Kind_REQ] ne [of Kind_REJ] ne [of Kind_REP] ne [of Kind_RTU] ne [of Kind_DREQ]
      ne [of Kind_DREP]
    by (simp add: cm_attr_defs)
  then show "host_handlers ! unat a = None" "net_handlers ! unat a = None"
    using n by (simp_all add: host_handlers_def net_handlers_def cm_attr_defs nth_list_update)
qed

text \<open>Dispatch: \<^verbatim>\<open>process\<close> runs the handler of the direction and the attribute, and no other.\<close>

lemma process_eq:
  "process env self p dir t =
     bind_res (get_attr_id self p) (\<lambda>a.
       case kind_of a of None \<Rightarrow> Inr t | Some k \<Rightarrow> handler_of dir k env self p t)"
proof -
  have "(case if a < CM_MAX_ATTR_ID then hs ! unat a else None of
          Some h \<Rightarrow> h env self p t | None \<Rightarrow> Inr t) =
        (case kind_of a of None \<Rightarrow> Inr t | Some k \<Rightarrow> handler_of dir k env self p t)"
    if "hs = (case dir of CTCM_FROM_HOST \<Rightarrow> host_handlers | CTCM_FROM_NET \<Rightarrow> net_handlers)" for a hs
    using that by (cases a rule: kind_of_cases; cases dir) (auto simp: handlers_attr handlers_other)
  then show ?thesis by (cases dir) (simp_all add: process_def process_packet_def)
qed

section \<open>The handlers implement the machine\<close>

lemma set_qpn_simps [simp]:
  "set_qpn CTCM_FROM_HOST q = local_qpn_update (\<lambda>_. q)"
  "set_qpn CTCM_FROM_NET q = remote_qpn_update (\<lambda>_. q)"
  by (simp_all add: set_qpn_def fun_eq_iff)

lemma rej_switches:
  "(if s \<in> {IDLE, REQ_RCVD, REQ_SENT, MRA_REQ_RCVD, MRA_REQ_SENT, REP_RCVD, MRA_REP_SENT} then x
    else if s \<in> {REP_SENT, MRA_REP_RCVD} then x else y) =
   (if s \<in> {ESTABLISHED, DREQ_SENT, DREQ_RCVD, TIMEWAIT} then y else x)"
  "(if s \<in> {IDLE, REQ_SENT, MRA_REQ_RCVD, REP_SENT, MRA_REP_RCVD, MRA_REQ_SENT} then x
    else if s \<in> {DREQ_SENT, REP_RCVD, MRA_REP_SENT, ESTABLISHED} then x else y) =
   (if s \<in> {REQ_RCVD, DREQ_RCVD, TIMEWAIT} then y else x)"
  by (cases s; simp)+

lemmas rej_handler_eqs = rej_sent_def [unfolded rej_switches] rej_received_def [unfolded rej_switches]

lemmas handler_eqs = req_sent_def req_received_def rej_handler_eqs rep_sent_def
  rep_received_def rtu_sent_def rtu_received_def dreq_sent_def dreq_received_def drep_sent_def
  drep_received_def

lemma handler_message:
  assumes "cm_msg self p = Inr msg"
    and "read_row (own_row dir k) p msg = Inr lid" "read_row (peer_row dir k) p msg = Inr rid"
    and "peer_key dir env p rid = Inr peer" "read_row (qpn_row k) p msg = Inr qpn"
  shows "handler_of dir k env self p t = message_step
    \<lparr>msg_dir = dir, msg_kind = k, msg_id = lid, msg_peer = peer, msg_qpn = qpn\<rparr> t"
  using assms
  by (cases dir; cases k)
    (auto simp: handler_eqs message_step_def lookup_peer_def apply_reaction_def
      react_def intro!: bind_res_cong)

text \<open>
  A handler that returns normally has performed a machine step even when the packet is too short to
  hold the fields it did not look at; those fields are arbitrary in the message.
\<close>

definition or_default :: "'a \<Rightarrow> 'a res \<Rightarrow> 'a" where
  "or_default d r = (case r of Inl _ \<Rightarrow> d | Inr x \<Rightarrow> x)"

lemma or_default_Inr [simp]: "or_default d (Inr x) = x"
  by (simp add: or_default_def)

text \<open>A REQ does not name the receiver, so a message read from a packet has no identifier there.\<close>

definition proper_message :: "cm_message \<Rightarrow> bool" where
  "proper_message m \<longleftrightarrow> (own_row (msg_dir m) (msg_kind m) = None \<longrightarrow> msg_id m = 0)"

lemma handler_simulates:
  assumes "handler_of dir k env self p t = Inr t'"
  obtains m where "msg_dir m = dir" "msg_kind m = k" "message_step m t = Inr t'" "proper_message m"
proof -
  obtain msg where msg: "cm_msg self p = Inr msg"
    using assms by (cases dir; cases k) (auto simp: handler_eqs bind_res_eq_Inr_iff)
  define lid where "lid = or_default 0 (read_row (own_row dir k) p msg)"
  define rid where "rid = or_default 0 (read_row (peer_row dir k) p msg)"
  define peer where "peer = or_default cm_flow_key_null (peer_key dir env p rid)"
  define qpn where "qpn = or_default 0 (read_row (qpn_row k) p msg)"
  have "message_step \<lparr>msg_dir = dir, msg_kind = k, msg_id = lid, msg_peer = peer, msg_qpn = qpn\<rparr> t =
      Inr t'"
    using assms msg
    by (cases dir; cases k)
      (auto simp: lid_def rid_def peer_def qpn_def handler_eqs message_step_def lookup_peer_def
        apply_reaction_def react_def elim!: bind_res_InrE split: if_splits)
  then show thesis by (rule that [rotated 2]) (simp_all add: proper_message_def lid_def)
qed

lemma process_simulates:
  assumes "process env self p dir t = Inr t'"
  shows "t' = t \<or> (\<exists>m. msg_dir m = dir \<and> message_step m t = Inr t' \<and> proper_message m)"
proof -
  obtain a where "(case kind_of a of None \<Rightarrow> Inr t | Some k \<Rightarrow> handler_of dir k env self p t) = Inr t'"
    using assms by (auto simp: process_eq elim: bind_res_InrE)
  then show ?thesis
    by (cases "kind_of a") (auto elim: handler_simulates)
qed

lemma decode_proper: "decode env self p dir = Inr (Some m) \<Longrightarrow> proper_message m"
  by (auto simp: decode_def proper_message_def elim!: bind_res_InrE split: option.splits)

section \<open>Packets that hold a whole message\<close>

text \<open>
  The buffer reaches the IPv4 header and the last row any handler reads, bytes 56 to 59 of a REQ.
\<close>

definition complete_cm_packet :: "dpdk \<Rightarrow> parser_context \<Rightarrow> rte_mbuf \<Rightarrow> bool" where
  "complete_cm_packet env self p \<longleftrightarrow>
     RTE_ETH_IS_IPV4_HDR env (packet_type p) \<and> l2_len p + 20 \<le> length (buf p) \<and>
     (case parser_mbuf_mad self p of Inr (Some msg) \<Rightarrow> msg + 60 \<le> length (buf p) | _ \<Rightarrow> False)"

lemma complete_cm_packetE:
  assumes "complete_cm_packet env self p"
  obtains msg where "cm_msg self p = Inr msg" "msg + 60 \<le> length (buf p)"
    "RTE_ETH_IS_IPV4_HDR env (packet_type p)" "l2_len p + 20 \<le> length (buf p)"
  using assms by (auto simp: complete_cm_packet_def cm_msg_def split: sum.splits option.splits)

lemma row_in_bounds:
  assumes "f \<in> {CM_FIELD32_LOC 0 32, CM_FIELD32_LOC 4 32, CM_FIELD32_LOC 12 24, CM_FIELD32_LOC 32 24}"
    and "msg + 60 \<le> length (buf p)"
  shows "\<exists>v. IBA_GET_u32 f p msg = Inr v"
proof -
  obtain b n where "f = CM_FIELD32_LOC b n" "4 dvd b" "b \<le> 32" "1 \<le> n" "n \<le> 32"
    using assms(1) by auto
  then have "\<exists>v. IBA_GET f (buf p) msg = Inr v"
    using field_access.get_ok [OF cm_field_access_32 [of b n]] assms(2) by auto
  then show ?thesis by (auto simp: IBA_GET_u32_def)
qed

lemmas tracker_row_defs = CM_REQ_LOCAL_COMM_ID_def CM_REQ_LOCAL_QPN_def CM_REJ_LOCAL_COMM_ID_def
  CM_REJ_REMOTE_COMM_ID_def CM_REP_LOCAL_COMM_ID_def CM_REP_REMOTE_COMM_ID_def CM_REP_LOCAL_QPN_def
  CM_RTU_LOCAL_COMM_ID_def CM_RTU_REMOTE_COMM_ID_def CM_DREQ_LOCAL_COMM_ID_def
  CM_DREQ_REMOTE_COMM_ID_def CM_DREP_LOCAL_COMM_ID_def CM_DREP_REMOTE_COMM_ID_def

lemma read_row_ok:
  assumes "msg + 60 \<le> length (buf p)"
  shows "\<exists>v. read_row (sender_row k) p msg = Inr v" "\<exists>v. read_row (receiver_row k) p msg = Inr v"
    "\<exists>v. read_row (qpn_row k) p msg = Inr v"
  using assms by (cases k; simp add: tracker_row_defs row_in_bounds)+

lemma read_dir_row_ok:
  assumes "msg + 60 \<le> length (buf p)"
  shows "\<exists>v. read_row (own_row dir k) p msg = Inr v" "\<exists>v. read_row (peer_row dir k) p msg = Inr v"
  using read_row_ok [OF assms] by (cases dir; simp)+

lemma peer_key_ok:
  assumes "RTE_ETH_IS_IPV4_HDR env (packet_type p)" "l2_len p + 20 \<le> length (buf p)"
  shows "\<exists>key. peer_key dir env p rid = Inr key"
proof -
  have "\<exists>w :: u32. load (buf p) (l2_len p + 12) = Inr w" "\<exists>w :: u32. load (buf p) (l2_len p + 16) = Inr w"
    using assms(2) by (auto simp: load_def)
  then show ?thesis using assms(1) by (cases dir) (auto simp: from_dest_def from_src_def mbuf_ip_def)
qed

lemma decode_complete:
  assumes "complete_cm_packet env self p"
  shows "\<exists>dm. decode env self p dir = Inr dm"
proof -
  obtain msg where msg: "cm_msg self p = Inr msg" "msg + 60 \<le> length (buf p)"
    and ip: "RTE_ETH_IS_IPV4_HDR env (packet_type p)" "l2_len p + 20 \<le> length (buf p)"
    using assms by (rule complete_cm_packetE)
  have "\<exists>w :: u16. load (buf p) (msg + 16) = Inr w" using msg(2) by (auto simp: load_def)
  then obtain a where a: "get_attr_id self p = Inr a"
    using msg(1) by (auto simp: get_attr_id_def mad_attr_id_def)
  show ?thesis
  proof (cases "kind_of a")
    case (Some k)
    obtain lid rid qpn where "read_row (own_row dir k) p msg = Inr lid"
      "read_row (peer_row dir k) p msg = Inr rid" "read_row (qpn_row k) p msg = Inr qpn"
      using read_dir_row_ok [OF msg(2)] read_row_ok(3) [OF msg(2)] by metis
    then show ?thesis using peer_key_ok [OF ip, of dir rid] a Some msg(1) by (auto simp: decode_def)
  qed (simp add: decode_def a)
qed

lemma process_decode:
  assumes "decode env self p dir = Inr dm"
  shows "process env self p dir t = (case dm of None \<Rightarrow> Inr t | Some m \<Rightarrow> message_step m t)"
proof -
  obtain a where a: "get_attr_id self p = Inr a"
    using assms by (auto simp: decode_def elim: bind_res_InrE)
  show ?thesis
    using assms handler_message
    by (cases "kind_of a") (auto simp: decode_def process_eq a elim!: bind_res_InrE)
qed

end
