(* ===== verification/Runs.thy ===== *)
theory Runs
  imports Prelude
begin

text \<open>
  Runs of a fallible step function: the states a component can be in after a sequence of
  calls, and the contract under which a property holds in all of them.  A component instantiates
  \<open>invariant_system\<close> with its own step function, once per granularity at which it is driven.
\<close>

fun run :: "('e \<Rightarrow> 's \<Rightarrow> 's res) \<Rightarrow> 'e list \<Rightarrow> 's \<Rightarrow> 's res" where
  "run step [] s = Inr s"
| "run step (e # es) s = bind_res (step e s) (run step es)"

inductive reachable :: "('e \<Rightarrow> 's \<Rightarrow> 's res) \<Rightarrow> 's \<Rightarrow> 's \<Rightarrow> bool" for step init where
  reach_init: "reachable step init init"
| reach_step: "reachable step init s \<Longrightarrow> step e s = Inr s' \<Longrightarrow> reachable step init s'"

lemma run_append: "run step (es @ es') s = bind_res (run step es s) (run step es')"
  by (induction es arbitrary: s) (simp_all add: bind_res_assoc cong: bind_res_cong)

lemma reachable_iff_run: "reachable step init s \<longleftrightarrow> (\<exists>es. run step es init = Inr s)"
proof
  assume "reachable step init s"
  then show "\<exists>es. run step es init = Inr s"
  proof induction
    case reach_init
    then show ?case by (metis run.simps(1))
  next
    case (reach_step s e s')
    then obtain es where "run step es init = Inr s" by blast
    then have "run step (es @ [e]) init = Inr s'" using reach_step by (simp add: run_append)
    then show ?case by blast
  qed
next
  assume "\<exists>es. run step es init = Inr s"
  then obtain es where "run step es init = Inr s" by blast
  then show "reachable step init s"
  proof (induction es arbitrary: s rule: rev_induct)
    case (snoc e es)
    then obtain s0 where "run step es init = Inr s0" "step e s0 = Inr s"
      by (auto simp: run_append bind_res_eq_Inr_iff)
    then show ?case using snoc.IH by (blast intro: reach_step)
  qed (simp add: reach_init)
qed

text \<open>An invariant of a step function, relative to the states it is started in.\<close>

locale invariant_system =
  fixes step :: "'e \<Rightarrow> 's \<Rightarrow> 's res"
    and init :: 's
    and inv :: "'s \<Rightarrow> bool"
  assumes init_inv: "inv init"
    and step_inv: "inv s \<Longrightarrow> step e s = Inr s' \<Longrightarrow> inv s'"
begin

lemma reachable_inv: "reachable step init s \<Longrightarrow> inv s"
  by (induction rule: reachable.induct) (auto intro: init_inv step_inv)

lemma run_inv: "inv s \<Longrightarrow> run step es s = Inr s' \<Longrightarrow> inv s'"
  by (induction es arbitrary: s) (auto elim!: bind_res_InrE dest: step_inv)

lemma run_from_init_inv: "run step es init = Inr s \<Longrightarrow> inv s"
  by (rule run_inv [OF init_inv])

end

section \<open>Simulations\<close>

text \<open>
  A step function that an abstraction maps to a simpler one, failures included, while the invariant
  holds: whole runs then correspond.
\<close>

locale simulation = invariant_system step init inv
  for step :: "'e \<Rightarrow> 's \<Rightarrow> 's res" and init :: 's and inv :: "'s \<Rightarrow> bool" +
  fixes spec_step :: "'e \<Rightarrow> 'a \<Rightarrow> 'a res"
    and abs :: "'s \<Rightarrow> 'a"
    and valid :: "'e \<Rightarrow> bool"
  assumes simulates: "inv s \<Longrightarrow> valid e \<Longrightarrow> map_res abs (step e s) = spec_step e (abs s)"
begin

lemma run_simulates:
  assumes "inv s" "\<forall>e\<in>set es. valid e"
  shows "map_res abs (run step es s) = run spec_step es (abs s)"
  using assms
proof (induction es arbitrary: s)
  case (Cons e es)
  have sim: "spec_step e (abs s) = map_res abs (step e s)" using simulates [OF Cons.prems(1)] Cons.prems(2) by simp
  show ?case
  proof (cases "step e s")
    case (Inr s')
    then show ?thesis using Cons.IH [OF step_inv [OF Cons.prems(1) Inr]] Cons.prems(2) sim by simp
  qed (simp add: sim)
qed simp

lemma run_from_init_simulates:
  "\<forall>e\<in>set es. valid e \<Longrightarrow> map_res abs (run step es init) = run spec_step es (abs init)"
  by (rule run_simulates [OF init_inv])

end

section \<open>Interleavings\<close>

text \<open>
  A sequence of calls that takes the system from one stage to another, whatever else is true of the state:
  each call succeeds in every state of its stage.
\<close>

fun advances ::
  "('e \<Rightarrow> 's \<Rightarrow> 's res) \<Rightarrow> ('s \<Rightarrow> bool) \<Rightarrow> ('g \<Rightarrow> 's \<Rightarrow> bool) \<Rightarrow> 'g \<Rightarrow> 'e list \<Rightarrow> 'g \<Rightarrow> bool" where
  "advances step good stage g [] g' \<longleftrightarrow> g = g'"
| "advances step good stage g (e # es) g' \<longleftrightarrow>
     (\<exists>g1. (\<forall>s. good s \<and> stage g s \<longrightarrow> (\<exists>s'. step e s = Inr s' \<and> stage g1 s')) \<and>
       advances step good stage g1 es g')"

lemma advances_ConsI:
  assumes "\<And>s. good s \<Longrightarrow> stage g s \<Longrightarrow> \<exists>s'. step e s = Inr s' \<and> stage g1 s'"
    and "advances step good stage g1 es g'"
  shows "advances step good stage g (e # es) g'"
  using assms by auto

text \<open>
  A system whose stages are not disturbed by foreign calls.  Its own calls then reach their
  goal in every interleaving with foreign ones; only a foreign call can make the run fail.
\<close>

locale staged_system =
  fixes step :: "'e \<Rightarrow> 's \<Rightarrow> 's res"
    and inv :: "'s \<Rightarrow> bool"
    and valid :: "'e \<Rightarrow> bool"
    and stage :: "'g \<Rightarrow> 's \<Rightarrow> bool"
    and foreign_call :: "'e \<Rightarrow> bool"
  assumes valid_inv: "inv s \<Longrightarrow> valid e \<Longrightarrow> step e s = Inr s' \<Longrightarrow> inv s'"
    and foreign_stage: "inv s \<Longrightarrow> valid e \<Longrightarrow> foreign_call e \<Longrightarrow> step e s = Inr s' \<Longrightarrow> stage g s \<Longrightarrow> stage g s'"
begin

lemma next_failing:
  assumes "e # es \<in> shuffles own noise" "inv s" "\<forall>e\<in>set noise. foreign_call e" "stage g s"
    and "advances step inv stage g own g'" "step e s = Inl err"
  shows "foreign_call e"
proof (rule ccontr)
  assume "\<not> foreign_call e"
  then have "own = e # tl own" using assms(1,3) by (auto simp: Cons_in_shuffles_iff)
  then obtain own' where "own = e # own'" by blast
  then show False using assms by auto
qed

lemma next_stage:
  assumes "e # es \<in> shuffles own noise" "inv s" "valid e" "\<forall>e\<in>set noise. foreign_call e" "stage g s"
    and "advances step inv stage g own g'" "step e s = Inr s1"
  obtains own' noise' g1 where "es \<in> shuffles own' noise'" "stage g1 s1" "advances step inv stage g1 own' g'"
    "\<forall>e\<in>set noise'. foreign_call e"
proof (cases "noise \<noteq> [] \<and> hd noise = e \<and> es \<in> shuffles own (tl noise)")
  case True
  then have "foreign_call e" using assms(4) by (metis hd_in_set)
  then have "stage g s1" using foreign_stage [OF assms(2,3) _ assms(7,5)] by simp
  then show ?thesis using that True assms(4,6) by (meson list.set_sel(2))
next
  case False
  then have own: "own = e # tl own" "es \<in> shuffles (tl own) noise"
    using assms(1) by (auto simp: Cons_in_shuffles_iff)
  then obtain g1 where "stage g1 s1" "advances step inv stage g1 (tl own) g'"
    using assms(2,5,6,7) by (metis advances.simps(2) sum.inject(2))
  then show ?thesis using that own(2) assms(4) by blast
qed

lemma interleaved:
  assumes "es \<in> shuffles own noise" "inv s" "\<forall>e\<in>set es. valid e" "\<forall>e\<in>set noise. foreign_call e"
    and "stage g s" "advances step inv stage g own g'"
  shows "case run step es s of
      Inr s' \<Rightarrow> inv s' \<and> stage g' s'
    | Inl err \<Rightarrow> \<exists>us e vs s1. es = us @ e # vs \<and> foreign_call e \<and> run step us s = Inr s1 \<and> step e s1 = Inl err"
  using assms
proof (induction es arbitrary: own noise s g)
  case (Cons e es)
  show ?case
  proof (cases "step e s")
    case (Inl err)
    then show ?thesis using next_failing [OF Cons.prems(1,2,4,5,6) Inl] by force
  next
    case (Inr s1)
    have v: "valid e" "\<forall>e\<in>set es. valid e" using Cons.prems(3) by simp_all
    have i1: "inv s1" by (rule valid_inv [OF Cons.prems(2) v(1) Inr])
    obtain own' noise' g1 where rest: "es \<in> shuffles own' noise'" "stage g1 s1" "advances step inv stage g1 own' g'"
      "\<forall>e\<in>set noise'. foreign_call e"
      using Cons.prems(1,2) v(1) Cons.prems(4-6) Inr by (rule next_stage)
    note ih = Cons.IH [OF rest(1) i1 v(2) rest(4) rest(2,3)]
    show ?thesis
    proof (cases "run step es s1")
      case (Inl err)
      then obtain us e' vs s2 where "es = us @ e' # vs" "foreign_call e'" "run step us s1 = Inr s2" "step e' s2 = Inl err"
        using ih by auto
      moreover from this have "e # es = (e # us) @ e' # vs" "run step (e # us) s = Inr s2" using Inr by simp_all
      ultimately have "\<exists>us e' vs s2. e # es = us @ e' # vs \<and> foreign_call e' \<and> run step us s = Inr s2 \<and> step e' s2 = Inl err"
        by blast
      then show ?thesis using Inl Inr by simp
    qed (use ih Inr in simp)
  qed
qed simp

end

end
