(* ===== verification/Tracker_Inv.thy ===== *)
theory Tracker_Inv
  imports Tracker_Msg Runs
begin

text \<open>
  The invariant of the flow tables and its preservation by every operation of the tracker, by
  every message and by every packet.
\<close>

section \<open>The invariant\<close>

text \<open>The states of a flow that may have an entry in the query table, and those no handler enters.\<close>

definition live_states :: "flow_state_name set" where
  "live_states = {ESTABLISHED, DREQ_SENT, DREQ_RCVD}"

definition dead_states :: "flow_state_name set" where
  "dead_states = {MRA_REQ_RCVD, MRA_REQ_SENT, MRA_REP_SENT, MRA_REP_RCVD, TIMEWAIT}"

text \<open>A flow object that has been created and has an entry in the query table.\<close>

definition mapped :: "tracker \<Rightarrow> nat \<Rightarrow> bool" where
  "mapped t a \<longleftrightarrow> a < next_ptr t \<and> in_qpn_map (heap t a)"

definition local_ok :: "tracker \<Rightarrow> bool" where
  "local_ok t \<longleftrightarrow> (\<forall>l a. local_map t l = Some a \<longrightarrow>
     a < next_ptr t \<and> l \<noteq> 0 \<and> local_id (heap t a) = l)"

definition remote_ok :: "tracker \<Rightarrow> bool" where
  "remote_ok t \<longleftrightarrow> (\<forall>k a. remote_map t k = Some a \<longrightarrow>
     a < next_ptr t \<and> cm_flow_key_bool k \<and> remote_id (heap t a) = k)"

definition mapped_ok :: "tracker \<Rightarrow> bool" where
  "mapped_ok t \<longleftrightarrow> (\<forall>a. mapped t a \<longrightarrow>
     fstate (heap t a) \<in> live_states \<and> local_qpn (heap t a) \<noteq> 0 \<and> remote_qpn (heap t a) \<noteq> 0 \<and>
     qpn_map t (get_flow_key (heap t a)) = Some (local_qpn (heap t a)) \<and>
     local_map t (local_id (heap t a)) = Some a)"

definition qpn_ok :: "tracker \<Rightarrow> bool" where
  "qpn_ok t \<longleftrightarrow> (\<forall>k q. qpn_map t k = Some q \<longrightarrow>
     (\<exists>!a. mapped t a \<and> get_flow_key (heap t a) = k))"

definition states_ok :: "tracker \<Rightarrow> bool" where
  "states_ok t \<longleftrightarrow> (\<forall>a < next_ptr t. fstate (heap t a) \<notin> dead_states)"

definition tracker_inv :: "tracker \<Rightarrow> bool" where
  "tracker_inv t \<longleftrightarrow> local_ok t \<and> remote_ok t \<and> mapped_ok t \<and> qpn_ok t \<and> states_ok t"

lemma tracker_invI:
  "local_ok t \<Longrightarrow> remote_ok t \<Longrightarrow> mapped_ok t \<Longrightarrow> qpn_ok t \<Longrightarrow> states_ok t \<Longrightarrow> tracker_inv t"
  by (simp add: tracker_inv_def)

lemma tracker_invD:
  assumes "tracker_inv t"
  shows "local_ok t" "remote_ok t" "mapped_ok t" "qpn_ok t" "states_ok t"
  using assms by (simp_all add: tracker_inv_def)

lemma local_mapD:
  assumes "tracker_inv t" "local_map t l = Some a"
  shows "a < next_ptr t" "l \<noteq> 0" "local_id (heap t a) = l"
  using assms by (auto simp: tracker_inv_def local_ok_def)

lemma remote_mapD:
  assumes "tracker_inv t" "remote_map t k = Some a"
  shows "a < next_ptr t" "cm_flow_key_bool k" "remote_id (heap t a) = k"
  using assms unfolding tracker_inv_def remote_ok_def by blast+

lemma mappedD:
  assumes "tracker_inv t" "mapped t a"
  shows "fstate (heap t a) \<in> live_states" "local_qpn (heap t a) \<noteq> 0" "remote_qpn (heap t a) \<noteq> 0"
    "qpn_map t (get_flow_key (heap t a)) = Some (local_qpn (heap t a))"
    "local_map t (local_id (heap t a)) = Some a" "local_id (heap t a) \<noteq> 0"
proof -
  show "fstate (heap t a) \<in> live_states" "local_qpn (heap t a) \<noteq> 0" "remote_qpn (heap t a) \<noteq> 0"
    "qpn_map t (get_flow_key (heap t a)) = Some (local_qpn (heap t a))"
    "local_map t (local_id (heap t a)) = Some a"
    using assms unfolding tracker_inv_def mapped_ok_def by blast+
  then show "local_id (heap t a) \<noteq> 0" using local_mapD(2) [OF assms(1)] by blast
qed

lemma qpn_mapE:
  assumes "tracker_inv t" "qpn_map t k = Some q"
  obtains a where "mapped t a" "get_flow_key (heap t a) = k" "local_qpn (heap t a) = q"
proof -
  obtain a where a: "mapped t a" "get_flow_key (heap t a) = k"
    using assms unfolding tracker_inv_def qpn_ok_def by blast
  then have "local_qpn (heap t a) = q" using mappedD(4) [OF assms(1) a(1)] assms(2) by simp
  then show thesis using that a by blast
qed

lemma mapped_unique:
  assumes "tracker_inv t" "mapped t a" "mapped t b" "get_flow_key (heap t a) = get_flow_key (heap t b)"
  shows "a = b"
  using assms mappedD(4) [OF assms(1,2)] unfolding tracker_inv_def qpn_ok_def by metis

lemma local_map_0 [simp]: "tracker_inv t \<Longrightarrow> local_map t 0 = None"
  using local_mapD(2) by (cases "local_map t 0") auto

lemma tracker_inv_new: "tracker_inv new_tracker"
  by (auto intro!: tracker_invI
      simp: new_tracker_def local_ok_def remote_ok_def mapped_ok_def qpn_ok_def states_ok_def mapped_def)

section \<open>Updates of one object\<close>

lemma upd_flow_simps [simp]:
  "local_map (upd_flow t st f) = local_map t" "remote_map (upd_flow t st f) = remote_map t"
  "qpn_map (upd_flow t st f) = qpn_map t" "next_ptr (upd_flow t st f) = next_ptr t"
  "heap (upd_flow t st f) a = (if a = st then f (heap t st) else heap t a)"
  by (simp_all add: upd_flow_def)

text \<open>
  An update that keeps identifiers and table membership preserves the invariant if the flow has no
  query entry, or if its key, its QPN and the liveness of its state are kept.
\<close>

lemma tracker_inv_upd:
  assumes inv: "tracker_inv t" and "st < next_ptr t"
    and keep: "local_id (f (heap t st)) = local_id (heap t st)"
      "remote_id (f (heap t st)) = remote_id (heap t st)"
      "in_qpn_map (f (heap t st)) = in_qpn_map (heap t st)"
    and state: "fstate (f (heap t st)) \<notin> dead_states"
    and live: "in_qpn_map (heap t st) \<Longrightarrow> fstate (f (heap t st)) \<in> live_states \<and>
      local_qpn (f (heap t st)) = local_qpn (heap t st) \<and>
      remote_qpn (f (heap t st)) = remote_qpn (heap t st)"
  shows "tracker_inv (upd_flow t st f)"
proof -
  have m: "mapped (upd_flow t st f) a \<longleftrightarrow> mapped t a" for a
    using keep(3) by (auto simp: mapped_def)
  have k: "get_flow_key (heap (upd_flow t st f) a) = get_flow_key (heap t a)" if "mapped t a" for a
    using that live keep(2) by (auto simp: mapped_def get_flow_key_def)
  note d = tracker_invD [OF inv]
  show ?thesis
  proof (rule tracker_invI)
    show "local_ok (upd_flow t st f)" using d(1) keep(1) by (auto simp: local_ok_def)
    show "remote_ok (upd_flow t st f)" using d(2) keep(2) by (auto simp: remote_ok_def)
    show "states_ok (upd_flow t st f)" using d(5) state by (auto simp: states_ok_def)
    show "mapped_ok (upd_flow t st f)"
      unfolding mapped_ok_def m
    proof (intro allI impI)
      fix a
      assume a: "mapped t a"
      show "fstate (heap (upd_flow t st f) a) \<in> live_states \<and> local_qpn (heap (upd_flow t st f) a) \<noteq> 0 \<and>
          remote_qpn (heap (upd_flow t st f) a) \<noteq> 0 \<and>
          qpn_map (upd_flow t st f) (get_flow_key (heap (upd_flow t st f) a)) =
            Some (local_qpn (heap (upd_flow t st f) a)) \<and>
          local_map (upd_flow t st f) (local_id (heap (upd_flow t st f) a)) = Some a"
        unfolding k [OF a] using mappedD [OF inv a] live a keep(1) by (auto simp: mapped_def)
    qed
    show "qpn_ok (upd_flow t st f)"
      using d(4) unfolding qpn_ok_def m upd_flow_simps(3) using k by metis
  qed
qed

text \<open>
  A change of the identifier tables that leaves the flows with a query entry alone and reachable
  preserves the part of the invariant about the query table.
\<close>

lemma tracker_inv_frame:
  assumes inv: "tracker_inv t"
    and m: "\<And>a. mapped t' a \<longleftrightarrow> mapped t a"
    and h: "\<And>a. mapped t a \<Longrightarrow> heap t' a = heap t a"
    and q: "qpn_map t' = qpn_map t"
    and l: "\<And>a. mapped t a \<Longrightarrow> local_map t' (local_id (heap t a)) = Some a"
    and ok: "local_ok t'" "remote_ok t'" "states_ok t'"
  shows "tracker_inv t'"
proof (rule tracker_invI)
  show "mapped_ok t'"
    unfolding mapped_ok_def m
  proof (intro allI impI)
    fix a
    assume a: "mapped t a"
    show "fstate (heap t' a) \<in> live_states \<and> local_qpn (heap t' a) \<noteq> 0 \<and> remote_qpn (heap t' a) \<noteq> 0 \<and>
        qpn_map t' (get_flow_key (heap t' a)) = Some (local_qpn (heap t' a)) \<and>
        local_map t' (local_id (heap t' a)) = Some a"
      unfolding h [OF a] q using mappedD [OF inv a] l [OF a] by blast
  qed
  show "qpn_ok t'"
    using tracker_invD(4) [OF inv] unfolding qpn_ok_def m q using h by metis
qed (use ok in auto)

section \<open>Allocation and linking\<close>

definition alloc :: "tracker \<Rightarrow> tracker" where
  "alloc t = t\<lparr>heap := (heap t)(next_ptr t := new_flow_state), next_ptr := Suc (next_ptr t)\<rparr>"

lemma alloc_simps [simp]:
  "local_map (alloc t) = local_map t" "remote_map (alloc t) = remote_map t"
  "qpn_map (alloc t) = qpn_map t" "next_ptr (alloc t) = Suc (next_ptr t)"
  "heap (alloc t) a = (if a = next_ptr t then new_flow_state else heap t a)"
  by (simp_all add: alloc_def)

lemma new_flow_state_simps [simp]:
  "fstate new_flow_state = IDLE" "local_id new_flow_state = 0"
  "remote_id new_flow_state = cm_flow_key_null" "local_qpn new_flow_state = 0"
  "remote_qpn new_flow_state = 0" "\<not> in_qpn_map new_flow_state"
  by (simp_all add: new_flow_state_def)

lemma cm_flow_key_null_bool [simp]: "\<not> cm_flow_key_bool cm_flow_key_null"
  by (simp add: cm_flow_key_bool_def cm_flow_key_null_def)

lemma tracker_inv_alloc:
  assumes "tracker_inv t"
  shows "tracker_inv (alloc t)"
proof (rule tracker_inv_frame [OF assms])
  show "mapped (alloc t) a \<longleftrightarrow> mapped t a" for a
    by (auto simp: mapped_def less_Suc_eq)
  show "heap (alloc t) a = heap t a" if "mapped t a" for a
    using that by (auto simp: mapped_def)
  show "local_map (alloc t) (local_id (heap t a)) = Some a" if "mapped t a" for a
    using mappedD(5) [OF assms that] by simp
  show "local_ok (alloc t)"
    using local_mapD [OF assms] by (fastforce simp: local_ok_def)
  show "remote_ok (alloc t)"
    using remote_mapD [OF assms] by (fastforce simp: remote_ok_def)
  show "states_ok (alloc t)"
    using tracker_invD(5) [OF assms] by (auto simp: states_ok_def dead_states_def less_Suc_eq)
qed simp

lemma link_local_inv:
  assumes inv: "tracker_inv t" and st: "st < next_ptr t" and link: "link_local t st lid (local_map t lid) = Inr t'"
  shows "tracker_inv t'"
proof (cases "local_map t lid = None \<and> lid \<noteq> 0")
  case True
  have id0: "local_id (heap t st) = 0"
    and t': "t' = (upd_flow t st (local_id_update (\<lambda>_. lid)))\<lparr>local_map := (local_map t)(lid \<mapsto> st)\<rparr>"
    using link True by (auto simp: link_local_def res_Inr_iffs)
  have nm: "\<not> mapped t st" using mappedD(6) [OF inv] id0 by blast
  show ?thesis
  proof (rule tracker_inv_frame [OF inv])
    show "local_map t' (local_id (heap t a)) = Some a" if "mapped t a" for a
      using mappedD(5) [OF inv that] True by (auto simp: t')
    show "local_ok t'"
      using local_mapD [OF inv] id0 st True by (fastforce simp: local_ok_def t')
    show "remote_ok t'" using remote_mapD [OF inv] unfolding remote_ok_def t' by simp
    show "states_ok t'" using tracker_invD(5) [OF inv] by (simp add: states_ok_def t')
  qed (use nm in \<open>auto simp: t' mapped_def\<close>)
qed (use link inv in \<open>auto simp: link_local_def\<close>)

lemma link_remote_inv:
  assumes inv: "tracker_inv t" and st: "st < next_ptr t" "\<not> mapped t st"
    and link: "link_remote t st rid (remote_map t rid) = Inr t'"
  shows "tracker_inv t'"
proof (cases "remote_map t rid = None \<and> cm_flow_key_bool rid")
  case True
  have id0: "\<not> cm_flow_key_bool (remote_id (heap t st))"
    and t': "t' = (upd_flow t st (remote_id_update (\<lambda>_. rid)))\<lparr>remote_map := (remote_map t)(rid \<mapsto> st)\<rparr>"
    using link True by (auto simp: link_remote_def res_Inr_iffs)
  show ?thesis
  proof (rule tracker_inv_frame [OF inv])
    show "local_map t' (local_id (heap t a)) = Some a" if "mapped t a" for a
      using mappedD(5) [OF inv that] by (simp add: t')
    show "local_ok t'" using local_mapD [OF inv] unfolding local_ok_def t' by simp
    show "remote_ok t'"
      unfolding remote_ok_def
    proof (intro allI impI)
      fix k a
      assume "remote_map t' k = Some a"
      then show "a < next_ptr t' \<and> cm_flow_key_bool k \<and> remote_id (heap t' a) = k"
        using remote_mapD [OF inv, of k a] id0 st True by (auto simp: t' split: if_splits)
    qed
    show "states_ok t'" using tracker_invD(5) [OF inv] by (simp add: states_ok_def t')
  qed (use st in \<open>auto simp: t' mapped_def\<close>)
qed (use link inv in \<open>auto simp: link_remote_def\<close>)

text \<open>
  What \<^verbatim>\<open>add_new_flow\<close> and \<^verbatim>\<open>get_flow\<close> may change: the identifiers of the flow they return, which is an
  existing object or a fresh one.
\<close>

definition object_at :: "tracker \<Rightarrow> nat \<Rightarrow> flow_state" where
  "object_at t a = (if a < next_ptr t then heap t a else new_flow_state)"

definition only_ids :: "flow_state \<Rightarrow> flow_state \<Rightarrow> bool" where
  "only_ids s s' \<longleftrightarrow> fstate s' = fstate s \<and> local_qpn s' = local_qpn s \<and> remote_qpn s' = remote_qpn s \<and>
     in_qpn_map s' = in_qpn_map s"

definition table_ext :: "tracker \<Rightarrow> tracker \<Rightarrow> nat \<Rightarrow> bool" where
  "table_ext t t' st \<longleftrightarrow> qpn_map t' = qpn_map t \<and> next_ptr t \<le> next_ptr t' \<and> st < next_ptr t' \<and>
     (\<forall>a. a < next_ptr t' \<longrightarrow> a \<noteq> st \<longrightarrow> a < next_ptr t \<and> heap t' a = heap t a) \<and>
     only_ids (object_at t st) (heap t' st)"

lemma only_ids_refl [simp]: "only_ids s s"
  by (simp add: only_ids_def)

lemma table_ext_refl: "st < next_ptr t \<Longrightarrow> table_ext t t st"
  by (simp add: table_ext_def object_at_def)

lemma table_ext_alloc: "table_ext t (alloc t) (next_ptr t)"
  by (simp add: table_ext_def object_at_def)

lemma table_ext_trans: "table_ext t t' st \<Longrightarrow> table_ext t' t'' st \<Longrightarrow> table_ext t t'' st"
  by (auto simp: table_ext_def object_at_def only_ids_def)

lemma link_local_effect:
  assumes "link_local t st lid it = Inr t'" "st < next_ptr t"
  shows "table_ext t t' st" "remote_map t' = remote_map t" "next_ptr t' = next_ptr t"
    "it = None \<Longrightarrow> lid \<noteq> 0 \<Longrightarrow> local_map t' lid = Some st"
    "remote_id (heap t' st) = remote_id (heap t st)"
  using assms
  by (auto simp: link_local_def res_Inr_iffs table_ext_def object_at_def only_ids_def split: if_splits)

lemma link_remote_effect:
  assumes "link_remote t st rid it = Inr t'" "st < next_ptr t"
  shows "table_ext t t' st" "local_map t' = local_map t" "next_ptr t' = next_ptr t"
    "it = None \<Longrightarrow> cm_flow_key_bool rid \<Longrightarrow> remote_map t' rid = Some st"
    "it \<noteq> None \<Longrightarrow> t' = t"
  using assms
  by (auto simp: link_remote_def res_Inr_iffs table_ext_def object_at_def only_ids_def split: if_splits)

lemma link_both:
  assumes inv: "tracker_inv t" and st: "st < next_ptr t"
    and unmapped: "\<not> mapped t st \<or> remote_map t rid \<noteq> None"
    and link: "bind_res (link_local t st lid (local_map t lid)) (\<lambda>t1.
      bind_res (link_remote t1 st rid (remote_map t rid)) (\<lambda>t2. Inr (t2, st))) = Inr (t', st')"
  shows "tracker_inv t'" "st' = st" "table_ext t t' st"
    "local_map t lid = None \<Longrightarrow> lid \<noteq> 0 \<Longrightarrow> local_map t' lid = Some st"
    "local_map t lid \<noteq> None \<Longrightarrow> local_map t' = local_map t"
    "remote_map t rid = None \<Longrightarrow> cm_flow_key_bool rid \<Longrightarrow> remote_map t' rid = Some st"
    "remote_map t rid \<noteq> None \<Longrightarrow> remote_map t' = remote_map t"
proof -
  obtain t1 where 1: "link_local t st lid (local_map t lid) = Inr t1"
    and 2: "link_remote t1 st rid (remote_map t rid) = Inr t'" and "st' = st"
    using link by (auto elim!: bind_res_InrE)
  note e1 = link_local_effect [OF 1 st]
  have st1: "st < next_ptr t1" using e1(3) st by simp
  note e2 = link_remote_effect [OF 2 st1]
  have i1: "tracker_inv t1" by (rule link_local_inv [OF inv st 1])
  have "tracker_inv t'"
  proof (cases "remote_map t rid = None")
    case True
    then have "\<not> mapped t1 st"
      using unmapped e1(1) st by (auto simp: mapped_def table_ext_def only_ids_def object_at_def)
    then show ?thesis using link_remote_inv [OF i1 st1] 2 e1(2) by simp
  qed (use e2(5) i1 in auto)
  then show "tracker_inv t'" "st' = st" "table_ext t t' st"
    "local_map t lid = None \<Longrightarrow> lid \<noteq> 0 \<Longrightarrow> local_map t' lid = Some st"
    "remote_map t rid = None \<Longrightarrow> cm_flow_key_bool rid \<Longrightarrow> remote_map t' rid = Some st"
    "remote_map t rid \<noteq> None \<Longrightarrow> remote_map t' = remote_map t"
    using \<open>st' = st\<close> e1 e2 table_ext_trans by auto
  show "local_map t lid \<noteq> None \<Longrightarrow> local_map t' = local_map t"
    using 1 e2(2) by (auto simp: link_local_def split: if_splits)
qed

lemma add_new_flow_unknown:
  assumes inv: "tracker_inv t" and unknown: "local_map t lid = None" "remote_map t rid = None"
    and add: "add_new_flow t lid rid = Inr (t', st)"
  shows "tracker_inv t' \<and> table_ext t t' st \<and> (lid \<noteq> 0 \<longrightarrow> local_map t' lid = Some st) \<and>
    (cm_flow_key_bool rid \<longrightarrow> remote_map t' rid = Some st)"
proof -
  have "\<not> mapped (alloc t) (next_ptr t)" by (simp add: mapped_def)
  moreover have "bind_res (link_local (alloc t) (next_ptr t) lid (local_map (alloc t) lid)) (\<lambda>t1.
      bind_res (link_remote t1 (next_ptr t) rid (remote_map (alloc t) rid)) (\<lambda>t2. Inr (t2, next_ptr t)))
      = Inr (t', st)"
    using add unknown by (auto simp: add_new_flow_def Let_def alloc_def bind_res_eq_Inr_iff)
  ultimately show ?thesis
    using link_both [OF tracker_inv_alloc [OF inv], of "next_ptr t" rid lid t' st] unknown
      table_ext_trans [OF table_ext_alloc]
    by auto
qed

lemma add_new_flow_spec:
  assumes inv: "tracker_inv t" and add: "add_new_flow t lid rid = Inr (t', st)"
    and unmapped: "\<And>a. local_map t lid = Some a \<Longrightarrow> \<not> mapped t a"
  shows "tracker_inv t' \<and> table_ext t t' st \<and> (lid \<noteq> 0 \<longrightarrow> local_map t' lid = Some st) \<and>
    (cm_flow_key_bool rid \<longrightarrow> remote_map t' rid = Some st) \<and>
    (\<forall>a. local_map t lid = Some a \<longrightarrow> st = a)"
proof (cases "local_map t lid")
  case None
  show ?thesis
  proof (cases "remote_map t rid")
    case None
    with \<open>local_map t lid = None\<close> show ?thesis using add_new_flow_unknown [OF inv _ None add] by auto
  next
    case (Some r)
    have "r < next_ptr t" by (rule remote_mapD(1) [OF inv Some])
    moreover have "bind_res (link_local t r lid (local_map t lid)) (\<lambda>t1.
        bind_res (link_remote t1 r rid (remote_map t rid)) (\<lambda>t2. Inr (t2, r))) = Inr (t', st)"
      using add Some \<open>local_map t lid = None\<close> by (simp add: add_new_flow_def Let_def)
    ultimately show ?thesis
      using link_both [OF inv, of r rid lid t' st] Some \<open>local_map t lid = None\<close> by auto
  qed
next
  case (Some l)
  note l = local_mapD [OF inv Some] unmapped [OF Some]
  show ?thesis
  proof (cases "remote_map t rid")
    case None
    have "bind_res (link_local t l lid (local_map t lid)) (\<lambda>t1.
        bind_res (link_remote t1 l rid (remote_map t rid)) (\<lambda>t2. Inr (t2, l))) = Inr (t', st)"
      using add Some None by (simp add: add_new_flow_def Let_def)
    then show ?thesis using link_both [OF inv, of l rid lid t' st] l Some None by auto
  next
    case (Some r)
    then show ?thesis
      using add \<open>local_map t lid = Some l\<close> inv l table_ext_refl
      by (auto simp: add_new_flow_def Let_def res_Inr_iffs)
  qed
qed

lemma get_flow_spec:
  assumes inv: "tracker_inv t" and get: "get_flow t lid rid = Inr (t', st)"
  shows "tracker_inv t' \<and> table_ext t t' st \<and> (lid \<noteq> 0 \<longrightarrow> local_map t' lid = Some st) \<and>
    (lid = 0 \<longrightarrow> cm_flow_key_bool rid \<and> remote_map t' rid = Some st)"
proof (cases "if lid \<noteq> 0 then local_map t lid else remote_map t rid")
  case None
  then have "add_new_flow t lid rid = Inr (t', st)" "local_map t lid = None" "lid \<noteq> 0 \<or> cm_flow_key_bool rid"
    using get inv by (auto simp: get_flow_def res_Inr_iffs split: if_splits)
  then show ?thesis using add_new_flow_spec [OF inv, of lid rid t' st] by auto
next
  case (Some a)
  then have "t' = t" "st = a" using get by (auto simp: get_flow_def res_Inr_iffs)
  then show ?thesis
    using Some inv table_ext_refl local_mapD(1) [OF inv] remote_mapD(1,2) [OF inv]
    by (auto split: if_splits)
qed

section \<open>Entering and leaving the query table\<close>

text \<open>The query table after one flow enters it, and after one leaves it.\<close>

lemma qpn_ok_enter:
  assumes "qpn_ok t" and m: "\<And>a. mapped t' a \<longleftrightarrow> a = st \<or> mapped t a"
    and k: "\<And>a. get_flow_key (heap t' a) = get_flow_key (heap t a)"
    and fresh: "\<And>a. mapped t a \<Longrightarrow> get_flow_key (heap t a) \<noteq> get_flow_key (heap t st)"
    and q: "qpn_map t' = (qpn_map t)(get_flow_key (heap t st) \<mapsto> v)"
  shows "qpn_ok t'"
  unfolding qpn_ok_def m k
proof (intro allI impI)
  fix k' w
  assume w: "qpn_map t' k' = Some w"
  show "\<exists>!a. (a = st \<or> mapped t a) \<and> get_flow_key (heap t a) = k'"
  proof (cases "k' = get_flow_key (heap t st)")
    case True
    then show ?thesis using fresh by metis
  next
    case False
    then have "qpn_map t k' = Some w" using w q by simp
    then show ?thesis using assms(1) False unfolding qpn_ok_def by metis
  qed
qed

lemma qpn_ok_leave:
  assumes "qpn_ok t" and m: "\<And>a. mapped t' a \<longleftrightarrow> a \<noteq> st \<and> mapped t a"
    and h: "\<And>a. a \<noteq> st \<Longrightarrow> heap t' a = heap t a"
    and q: "qpn_map t' = (qpn_map t)(get_flow_key (heap t st) := None)"
  shows "qpn_ok t'"
  unfolding qpn_ok_def m
proof (intro allI impI)
  fix k' w
  assume "qpn_map t' k' = Some w"
  then have "qpn_map t k' = Some w" "k' \<noteq> get_flow_key (heap t st)" using q by (auto split: if_splits)
  then show "\<exists>!a. (a \<noteq> st \<and> mapped t a) \<and> get_flow_key (heap t' a) = k'"
    using assms(1) h unfolding qpn_ok_def by metis
qed

lemma on_established_eq:
  "local_qpn (heap t st) = 0 \<or> remote_qpn (heap t st) = 0 \<or> qpn_map t (get_flow_key (heap t st)) \<noteq> None \<Longrightarrow>
    on_established t st = t"
  "\<not> (local_qpn (heap t st) = 0 \<or> remote_qpn (heap t st) = 0 \<or> qpn_map t (get_flow_key (heap t st)) \<noteq> None) \<Longrightarrow>
    on_established t st = upd_flow (t\<lparr>qpn_map := (qpn_map t)(get_flow_key (heap t st) \<mapsto> local_qpn (heap t st))\<rparr>) st
      (in_qpn_map_update (\<lambda>_. True))"
  by (auto simp: on_established_def Let_def flow_value_def)

lemma mapped_ok_enter:
  assumes inv: "tracker_inv t" and m: "\<And>a. mapped t' a \<longleftrightarrow> a = st \<or> mapped t a"
    and k: "\<And>a. get_flow_key (heap t' a) = get_flow_key (heap t a)"
    and fresh: "\<And>a. mapped t a \<Longrightarrow> get_flow_key (heap t a) \<noteq> get_flow_key (heap t st)"
    and q: "qpn_map t' = (qpn_map t)(get_flow_key (heap t st) \<mapsto> local_qpn (heap t st))"
    and same: "\<And>a. only_ids ((heap t' a)\<lparr>in_qpn_map := True\<rparr>) ((heap t a)\<lparr>in_qpn_map := True\<rparr>)"
      "\<And>a. local_id (heap t' a) = local_id (heap t a)" "local_map t' = local_map t"
    and st: "local_map t (local_id (heap t st)) = Some st" "fstate (heap t st) \<in> live_states"
      "local_qpn (heap t st) \<noteq> 0" "remote_qpn (heap t st) \<noteq> 0"
  shows "mapped_ok t'"
  unfolding mapped_ok_def m k
proof (intro allI impI)
  fix a
  assume a: "a = st \<or> mapped t a"
  show "fstate (heap t' a) \<in> live_states \<and> local_qpn (heap t' a) \<noteq> 0 \<and> remote_qpn (heap t' a) \<noteq> 0 \<and>
      qpn_map t' (get_flow_key (heap t a)) = Some (local_qpn (heap t' a)) \<and>
      local_map t' (local_id (heap t' a)) = Some a"
  proof (cases "a = st")
    case True
    then show ?thesis using st same(1) [of a] by (simp add: q same(2,3) only_ids_def)
  next
    case False
    then show ?thesis using a mappedD [OF inv, of a] fresh [of a] same(1) [of a] by (simp add: q same(2,3) only_ids_def)
  qed
qed

lemma on_established_inv:
  assumes inv: "tracker_inv t" and st: "st < next_ptr t" "\<not> mapped t st"
    and reg: "local_map t (local_id (heap t st)) = Some st"
    and live: "fstate (heap t st) \<in> live_states"
  shows "tracker_inv (on_established t st)"
proof (cases "local_qpn (heap t st) = 0 \<or> remote_qpn (heap t st) = 0 \<or>
    qpn_map t (get_flow_key (heap t st)) \<noteq> None")
  case False
  define t' where "t' = on_established t st"
  note t' = t'_def [unfolded on_established_eq(2) [OF False]]
  have m: "mapped t' a \<longleftrightarrow> a = st \<or> mapped t a" for a using st by (auto simp: t' mapped_def)
  have k: "get_flow_key (heap t' a) = get_flow_key (heap t a)" for a by (simp add: t' get_flow_key_def)
  have fresh: "get_flow_key (heap t a) \<noteq> get_flow_key (heap t st)" if "mapped t a" for a
    using mappedD(4) [OF inv that] False by auto
  have "tracker_inv t'"
  proof (rule tracker_invI)
    show "local_ok t'" using local_mapD [OF inv] by (auto simp: local_ok_def t')
    show "remote_ok t'" using remote_mapD [OF inv] unfolding remote_ok_def t' by simp
    show "states_ok t'" using tracker_invD(5) [OF inv] by (auto simp: states_ok_def t')
    show "mapped_ok t'"
      using False reg live by (intro mapped_ok_enter [OF inv m k fresh]) (simp_all add: t' only_ids_def)
    show "qpn_ok t'"
      using fresh by (intro qpn_ok_enter [OF tracker_invD(4) [OF inv] m k]) (simp_all add: t')
  qed
  then show ?thesis by (simp add: t'_def)
qed (use inv on_established_eq(1) in simp)

lemma on_disconnected_inv:
  assumes inv: "tracker_inv t" and st: "mapped t st"
  shows "tracker_inv (on_disconnected t st)"
    "on_disconnected t st = upd_flow (t\<lparr>qpn_map := (qpn_map t)(get_flow_key (heap t st) := None)\<rparr>) st
       (in_qpn_map_update (\<lambda>_. False))"
proof -
  let ?k = "get_flow_key (heap t st)"
  define t' where "t' = on_disconnected t st"
  have t': "t' = upd_flow (t\<lparr>qpn_map := (qpn_map t)(?k := None)\<rparr>) st (in_qpn_map_update (\<lambda>_. False))"
    using mappedD [OF inv st] by (simp add: on_disconnected_def Let_def t'_def)
  have m: "mapped t' a \<longleftrightarrow> a \<noteq> st \<and> mapped t a" for a using st by (auto simp: t' mapped_def)
  have h: "heap t' a = heap t a" if "a \<noteq> st" for a using that by (simp add: t')
  have other: "get_flow_key (heap t a) \<noteq> ?k" if "mapped t a" "a \<noteq> st" for a
    using mapped_unique [OF inv that(1) st] that by blast
  have "tracker_inv t'"
  proof (rule tracker_invI)
    show "local_ok t'" using local_mapD [OF inv] by (auto simp: local_ok_def t')
    show "remote_ok t'" using remote_mapD [OF inv] unfolding remote_ok_def t' by simp
    show "states_ok t'" using tracker_invD(5) [OF inv] by (auto simp: states_ok_def t')
    show "mapped_ok t'"
      unfolding mapped_ok_def m
    proof (intro allI impI)
      fix a
      assume a: "a \<noteq> st \<and> mapped t a"
      then show "fstate (heap t' a) \<in> live_states \<and> local_qpn (heap t' a) \<noteq> 0 \<and> remote_qpn (heap t' a) \<noteq> 0 \<and>
          qpn_map t' (get_flow_key (heap t' a)) = Some (local_qpn (heap t' a)) \<and>
          local_map t' (local_id (heap t' a)) = Some a"
        using mappedD [OF inv, of a] other [of a] by (simp add: t')
    qed
    show "qpn_ok t'" by (rule qpn_ok_leave [OF tracker_invD(4) [OF inv] m h]) (simp_all add: t')
  qed
  then show "tracker_inv (on_disconnected t st)" by (simp add: t'_def)
  show "on_disconnected t st = upd_flow (t\<lparr>qpn_map := (qpn_map t)(?k := None)\<rparr>) st
      (in_qpn_map_update (\<lambda>_. False))"
    using t' by (simp add: t'_def)
qed

lemma erase_flow_cases:
  assumes inv: "tracker_inv t" and erase: "erase_flow t lid rid = Inr t'"
  obtains (unknown) "(if lid \<noteq> 0 then local_map t lid else remote_map t rid) = None" "t' = t"
  | (known) st t1 where "(if lid \<noteq> 0 then local_map t lid else remote_map t rid) = Some st"
      "t1 = (if mapped t st then on_disconnected t st else t)" "tracker_inv t1" "\<not> mapped t1 st"
      "local_map t1 = local_map t" "remote_map t1 = remote_map t" "next_ptr t1 = next_ptr t"
      "t' = t1\<lparr>local_map := (local_map t)(lid := None), remote_map := (remote_map t)(rid := None)\<rparr>"
proof (cases "if lid \<noteq> 0 then local_map t lid else remote_map t rid")
  case None
  then show thesis using unknown erase by (auto simp: erase_flow_def res_Inr_iffs)
next
  case (Some st)
  then have st: "st < next_ptr t" using local_mapD(1) [OF inv] remote_mapD(1) [OF inv] by (auto split: if_splits)
  define t1 where "t1 = (if mapped t st then on_disconnected t st else t)"
  have t1: "tracker_inv t1" "\<not> mapped t1 st" "local_map t1 = local_map t" "remote_map t1 = remote_map t"
    "next_ptr t1 = next_ptr t"
    using on_disconnected_inv [OF inv] inv by (auto simp: t1_def mapped_def)
  moreover have "t' = t1\<lparr>local_map := (local_map t1)(lid := None), remote_map := (remote_map t1)(rid := None)\<rparr>"
    using erase Some st by (auto simp: erase_flow_def res_Inr_iffs Let_def t1_def mapped_def)
  ultimately show thesis using known [OF Some t1_def] by metis
qed

lemma erase_flow_inv:
  assumes inv: "tracker_inv t" and erase: "erase_flow t lid rid = Inr t'"
  shows "tracker_inv t'"
  using inv erase
proof (cases rule: erase_flow_cases)
  case (known st t1)
  show ?thesis
  proof (rule tracker_inv_frame [OF known(3)])
    show "local_map t' (local_id (heap t1 a)) = Some a" if "mapped t1 a" for a
      using mappedD(5,6) [OF known(3) that] that known by (auto split: if_splits)
    show "local_ok t'" using local_mapD [OF known(3)] known(5) by (auto simp: local_ok_def known(8))
    show "remote_ok t'"
      using remote_mapD [OF known(3)] known(6) unfolding remote_ok_def known(8)
      by (simp del: split_paired_All)
    show "states_ok t'" using tracker_invD(5) [OF known(3)] by (simp add: states_ok_def known(8))
  qed (simp_all add: known(8) mapped_def)
qed (use inv in simp)

section \<open>Messages and packets\<close>

lemma react_Requested: "react dir k s = Requested s' \<Longrightarrow>
    k = Kind_REQ \<and> s \<notin> live_states \<and> s' \<in> {REQ_SENT, REQ_RCVD}"
  by (cases dir; cases k) (auto simp: react_def live_states_def split: if_splits)

lemma react_Replied: "react dir k s = Replied s' \<Longrightarrow>
    k = Kind_REP \<and> s \<notin> live_states \<and> s' \<in> {REP_SENT, REP_RCVD}"
  by (cases dir; cases k) (auto simp: react_def live_states_def split: if_splits)

lemma react_Established: "react dir k s = Established \<Longrightarrow> k = Kind_RTU \<and> s \<notin> live_states"
  by (cases dir; cases k) (auto simp: react_def live_states_def split: if_splits)

lemma react_Closing: "react dir k s = Closing s' \<Longrightarrow> k = Kind_DREQ \<and> s' \<in> {DREQ_SENT, DREQ_RCVD}"
  by (cases dir; cases k) (auto simp: react_def split: if_splits)

lemma not_live_unmapped: "tracker_inv t \<Longrightarrow> fstate (heap t a) \<notin> live_states \<Longrightarrow> \<not> mapped t a"
  using mappedD(1) by blast

lemma add_new_flow_upd_flow:
  assumes "st < next_ptr t" "\<And>s. local_id (f s) = local_id s" "\<And>s. remote_id (f s) = remote_id s"
    and "\<And>s l. f (s\<lparr>local_id := l\<rparr>) = (f s)\<lparr>local_id := l\<rparr>" "\<And>s r. f (s\<lparr>remote_id := r\<rparr>) = (f s)\<lparr>remote_id := r\<rparr>"
  shows "add_new_flow (upd_flow t st f) lid rid = map_res (\<lambda>(t', x). (upd_flow t' st f, x)) (add_new_flow t lid rid)"
proof -
  have l: "link_local (upd_flow t st f) a lid it = map_res (\<lambda>t'. upd_flow t' st f) (link_local t a lid it)" for t a it
    using assms(2-4) by (auto simp: link_local_def upd_flow_def fun_eq_iff bind_res_def assert_res_def)
  have r: "link_remote (upd_flow t st f) a rid it = map_res (\<lambda>t'. upd_flow t' st f) (link_remote t a rid it)" for t a it
    using assms(3,5) by (auto simp: link_remote_def upd_flow_def fun_eq_iff bind_res_def assert_res_def)
  have both: "bind_res (link_local (upd_flow t st f) a lid it) (\<lambda>t. bind_res (link_remote t a rid it') (\<lambda>t. Inr (t, a))) =
      map_res (\<lambda>(t', x). (upd_flow t' st f, x))
        (bind_res (link_local t a lid it) (\<lambda>t. bind_res (link_remote t a rid it') (\<lambda>t. Inr (t, a))))" for t a it it'
    by (cases "link_local t a lid it") (simp_all add: l r map_res_def bind_res_def split: sum.splits)
  have al: "(upd_flow t st f)\<lparr>heap := (heap (upd_flow t st f))(next_ptr t := new_flow_state), next_ptr := Suc (next_ptr t)\<rparr> =
      upd_flow (t\<lparr>heap := (heap t)(next_ptr t := new_flow_state), next_ptr := Suc (next_ptr t)\<rparr>) st f"
    using assms(1) by (simp add: upd_flow_def fun_eq_iff)
  have ids: "local_id (heap (upd_flow t st f) a) = local_id (heap t a)" "remote_id (heap (upd_flow t st f) a) = remote_id (heap t a)" for a
    using assms(2,3) by simp_all
  show ?thesis
    by (cases "local_map t lid"; cases "remote_map t rid")
      (simp_all add: add_new_flow_def both al ids assert_res_def del: upd_flow_simps(5))
qed

lemma upd_flow_upd_flow: "upd_flow (upd_flow t st f) st g = upd_flow t st (\<lambda>s. g (f s))"
  by (simp add: upd_flow_def)

text \<open>The handlers update the flow around the call of \<^verbatim>\<open>add_new_flow\<close>; the order does not matter.\<close>

lemma replied_eq:
  assumes "st < next_ptr t"
  shows "apply_reaction m (Replied s) t st =
    bind_res (add_new_flow t (msg_id m) (msg_peer m)) (\<lambda>(t, _).
      Inr (upd_flow t st (\<lambda>f. set_qpn (msg_dir m) (msg_qpn m) (f\<lparr>fstate := s\<rparr>))))"
  using assms
  by (cases "msg_dir m"; cases "add_new_flow t (msg_id m) (msg_peer m)")
    (auto simp: apply_reaction_def add_new_flow_upd_flow upd_flow_upd_flow)

lemma replied_inv:
  assumes inv: "tracker_inv t" and st: "st < next_ptr t"
    and found: "msg_id m \<noteq> 0 \<Longrightarrow> local_map t (msg_id m) = Some st"
    and Replied: "react (msg_dir m) (msg_kind m) (fstate (heap t st)) = Replied s"
    and app: "apply_reaction m (Replied s) t st = Inr t'"
  shows "tracker_inv t'"
proof -
  note r = react_Replied [OF Replied]
  have nm: "\<not> mapped t st" using not_live_unmapped [OF inv] r by blast
  obtain t2 x where t2: "add_new_flow t (msg_id m) (msg_peer m) = Inr (t2, x)"
    and t': "t' = upd_flow t2 st (\<lambda>f. set_qpn (msg_dir m) (msg_qpn m) (f\<lparr>fstate := s\<rparr>))"
    using app by (auto simp: replied_eq [OF st] elim!: bind_res_InrE)
  have "\<not> mapped t a" if "local_map t (msg_id m) = Some a" for a
    using that found local_mapD(2) [OF inv] nm by auto
  from add_new_flow_spec [OF inv t2 this] have i2: "tracker_inv t2" and ext: "table_ext t t2 x" by auto
  have "\<not> in_qpn_map (heap t2 st)" "st < next_ptr t2"
    using ext st nm by (cases "st = x"; auto simp: table_ext_def only_ids_def object_at_def mapped_def)+
  then show ?thesis
    using r by (cases "msg_dir m") (auto intro!: tracker_inv_upd [OF i2] simp: t' dead_states_def)
qed

lemma apply_reaction_inv:
  assumes inv: "tracker_inv t" and st: "st < next_ptr t"
    and found: "msg_id m \<noteq> 0 \<Longrightarrow> local_map t (msg_id m) = Some st"
    and named: "msg_kind m = Kind_RTU \<Longrightarrow> msg_id m \<noteq> 0"
    and app: "apply_reaction m (react (msg_dir m) (msg_kind m) (fstate (heap t st))) t st = Inr t'"
  shows "tracker_inv t'"
proof (cases "react (msg_dir m) (msg_kind m) (fstate (heap t st))")
  case Ignore
  then show ?thesis using app inv by (simp add: apply_reaction_def)
next
  case (Requested s)
  note r = react_Requested [OF Requested]
  have "\<not> in_qpn_map (heap t st)" using not_live_unmapped [OF inv] r st by (auto simp: mapped_def)
  moreover have "t' = upd_flow t st (\<lambda>f. set_qpn (msg_dir m) (msg_qpn m) (f\<lparr>fstate := s\<rparr>))"
    using app Requested by (auto simp: apply_reaction_def elim!: bind_res_InrE)
  ultimately show ?thesis
    using r by (cases "msg_dir m") (auto intro!: tracker_inv_upd [OF inv st] simp: dead_states_def)
next
  case (Replied s)
  then show ?thesis using replied_inv [OF inv st found] app by simp
next
  case Established
  note r = react_Established [OF Established]
  have nm: "\<not> in_qpn_map (heap t st)" using not_live_unmapped [OF inv] r st by (auto simp: mapped_def)
  let ?t1 = "upd_flow t st (fstate_update (\<lambda>_. ESTABLISHED))"
  have i1: "tracker_inv ?t1"
    using nm by (intro tracker_inv_upd [OF inv st]) (auto simp: dead_states_def)
  have "local_map t (local_id (heap t st)) = Some st"
    using found named r local_mapD(3) [OF inv] by auto
  then have "tracker_inv (on_established ?t1 st)"
    using st nm by (intro on_established_inv [OF i1]) (auto simp: mapped_def live_states_def)
  then show ?thesis using app Established by (simp add: apply_reaction_def)
next
  case (Closing s)
  then show ?thesis
    using app react_Closing [OF Closing]
    by (auto intro!: tracker_inv_upd [OF inv st] simp: apply_reaction_def dead_states_def live_states_def)
next
  case Forget
  then show ?thesis using app erase_flow_inv [OF inv] by (simp add: apply_reaction_def)
qed

lemma message_step_inv:
  assumes inv: "tracker_inv t" and step: "message_step m t = Inr t'"
  shows "tracker_inv t'"
proof -
  obtain t1 st where get: "get_flow t (msg_id m) (lookup_peer m) = Inr (t1, st)"
    and app: "apply_reaction m (react (msg_dir m) (msg_kind m) (fstate (heap t1 st))) t1 st = Inr t'"
    using step by (auto simp: message_step_def elim!: bind_res_InrE)
  note g = get_flow_spec [OF inv get]
  have "msg_kind m = Kind_RTU \<Longrightarrow> msg_id m \<noteq> 0" using g by (auto simp: lookup_peer_def)
  then show ?thesis
    using apply_reaction_inv [OF _ _ _ _ app] g by (auto simp: table_ext_def)
qed

interpretation message_machine: invariant_system message_step new_tracker tracker_inv
  by unfold_locales (auto intro: tracker_inv_new message_step_inv)

definition packet_step :: "dpdk \<Rightarrow> parser_context \<Rightarrow> rte_mbuf \<times> ctcm_direction \<Rightarrow> tracker \<Rightarrow> tracker res" where
  "packet_step env self e = process env self (fst e) (snd e)"

interpretation packet_machine: invariant_system "packet_step env self" new_tracker tracker_inv
  for env self
  by unfold_locales
    (auto simp: packet_step_def intro: tracker_inv_new message_step_inv dest!: process_simulates)

end
