(* ===== verification/Samples.thy ===== *)
theory Samples
  imports Dpdk_Instance Tracker_Msg
begin

text \<open>
  Concrete RoCE v2 packets that carry CM messages, as they leave the parser: the inputs of the
  theorems that run the tracker and the library interface.  \<open>decode_sample\<close> says which message such a
  packet carries, so that those runs are evaluated on messages.
\<close>

definition cm_packet :: "byte list \<Rightarrow> byte list \<Rightarrow> byte \<Rightarrow> byte list \<Rightarrow> rte_mbuf" where
  "cm_packet src dst attr body = ud_packet src dst [0, 92] (cm_mad_hdr attr @ body)"

definition sample :: "byte list \<Rightarrow> byte list \<Rightarrow> byte \<Rightarrow> byte list \<Rightarrow> rte_mbuf" where
  "sample src dst attr body = parsed sample_parser (cm_packet src dst attr body)"

text \<open>Message bodies of 36 bytes: sender's identifier, receiver's identifier, and the QPN.\<close>

definition req_body :: "byte list \<Rightarrow> byte list \<Rightarrow> byte list" where
  "req_body sender qpn = sender @ replicate 28 0 @ qpn @ [0]"

definition rep_body :: "byte list \<Rightarrow> byte list \<Rightarrow> byte list \<Rightarrow> byte list" where
  "rep_body sender receiver qpn = sender @ receiver @ replicate 4 0 @ qpn @ [0] @ replicate 20 0"

definition ids_body :: "byte list \<Rightarrow> byte list \<Rightarrow> byte list" where
  "ids_body sender receiver = sender @ receiver @ replicate 28 0"

section \<open>What the packets hold\<close>

lemma cm_packet_bytes:
  assumes "length src = 4" "length dst = 4"
  shows "drop 62 (buf (cm_packet src dst attr body)) = cm_mad_hdr attr @ body"
    "take 4 (drop 26 (buf (cm_packet src dst attr body))) = src"
    "take 4 (drop 30 (buf (cm_packet src dst attr body))) = dst"
    "length (buf (cm_packet src dst attr body)) = 86 + length body"
  using assms by (simp_all add: cm_packet_def ud_packet_def Let_def cm_mad_hdr_def)

lemma cm_packet_lens [simp]:
  assumes "length src = 4" "length dst = 4"
  shows "pkt_len (cm_packet src dst attr body) = 86 + length body"
  using assms by (simp add: cm_packet_def ud_packet_def Let_def cm_mad_hdr_def)

lemma cm_packet_layers [simp]:
  "packet_type (cm_packet src dst attr body) = 0x210"
  "l2_len (cm_packet src dst attr body) = 14" "l3_len (cm_packet src dst attr body) = 20"
  by (simp_all add: cm_packet_def ud_packet_def Let_def)

lemma cm_packet_carries:
  assumes "length src = 4" "length dst = 4"
  shows "carries_bth (cm_packet src dst attr body)" "carries_cm (cm_packet src dst attr body)"
proof -
  have "drop 34 (buf (cm_packet src dst attr body)) = [0xf0, 0, 0x12, 0xb7, 0, 92, 0, 0] @
      [0x64, 0, 0xff, 0xff, 0, 0, 0, 1, 0, 0, 0, 0] @ [0x80, 0x01, 0, 0, 0, 0, 0, 1] @
      cm_mad_hdr attr @ body"
    using assms by (simp add: cm_packet_def ud_packet_def Let_def)
  then have "be_field (cm_packet src dst attr body) k n = be_nat (take n (drop k
      ([0xf0, 0, 0x12, 0xb7, 0, 92, 0, 0] @ [0x64, 0, 0xff, 0xff, 0, 0, 0, 1, 0, 0, 0, 0] @
       [0x80, 0x01, 0, 0, 0, 0, 0, 1] @ cm_mad_hdr attr @ body)))" for k n
    unfolding be_field_def by (simp add: udp_at_def drop_drop [symmetric] add.commute del: drop_drop)
  then show "carries_bth (cm_packet src dst attr body)" "carries_cm (cm_packet src dst attr body)"
    by (simp_all add: carries_cm_def carries_bth_def be_nat_def cm_mad_hdr_def)
qed

lemma sample_fields:
  assumes "length src = 4" "length dst = 4"
  shows "buf (sample src dst attr body) = buf (cm_packet src dst attr body)"
    "packet_type (sample src dst attr body) = 0x210" "l2_len (sample src dst attr body) = 14"
    "parser_mbuf_mad sample_parser (sample src dst attr body) = Inr (Some 62)"
  using assms
  by (simp_all add: sample_def parsed_def parser_mbuf_mad_def mad_slot.get_hdr_eq sample_parser_def
      cm_packet_carries udp_at_def)

lemma load_take_drop:
  "(load m a :: u16 res) =
     (if a + 2 \<le> length m then Inr (of_le_bytes (take 2 (drop a m))) else Inl Out_of_bounds)"
  "(load m a :: u32 res) =
     (if a + 4 \<le> length m then Inr (of_le_bytes (take 4 (drop a m))) else Inl Out_of_bounds)"
  by (simp_all add: load_def)

lemma ntohl_of_le_bytes:
  assumes "length bs = 4"
  shows "ntohl (of_le_bytes bs) = word_of_nat (be_nat bs)"
proof -
  have "load bs 0 = Inr (of_le_bytes bs :: u32)" using assms by (simp add: load_def)
  then show ?thesis using ntohl_load [of bs 0] assms by simp
qed

text \<open>A row of the message body, at byte \<open>b\<close> and \<open>n\<close> bits wide.\<close>

definition body_row :: "byte list \<Rightarrow> nat \<Rightarrow> nat \<Rightarrow> u32" where
  "body_row body b n = drop_bit (32 - n) (word_of_nat (be_nat (take 4 (drop b body))))"

lemma sample_row:
  assumes "length src = 4" "length dst = 4" "length body = 36" "4 dvd b" "b \<le> 32" "1 \<le> n" "n \<le> 32"
  shows "IBA_GET_u32 (CM_FIELD32_LOC b n) (sample src dst attr body) 62 = Inr (body_row body b n)"
proof -
  have "drop (62 + (b + 24)) (buf (sample src dst attr body)) =
      drop b (drop 24 (drop 62 (buf (sample src dst attr body))))"
    by (simp add: ac_simps)
  then have "take 4 (drop (62 + (b + 24)) (buf (sample src dst attr body))) = take 4 (drop b body)"
    by (simp only: cm_packet_bytes(1) [OF assms(1,2)] sample_fields(1) [OF assms(1,2)])
      (simp add: cm_mad_hdr_def)
  moreover have "length (take 4 (drop b body)) = 4" using assms by simp
  moreover have "b + 90 \<le> length (buf (sample src dst attr body))"
    using assms cm_packet_bytes(4) sample_fields(1) by simp
  ultimately show ?thesis
    using assms
    by (simp add: IBA_GET_u32_def IBA_GET_row32 load_take_drop ntohl_of_le_bytes body_row_def
        del: drop_drop take_drop)
qed

lemma sample_attr:
  assumes "length src = 4" "length dst = 4"
  shows "get_attr_id sample_parser (sample src dst attr body) = Inr (ucast attr)"
proof -
  have "take 2 (drop 78 (buf (sample src dst attr body))) =
      take 2 (drop 16 (drop 62 (buf (sample src dst attr body))))"
    by simp
  then have "take 2 (drop 78 (buf (sample src dst attr body))) = [0, attr]"
    by (simp only: cm_packet_bytes(1) [OF assms] sample_fields(1) [OF assms]) (simp add: cm_mad_hdr_def)
  moreover have "ntohs (of_le_bytes [0, attr]) = ucast attr"
  proof -
    obtain w :: u16 where w: "load [0, attr] 0 = Inr w" "unat (ntohs w) = unat attr"
      using load_u16_be [of 0 "[0, attr]"] by (auto simp: be_nat_def)
    have "w = of_le_bytes [0, attr]" using w(1) by (simp add: load_take_drop del: of_le_bytes.simps)
    moreover have "unat (ucast attr :: u16) = unat attr"
      using unsigned_less [of attr, where 'a = nat]
      by (simp add: unsigned_ucast_eq take_bit_nat_eq_self)
    ultimately show ?thesis using w(2) by (metis word_unat_eq_iff)
  qed
  ultimately show ?thesis
    using cm_packet_bytes(4) [OF assms] sample_fields [OF assms]
    by (simp add: get_attr_id_def cm_msg_def mad_attr_id_def load_take_drop del: take_drop)
qed

lemma sample_peer:
  assumes "length src = 4" "length dst = 4"
  shows "peer_key dir sample_dpdk (sample src dst attr body) rid =
    Inr (of_le_bytes (case dir of CTCM_FROM_HOST \<Rightarrow> dst | CTCM_FROM_NET \<Rightarrow> src), rid)"
  using cm_packet_bytes [OF assms, of attr body] sample_fields [OF assms, of attr body]
  by (cases dir) (simp_all add: from_dest_def from_src_def mbuf_ip_def load_take_drop del: take_drop)

definition sample_message :: "ctcm_direction \<Rightarrow> byte list \<Rightarrow> byte list \<Rightarrow> cm_kind \<Rightarrow> byte list \<Rightarrow> cm_message"
where
  "sample_message dir src dst k body =
     (let sender = body_row body 0 32;
          receiver = (if k = Kind_REQ then 0 else body_row body 4 32)
      in \<lparr>msg_dir = dir, msg_kind = k,
          msg_id = (case dir of CTCM_FROM_HOST \<Rightarrow> sender | CTCM_FROM_NET \<Rightarrow> receiver),
          msg_peer = (of_le_bytes (case dir of CTCM_FROM_HOST \<Rightarrow> dst | CTCM_FROM_NET \<Rightarrow> src),
            case dir of CTCM_FROM_HOST \<Rightarrow> receiver | CTCM_FROM_NET \<Rightarrow> sender),
          msg_qpn = (case k of Kind_REQ \<Rightarrow> body_row body 32 24 | Kind_REP \<Rightarrow> body_row body 12 24 | _ \<Rightarrow> 0)\<rparr>)"

lemma decode_sample:
  assumes "length src = 4" "length dst = 4" "length body = 36"
  shows "decode sample_dpdk sample_parser (sample src dst attr body) dir =
    (case kind_of (ucast attr) of None \<Rightarrow> Inr None
     | Some k \<Rightarrow> Inr (Some (sample_message dir src dst k body)))"
proof (cases "kind_of (ucast attr)")
  case (Some k)
  have "cm_msg sample_parser (sample src dst attr body) = Inr 62"
    using sample_fields(4) [OF assms(1,2)] by (simp add: cm_msg_def)
  then show ?thesis
    using Some sample_peer [OF assms(1,2)] sample_row [OF assms]
    by (cases dir; cases k)
      (simp_all add: decode_def sample_attr assms tracker_row_defs sample_message_def)
qed (simp add: decode_def sample_attr assms)

lemma complete_sample:
  assumes "length src = 4" "length dst = 4" "length body = 36"
  shows "complete_cm_packet sample_dpdk sample_parser (sample src dst attr body)"
  using assms sample_fields [OF assms(1,2)] cm_packet_bytes(4) [OF assms(1,2)]
  by (simp add: complete_cm_packet_def)

end
