(* ===== verification/Lifecycle.thy ===== *)
theory Lifecycle
  imports Tracker_Inv Samples
begin

text \<open>
  The life of a connection as the tracker sees it: both handshakes, the tear-down and the rejection,
  as sequences of packets, with the exact tables they leave behind.
\<close>

section \<open>Sequences of packets as sequences of messages\<close>

definition carries :: "dpdk \<Rightarrow> parser_context \<Rightarrow> rte_mbuf \<times> ctcm_direction \<Rightarrow> cm_message \<Rightarrow> bool" where
  "carries env self e m \<longleftrightarrow> decode env self (fst e) (snd e) = Inr (Some m)"

lemma run_packets:
  "list_all2 (carries env self) es ms \<Longrightarrow> run (packet_step env self) es t = run message_step ms t"
proof (induction arbitrary: t rule: list_all2_induct)
  case (Cons e es m ms)
  have "packet_step env self e t = message_step m t"
    using Cons.hyps(1) process_decode by (auto simp: packet_step_def carries_def)
  then show ?case using Cons.IH by (simp cong: bind_res_cong)
qed simp

lemma remote_map_null [simp]: "tracker_inv t \<Longrightarrow> remote_map t cm_flow_key_null = None"
  by (cases "remote_map t cm_flow_key_null") (auto dest: remote_mapD(2))

section \<open>Messages\<close>

definition req_msg :: "ctcm_direction \<Rightarrow> id_t \<Rightarrow> cm_flow_key \<Rightarrow> qpn_t \<Rightarrow> cm_message" where
  "req_msg dir lid peer q = \<lparr>msg_dir = dir, msg_kind = Kind_REQ, msg_id = lid, msg_peer = peer, msg_qpn = q\<rparr>"

definition rep_msg :: "ctcm_direction \<Rightarrow> id_t \<Rightarrow> cm_flow_key \<Rightarrow> qpn_t \<Rightarrow> cm_message" where
  "rep_msg dir lid peer q = \<lparr>msg_dir = dir, msg_kind = Kind_REP, msg_id = lid, msg_peer = peer, msg_qpn = q\<rparr>"

definition ids_msg :: "cm_kind \<Rightarrow> ctcm_direction \<Rightarrow> id_t \<Rightarrow> cm_flow_key \<Rightarrow> cm_message" where
  "ids_msg k dir lid peer = \<lparr>msg_dir = dir, msg_kind = k, msg_id = lid, msg_peer = peer, msg_qpn = 0\<rparr>"

lemmas msg_defs = req_msg_def rep_msg_def ids_msg_def

section \<open>Handshakes\<close>

text \<open>The tables with one more established connection, in a fresh object.\<close>

definition with_connection :: "tracker \<Rightarrow> id_t \<Rightarrow> cm_flow_key \<Rightarrow> qpn_t \<Rightarrow> qpn_t \<Rightarrow> tracker" where
  "with_connection t lid peer q rq =
     t\<lparr>local_map := (local_map t)(lid \<mapsto> next_ptr t),
       remote_map := (remote_map t)(peer \<mapsto> next_ptr t),
       qpn_map := (qpn_map t)((fst peer, rq) \<mapsto> q),
       heap := (heap t)(next_ptr t := \<lparr>fstate = ESTABLISHED, local_id = lid, remote_id = peer,
         local_qpn = q, remote_qpn = rq, in_qpn_map = True\<rparr>),
       next_ptr := Suc (next_ptr t)\<rparr>"

text \<open>Identifiers and QPNs of a connection the tracker does not know yet.\<close>

definition fresh_connection :: "tracker \<Rightarrow> id_t \<Rightarrow> cm_flow_key \<Rightarrow> qpn_t \<Rightarrow> qpn_t \<Rightarrow> bool" where
  "fresh_connection t lid peer q rq \<longleftrightarrow>
     lid \<noteq> 0 \<and> local_map t lid = None \<and> cm_flow_key_bool peer \<and> remote_map t peer = None \<and>
     q \<noteq> 0 \<and> rq \<noteq> 0 \<and> qpn_map t (fst peer, rq) = None"

lemmas step_simps = message_step_def lookup_peer_def get_flow_def add_new_flow_def link_local_def
  link_remote_def react_def apply_reaction_def upd_flow_def Let_def

lemma active_messages:
  assumes "tracker_inv t" "fresh_connection t lid peer q rq"
  shows "run message_step [req_msg CTCM_FROM_HOST lid peer0 q, rep_msg CTCM_FROM_NET lid peer rq,
      ids_msg Kind_RTU CTCM_FROM_HOST lid peer1] t = Inr (with_connection t lid peer q rq)"
  using assms
  by (simp add: fresh_connection_def msg_defs step_simps new_flow_state_def on_established_def
      flow_value_def get_flow_key_def with_connection_def)

lemma passive_messages:
  assumes "tracker_inv t" "fresh_connection t lid peer q rq"
  shows "run message_step [req_msg CTCM_FROM_NET 0 peer rq, rep_msg CTCM_FROM_HOST lid peer q,
      ids_msg Kind_RTU CTCM_FROM_NET lid peer1] t = Inr (with_connection t lid peer q rq)"
  using assms
  by (simp add: fresh_connection_def msg_defs step_simps new_flow_state_def on_established_def
      flow_value_def get_flow_key_def with_connection_def)

lemma with_connection_query:
  "get_source_qpn (with_connection t lid peer q rq) k =
     (if k = (fst peer, rq) then q else get_source_qpn t k)"
  by (simp add: with_connection_def get_source_qpn_def)

lemma opened_run:
  assumes "tracker_inv t" "fresh_connection t lid peer q rq"
    and "list_all2 (carries env self) es
        [req_msg CTCM_FROM_HOST lid peer0 q, rep_msg CTCM_FROM_NET lid peer rq,
         ids_msg Kind_RTU CTCM_FROM_HOST lid peer1] \<or>
      list_all2 (carries env self) es
        [req_msg CTCM_FROM_NET 0 peer rq, rep_msg CTCM_FROM_HOST lid peer q,
         ids_msg Kind_RTU CTCM_FROM_NET lid peer1]"
  shows "run (packet_step env self) es t = Inr (with_connection t lid peer q rq)"
  using assms(3) run_packets [of env self es] active_messages [OF assms(1,2)] passive_messages [OF assms(1,2)]
  by metis

text \<open>The packets of an active open by 10.0.0.1 (identifier 7, QPN 0x102) to 10.0.0.2 (9, 0x203).\<close>

definition active_packets :: "(rte_mbuf \<times> ctcm_direction) list" where
  "active_packets =
     [(sample [10, 0, 0, 1] [10, 0, 0, 2] 0x10 (req_body [0, 0, 0, 7] [0, 1, 2]), CTCM_FROM_HOST),
      (sample [10, 0, 0, 2] [10, 0, 0, 1] 0x13 (rep_body [0, 0, 0, 9] [0, 0, 0, 7] [0, 2, 3]), CTCM_FROM_NET),
      (sample [10, 0, 0, 1] [10, 0, 0, 2] 0x14 (ids_body [0, 0, 0, 7] [0, 0, 0, 9]), CTCM_FROM_HOST)]"

lemma sample_kinds:
  "kind_of 0x10 = Some Kind_REQ" "kind_of 0x12 = Some Kind_REJ" "kind_of 0x13 = Some Kind_REP"
  "kind_of 0x14 = Some Kind_RTU" "kind_of 0x15 = Some Kind_DREQ" "kind_of 0x16 = Some Kind_DREP"
  by (simp_all add: kind_of_def cm_attr_defs)

lemma sample_addrs:
  "(of_le_bytes [10, 0, 0, 1] :: u32) = 0x0100000a" "(of_le_bytes [10, 0, 0, 2] :: u32) = 0x0200000a"
  by code_simp+

lemmas sample_eval = carries_def decode_sample sample_message_def body_row_def req_body_def
  rep_body_def ids_body_def be_nat_def sample_kinds sample_addrs msg_defs

lemma active_packets_carry:
  "list_all2 (carries sample_dpdk sample_parser) active_packets
     [req_msg CTCM_FROM_HOST 7 (0x0200000a, 0) 0x102, rep_msg CTCM_FROM_NET 7 (0x0200000a, 9) 0x203,
      ids_msg Kind_RTU CTCM_FROM_HOST 7 (0x0200000a, 9)]"
  by (simp add: active_packets_def sample_eval del: of_le_bytes.simps)

lemma fresh_in_new_tracker: "fresh_connection new_tracker 7 (0x0200000a, 9) 0x102 0x203"
  by (simp add: fresh_connection_def new_tracker_def cm_flow_key_bool_def)

text \<open>The packets of a passive open: 10.0.0.2 (identifier 9, QPN 0x203) connects to 10.0.0.1 (7, 0x102).\<close>

definition passive_packets :: "(rte_mbuf \<times> ctcm_direction) list" where
  "passive_packets =
     [(sample [10, 0, 0, 2] [10, 0, 0, 1] 0x10 (req_body [0, 0, 0, 9] [0, 2, 3]), CTCM_FROM_NET),
      (sample [10, 0, 0, 1] [10, 0, 0, 2] 0x13 (rep_body [0, 0, 0, 7] [0, 0, 0, 9] [0, 1, 2]), CTCM_FROM_HOST),
      (sample [10, 0, 0, 2] [10, 0, 0, 1] 0x14 (ids_body [0, 0, 0, 9] [0, 0, 0, 7]), CTCM_FROM_NET)]"

lemma passive_packets_carry:
  "list_all2 (carries sample_dpdk sample_parser) passive_packets
     [req_msg CTCM_FROM_NET 0 (0x0200000a, 9) 0x203, rep_msg CTCM_FROM_HOST 7 (0x0200000a, 9) 0x102,
      ids_msg Kind_RTU CTCM_FROM_NET 7 (0x0200000a, 9)]"
  by (simp add: passive_packets_def sample_eval del: of_le_bytes.simps)

text \<open>
  C7: Opening a new connection (non-zero identifiers and QPNs, with the identifier, the peer key and the query key in no table
  yet): when the host sends a REQ with its identifier and QPN, the peer's REP with the
  peer's identifier and QPN comes back and the host sends the RTU, or the same three messages travel in the
  opposite directions, the tracker holds exactly one more connection, and from then on a query for the
  peer's address and QPN returns the host's QPN, while every other query is answered as before.
\<close>

theorem handshake_adds_connection:
  assumes "tracker_inv t" "fresh_connection t lid peer q rq"
    and "list_all2 (carries env self) es
        [req_msg CTCM_FROM_HOST lid peer0 q, rep_msg CTCM_FROM_NET lid peer rq,
         ids_msg Kind_RTU CTCM_FROM_HOST lid peer1] \<or>
      list_all2 (carries env self) es
        [req_msg CTCM_FROM_NET 0 peer rq, rep_msg CTCM_FROM_HOST lid peer q,
         ids_msg Kind_RTU CTCM_FROM_NET lid peer1]"
  shows "\<exists>t'. run (packet_step env self) es t = Inr t' \<and> t' = with_connection t lid peer q rq \<and>
    (\<forall>k. get_source_qpn t' k = (if k = (fst peer, rq) then q else get_source_qpn t k))"
  using opened_run [OF assms] with_connection_query by simp

theorem handshake_adds_connection_witness:
  "(\<exists>t'. run (packet_step sample_dpdk sample_parser) active_packets new_tracker = Inr t' \<and>
      get_source_qpn t' (0x0200000a, 0x203) = 0x102) \<and>
   (\<exists>t'. run (packet_step sample_dpdk sample_parser) passive_packets new_tracker = Inr t' \<and>
      get_source_qpn t' (0x0200000a, 0x203) = 0x102)"
  using handshake_adds_connection [OF tracker_inv_new fresh_in_new_tracker disjI1 [OF active_packets_carry]]
    handshake_adds_connection [OF tracker_inv_new fresh_in_new_tracker disjI2 [OF passive_packets_carry]]
  by auto

section \<open>Tear-down and rejection\<close>

lemma get_flow_known: "lid \<noteq> 0 \<Longrightarrow> local_map t lid = Some st \<Longrightarrow> get_flow t lid rid = Inr (t, st)"
  by (simp add: get_flow_def)

lemma message_step_known:
  assumes "msg_id m \<noteq> 0" "local_map t (msg_id m) = Some st"
  shows "message_step m t = apply_reaction m (react (msg_dir m) (msg_kind m) (fstate (heap t st))) t st"
  using assms by (simp add: message_step_def get_flow_known)

text \<open>The flow a REJ or a DREP is about: a REJ without an identifier of this host names it by the peer's key.\<close>

definition closes_flow :: "cm_message \<Rightarrow> tracker \<Rightarrow> nat \<Rightarrow> bool" where
  "closes_flow m t st \<longleftrightarrow> msg_kind m \<in> {Kind_REJ, Kind_DREP} \<and>
     (if msg_id m \<noteq> 0 then local_map t (msg_id m) = Some st
      else msg_kind m = Kind_REJ \<and> remote_map t (msg_peer m) = Some st)"

lemma message_step_closes:
  assumes "tracker_inv t" "closes_flow m t st"
  shows "message_step m t = apply_reaction m (react (msg_dir m) (msg_kind m) (fstate (heap t st))) t st"
proof (cases "msg_id m = 0")
  case True
  then have r: "msg_kind m = Kind_REJ" "remote_map t (msg_peer m) = Some st" using assms(2) by (auto simp: closes_flow_def)
  moreover have "lookup_peer m = msg_peer m" using r(1) by (cases "msg_dir m") (simp_all add: lookup_peer_def)
  ultimately show ?thesis using True remote_mapD(2) [OF assms(1) r(2)] by (simp add: message_step_def get_flow_def)
next
  case False
  then show ?thesis using assms(2) by (simp add: message_step_known closes_flow_def)
qed

lemma forget_found:
  assumes inv: "tracker_inv t" and st: "closes_flow m t st"
    and f: "react (msg_dir m) (msg_kind m) (fstate (heap t st)) = Forget"
  shows "message_step m t = Inr
    (t\<lparr>local_map := (local_map t)(msg_id m := None), remote_map := (remote_map t)(msg_peer m := None),
       qpn_map := (if in_qpn_map (heap t st) then (qpn_map t)(get_flow_key (heap t st) := None) else qpn_map t),
       heap := (heap t)(st := (heap t st)\<lparr>in_qpn_map := False\<rparr>)\<rparr>)"
proof -
  have found: "(if msg_id m \<noteq> 0 then local_map t (msg_id m) else remote_map t (msg_peer m)) = Some st"
    using st by (auto simp: closes_flow_def)
  have m: "mapped t st \<longleftrightarrow> in_qpn_map (heap t st)"
    using found local_mapD(1) [OF inv] remote_mapD(1) [OF inv] by (auto simp: mapped_def split: if_splits)
  have named: "msg_id m \<noteq> 0 \<or> cm_flow_key_bool (msg_peer m)"
    using found remote_mapD(2) [OF inv] by (auto split: if_splits)
  have same: "(heap t)(st := (heap t st)\<lparr>in_qpn_map := False\<rparr>) = heap t" if "\<not> in_qpn_map (heap t st)"
    using that by (auto simp: fun_eq_iff)
  show ?thesis
    using on_disconnected_inv(2) [OF inv, of st] m found named f same
    by (simp add: message_step_closes [OF inv st] apply_reaction_def erase_flow_def Let_def upd_flow_def)
qed

lemma forget_known:
  assumes "tracker_inv t" "msg_id m \<noteq> 0" "local_map t (msg_id m) = Some st"
    and f: "react (msg_dir m) (msg_kind m) (fstate (heap t st)) = Forget"
  shows "message_step m t = Inr
    (t\<lparr>local_map := (local_map t)(msg_id m := None), remote_map := (remote_map t)(msg_peer m := None),
       qpn_map := (if in_qpn_map (heap t st) then (qpn_map t)(get_flow_key (heap t st) := None) else qpn_map t),
       heap := (heap t)(st := (heap t st)\<lparr>in_qpn_map := False\<rparr>)\<rparr>)"
proof (rule forget_found [OF assms(1) _ f])
  have "msg_kind m \<in> {Kind_REJ, Kind_DREP}"
    using f by (cases "msg_dir m"; cases "msg_kind m") (auto simp: react_def split: if_splits)
  then show "closes_flow m t st" using assms by (simp add: closes_flow_def)
qed

lemma forget_query:
  assumes "qpn_map t' = (if in_qpn_map (heap t st) then (qpn_map t)(get_flow_key (heap t st) := None) else qpn_map t)"
  shows "get_source_qpn t' k =
    (if in_qpn_map (heap t st) \<and> k = get_flow_key (heap t st) then 0 else get_source_qpn t k)"
  using assms by (simp add: get_source_qpn_def)

text \<open>When both names of a flow are erased, no table refers to it.\<close>

definition unreferenced :: "tracker \<Rightarrow> nat \<Rightarrow> bool" where
  "unreferenced t st \<longleftrightarrow> (\<forall>l. local_map t l \<noteq> Some st) \<and> (\<forall>k. remote_map t k \<noteq> Some st)"

lemma unreferencedI:
  assumes inv: "tracker_inv t" and "local_map t' = (local_map t)(local_id (heap t st) := None)"
    "remote_map t' = (remote_map t)(remote_id (heap t st) := None)"
  shows "unreferenced t' st"
  using assms local_mapD(3) [OF inv] remote_mapD(3) [OF inv] unfolding unreferenced_def by auto

text \<open>The states in which a REJ or a DREP ends a flow; in the others the handlers only log the message.\<close>

fun ended_by :: "ctcm_direction \<Rightarrow> cm_kind \<Rightarrow> flow_state_name set" where
  "ended_by _ Kind_DREP = {DREQ_SENT, DREQ_RCVD}"
| "ended_by CTCM_FROM_HOST Kind_REJ =
     {IDLE, REQ_RCVD, REQ_SENT, MRA_REQ_RCVD, MRA_REQ_SENT, REP_RCVD, MRA_REP_SENT, REP_SENT, MRA_REP_RCVD}"
| "ended_by CTCM_FROM_NET Kind_REJ =
     {IDLE, REQ_SENT, MRA_REQ_RCVD, REP_SENT, MRA_REP_RCVD, MRA_REQ_SENT, DREQ_SENT, REP_RCVD, MRA_REP_SENT, ESTABLISHED}"
| "ended_by _ _ = {}"

lemma react_ended_by:
  "k \<in> {Kind_REJ, Kind_DREP} \<Longrightarrow> react dir k s = (if s \<in> ended_by dir k then Forget else Ignore)"
  by (cases dir; cases k; cases s) (simp_all add: react_def)

text \<open>
  C13: What a REJ or a DREP does to the flow it is about, in either direction: in the states of \<open>ended_by\<close> it succeeds, erases the
  host's identifier and the peer key that the message names from the two tables, ends the query answer of this flow if it had one and
  changes no other query; if the two names are those of the flow, no table refers to it any more.  In every other state (a REJ of the
  host on an established connection, a DREP before any DREQ) the message changes nothing at all.
\<close>

theorem forget_flow:
  assumes inv: "tracker_inv t" and m: "carries env self e m" and st: "closes_flow m t st"
  shows "if fstate (heap t st) \<in> ended_by (msg_dir m) (msg_kind m)
    then \<exists>t'. packet_step env self e t = Inr t' \<and>
      local_map t' = (local_map t)(msg_id m := None) \<and> remote_map t' = (remote_map t)(msg_peer m := None) \<and>
      (\<forall>k. get_source_qpn t' k =
        (if in_qpn_map (heap t st) \<and> k = get_flow_key (heap t st) then 0 else get_source_qpn t k)) \<and>
      (msg_id m = local_id (heap t st) \<and> msg_peer m = remote_id (heap t st) \<longrightarrow> unreferenced t' st)
    else packet_step env self e t = Inr t"
proof -
  have step: "packet_step env self e t = message_step m t"
    using m process_decode by (auto simp: packet_step_def carries_def)
  have k: "msg_kind m \<in> {Kind_REJ, Kind_DREP}" using st by (simp add: closes_flow_def)
  show ?thesis
  proof (cases "fstate (heap t st) \<in> ended_by (msg_dir m) (msg_kind m)")
    case True
    then have "react (msg_dir m) (msg_kind m) (fstate (heap t st)) = Forget" by (simp add: react_ended_by [OF k])
    from forget_found [OF inv st this] obtain t' where t': "message_step m t = Inr t'"
      "local_map t' = (local_map t)(msg_id m := None)" "remote_map t' = (remote_map t)(msg_peer m := None)"
      "qpn_map t' = (if in_qpn_map (heap t st) then (qpn_map t)(get_flow_key (heap t st) := None) else qpn_map t)"
      by simp
    then show ?thesis using True step forget_query [OF t'(4)] unreferencedI [OF inv, of t' st] by simp
  next
    case False
    then show ?thesis
      using step by (simp add: message_step_closes [OF inv st] react_ended_by [OF k] apply_reaction_def)
  qed
qed

text \<open>A REJ from the peer for the connection of the samples.\<close>

definition rej_packet :: "rte_mbuf \<times> ctcm_direction" where
  "rej_packet = (sample [10, 0, 0, 2] [10, 0, 0, 1] 0x12 (ids_body [0, 0, 0, 9] [0, 0, 0, 7]), CTCM_FROM_NET)"

lemma rej_packet_carries:
  "carries sample_dpdk sample_parser rej_packet (ids_msg Kind_REJ CTCM_FROM_NET 7 (0x0200000a, 9))"
  by (simp add: rej_packet_def sample_eval del: of_le_bytes.simps)

definition one_connection :: tracker where
  "one_connection = with_connection new_tracker 7 (0x0200000a, 9) 0x102 0x203"

lemma one_connection_run: "run (packet_step sample_dpdk sample_parser) active_packets new_tracker = Inr one_connection"
  unfolding one_connection_def run_packets [OF active_packets_carry]
  by (rule active_messages [OF tracker_inv_new fresh_in_new_tracker])

lemma one_connection_inv: "tracker_inv one_connection"
  by (rule packet_machine.run_from_init_inv [OF one_connection_run])

lemma one_connection_facts [simp]:
  "local_map one_connection 7 = Some 0" "remote_map one_connection (0x0200000a, 9) = Some 0"
  "fstate (heap one_connection 0) = ESTABLISHED" "in_qpn_map (heap one_connection 0)"
  "get_flow_key (heap one_connection 0) = (0x0200000a, 0x203)"
  "get_source_qpn one_connection (0x0200000a, 0x203) = 0x102"
  by (simp_all add: one_connection_def with_connection_def new_tracker_def get_flow_key_def get_source_qpn_def)

theorem forget_flow_witness:
  "\<exists>t'. packet_step sample_dpdk sample_parser rej_packet one_connection = Inr t' \<and>
     local_map t' 7 = None \<and> remote_map t' (0x0200000a, 9) = None \<and>
     get_source_qpn t' (0x0200000a, 0x203) = 0"
  using forget_flow [OF one_connection_inv rej_packet_carries, of 0] by (auto simp: ids_msg_def closes_flow_def)

lemma closing_known:
  assumes inv: "tracker_inv t" and lid: "lid \<noteq> 0" "local_map t lid = Some st" and live: "in_qpn_map (heap t st)"
  shows "message_step (ids_msg Kind_DREQ d lid p) t = Inr (upd_flow t st (fstate_update
    (\<lambda>_. case d of CTCM_FROM_HOST \<Rightarrow> DREQ_SENT | CTCM_FROM_NET \<Rightarrow> DREQ_RCVD)))"
proof -
  have "fstate (heap t st) \<in> live_states"
    using mappedD(1) [OF inv] local_mapD(1) [OF inv lid(2)] live by (simp add: mapped_def)
  then show ?thesis
    using lid by (cases d) (auto simp: message_step_known ids_msg_def react_def apply_reaction_def live_states_def)
qed

lemma teardown_messages:
  assumes inv: "tracker_inv t" and lid: "lid \<noteq> 0" "local_map t lid = Some st" and live: "in_qpn_map (heap t st)"
  shows "\<exists>t'. run message_step [ids_msg Kind_DREQ d1 lid p1, ids_msg Kind_DREP d2 lid peer] t = Inr t' \<and>
    local_map t' = (local_map t)(lid := None) \<and> remote_map t' = (remote_map t)(peer := None) \<and>
    qpn_map t' = (qpn_map t)(get_flow_key (heap t st) := None)"
proof -
  let ?s = "case d1 of CTCM_FROM_HOST \<Rightarrow> DREQ_SENT | CTCM_FROM_NET \<Rightarrow> DREQ_RCVD"
  let ?t1 = "upd_flow t st (fstate_update (\<lambda>_. ?s))"
  have s1: "message_step (ids_msg Kind_DREQ d1 lid p1) t = Inr ?t1" by (rule closing_known [OF assms])
  have "tracker_inv ?t1" by (rule message_step_inv [OF inv s1])
  moreover have "react d2 Kind_DREP (fstate (heap ?t1 st)) = Forget"
    by (cases d1; cases d2) (simp_all add: react_def)
  ultimately show ?thesis
    using s1 forget_known [of ?t1 "ids_msg Kind_DREP d2 lid peer" st] lid live
    by (simp add: ids_msg_def get_flow_key_def)
qed


definition teardown_packets :: "(rte_mbuf \<times> ctcm_direction) list" where
  "teardown_packets =
     [(sample [10, 0, 0, 2] [10, 0, 0, 1] 0x15 (ids_body [0, 0, 0, 9] [0, 0, 0, 7]), CTCM_FROM_NET),
      (sample [10, 0, 0, 1] [10, 0, 0, 2] 0x16 (ids_body [0, 0, 0, 7] [0, 0, 0, 9]), CTCM_FROM_HOST)]"

lemma teardown_packets_carry:
  "list_all2 (carries sample_dpdk sample_parser) teardown_packets
     [ids_msg Kind_DREQ CTCM_FROM_NET 7 (0x0200000a, 9), ids_msg Kind_DREP CTCM_FROM_HOST 7 (0x0200000a, 9)]"
  by (simp add: teardown_packets_def sample_eval del: of_le_bytes.simps)


text \<open>
  C11: No leak over the life of a new connection (its identifier, peer key and query key are in no table): the packets of an open (active or passive) followed by
  those of a tear-down that names the same identifiers bring the three tables back to what
  they were before.
\<close>

theorem connection_leaves_no_trace:
  assumes inv: "tracker_inv t" and fresh: "fresh_connection t lid peer q rq"
    and opened: "list_all2 (carries env self) es
        [req_msg CTCM_FROM_HOST lid peer0 q, rep_msg CTCM_FROM_NET lid peer rq,
         ids_msg Kind_RTU CTCM_FROM_HOST lid peer1] \<or>
      list_all2 (carries env self) es
        [req_msg CTCM_FROM_NET 0 peer rq, rep_msg CTCM_FROM_HOST lid peer q,
         ids_msg Kind_RTU CTCM_FROM_NET lid peer1]"
    and closed: "list_all2 (carries env self) es' [ids_msg Kind_DREQ d1 lid p1, ids_msg Kind_DREP d2 lid peer]"
  shows "\<exists>t'. run (packet_step env self) (es @ es') t = Inr t' \<and>
    local_map t' = local_map t \<and> remote_map t' = remote_map t \<and> qpn_map t' = qpn_map t"
proof -
  let ?t1 = "with_connection t lid peer q rq"
  have r1: "run (packet_step env self) es t = Inr ?t1" by (rule opened_run [OF inv fresh opened])
  have i1: "tracker_inv ?t1" by (rule packet_machine.run_inv [OF inv r1])
  have "lid \<noteq> 0" "local_map ?t1 lid = Some (next_ptr t)" "in_qpn_map (heap ?t1 (next_ptr t))"
    "get_flow_key (heap ?t1 (next_ptr t)) = (fst peer, rq)"
    using fresh by (simp_all add: fresh_connection_def with_connection_def get_flow_key_def)
  then show ?thesis
    using teardown_messages [OF i1, of lid "next_ptr t" d1 p1 d2 peer] fresh r1 run_packets [OF closed, of ?t1]
    by (auto simp: run_append fresh_connection_def with_connection_def fun_upd_idem)
qed

theorem connection_leaves_no_trace_witness:
  "\<exists>t'. run (packet_step sample_dpdk sample_parser) (passive_packets @ teardown_packets) new_tracker = Inr t' \<and>
     local_map t' = Map.empty \<and> remote_map t' = Map.empty \<and> qpn_map t' = Map.empty"
  using connection_leaves_no_trace [OF tracker_inv_new fresh_in_new_tracker
      disjI2 [OF passive_packets_carry] teardown_packets_carry]
  by (simp add: new_tracker_def)

end
