(* ===== verification/Tracker_Props.thy ===== *)
theory Tracker_Props
  imports Lifecycle
begin

text \<open>
  What the tracker guarantees whatever packets it is given: it implements the state machine of
  \<open>Tracker_Msg\<close>, never reads outside a packet that holds a whole message, keeps the invariant, answers queries
  exactly for the flows it has registered, and changes one flow per packet, forward only.
\<close>

section \<open>Refinement\<close>

lemma assert_res_InlD: "assert_res b = Inl e \<Longrightarrow> e = Assertion_failed"
  by (simp add: assert_res_eq_Inl_iff)

lemma table_errors:
  "add_new_flow t lid rid = Inl e \<Longrightarrow> e = Assertion_failed"
  "get_flow t lid rid = Inl e \<Longrightarrow> e = Assertion_failed"
  "erase_flow t lid rid = Inl e \<Longrightarrow> e = Assertion_failed"
proof -
  show add: "add_new_flow t lid rid = Inl e \<Longrightarrow> e = Assertion_failed" for t
    by (auto simp: add_new_flow_def link_local_def link_remote_def Let_def bind_res_eq_Inl_iff
        assert_res_eq_Inl_iff split: option.splits if_splits)
  show "get_flow t lid rid = Inl e \<Longrightarrow> e = Assertion_failed"
    using add by (auto simp: get_flow_def bind_res_eq_Inl_iff assert_res_eq_Inl_iff split: option.splits)
  show "erase_flow t lid rid = Inl e \<Longrightarrow> e = Assertion_failed"
    by (auto simp: erase_flow_def Let_def bind_res_eq_Inl_iff assert_res_eq_Inl_iff split: option.splits)
qed

lemma apply_reaction_error: "apply_reaction m r t st = Inl e \<Longrightarrow> e = Assertion_failed"
  by (cases r; cases "msg_dir m")
    (auto simp: apply_reaction_def bind_res_eq_Inl_iff dest: table_errors assert_res_InlD)

lemma message_step_error: "message_step m t = Inl e \<Longrightarrow> e = Assertion_failed"
  by (auto simp: message_step_def bind_res_eq_Inl_iff dest: table_errors apply_reaction_error)

text \<open>
  C1: Refinement: on every packet that holds a whole CM message, in either direction
  and in any state of the tables, \<^verbatim>\<open>process\<close> behaves as the table-driven machine does on the message the
  packet carries, aborts included, and a packet with another attribute changes nothing.
\<close>

theorem process_implements_machine:
  assumes "complete_cm_packet env self p"
  shows "\<exists>dm. decode env self p dir = Inr dm \<and>
    process env self p dir t = (case dm of None \<Rightarrow> Inr t | Some m \<Rightarrow> message_step m t)"
  using decode_complete [OF assms] process_decode by blast

definition req_from_host :: rte_mbuf where
  "req_from_host = sample [10, 0, 0, 1] [10, 0, 0, 2] 0x10 (req_body [0, 0, 0, 7] [0, 1, 2])"

lemma req_from_host_complete: "complete_cm_packet sample_dpdk sample_parser req_from_host"
  unfolding req_from_host_def by (rule complete_sample) (simp_all add: req_body_def)

lemma req_from_host_decode:
  "decode sample_dpdk sample_parser req_from_host CTCM_FROM_HOST = Inr (Some
     \<lparr>msg_dir = CTCM_FROM_HOST, msg_kind = Kind_REQ, msg_id = 7, msg_peer = (0x0200000a, 0), msg_qpn = 0x102\<rparr>)"
proof -
  have "kind_of (ucast (0x10 :: byte)) = Some Kind_REQ" by (simp add: kind_of_def cm_attr_defs)
  moreover have "(of_le_bytes [10, 0, 0, 2] :: u32) = 0x0200000a" by code_simp
  ultimately show ?thesis
    by (simp add: req_from_host_def decode_sample req_body_def sample_message_def body_row_def be_nat_def)
qed

theorem process_implements_machine_witness:
  "process sample_dpdk sample_parser req_from_host CTCM_FROM_HOST new_tracker =
     message_step \<lparr>msg_dir = CTCM_FROM_HOST, msg_kind = Kind_REQ, msg_id = 7,
       msg_peer = (0x0200000a, 0), msg_qpn = 0x102\<rparr> new_tracker"
  using process_implements_machine [OF req_from_host_complete, of CTCM_FROM_HOST new_tracker]
  by (simp add: req_from_host_decode)

text \<open>
  C19: Memory safety of packet processing: while the packet's buffer reaches the IPv4 header
  and byte 60 of the message, no handler reads outside it; the only way
  \<^verbatim>\<open>process\<close> can fail is an assertion.
\<close>

theorem process_stays_in_bounds:
  assumes "complete_cm_packet env self p" "process env self p dir t = Inl e"
  shows "e = Assertion_failed"
proof -
  obtain dm where "process env self p dir t = (case dm of None \<Rightarrow> Inr t | Some m \<Rightarrow> message_step m t)"
    using decode_complete [OF assms(1)] process_decode by blast
  then show ?thesis using assms(2) message_step_error by (cases dm) auto
qed

text \<open>A REQ from the host whose communication identifier is zero.\<close>

definition zero_req_from_host :: rte_mbuf where
  "zero_req_from_host = sample [10, 0, 0, 1] [10, 0, 0, 2] 0x10 (req_body [0, 0, 0, 0] [0, 1, 2])"

lemma get_flow_unnamed: "\<not> cm_flow_key_bool rid \<Longrightarrow> get_flow t 0 rid = Inl Assertion_failed"
  by (simp add: get_flow_def)

lemma message_step_unnamed:
  assumes "msg_id m = 0" "\<not> cm_flow_key_bool (lookup_peer m)"
  shows "message_step m t = Inl Assertion_failed"
  using assms by (simp add: message_step_def get_flow_unnamed)

lemma zero_req_process:
  "process sample_dpdk sample_parser zero_req_from_host CTCM_FROM_HOST t = Inl Assertion_failed"
proof -
  have "kind_of (ucast (0x10 :: byte)) = Some Kind_REQ" by (simp add: kind_of_def cm_attr_defs)
  then have "decode sample_dpdk sample_parser zero_req_from_host CTCM_FROM_HOST =
      Inr (Some (sample_message CTCM_FROM_HOST [10, 0, 0, 1] [10, 0, 0, 2] Kind_REQ
        (req_body [0, 0, 0, 0] [0, 1, 2])))"
    by (simp add: zero_req_from_host_def decode_sample req_body_def)
  then show ?thesis
    by (simp add: process_decode message_step_unnamed sample_message_def body_row_def req_body_def
        be_nat_def lookup_peer_def)
qed

theorem process_stays_in_bounds_witness:
  "process sample_dpdk sample_parser zero_req_from_host CTCM_FROM_HOST new_tracker = Inl Assertion_failed \<and>
   complete_cm_packet sample_dpdk sample_parser zero_req_from_host \<and> Assertion_failed \<noteq> Out_of_bounds"
proof -
  have "complete_cm_packet sample_dpdk sample_parser zero_req_from_host"
    unfolding zero_req_from_host_def by (rule complete_sample) (simp_all add: req_body_def)
  then show ?thesis
    using process_stays_in_bounds [of sample_dpdk sample_parser zero_req_from_host CTCM_FROM_HOST new_tracker]
      zero_req_process [of new_tracker]
    by simp
qed

section \<open>Reachable states\<close>

abbreviation tracked :: "dpdk \<Rightarrow> parser_context \<Rightarrow> tracker \<Rightarrow> bool" where
  "tracked env self \<equiv> reachable (packet_step env self) new_tracker"

lemma req_from_host_reachable:
  obtains t where "process sample_dpdk sample_parser req_from_host CTCM_FROM_HOST new_tracker = Inr t"
    "tracked sample_dpdk sample_parser t" "local_map t 7 = Some 0" "fstate (heap t 0) = REQ_SENT"
    "local_qpn (heap t 0) = 0x102" "next_ptr t = 1"
proof -
  obtain t where t: "process sample_dpdk sample_parser req_from_host CTCM_FROM_HOST new_tracker = Inr t"
    "local_map t 7 = Some 0" "fstate (heap t 0) = REQ_SENT" "local_qpn (heap t 0) = 0x102" "next_ptr t = 1"
    using process_decode [OF req_from_host_decode, of new_tracker]
    by (simp add: message_step_def lookup_peer_def get_flow_def new_tracker_def add_new_flow_def
        link_local_def link_remote_def cm_flow_key_bool_def cm_flow_key_null_def react_def apply_reaction_def
        upd_flow_def Let_def new_flow_state_def)
  then have "tracked sample_dpdk sample_parser t"
    using reach_step [OF reach_init, of "packet_step sample_dpdk sample_parser" "(req_from_host, CTCM_FROM_HOST)"]
    by (simp add: packet_step_def)
  then show thesis using that t by blast
qed

lemma one_connection_reachable: "tracked sample_dpdk sample_parser one_connection"
  using one_connection_run by (auto simp: reachable_iff_run)

text \<open>
  C3: Queries are sound and complete: in every reachable state \<^verbatim>\<open>get_source_qpn\<close> answers a
  non-zero QPN for a peer address and QPN exactly when some flow, found in the table under its
  own local identifier and marked as registered, has that peer address, that remote QPN and this
  local QPN; such a flow is established or closing and is the only one.
\<close>

theorem query_sound_complete:
  assumes "tracked env self t" "q \<noteq> 0"
  shows "get_source_qpn t k = q \<longleftrightarrow>
    (\<exists>a lid. local_map t lid = Some a \<and> local_id (heap t a) = lid \<and> in_qpn_map (heap t a) \<and>
       get_flow_key (heap t a) = k \<and> local_qpn (heap t a) = q \<and> fstate (heap t a) \<in> live_states \<and>
       (\<forall>b lid'. local_map t lid' = Some b \<and> in_qpn_map (heap t b) \<and> get_flow_key (heap t b) = k \<longrightarrow> b = a))"
  (is "_ \<longleftrightarrow> ?R")
proof
  have inv: "tracker_inv t" by (rule packet_machine.reachable_inv [OF assms(1)])
  have mapped: "mapped t b" if "local_map t lid' = Some b" "in_qpn_map (heap t b)" for b lid'
    using that local_mapD(1) [OF inv] by (auto simp: mapped_def)
  show ?R if "get_source_qpn t k = q"
  proof -
    have "qpn_map t k = Some q" using that assms(2) by (simp add: get_source_qpn_def split: option.splits)
    then obtain a where a: "mapped t a" "get_flow_key (heap t a) = k" "local_qpn (heap t a) = q"
      using qpn_mapE [OF inv] by blast
    moreover have "b = a" if "local_map t lid' = Some b" "in_qpn_map (heap t b)" "get_flow_key (heap t b) = k"
      for b lid' using mapped_unique [OF inv mapped [OF that(1,2)] a(1)] that(3) a(2) by simp
    moreover have "in_qpn_map (heap t a)" using a(1) by (simp add: mapped_def)
    ultimately show ?thesis using mappedD(1,5) [OF inv a(1)] by blast
  qed
  show "get_source_qpn t k = q" if ?R
  proof -
    from that obtain a lid where a: "local_map t lid = Some a" "in_qpn_map (heap t a)"
      "get_flow_key (heap t a) = k" "local_qpn (heap t a) = q" by blast
    then have "qpn_map t k = Some q" using mappedD(4) [OF inv mapped [OF a(1,2)]] by simp
    then show ?thesis by (simp add: get_source_qpn_def)
  qed
qed

theorem query_sound_complete_witness:
  "\<exists>a lid. local_map one_connection lid = Some a \<and> in_qpn_map (heap one_connection a) \<and>
     get_flow_key (heap one_connection a) = (0x0200000a, 0x203) \<and> local_qpn (heap one_connection a) = 0x102"
  using query_sound_complete [OF one_connection_reachable, of "0x102" "(0x0200000a, 0x203)"]
  by auto

text \<open>
  The MRA and TIMEWAIT states are dead: no sequence of packets brings a flow into
  any of them, so the switch cases of the handlers for those states never apply.
\<close>

lemma mra_timewait_unreachable:
  assumes "tracked env self t" "a < next_ptr t"
  shows "fstate (heap t a) \<notin> {MRA_REQ_RCVD, MRA_REQ_SENT, MRA_REP_SENT, MRA_REP_RCVD, TIMEWAIT}"
  using tracker_invD(5) [OF packet_machine.reachable_inv [OF assms(1)]] assms(2)
  by (simp add: states_ok_def dead_states_def)

section \<open>One packet, one flow\<close>

text \<open>The state a reaction leaves its flow in.\<close>

fun next_state :: "reaction \<Rightarrow> flow_state_name \<Rightarrow> flow_state_name" where
  "next_state (Requested s) _ = s"
| "next_state (Replied s) _ = s"
| "next_state Established _ = ESTABLISHED"
| "next_state (Closing s) _ = s"
| "next_state Ignore s = s"
| "next_state Forget s = s"

text \<open>
  How the tables may change when one flow object is worked on, and when that object may be created
  first.
\<close>

definition touches_only :: "nat \<Rightarrow> tracker \<Rightarrow> tracker \<Rightarrow> bool" where
  "touches_only st t t' \<longleftrightarrow> next_ptr t' = next_ptr t \<and> st < next_ptr t \<and>
     (\<forall>a. a < next_ptr t \<longrightarrow> a \<noteq> st \<longrightarrow> heap t' a = heap t a) \<and>
     (\<forall>k. k \<noteq> get_flow_key (heap t' st) \<longrightarrow> qpn_map t' k = qpn_map t k)"

definition works_on :: "nat \<Rightarrow> tracker \<Rightarrow> tracker \<Rightarrow> bool" where
  "works_on st t t' \<longleftrightarrow>
     (next_ptr t' = next_ptr t \<and> st < next_ptr t \<or> next_ptr t' = Suc (next_ptr t) \<and> st = next_ptr t) \<and>
     (\<forall>a. a < next_ptr t \<longrightarrow> a \<noteq> st \<longrightarrow> heap t' a = heap t a) \<and>
     (\<forall>k. k \<noteq> get_flow_key (heap t' st) \<longrightarrow> qpn_map t' k = qpn_map t k)"

lemma add_new_flow_existing:
  assumes "local_map t lid = Some st \<or> lid = 0 \<and> local_map t 0 = None \<and> remote_map t rid = Some st"
    and "add_new_flow t lid rid = Inr (t', x)"
  shows "x = st \<and> next_ptr t' = next_ptr t \<and> qpn_map t' = qpn_map t \<and> only_ids (heap t st) (heap t' st) \<and>
    (\<forall>a. a \<noteq> st \<longrightarrow> heap t' a = heap t a)"
  using assms
  by (auto simp: add_new_flow_def link_local_def link_remote_def Let_def res_Inr_iffs only_ids_def
      split: option.splits if_splits)

lemma erase_flow_frame:
  assumes inv: "tracker_inv t" and found: "(if lid \<noteq> 0 then local_map t lid else remote_map t rid) = Some st"
    and erase: "erase_flow t lid rid = Inr t'"
  shows "touches_only st t t' \<and> fstate (heap t' st) = fstate (heap t st)"
  using inv erase
proof (cases rule: erase_flow_cases)
  case (known st' t1)
  have st: "st < next_ptr t"
    using found local_mapD(1) [OF inv] remote_mapD(1) [OF inv] by (auto split: if_splits)
  have [simp]: "st' = st" using known(1) found by simp
  show ?thesis
  proof (cases "mapped t st")
    case True
    then show ?thesis
      using on_disconnected_inv(2) [OF inv True] known st
      by (simp add: touches_only_def get_flow_key_def)
  qed (use known st in \<open>simp add: touches_only_def\<close>)
qed (use found in simp)

lemma on_established_frame:
  "st < next_ptr t \<Longrightarrow> touches_only st t (on_established t st) \<and>
     fstate (heap (on_established t st) st) = fstate (heap t st)"
  by (auto simp: on_established_def Let_def touches_only_def flow_value_def get_flow_key_def
      split: option.splits)

lemma upd_flow_frame:
  "st < next_ptr t \<Longrightarrow> touches_only st t (upd_flow t st f) \<and>
     fstate (heap (upd_flow t st f) st) = fstate (f (heap t st))"
  by (simp add: touches_only_def)

lemma touches_only_trans:
  "touches_only st t t1 \<Longrightarrow> touches_only st t1 t' \<Longrightarrow>
     get_flow_key (heap t1 st) = get_flow_key (heap t' st) \<or> qpn_map t1 = qpn_map t \<Longrightarrow> touches_only st t t'"
  unfolding touches_only_def by (simp, metis)

lemma replied_frame:
  assumes st: "st < next_ptr t" and inv: "tracker_inv t"
    and found: "if msg_id m \<noteq> 0 then local_map t (msg_id m) = Some st else remote_map t (msg_peer m) = Some st"
    and app: "apply_reaction m (Replied s) t st = Inr t'"
  shows "touches_only st t t' \<and> fstate (heap t' st) = s"
proof -
  obtain t2 x where t2: "add_new_flow t (msg_id m) (msg_peer m) = Inr (t2, x)"
    and t': "t' = upd_flow t2 st (\<lambda>f. set_qpn (msg_dir m) (msg_qpn m) (f\<lparr>fstate := s\<rparr>))"
    using app by (auto simp: replied_eq [OF st] elim!: bind_res_InrE)
  have "local_map t (msg_id m) = Some st \<or> msg_id m = 0 \<and> local_map t 0 = None \<and> remote_map t (msg_peer m) = Some st"
    using found inv by (auto split: if_splits)
  from add_new_flow_existing [OF this t2] show ?thesis
    using t' st by (cases "msg_dir m") (auto simp: touches_only_def only_ids_def)
qed

lemma apply_reaction_frame:
  assumes inv: "tracker_inv t" and st: "st < next_ptr t"
    and found: "if msg_id m \<noteq> 0 then local_map t (msg_id m) = Some st else remote_map t (msg_peer m) = Some st"
    and app: "apply_reaction m r t st = Inr t'"
  shows "touches_only st t t' \<and> fstate (heap t' st) = next_state r (fstate (heap t st))"
proof (cases r)
  case (Requested s)
  then have "t' = upd_flow t st (\<lambda>f. set_qpn (msg_dir m) (msg_qpn m) (f\<lparr>fstate := s\<rparr>))"
    using app by (auto simp: apply_reaction_def elim!: bind_res_InrE)
  then show ?thesis using upd_flow_frame [OF st] Requested by (cases "msg_dir m") simp_all
next
  case (Replied s)
  then show ?thesis using replied_frame [OF st inv found] app by simp
next
  case Established
  let ?t1 = "upd_flow t st (fstate_update (\<lambda>_. ESTABLISHED))"
  have "t' = on_established ?t1 st" using app Established by (simp add: apply_reaction_def)
  then show ?thesis
    using on_established_frame [of st ?t1] upd_flow_frame [OF st] st Established
      touches_only_trans [of st t ?t1 t'] by simp
next
  case Forget
  then show ?thesis
    using erase_flow_frame [OF inv, of "msg_id m" "msg_peer m" st t'] found app
    by (simp add: apply_reaction_def split: if_splits)
qed (use app st upd_flow_frame [OF st] in \<open>auto simp: apply_reaction_def touches_only_def\<close>)

lemma works_onE:
  assumes "works_on st t t'" "a < next_ptr t'"
  obtains "a = st" | "a < next_ptr t" "a \<noteq> st" "heap t' a = heap t a"
  using assms unfolding works_on_def by (metis less_SucE)

lemma works_on_create:
  assumes "table_ext t t1 st" "touches_only st t1 t'"
  shows "works_on st t t'"
proof -
  have e: "next_ptr t \<le> next_ptr t1" "st < next_ptr t1" "qpn_map t1 = qpn_map t"
    "\<And>a. a < next_ptr t1 \<Longrightarrow> a \<noteq> st \<Longrightarrow> a < next_ptr t \<and> heap t1 a = heap t a"
    using assms(1) by (auto simp: table_ext_def)
  have "next_ptr t1 \<le> Suc (next_ptr t)"
  proof (rule ccontr)
    assume "\<not> ?thesis"
    then show False using e(4) [of "next_ptr t"] e(4) [of "Suc (next_ptr t)"] by (cases "st = next_ptr t") auto
  qed
  moreover have "st = next_ptr t" if "next_ptr t < next_ptr t1" using e(4) [of "next_ptr t"] that by auto
  ultimately have "next_ptr t1 = next_ptr t \<and> st < next_ptr t \<or> next_ptr t1 = Suc (next_ptr t) \<and> st = next_ptr t"
    using e(1,2) by linarith
  then show ?thesis using e assms(2) by (auto simp: works_on_def touches_only_def)
qed

lemma message_stepE:
  assumes "message_step m t = Inr t'"
  obtains t1 st where "get_flow t (msg_id m) (lookup_peer m) = Inr (t1, st)"
    "apply_reaction m (react (msg_dir m) (msg_kind m) (fstate (heap t1 st))) t1 st = Inr t'"
  using assms by (auto simp: message_step_def elim!: bind_res_InrE)

lemma found_by_message:
  assumes "tracker_inv t" "get_flow t (msg_id m) (lookup_peer m) = Inr (t1, st)"
  shows "if msg_id m \<noteq> 0 then local_map t1 (msg_id m) = Some st else remote_map t1 (msg_peer m) = Some st"
  using get_flow_spec [OF assms] by (auto simp: lookup_peer_def split: if_splits)

lemma message_works_on:
  assumes inv: "tracker_inv t" and get: "get_flow t (msg_id m) (lookup_peer m) = Inr (t1, st)"
    and app: "apply_reaction m r t1 st = Inr t'"
  shows "works_on st t t' \<and> fstate (heap t' st) = next_state r (fstate (object_at t st))"
proof -
  note g = get_flow_spec [OF inv get]
  have "touches_only st t1 t' \<and> fstate (heap t' st) = next_state r (fstate (heap t1 st))"
    using g by (intro apply_reaction_frame [OF _ _ found_by_message [OF inv get] app]) (auto simp: table_ext_def)
  moreover have "fstate (heap t1 st) = fstate (object_at t st)" using g by (simp add: table_ext_def only_ids_def)
  ultimately show ?thesis using works_on_create [of t t1 st t'] g by metis
qed

lemma message_step_frame:
  assumes inv: "tracker_inv t" and step: "message_step m t = Inr t'"
  shows "\<exists>st. works_on st t t' \<and>
    fstate (heap t' st) = next_state (react (msg_dir m) (msg_kind m) (fstate (object_at t st)))
      (fstate (object_at t st))"
  using step
proof (rule message_stepE)
  fix t1 st
  assume get: "get_flow t (msg_id m) (lookup_peer m) = Inr (t1, st)"
    and app: "apply_reaction m (react (msg_dir m) (msg_kind m) (fstate (heap t1 st))) t1 st = Inr t'"
  have "fstate (heap t1 st) = fstate (object_at t st)"
    using get_flow_spec [OF inv get] by (simp add: table_ext_def only_ids_def)
  then show ?thesis using message_works_on [OF inv get app] by auto
qed

text \<open>
  C16: Isolation: processing a packet, of either direction, works on one flow object, which it may
  create; every other flow object keeps all its fields, at most one object is created, and
  only the query entry of that flow's peer address and QPN can change.
\<close>

theorem packet_works_on_one_flow:
  assumes "tracked env self t" "process env self p dir t = Inr t'"
  shows "t' = t \<or> (\<exists>st. works_on st t t')"
  using process_simulates [OF assms(2)] message_step_frame [OF packet_machine.reachable_inv [OF assms(1)]]
  by blast

theorem packet_works_on_one_flow_witness:
  "\<exists>t. process sample_dpdk sample_parser req_from_host CTCM_FROM_HOST new_tracker = Inr t \<and>
     next_ptr t = 1 \<and> (\<exists>st. works_on st new_tracker t)"
proof -
  obtain t where t: "process sample_dpdk sample_parser req_from_host CTCM_FROM_HOST new_tracker = Inr t"
    "next_ptr t = 1"
    by (rule req_from_host_reachable)
  moreover have "t \<noteq> new_tracker" using t(2) by (auto simp: new_tracker_def)
  ultimately show ?thesis
    using packet_works_on_one_flow [OF reach_init, of sample_dpdk sample_parser req_from_host CTCM_FROM_HOST t]
    by blast
qed

section \<open>The invariant and the size of the tables\<close>

text \<open>Every entry of a table belongs to an object of its own, so the objects bound the tables.\<close>

lemma table_sizes:
  assumes inv: "tracker_inv t"
  shows "finite (dom (local_map t)) \<and> card (dom (local_map t)) \<le> next_ptr t"
    and "finite (dom (remote_map t)) \<and> card (dom (remote_map t)) \<le> next_ptr t"
    and "finite (dom (qpn_map t)) \<and> card (dom (qpn_map t)) \<le> card (dom (local_map t))"
proof -
  show l: "finite (dom (local_map t)) \<and> card (dom (local_map t)) \<le> next_ptr t"
    using local_mapD [OF inv] by (intro card_dom_le [where f = "\<lambda>a. local_id (heap t a)"]) simp
  show "finite (dom (remote_map t)) \<and> card (dom (remote_map t)) \<le> next_ptr t"
    using remote_mapD [OF inv] by (intro card_dom_le [where f = "\<lambda>a. remote_id (heap t a)"]) blast
  have q: "dom (qpn_map t) \<subseteq> (\<lambda>l. get_flow_key (heap t (the (local_map t l)))) ` dom (local_map t)"
  proof
    fix k
    assume "k \<in> dom (qpn_map t)"
    then obtain a where "mapped t a" "get_flow_key (heap t a) = k" using qpn_mapE [OF inv] by blast
    then show "k \<in> (\<lambda>l. get_flow_key (heap t (the (local_map t l)))) ` dom (local_map t)"
      using mappedD(5) [OF inv] by (force intro: image_eqI [of _ _ "local_id (heap t a)"])
  qed
  show "finite (dom (qpn_map t)) \<and> card (dom (qpn_map t)) \<le> card (dom (local_map t))"
    using l finite_subset [OF q] surj_card_le [OF _ q] by simp
qed

lemma packet_allocates:
  assumes "tracker_inv t" "packet_step env self e t = Inr t'"
  shows "next_ptr t' \<le> Suc (next_ptr t)"
  using process_simulates [OF assms(2) [unfolded packet_step_def]] message_step_frame [OF assms(1)]
  by (fastforce simp: works_on_def)

lemma run_allocates:
  assumes "tracker_inv t" "run (packet_step env self) es t = Inr t'"
  shows "next_ptr t' \<le> next_ptr t + length es"
  using assms
proof (induction es arbitrary: t)
  case (Cons e es)
  then obtain t1 where "packet_step env self e t = Inr t1" "run (packet_step env self) es t1 = Inr t'"
    by (auto elim: bind_res_InrE)
  then show ?case
    using Cons packet_allocates [of t env self e t1] packet_machine.step_inv [of t env self e t1] by fastforce
qed simp

text \<open>
  C4: Invariant of all reachable states: after any sequence of packets in either direction, every
  entry of the two identifier tables points to a flow object that carries that (non-zero)
  identifier, the query table holds exactly one entry per flow whose \<^verbatim>\<open>in_qpn_map\<close> flag is set, such a
  flow is established or being closed, has two non-zero QPNs and is registered
  under its local identifier.  The tables are finite: at most one object was created per packet, neither identifier
  table has more entries than there are objects, and the query table has no more than the table of local identifiers.
\<close>

theorem reachable_tracker_inv:
  assumes "run (packet_step env self) es new_tracker = Inr t"
  shows "tracker_inv t \<and> next_ptr t \<le> length es \<and>
    finite (dom (local_map t)) \<and> card (dom (local_map t)) \<le> next_ptr t \<and>
    finite (dom (remote_map t)) \<and> card (dom (remote_map t)) \<le> next_ptr t \<and>
    finite (dom (qpn_map t)) \<and> card (dom (qpn_map t)) \<le> card (dom (local_map t))"
proof -
  have inv: "tracker_inv t" by (rule packet_machine.run_from_init_inv [OF assms])
  have "next_ptr t \<le> length es" using run_allocates [OF tracker_inv_new assms] by (simp add: new_tracker_def)
  then show ?thesis using inv table_sizes [OF inv] by blast
qed

theorem reachable_tracker_inv_witness:
  "\<exists>t. process sample_dpdk sample_parser req_from_host CTCM_FROM_HOST new_tracker = Inr t \<and>
     local_map t 7 = Some 0 \<and> fstate (heap t 0) = REQ_SENT \<and> tracker_inv t \<and> card (dom (local_map t)) \<le> 1"
proof -
  obtain t where t: "process sample_dpdk sample_parser req_from_host CTCM_FROM_HOST new_tracker = Inr t"
    "local_map t 7 = Some 0" "fstate (heap t 0) = REQ_SENT"
    by (rule req_from_host_reachable)
  then have "run (packet_step sample_dpdk sample_parser) [(req_from_host, CTCM_FROM_HOST)] new_tracker = Inr t"
    by (simp add: packet_step_def)
  from reachable_tracker_inv [OF this] show ?thesis using t by auto
qed

section \<open>The state machine of a flow\<close>

text \<open>The transitions of a flow, by direction and kind of the message that causes them.\<close>

inductive flow_transition :: "ctcm_direction \<Rightarrow> cm_kind \<Rightarrow> flow_state_name \<Rightarrow> flow_state_name \<Rightarrow> bool" where
  ft_req_out: "flow_transition CTCM_FROM_HOST Kind_REQ IDLE REQ_SENT"
| ft_req_in: "flow_transition CTCM_FROM_NET Kind_REQ IDLE REQ_RCVD"
| ft_rep_out: "flow_transition CTCM_FROM_HOST Kind_REP REQ_RCVD REP_SENT"
| ft_rep_in: "flow_transition CTCM_FROM_NET Kind_REP REQ_SENT REP_RCVD"
| ft_rtu_out: "flow_transition CTCM_FROM_HOST Kind_RTU REP_RCVD ESTABLISHED"
| ft_rtu_in: "flow_transition CTCM_FROM_NET Kind_RTU REP_SENT ESTABLISHED"
| ft_dreq_out: "s \<in> {IDLE, ESTABLISHED, DREQ_RCVD} \<Longrightarrow> flow_transition CTCM_FROM_HOST Kind_DREQ s DREQ_SENT"
| ft_dreq_in: "s \<in> {REP_SENT, ESTABLISHED, DREQ_SENT} \<Longrightarrow> flow_transition CTCM_FROM_NET Kind_DREQ s DREQ_RCVD"

inductive_cases flow_transitionE: "flow_transition dir k s s'"

lemma next_state_transition:
  "s \<notin> dead_states \<Longrightarrow> next_state (react dir k s) s = s \<or> flow_transition dir k s (next_state (react dir k s) s)"
  by (cases dir; cases k; cases s) (auto simp: react_def dead_states_def intro: flow_transition.intros)

lemma message_step_transition:
  assumes inv: "tracker_inv t" and step: "message_step m t = Inr t'" and a: "a < next_ptr t"
  shows "fstate (heap t' a) = fstate (heap t a) \<or>
    flow_transition (msg_dir m) (msg_kind m) (fstate (heap t a)) (fstate (heap t' a))"
proof -
  obtain st where st: "works_on st t t'"
    "fstate (heap t' st) = next_state (react (msg_dir m) (msg_kind m) (fstate (object_at t st)))
      (fstate (object_at t st))"
    using message_step_frame [OF inv step] by blast
  show ?thesis
  proof (cases "a = st")
    case True
    have "fstate (heap t a) \<notin> dead_states" using tracker_invD(5) [OF inv] a by (simp add: states_ok_def)
    then show ?thesis
      using next_state_transition [of "fstate (heap t a)" "msg_dir m" "msg_kind m"] st(2) True a
      by (simp add: object_at_def)
  qed (use st(1) a in \<open>simp add: works_on_def\<close>)
qed

lemma packet_transition:
  assumes "tracker_inv t" "process env self p dir t = Inr t'" "a < next_ptr t"
  shows "fstate (heap t' a) = fstate (heap t a) \<or>
    (\<exists>k. flow_transition dir k (fstate (heap t a)) (fstate (heap t' a)))"
  using process_simulates [OF assms(2)] message_step_transition [OF assms(1) _ assms(3)] by metis

text \<open>
  C14: The CM state machine: in every reachable state, whatever packet arrives, each
  existing flow stays in its state or takes one of the transitions of the protocol that
  belong to the packet's direction.
\<close>

theorem packet_follows_state_machine:
  assumes "tracked env self t" "process env self p dir t = Inr t'" "a < next_ptr t"
  shows "fstate (heap t' a) = fstate (heap t a) \<or>
    (\<exists>k. flow_transition dir k (fstate (heap t a)) (fstate (heap t' a)))"
  by (rule packet_transition [OF packet_machine.reachable_inv [OF assms(1)] assms(2,3)])

lemma one_connection_next [simp]: "next_ptr one_connection = 1"
  by (simp add: one_connection_def with_connection_def new_tracker_def)

lemma one_connection_dreq:
  obtains t' where
    "process sample_dpdk sample_parser (fst (hd teardown_packets)) CTCM_FROM_NET one_connection = Inr t'"
    "fstate (heap t' 0) = DREQ_RCVD"
proof -
  have "decode sample_dpdk sample_parser (fst (hd teardown_packets)) CTCM_FROM_NET =
      Inr (Some (ids_msg Kind_DREQ CTCM_FROM_NET 7 (0x0200000a, 9)))"
    using teardown_packets_carry by (simp add: teardown_packets_def carries_def)
  then show thesis
    using that process_decode closing_known [OF one_connection_inv, of 7 0 CTCM_FROM_NET "(0x0200000a, 9)"]
    by simp
qed

theorem packet_follows_state_machine_witness:
  "\<exists>t'. process sample_dpdk sample_parser (fst (hd teardown_packets)) CTCM_FROM_NET one_connection = Inr t' \<and>
     (\<exists>k. flow_transition CTCM_FROM_NET k ESTABLISHED (fstate (heap t' 0)))"
proof -
  obtain t' where t': "process sample_dpdk sample_parser (fst (hd teardown_packets)) CTCM_FROM_NET
      one_connection = Inr t'" "fstate (heap t' 0) = DREQ_RCVD"
    by (rule one_connection_dreq)
  then show ?thesis
    using packet_follows_state_machine [OF one_connection_reachable t'(1), of 0] by auto
qed

text \<open>How far a flow has come.\<close>

fun progress :: "flow_state_name \<Rightarrow> nat" where
  "progress IDLE = 0"
| "progress REQ_SENT = 1" | "progress REQ_RCVD = 1"
| "progress MRA_REQ_RCVD = 1" | "progress MRA_REQ_SENT = 1"
| "progress REP_SENT = 2" | "progress REP_RCVD = 2"
| "progress MRA_REP_SENT = 2" | "progress MRA_REP_RCVD = 2"
| "progress ESTABLISHED = 3"
| "progress DREQ_SENT = 4" | "progress DREQ_RCVD = 4" | "progress TIMEWAIT = 5"

lemma progress_mono: "mono progress"
proof (rule monoI)
  fix s s' :: flow_state_name
  assume "s \<le> s'"
  then show "progress s \<le> progress s'"
    by (cases s; cases s') (simp_all add: less_eq_flow_state_name_def)
qed

lemma flow_transition_progress: "flow_transition dir k s s' \<Longrightarrow> progress s \<le> progress s'"
  by (auto elim: flow_transitionE)

lemma step_progress:
  assumes "tracker_inv t" "packet_step env self e t = Inr t'" "a < next_ptr t"
  shows "a < next_ptr t' \<and> progress (fstate (heap t a)) \<le> progress (fstate (heap t' a))"
proof
  show "progress (fstate (heap t a)) \<le> progress (fstate (heap t' a))"
    using packet_transition [OF assms(1) assms(2) [unfolded packet_step_def] assms(3)]
      flow_transition_progress
    by (metis order_refl)
  show "a < next_ptr t'"
    using process_simulates assms(2,3) message_step_frame [OF assms(1)]
    by (fastforce simp: packet_step_def works_on_def)
qed

text \<open>
  C15: A flow never goes back: over any further sequence of packets, an existing flow object
  only moves forward in the protocol (from idle over request, reply and established to closing); a
  retransmitted or forged REQ, REP or RTU cannot reopen or reset a connection that is established.
\<close>

theorem flow_never_goes_back:
  assumes "tracked env self t" "run (packet_step env self) es t = Inr t'" "a < next_ptr t"
  shows "progress (fstate (heap t a)) \<le> progress (fstate (heap t' a))"
proof -
  have "tracker_inv t" by (rule packet_machine.reachable_inv [OF assms(1)])
  then show ?thesis
    using assms(2,3)
  proof (induction es arbitrary: t)
    case (Cons e es)
    obtain t1 where t1: "packet_step env self e t = Inr t1" "run (packet_step env self) es t1 = Inr t'"
      using Cons.prems(2) by (auto elim: bind_res_InrE)
    have "tracker_inv t1" by (rule packet_machine.step_inv [OF Cons.prems(1) t1(1)])
    then show ?case
      using step_progress [OF Cons.prems(1) t1(1) Cons.prems(3)] Cons.IH [OF _ t1(2)] by fastforce
  qed simp
qed

theorem flow_never_goes_back_witness:
  "\<exists>t'. run (packet_step sample_dpdk sample_parser) teardown_packets one_connection = Inr t' \<and>
     3 \<le> progress (fstate (heap t' 0))"
proof -
  obtain t' where t': "run (packet_step sample_dpdk sample_parser) teardown_packets one_connection = Inr t'"
    using teardown_messages [OF one_connection_inv, of 7 0 CTCM_FROM_NET "(0x0200000a, 9)" CTCM_FROM_HOST
        "(0x0200000a, 9)"] run_packets [OF teardown_packets_carry, of one_connection]
    by auto
  then show ?thesis using flow_never_goes_back [OF one_connection_reachable t', of 0] by simp
qed

end
