(* ===== verification/Ctcm.thy ===== *)
theory Ctcm
  imports Tracker_Props
begin

text \<open>
  \<^verbatim>\<open>src/main.cpp\<close>: the library interface.  A context is a parser and a tracker;
  \<open>handle_packet\<close> is what a data path does with each packet, \<^verbatim>\<open>ctcm_parse_packet\<close> followed by
  \<^verbatim>\<open>ctcm_process_packet\<close>.  \<^verbatim>\<open>ctcm_destroy\<close> is modelled in \<open>Sessions\<close>.
\<close>

section \<open>Definitions\<close>

record ctcm_context =
  parser :: parser_context
  ctx_tracker :: tracker

definition ctcm_create :: "dpdk \<Rightarrow> ctcm_context res" where
  "ctcm_create env =
     bind_res (parser_context_ctor env) (\<lambda>p. Inr \<lparr>parser = p, ctx_tracker = new_tracker\<rparr>)"

datatype errno = ENOMEM

definition ctcm_dynfield_offsets_fn ::
    "ctcm_context \<Rightarrow> ctcm_dynfield_offsets \<Rightarrow> ctcm_dynfield_offsets \<times> int \<times> errno option" where
  "ctcm_dynfield_offsets_fn ctcm offsets =
     (if unat (off_size offsets) < sizeof ctcm_dynfield_offsets_struct then (offsets, -1, Some ENOMEM)
      else (offsets\<lparr>off_bth := off_bth (dynfield_offsets (parser ctcm)),
                    off_mad := off_mad (dynfield_offsets (parser ctcm))\<rparr>, 0, None))"

definition ctcm_parse_packet :: "dpdk \<Rightarrow> ctcm_context \<Rightarrow> rte_mbuf \<Rightarrow> (rte_mbuf \<times> int) res" where
  "ctcm_parse_packet env ctcm packet =
     bind_res (parse_packet env (parser ctcm) packet) (\<lambda>(packet, _). Inr (packet, 0))"

definition ctcm_process_packet ::
    "dpdk \<Rightarrow> ctcm_context \<Rightarrow> ctcm_direction \<Rightarrow> rte_mbuf \<Rightarrow> (ctcm_context \<times> int) res" where
  "ctcm_process_packet env ctcm dir packet =
     bind_res (parser_mbuf_mad (parser ctcm) packet) (\<lambda>mad.
       case mad of
         None \<Rightarrow> Inr (ctcm, 0)
       | Some _ \<Rightarrow>
           bind_res (process env (parser ctcm) packet dir (ctx_tracker ctcm)) (\<lambda>t.
             Inr (ctcm\<lparr>ctx_tracker := t\<rparr>, 0)))"

definition ctcm_query_ipv4 :: "ctcm_context \<Rightarrow> in_addr_t \<Rightarrow> u32 \<Rightarrow> u32" where
  "ctcm_query_ipv4 ctcm dest_ip dqpn = get_source_qpn (ctx_tracker ctcm) (dest_ip, dqpn)"

definition handle_packet :: "dpdk \<Rightarrow> rte_mbuf \<times> ctcm_direction \<Rightarrow> ctcm_context \<Rightarrow> ctcm_context res" where
  "handle_packet env e ctcm =
     bind_res (ctcm_parse_packet env ctcm (fst e)) (\<lambda>(p, _).
     bind_res (ctcm_process_packet env ctcm (snd e) p) (\<lambda>(ctcm, _). Inr ctcm))"

section \<open>The parser feeds the tracker\<close>

text \<open>
  A UDP/IPv4 packet whose buffer and length reach the last byte a handler may read, which the
  16-bit offset fields can address.
\<close>

definition roomy :: "dpdk \<Rightarrow> rte_mbuf \<Rightarrow> bool" where
  "roomy env p \<longleftrightarrow> l3_len p \<noteq> 0 \<and> packet_type p AND RTE_PTYPE_L4_MASK env = RTE_PTYPE_L4_UDP env \<and>
     RTE_ETH_IS_IPV4_HDR env (packet_type p) \<and> l2_len p + 20 \<le> length (buf p) \<and>
     udp_at p + 88 \<le> length (buf p) \<and> udp_at p + 28 < pkt_len p \<and> udp_at p + 28 < 65536"

text \<open>All that the parser needs: the buffer reaches the MAD class byte and the packet the MAD header.\<close>

definition reaches_mad :: "dpdk \<Rightarrow> rte_mbuf \<Rightarrow> bool" where
  "reaches_mad env p \<longleftrightarrow> l3_len p \<noteq> 0 \<and> packet_type p AND RTE_PTYPE_L4_MASK env = RTE_PTYPE_L4_UDP env \<and>
     udp_at p + 30 \<le> length (buf p) \<and> udp_at p + 28 < pkt_len p \<and> udp_at p + 28 < 65536"

lemma roomy_reaches_mad: "roomy env p \<Longrightarrow> reaches_mad env p"
  by (simp add: roomy_def reaches_mad_def)

lemma ctcm_parse_packet_eq:
  assumes "reaches_mad env p"
  shows "ctcm_parse_packet env ctcm p = Inr (parsed (parser ctcm) p, 0)"
  using parse_packet_eq [of p env "parser ctcm"] assms by (simp add: reaches_mad_def ctcm_parse_packet_def)

lemma parsed_mad:
  assumes "reaches_mad env p"
  shows "parser_mbuf_mad self (parsed self p) = Inr (if carries_cm p then Some (udp_at p + 28) else None)"
proof -
  have p: "udp_at p + 28 < pkt_len p" "udp_at p + 28 < 65536" using assms by (simp_all add: reaches_mad_def)
  have u: "unat (word_of_nat (udp_at p + 28) :: u16) = udp_at p + 28"
    using p(2) by (simp add: unat_of_nat take_bit_nat_eq_self del: of_nat_add)
  then have "(word_of_nat (udp_at p + 28) :: u16) \<noteq> 0"
    by (metis add_is_0 unat_0 zero_neq_numeral)
  then show ?thesis
    using p(1) u
    by (auto simp: parser_mbuf_mad_def mad_slot.get_hdr_eq parsed_def simp del: of_nat_add)
qed

lemma parsed_complete:
  assumes "roomy env p" "carries_cm p"
  shows "complete_cm_packet env self (parsed self p)"
  using parsed_mad [OF roomy_reaches_mad [OF assms(1)], of self] assms
  by (simp add: complete_cm_packet_def roomy_def parsed_def)

lemma handle_packet_eq:
  assumes "reaches_mad env p"
  shows "handle_packet env (p, dir) ctcm =
    (if carries_cm p
     then bind_res (process env (parser ctcm) (parsed (parser ctcm) p) dir (ctx_tracker ctcm)) (\<lambda>t.
       Inr (ctcm\<lparr>ctx_tracker := t\<rparr>))
     else Inr ctcm)"
  using parsed_mad [OF assms, of "parser ctcm"]
  by (simp add: handle_packet_def ctcm_parse_packet_eq [OF assms] ctcm_process_packet_def bind_res_assoc)

section \<open>Properties\<close>

text \<open>
  C6: End to end: for a UDP/IPv4 packet whose buffer reaches byte 60 of the message (88 bytes from the UDP header; the
  parser itself does not ensure this), parsing and processing it changes the context exactly as the state machine says for the CM message it carries, and not at all if
  it is no CM packet or its attribute is none of REQ, REJ, REP, RTU, DREQ and DREP.
  The only possible failure is an assertion, never a read outside the buffer.
\<close>

theorem handle_packet_spec:
  assumes "roomy env p"
  shows "\<exists>dm. (carries_cm p \<longrightarrow> decode env (parser ctcm) (parsed (parser ctcm) p) dir = Inr dm) \<and>
    (\<not> carries_cm p \<longrightarrow> dm = None) \<and>
    handle_packet env (p, dir) ctcm =
      (case dm of None \<Rightarrow> Inr ctcm
       | Some m \<Rightarrow> map_res (\<lambda>t. ctcm\<lparr>ctx_tracker := t\<rparr>) (message_step m (ctx_tracker ctcm))) \<and>
    handle_packet env (p, dir) ctcm \<noteq> Inl Out_of_bounds"
proof (cases "carries_cm p")
  case True
  obtain dm where dm: "decode env (parser ctcm) (parsed (parser ctcm) p) dir = Inr dm"
    using decode_complete [OF parsed_complete [OF assms True]] by blast
  have "handle_packet env (p, dir) ctcm =
      (case dm of None \<Rightarrow> Inr ctcm
       | Some m \<Rightarrow> map_res (\<lambda>t. ctcm\<lparr>ctx_tracker := t\<rparr>) (message_step m (ctx_tracker ctcm)))"
    using handle_packet_eq [OF roomy_reaches_mad [OF assms]] process_decode [OF dm] True
    by (auto simp: bind_res_return split: option.splits)
  moreover have "map_res f (message_step m t) \<noteq> Inl Out_of_bounds" for f m t
    using message_step_error [of m t] by (cases "message_step m t") auto
  ultimately show ?thesis using True dm by (intro exI [of _ dm]) (auto split: option.splits)
qed (use handle_packet_eq [OF roomy_reaches_mad [OF assms]] in auto)

definition sample_context :: ctcm_context where
  "sample_context = \<lparr>parser = sample_parser, ctx_tracker = new_tracker\<rparr>"

lemma roomy_sample:
  assumes "length src = 4" "length dst = 4" "length body = 36"
  shows "roomy sample_dpdk (cm_packet src dst attr body)"
  using assms by (simp add: roomy_def udp_at_def cm_packet_bytes(4))

lemma create_sample: "ctcm_create sample_dpdk = Inr sample_context"
  by (simp add: ctcm_create_def parser_context_ctor_ok sample_context_def sample_parser_def sample_offsets_def
      bind_res_eq_Inr_iff)

theorem handle_packet_spec_witness:
  "handle_packet sample_dpdk
     (cm_packet [10, 0, 0, 1] [10, 0, 0, 2] 0x10 (req_body [0, 0, 0, 7] [0, 1, 2]), CTCM_FROM_HOST) sample_context =
   map_res (\<lambda>t. sample_context\<lparr>ctx_tracker := t\<rparr>)
     (message_step (req_msg CTCM_FROM_HOST 7 (0x0200000a, 0) 0x102) new_tracker)"
proof -
  let ?p = "cm_packet [10, 0, 0, 1] [10, 0, 0, 2] 0x10 (req_body [0, 0, 0, 7] [0, 1, 2])"
  have "roomy sample_dpdk ?p" by (rule roomy_sample) (simp_all add: req_body_def)
  from handle_packet_spec [OF this, of sample_context CTCM_FROM_HOST]
  obtain dm where
    "decode sample_dpdk (parser sample_context) (parsed (parser sample_context) ?p) CTCM_FROM_HOST = Inr dm"
    "handle_packet sample_dpdk (?p, CTCM_FROM_HOST) sample_context = (case dm of None \<Rightarrow> Inr sample_context
       | Some m \<Rightarrow> map_res (\<lambda>t. sample_context\<lparr>ctx_tracker := t\<rparr>) (message_step m (ctx_tracker sample_context)))"
    using cm_packet_carries(2) [of "[10, 0, 0, 1]" "[10, 0, 0, 2]"] by auto
  then show ?thesis
    using req_from_host_decode by (auto simp: req_from_host_def sample_def sample_context_def req_msg_def)
qed

text \<open>Every handler starts with a row of the message at byte 24 or later.\<close>

lemma row_past_end:
  assumes "f \<in> {CM_FIELD32_LOC 0 32, CM_FIELD32_LOC 4 32}" "length (buf p) < msg + 28"
  shows "IBA_GET_u32 f p msg = Inl Out_of_bounds"
  using assms by (auto simp: IBA_GET_u32_def IBA_GET_row32 load_def)

lemma handler_past_end:
  assumes "cm_msg self p = Inr msg" "length (buf p) < msg + 28"
  shows "handler_of dir k env self p t = Inl Out_of_bounds"
proof -
  have "IBA_GET_u32 f p msg = Inl Out_of_bounds" if "f \<in> {CM_FIELD32_LOC 0 32, CM_FIELD32_LOC 4 32}" for f
    using row_past_end [OF that assms(2)] .
  then show ?thesis
    using assms(1) unfolding tracker_row_defs
    by (cases dir; cases k) (simp_all add: req_sent_def req_received_def rej_sent_def rej_received_def rep_sent_def
        rep_received_def rtu_sent_def rtu_received_def dreq_sent_def dreq_received_def drep_sent_def drep_received_def
        tracker_row_defs)
qed

text \<open>
  C39: The length test of the parser does not protect the handlers: take a CM packet the parser accepts (a UDP length
  of 48 is enough) whose buffer reaches the attribute identifier but ends before byte 28 of the message.  If the attribute is one of the
  six the tracker handles, then whatever the direction and the tables, the handler reads the first identifier beyond the end of the buffer.
\<close>

theorem short_message_over_read:
  assumes p: "reaches_mad env p" "carries_cm p" and attr: "be_field p 44 2 \<in> {0x10, 0x12, 0x13, 0x14, 0x15, 0x16}"
    and short: "udp_at p + 46 \<le> length (buf p)" "length (buf p) < udp_at p + 56"
  shows "handle_packet env (p, dir) ctcm = Inl Out_of_bounds"
proof -
  let ?self = "parser ctcm"
  have buf: "buf (parsed ?self p) = buf p" by (simp add: parsed_def)
  have msg: "cm_msg ?self (parsed ?self p) = Inr (udp_at p + 28)"
    using parsed_mad [OF p(1), of ?self] p(2) by (simp add: cm_msg_def)
  obtain w :: u16 where w: "load (buf p) (udp_at p + 44) = Inr w" "unat (ntohs w) = be_field p 44 2"
    using load_u16_be [of "udp_at p + 44" "buf p"] short(1) by (auto simp: be_field_def)
  have a: "get_attr_id ?self (parsed ?self p) = Inr (ntohs w)"
    using msg w(1) buf by (simp add: get_attr_id_def mad_attr_id_def add.commute)
  have "ntohs w = word_of_nat (be_field p 44 2)" by (simp flip: w(2))
  then obtain k where "kind_of (ntohs w) = Some k"
    using attr by (auto simp: kind_of_def cm_attr_defs)
  then have "process env ?self (parsed ?self p) dir (ctx_tracker ctcm) = Inl Out_of_bounds"
    using a handler_past_end [OF msg, of dir k env] short(2) buf by (simp add: process_eq)
  then show ?thesis using handle_packet_eq [OF p(1)] p(2) by simp
qed

theorem short_message_over_read_witness:
  "handle_packet sample_dpdk (short_cm_packet, CTCM_FROM_NET) sample_context = Inl Out_of_bounds"
proof -
  have "be_field short_cm_packet 44 2 = 0x10" by code_simp
  then show ?thesis
    using short_message_over_read [of sample_dpdk short_cm_packet CTCM_FROM_NET sample_context]
    by (simp add: reaches_mad_def short_cm_packet_facts)
qed

section \<open>Contexts over time\<close>

lemma handle_packet_tracker:
  assumes "handle_packet env e ctcm = Inr ctcm'"
  shows "parser ctcm' = parser ctcm \<and> (ctx_tracker ctcm' = ctx_tracker ctcm \<or>
    (\<exists>p. process env (parser ctcm) p (snd e) (ctx_tracker ctcm) = Inr (ctx_tracker ctcm')))"
  using assms
  by (auto simp: handle_packet_def ctcm_process_packet_def elim!: bind_res_InrE split: option.splits)

interpretation context_machine: invariant_system "handle_packet env" \<open>\<lparr>parser = self, ctx_tracker = new_tracker\<rparr>\<close>
    "\<lambda>c. parser c = self \<and> tracked env self (ctx_tracker c)"
  for env self
proof unfold_locales
  show "parser \<lparr>parser = self, ctx_tracker = new_tracker\<rparr> = self \<and>
      tracked env self (ctx_tracker \<lparr>parser = self, ctx_tracker = new_tracker\<rparr>)"
    by (simp add: reach_init)
  show "parser c' = self \<and> tracked env self (ctx_tracker c')"
    if "parser c = self \<and> tracked env self (ctx_tracker c)" "handle_packet env e c = Inr c'" for c e c'
    using that handle_packet_tracker [OF that(2)]
      reach_step [of "packet_step env self" new_tracker "ctx_tracker c" "(_, snd e)" "ctx_tracker c'"]
    by (auto simp: packet_step_def)
qed

lemma query_registered:
  assumes inv: "tracker_inv (ctx_tracker c)" and answer: "ctcm_query_ipv4 c ip q \<noteq> 0"
  shows "\<exists>a. mapped (ctx_tracker c) a \<and> get_flow_key (heap (ctx_tracker c) a) = (ip, q)"
proof -
  obtain r where "qpn_map (ctx_tracker c) (ip, q) = Some r"
    using answer by (auto simp: ctcm_query_ipv4_def get_source_qpn_def split: option.splits)
  then show ?thesis using qpn_mapE [OF inv] by blast
qed

text \<open>
  Every context the interface can produce satisfies the tracker's invariant, whatever packets (CM or not,
  well-formed or not) have been handled, and its query function never answers for a peer that no registered
  flow has.
\<close>

lemma context_invariant:
  assumes "ctcm_create env = Inr ctcm" "run (handle_packet env) es ctcm = Inr ctcm'"
  shows "tracker_inv (ctx_tracker ctcm') \<and>
    (ctcm_query_ipv4 ctcm' ip q \<noteq> 0 \<longrightarrow>
      (\<exists>a. mapped (ctx_tracker ctcm') a \<and> get_flow_key (heap (ctx_tracker ctcm') a) = (ip, q)))"
proof -
  obtain self where ctcm: "ctcm = \<lparr>parser = self, ctx_tracker = new_tracker\<rparr>"
    using assms(1) by (auto simp: ctcm_create_def elim: bind_res_InrE)
  have "tracked env self (ctx_tracker ctcm')"
    using context_machine.run_from_init_inv [where env = env and self = self] assms(2) ctcm by blast
  then have inv: "tracker_inv (ctx_tracker ctcm')" by (rule packet_machine.reachable_inv)
  then show ?thesis using query_registered by blast
qed

section \<open>From the packets of a handshake to the answer of a query\<close>

definition raw_carries :: "dpdk \<Rightarrow> parser_context \<Rightarrow> rte_mbuf \<times> ctcm_direction \<Rightarrow> cm_message \<Rightarrow> bool" where
  "raw_carries env self e m \<longleftrightarrow> roomy env (fst e) \<and> carries_cm (fst e) \<and>
     decode env self (parsed self (fst e)) (snd e) = Inr (Some m)"

lemma run_handle:
  assumes "list_all2 (raw_carries env self) es ms" "parser ctcm = self"
  shows "run (handle_packet env) es ctcm =
    map_res (\<lambda>t. ctcm\<lparr>ctx_tracker := t\<rparr>) (run message_step ms (ctx_tracker ctcm))"
  using assms
proof (induction arbitrary: ctcm rule: list_all2_induct)
  case (Cons e es m ms)
  have "handle_packet env e ctcm = map_res (\<lambda>t. ctcm\<lparr>ctx_tracker := t\<rparr>) (message_step m (ctx_tracker ctcm))"
    using Cons.hyps(1) Cons.prems handle_packet_eq [of env "fst e" "snd e" ctcm]
      process_decode [of env self "parsed self (fst e)" "snd e" "Some m" "ctx_tracker ctcm"]
    by (auto simp: raw_carries_def bind_res_return dest: roomy_reaches_mad)
  then show ?case
    using Cons.IH Cons.prems by (cases "message_step m (ctx_tracker ctcm)") auto
qed simp

text \<open>
  C5: The library keeps its promise: after \<^verbatim>\<open>ctcm_create\<close>, once the packets of an active
  or passive open with non-zero identifiers and QPNs have been handed to it, \<^verbatim>\<open>ctcm_query_ipv4\<close> returns the
  host's QPN for the peer's address and QPN, and 0 for anything else.
\<close>

theorem query_after_handshake:
  assumes create: "ctcm_create env = Inr ctcm"
    and ids: "lid \<noteq> 0" "cm_flow_key_bool peer" "q \<noteq> 0" "rq \<noteq> 0"
    and opened: "list_all2 (raw_carries env (parser ctcm)) es
        [req_msg CTCM_FROM_HOST lid peer0 q, rep_msg CTCM_FROM_NET lid peer rq,
         ids_msg Kind_RTU CTCM_FROM_HOST lid peer1] \<or>
      list_all2 (raw_carries env (parser ctcm)) es
        [req_msg CTCM_FROM_NET 0 peer rq, rep_msg CTCM_FROM_HOST lid peer q,
         ids_msg Kind_RTU CTCM_FROM_NET lid peer1]"
  shows "\<exists>ctcm'. run (handle_packet env) es ctcm = Inr ctcm' \<and>
    (\<forall>ip r. ctcm_query_ipv4 ctcm' ip r = (if ip = fst peer \<and> r = rq then q else 0))"
proof -
  have t: "ctx_tracker ctcm = new_tracker" using create by (auto simp: ctcm_create_def elim: bind_res_InrE)
  have fresh: "fresh_connection new_tracker lid peer q rq"
    using ids by (simp add: fresh_connection_def new_tracker_def)
  have "run (handle_packet env) es ctcm = Inr (ctcm\<lparr>ctx_tracker := with_connection new_tracker lid peer q rq\<rparr>)"
    using opened
  proof
    assume "list_all2 (raw_carries env (parser ctcm)) es [req_msg CTCM_FROM_HOST lid peer0 q,
      rep_msg CTCM_FROM_NET lid peer rq, ids_msg Kind_RTU CTCM_FROM_HOST lid peer1]"
    from run_handle [OF this refl] show ?thesis
      unfolding t active_messages [OF tracker_inv_new fresh] by simp
  next
    assume "list_all2 (raw_carries env (parser ctcm)) es [req_msg CTCM_FROM_NET 0 peer rq,
      rep_msg CTCM_FROM_HOST lid peer q, ids_msg Kind_RTU CTCM_FROM_NET lid peer1]"
    from run_handle [OF this refl] show ?thesis
      unfolding t passive_messages [OF tracker_inv_new fresh] by simp
  qed
  moreover have "get_source_qpn new_tracker k = 0" for k by (simp add: get_source_qpn_def new_tracker_def)
  ultimately show ?thesis by (simp add: ctcm_query_ipv4_def with_connection_query)
qed

text \<open>The packets of the active open, as they arrive.\<close>

definition active_raw :: "(rte_mbuf \<times> ctcm_direction) list" where
  "active_raw =
     [(cm_packet [10, 0, 0, 1] [10, 0, 0, 2] 0x10 (req_body [0, 0, 0, 7] [0, 1, 2]), CTCM_FROM_HOST),
      (cm_packet [10, 0, 0, 2] [10, 0, 0, 1] 0x13 (rep_body [0, 0, 0, 9] [0, 0, 0, 7] [0, 2, 3]), CTCM_FROM_NET),
      (cm_packet [10, 0, 0, 1] [10, 0, 0, 2] 0x14 (ids_body [0, 0, 0, 7] [0, 0, 0, 9]), CTCM_FROM_HOST)]"

lemma raw_carries_sample:
  assumes "length src = 4" "length dst = 4" "length body = 36"
  shows "raw_carries sample_dpdk sample_parser (cm_packet src dst attr body, dir) m \<longleftrightarrow>
    carries sample_dpdk sample_parser (sample src dst attr body, dir) m"
  using assms by (simp add: raw_carries_def carries_def sample_def roomy_sample cm_packet_carries)

lemma active_raw_carry:
  "list_all2 (raw_carries sample_dpdk sample_parser) active_raw
     [req_msg CTCM_FROM_HOST 7 (0x0200000a, 0) 0x102, rep_msg CTCM_FROM_NET 7 (0x0200000a, 9) 0x203,
      ids_msg Kind_RTU CTCM_FROM_HOST 7 (0x0200000a, 9)]"
proof -
  have "length (req_body [0, 0, 0, 7] [0, 1, 2]) = 36" "length (rep_body [0, 0, 0, 9] [0, 0, 0, 7] [0, 2, 3]) = 36"
    "length (ids_body [0, 0, 0, 7] [0, 0, 0, 9]) = 36"
    by (simp_all add: req_body_def rep_body_def ids_body_def)
  then show ?thesis
    using active_packets_carry by (simp add: active_raw_def active_packets_def raw_carries_sample)
qed

lemma active_raw_run:
  "run (handle_packet sample_dpdk) active_raw sample_context =
     Inr (sample_context\<lparr>ctx_tracker := with_connection new_tracker 7 (0x0200000a, 9) 0x102 0x203\<rparr>)"
proof -
  have self: "parser sample_context = sample_parser" "ctx_tracker sample_context = new_tracker"
    by (simp_all add: sample_context_def)
  show ?thesis
    unfolding run_handle [OF active_raw_carry self(1)] self(2)
      active_messages [OF tracker_inv_new fresh_in_new_tracker] by simp
qed

theorem query_after_handshake_witness:
  "\<exists>ctcm'. run (handle_packet sample_dpdk) active_raw sample_context = Inr ctcm' \<and>
     ctcm_query_ipv4 ctcm' 0x0200000a 0x203 = 0x102 \<and> ctcm_query_ipv4 ctcm' 0x0300000a 0x203 = 0"
proof -
  have "list_all2 (raw_carries sample_dpdk (parser sample_context)) active_raw
     [req_msg CTCM_FROM_HOST 7 (0x0200000a, 0) 0x102, rep_msg CTCM_FROM_NET 7 (0x0200000a, 9) 0x203,
      ids_msg Kind_RTU CTCM_FROM_HOST 7 (0x0200000a, 9)]"
    using active_raw_carry by (simp add: sample_context_def)
  from query_after_handshake [OF create_sample _ _ _ _ disjI1 [OF this]] show ?thesis
    by (auto simp: cm_flow_key_bool_def)
qed

theorem context_invariant_witness:
  "\<exists>ctcm'. run (handle_packet sample_dpdk) active_raw sample_context = Inr ctcm' \<and> tracker_inv (ctx_tracker ctcm') \<and>
     (\<exists>a. mapped (ctx_tracker ctcm') a \<and> get_flow_key (heap (ctx_tracker ctcm') a) = (0x0200000a, 0x203))"
proof -
  let ?c = "sample_context\<lparr>ctx_tracker := with_connection new_tracker 7 (0x0200000a, 9) 0x102 0x203\<rparr>"
  note r = active_raw_run
  have "ctcm_query_ipv4 ?c 0x0200000a 0x203 \<noteq> 0"
    by (simp add: ctcm_query_ipv4_def with_connection_query)
  then show ?thesis using context_invariant [OF create_sample r] r by blast
qed

text \<open>
  \<^verbatim>\<open>ctcm_dynfield_offsets\<close> after a successful \<^verbatim>\<open>ctcm_create\<close>: a caller whose structure is at least 12 bytes
  gets the two offsets DPDK returned at registration, both non-negative, and 0; any other caller gets -1 with
  \<^verbatim>\<open>ENOMEM\<close> and an untouched structure.
\<close>

theorem ctcm_dynfield_offsets_spec:
  assumes "ctcm_create env = Inr ctcm"
  shows "ctcm_dynfield_offsets_fn ctcm offs =
    (if unat (off_size offs) < 12 then (offs, -1, Some ENOMEM)
     else (\<lparr>off_size = off_size offs, off_bth = rte_mbuf_dynfield_register env ''BTH'' 2 2,
            off_mad = rte_mbuf_dynfield_register env ''IB_MAD_HDR'' 2 2\<rparr>, 0, None)) \<and>
    0 \<le> rte_mbuf_dynfield_register env ''BTH'' 2 2 \<and> 0 \<le> rte_mbuf_dynfield_register env ''IB_MAD_HDR'' 2 2"
proof -
  obtain self where "parser_context_ctor env = Inr self" "parser ctcm = self"
    using assms by (auto simp: ctcm_create_def elim: bind_res_InrE)
  then show ?thesis by (auto simp: parser_context_ctor_ok ctcm_dynfield_offsets_fn_def)
qed

theorem ctcm_dynfield_offsets_spec_witness:
  "ctcm_dynfield_offsets_fn sample_context \<lparr>off_size = 12, off_bth = 0, off_mad = 0\<rparr> =
     (\<lparr>off_size = 12, off_bth = 64, off_mad = 66\<rparr>, 0, None) \<and>
   ctcm_dynfield_offsets_fn sample_context \<lparr>off_size = 8, off_bth = 0, off_mad = 0\<rparr> =
     (\<lparr>off_size = 8, off_bth = 0, off_mad = 0\<rparr>, -1, Some ENOMEM)"
  using ctcm_dynfield_offsets_spec [OF create_sample, of "\<lparr>off_size = 12, off_bth = 0, off_mad = 0\<rparr>"]
    ctcm_dynfield_offsets_spec [OF create_sample, of "\<lparr>off_size = 8, off_bth = 0, off_mad = 0\<rparr>"]
  by simp

end
