(* ===== verification/Sessions.thy ===== *)
theory Sessions
  imports Ctcm
begin

text \<open>
  The life of contexts: \<^verbatim>\<open>ctcm_create\<close> and \<^verbatim>\<open>ctcm_destroy\<close> of \<^verbatim>\<open>src/main.cpp\<close> on a table of live contexts.  A handle
  stands for the pointer the caller holds; the use of a context that has been destroyed is undefined behaviour, the value
  \<open>Out_of_bounds\<close>.  The fixture of \<open>Cnp_Test\<close> creates and destroys its context here.
\<close>

section \<open>Definitions\<close>

record sessions =
  contexts :: "nat \<rightharpoonup> ctcm_context"
  next_handle :: nat

definition no_sessions :: sessions where
  "no_sessions = \<lparr>contexts = Map.empty, next_handle = 0\<rparr>"

definition live_context :: "sessions \<Rightarrow> nat \<Rightarrow> ctcm_context res" where
  "live_context ss h = (case contexts ss h of None \<Rightarrow> Inl Out_of_bounds | Some c \<Rightarrow> Inr c)"

definition create_context :: "dpdk \<Rightarrow> sessions \<Rightarrow> sessions res" where
  "create_context env ss =
     bind_res (ctcm_create env) (\<lambda>c.
       Inr (ss\<lparr>contexts := (contexts ss)(next_handle ss \<mapsto> c), next_handle := Suc (next_handle ss)\<rparr>))"

definition ctcm_destroy :: "sessions \<Rightarrow> nat \<Rightarrow> sessions res" where
  "ctcm_destroy ss h = bind_res (live_context ss h) (\<lambda>_. Inr (ss\<lparr>contexts := (contexts ss)(h := None)\<rparr>))"

section \<open>Creation and destruction\<close>

lemma destroy_created:
  assumes "create_context env ss = Inr ss'" "contexts ss (next_handle ss) = None"
  shows "\<exists>ss''. ctcm_destroy ss' (next_handle ss) = Inr ss'' \<and> contexts ss'' = contexts ss \<and>
    next_handle ss'' = Suc (next_handle ss)"
  using assms by (auto simp: create_context_def ctcm_destroy_def live_context_def bind_res_eq_Inr_iff fun_upd_idem)

lemma destroy_twice:
  assumes "ctcm_destroy ss h = Inr ss'"
  shows "ctcm_destroy ss' h = Inl Out_of_bounds"
  using assms by (auto simp: ctcm_destroy_def live_context_def bind_res_eq_Inr_iff)

end
