(* ===== verification/Cnp_Test.thy ===== *)
theory Cnp_Test
  imports Cnp Sessions
begin

text \<open>
  \<^verbatim>\<open>tests/test_cnp.cpp\<close>: the test of the CNP functions, as a computation.  The fixture starts DPDK and creates a context; the test
  fills the template into a zeroed buffer, writes
  addresses, identification, time to live, type of service and source port, completes the packet and compares
  it with the published example, and dumps both in hexadecimal if they differ.  \<^verbatim>\<open>inet_aton\<close> stores the four numbers in the order
  they are written in; the hexadecimal text of the example is given as the bytes it denotes.
\<close>

section \<open>The packets\<close>

definition cnp :: c_struct where
  "cnp = [(''ip'', sizeof iphdr, 4), (''udp'', sizeof udphdr, 2),
     byte_array ''reserved_2'' (CTCM_BTH_LENGTH + CTCM_CNP_LENGTH + CTCM_ICRC_LENGTH)]"

definition expected_cnp :: "byte list" where
  "expected_cnp =
     [0x45, 0x89, 0x00, 0x3C, 0x98, 0xC6, 0x40, 0x00, 0x20, 0x11, 0x69, 0x27, 0x16, 0x16, 0x16, 0x08,
      0x16, 0x16, 0x16, 0x07, 0xDB, 0xAE, 0x12, 0xB7, 0x00, 0x28, 0x00, 0x00, 0x81, 0x00, 0xFF, 0xFF,
      0x40, 0x00, 0x00, 0xD2, 0x00, 0x00, 0x00, 0x00, 0x00, 0x00, 0x00, 0x00, 0x00, 0x00, 0x00, 0x00,
      0x00, 0x00, 0x00, 0x00, 0x00, 0x00, 0x00, 0x00, 0xDA, 0xFC, 0x1B, 0xEF]"

definition zeroed_mbuf :: rte_mbuf where
  "zeroed_mbuf =
     \<lparr>packet_type = 0, l2_len = 0, l3_len = 0, l4_len = 0, data_len = 0, pkt_len = 0,
      buf = replicate (sizeof cnp) 0, dynfield = (\<lambda>_. 0)\<rparr>"

definition set_test_fields :: "byte list \<Rightarrow> byte list res" where
  "set_test_fields m =
     (let ip = offsetof cnp ''ip''; udp = offsetof cnp ''udp''
      in bind_res (store m (ip + offsetof iphdr ''saddr'') (of_le_bytes [22, 22, 22, 8] :: u32)) (\<lambda>m.
         bind_res (store m (ip + offsetof iphdr ''daddr'') (of_le_bytes [22, 22, 22, 7] :: u32)) (\<lambda>m.
         bind_res (store m (ip + offsetof iphdr ''id'') (htons 0x98c6)) (\<lambda>m.
         bind_res (store m (ip + offsetof iphdr ''ttl'') (0x20 :: u8)) (\<lambda>m.
         bind_res (store m (ip + offsetof iphdr ''tos'') (0x89 :: u8)) (\<lambda>m.
         store m (udp + offsetof udphdr ''uh_sport'') (htons 56238)))))))"

definition generated :: "dpdk \<Rightarrow> byte list res" where
  "generated env =
     bind_res (ctcm_fill_cnp_template env zeroed_mbuf) (\<lambda>(p, _).
     bind_res (set_test_fields (buf p)) (\<lambda>m.
     bind_res (ctcm_generate_cnp env (p\<lparr>buf := m\<rparr>) 0xd2) (\<lambda>p. Inr (buf p))))"

definition expected :: "byte list res" where
  "expected = store expected_cnp (offsetof cnp ''ip'' + offsetof iphdr ''check'') (0 :: u16)"

definition cnp_gen :: "dpdk \<Rightarrow> bool" where
  "cnp_gen env \<longleftrightarrow> (case (generated env, expected) of (Inr g, Inr e) \<Rightarrow> g = e | _ \<Rightarrow> False)"

section \<open>The hexadecimal dump\<close>

text \<open>
  What \<^verbatim>\<open>hexdump\<close> writes to \<^verbatim>\<open>std::cout\<close>.  \<^verbatim>\<open>boost::algorithm::hex\<close> is not in the repository and is a parameter, from the bytes
  of its input range to the characters it writes.  The array \<^verbatim>\<open>line\<close> is not initialised, so its content in each iteration is
  a parameter as well.  Writing past its end is \<open>Out_of_bounds\<close>; \<^verbatim>\<open>operator<<\<close> prints it up to the first null.
\<close>

definition copy_to :: "string \<Rightarrow> string \<Rightarrow> string res" where
  "copy_to arr cs = (if length cs \<le> length arr then Inr (cs @ drop (length cs) arr) else Inl Out_of_bounds)"

definition put_char :: "string \<Rightarrow> nat \<Rightarrow> char \<Rightarrow> string res" where
  "put_char arr i c = (if i < length arr then Inr (arr[i := c]) else Inl Out_of_bounds)"

definition c_str :: "string \<Rightarrow> string" where
  "c_str arr = takeWhile (\<lambda>c. c \<noteq> CHR 0x00) arr"

text \<open>\<^verbatim>\<open>std::hex\<close>, and \<^verbatim>\<open>std::setfill('0')\<close> with \<^verbatim>\<open>std::setw\<close>.\<close>

definition hex_digit :: "nat \<Rightarrow> char" where
  "hex_digit d = (''0123456789abcdef'') ! d"

fun std_hex :: "nat \<Rightarrow> string" where
  "std_hex n = (if n < 16 then [hex_digit n] else std_hex (n div 16) @ [hex_digit (n mod 16)])"

definition setw_0 :: "nat \<Rightarrow> string \<Rightarrow> string" where
  "setw_0 w s = replicate (w - length s) (CHR ''0'') @ s"

definition newline :: string where "newline = [CHR 0x0A]"

definition new_line :: "(nat \<Rightarrow> char) \<Rightarrow> string" where
  "new_line uninit = map uninit [0..<16 * 2 + 1]"

function hexdump_from :: "(byte list \<Rightarrow> string) \<Rightarrow> (nat \<Rightarrow> nat \<Rightarrow> char) \<Rightarrow> byte list \<Rightarrow> nat \<Rightarrow> string res" where
  "hexdump_from hex uninit strbuf i =
     (if i < length strbuf then
        let cur_end = min (i + 16) (length strbuf);
            line = new_line (uninit i)
        in bind_res (copy_to line (hex (take (cur_end - i) (drop i strbuf)))) (\<lambda>line.
           bind_res (put_char line ((cur_end - i) * 2) (CHR 0x00)) (\<lambda>line.
           bind_res (hexdump_from hex uninit strbuf (i + 16)) (\<lambda>out.
             Inr (setw_0 4 (std_hex i) @ '': '' @ c_str line @ newline @ out))))
      else Inr [])"
  by pat_completeness auto
termination by (relation "measure (\<lambda>(hex, uninit, strbuf, i). length strbuf - i)") auto

definition hexdump :: "(byte list \<Rightarrow> string) \<Rightarrow> (nat \<Rightarrow> nat \<Rightarrow> char) \<Rightarrow> byte list \<Rightarrow> string res" where
  "hexdump hex uninit strbuf = hexdump_from hex uninit strbuf 0"

declare hexdump_from.simps [simp del] std_hex.simps [simp del]

section \<open>Fixture and test\<close>

text \<open>
  What \<^verbatim>\<open>rte_eal_init\<close> and \<^verbatim>\<open>rte_eal_cleanup\<close> return is an argument.  \<open>None\<close> is the failure of the first assertion of \<^verbatim>\<open>SetUp\<close>, which
  returns before the context is created; the second cannot fail, since \<^verbatim>\<open>ctcm_create\<close> returns no null pointer.
\<close>

definition SetUp :: "dpdk \<Rightarrow> int \<Rightarrow> sessions \<Rightarrow> (sessions \<times> nat) option res" where
  "SetUp env ret ss =
     (if ret \<noteq> 0 then Inr None
      else bind_res (create_context env ss) (\<lambda>ss'. Inr (Some (ss', next_handle ss))))"

definition TearDown :: "int \<Rightarrow> sessions \<Rightarrow> nat \<Rightarrow> (sessions \<times> bool) res" where
  "TearDown ret ss ctcm = bind_res (ctcm_destroy ss ctcm) (\<lambda>ss. Inr (ss, ret = 0))"

definition cnp_gen_output :: "(byte list \<Rightarrow> string) \<Rightarrow> (nat \<Rightarrow> nat \<Rightarrow> char) \<Rightarrow> dpdk \<Rightarrow> string res" where
  "cnp_gen_output hex uninit env =
     bind_res (generated env) (\<lambda>g.
     bind_res expected (\<lambda>e.
       if g \<noteq> e
       then bind_res (hexdump hex uninit e) (\<lambda>de.
            bind_res (hexdump hex uninit g) (\<lambda>dg.
              Inr (''Expected: '' @ newline @ de @ ''Generated: '' @ newline @ dg)))
       else Inr []))"

text \<open>
  A run of the test under the framework: the contexts left, whether all assertions held, and the output.  The framework calls
  \<^verbatim>\<open>TearDown\<close> also after a failed \<^verbatim>\<open>SetUp\<close>; the context it then destroys was never set.
\<close>

definition run_cnp_gen ::
    "(byte list \<Rightarrow> string) \<Rightarrow> (nat \<Rightarrow> nat \<Rightarrow> char) \<Rightarrow> dpdk \<Rightarrow> int \<Rightarrow> int \<Rightarrow> sessions \<Rightarrow> (sessions \<times> bool \<times> string) res" where
  "run_cnp_gen hex uninit env init_ret cleanup_ret ss =
     bind_res (SetUp env init_ret ss) (\<lambda>fixture.
       case fixture of
         None \<Rightarrow> Inl Out_of_bounds
       | Some (ss, ctcm) \<Rightarrow>
           bind_res (cnp_gen_output hex uninit env) (\<lambda>out.
           bind_res (TearDown cleanup_ret ss ctcm) (\<lambda>(ss, ok). Inr (ss, cnp_gen env \<and> ok, out))))"

section \<open>The test passes\<close>

lemma cnp_layout [simp]: "sizeof cnp = 60" "offsetof cnp ''ip'' = 0" "offsetof cnp ''udp'' = 20"
  by code_simp+

lemma test_template: "write_cnp_template (replicate 60 0) 0 = Inr cnp_template"
  by code_simp

lemma test_fields: "set_test_fields cnp_template = Inr (buf test_cnp)"
  by code_simp

lemma fill_zeroed:
  "ctcm_fill_cnp_template sample_dpdk zeroed_mbuf = Inr (test_cnp\<lparr>buf := cnp_template\<rparr>, 0)"
  by (simp add: ctcm_fill_cnp_template_def zeroed_mbuf_def append_tail_def cnp_length_defs test_template test_cnp_def)

lemma test_packets:
  "generated sample_dpdk = Inr (test_cnp_expected @ [0xda, 0xfc, 0x1b, 0xef])"
  "expected = Inr (test_cnp_expected @ [0xda, 0xfc, 0x1b, 0xef])"
proof -
  show "generated sample_dpdk = Inr (test_cnp_expected @ [0xda, 0xfc, 0x1b, 0xef])"
    by (simp add: generated_def fill_zeroed test_fields test_cnp_run)
  show "expected = Inr (test_cnp_expected @ [0xda, 0xfc, 0x1b, 0xef])" by code_simp
qed

text \<open>
  The test passes in the sample environment: with the Ethernet CRC-32, template, field writes and completion produce byte for byte the
  published example (22.22.22.8 to 22.22.22.7, QP 0xd2) that \<^verbatim>\<open>tests/test_cnp.cpp\<close> expects, ICRC \<^verbatim>\<open>DA FC 1B EF\<close> included; if DPDK starts
  and stops without error, all assertions of fixture and test hold, nothing is printed and no context is left.
\<close>

lemma cnp_gen_passes:
  "cnp_gen sample_dpdk \<and>
   (\<exists>ss. run_cnp_gen hex uninit sample_dpdk 0 0 no_sessions = Inr (ss, True, []) \<and> contexts ss = Map.empty)"
proof
  show p: "cnp_gen sample_dpdk" unfolding cnp_gen_def test_packets by simp
  have "cnp_gen_output hex uninit sample_dpdk = Inr []" unfolding cnp_gen_output_def test_packets by simp
  then show "\<exists>ss. run_cnp_gen hex uninit sample_dpdk 0 0 no_sessions = Inr (ss, True, []) \<and> contexts ss = Map.empty"
    using p create_sample
    by (simp add: run_cnp_gen_def SetUp_def TearDown_def create_context_def ctcm_destroy_def live_context_def no_sessions_def)
qed

section \<open>What is dumped\<close>

text \<open>One line of the dump, and the bytes it shows.\<close>

definition dump_row :: "byte list \<Rightarrow> nat \<Rightarrow> byte list" where
  "dump_row strbuf i = take 16 (drop i strbuf)"

definition dump_line :: "(byte list \<Rightarrow> string) \<Rightarrow> byte list \<Rightarrow> nat \<Rightarrow> string" where
  "dump_line hex strbuf i = setw_0 4 (std_hex i) @ '': '' @ hex (dump_row strbuf i) @ newline"

definition dump_offsets :: "byte list \<Rightarrow> nat list" where
  "dump_offsets strbuf = map ((*) 16) [0..<(length strbuf + 15) div 16]"

text \<open>Terminating the text of a row makes the array read as that text.\<close>

lemma c_str_row:
  assumes "length cs < length arr" "CHR 0x00 \<notin> set cs"
  shows "bind_res (copy_to arr cs) (\<lambda>l. bind_res (put_char l (length cs) (CHR 0x00)) (\<lambda>l. Inr (c_str l))) = Inr cs"
proof -
  have "(cs @ drop (length cs) arr)[length cs := CHR 0x00] = cs @ CHR 0x00 # drop (Suc (length cs)) arr"
    using assms(1) by (simp add: list_update_append Cons_nth_drop_Suc [symmetric])
  then show ?thesis
    using assms by (auto simp: copy_to_def put_char_def c_str_def takeWhile_append)
qed

lemma hexdump_from_rows:
  assumes len: "\<And>bs. length (hex bs) = 2 * length bs" and nul: "\<And>bs. CHR 0x00 \<notin> set (hex bs)"
    and k: "k \<le> (length strbuf + 15) div 16"
  shows "hexdump_from hex uninit strbuf (16 * k) =
    Inr (concat (map (\<lambda>j. dump_line hex strbuf (16 * j)) [k..<(length strbuf + 15) div 16]))"
  using k
proof (induction k rule: inc_induct)
  case base
  have "\<not> 16 * ((length strbuf + 15) div 16) < length strbuf" by presburger
  then show ?case by (subst hexdump_from.simps) (simp only: if_False upt_conv_Nil [OF le_refl] list.map concat.simps)
next
  case (step k)
  have lt: "16 * k < length strbuf"
    using step.hyps(2) times_div_less_eq_dividend [of 16 "length strbuf + 15"] by linarith
  let ?row = "dump_row strbuf (16 * k)" and ?line = "new_line (uninit (16 * k))"
  have row: "take (min (16 * k + 16) (length strbuf) - 16 * k) (drop (16 * k) strbuf) = ?row"
    "(min (16 * k + 16) (length strbuf) - 16 * k) * 2 = length (hex ?row)"
    using lt by (auto simp: dump_row_def len min_def)
  have "length (hex ?row) < length ?line" by (simp add: len dump_row_def new_line_def)
  from c_str_row [OF this nul] obtain l1 l2 where
    "copy_to ?line (hex ?row) = Inr l1" "put_char l1 (length (hex ?row)) (CHR 0x00) = Inr l2" "c_str l2 = hex ?row"
    by (auto elim!: bind_res_InrE)
  then have "hexdump_from hex uninit strbuf (16 * k) = bind_res (hexdump_from hex uninit strbuf (16 * k + 16)) (\<lambda>out.
      Inr (dump_line hex strbuf (16 * k) @ out))"
    by (subst hexdump_from.simps) (simp only: lt if_True Let_def row, simp add: dump_line_def)
  also have "16 * k + 16 = 16 * Suc k" by simp
  finally show ?case using step.IH upt_conv_Cons [OF step.hyps(2)] by simp
qed

lemma dump_rows_cover: "concat (map (dump_row strbuf) (dump_offsets strbuf)) = strbuf"
proof -
  have "concat (map (\<lambda>j. dump_row strbuf (16 * j)) [0..<n]) = take (16 * n) strbuf" for n
    by (induction n) (simp_all add: dump_row_def take_add [symmetric] add.commute)
  moreover have "length strbuf \<le> 16 * ((length strbuf + 15) div 16)" by presburger
  ultimately show ?thesis by (simp add: dump_offsets_def comp_def)
qed

text \<open>
  C32: The dump ends and stays inside its line buffer: for every input, given that \<^verbatim>\<open>boost::algorithm::hex\<close> writes two
  characters per byte and no null, \<^verbatim>\<open>hexdump\<close> returns after one line for every 16 bytes begun, each with its offset and
  the text of its bytes, whatever the uninitialised array held; together the lines show the whole input, once and in order.
\<close>

theorem hexdump_terminates:
  assumes "\<And>bs. length (hex bs) = 2 * length bs" "\<And>bs. CHR 0x00 \<notin> set (hex bs)"
  shows "hexdump hex uninit strbuf = Inr (concat (map (dump_line hex strbuf) (dump_offsets strbuf))) \<and>
    concat (map (dump_row strbuf) (dump_offsets strbuf)) = strbuf \<and>
    length (dump_offsets strbuf) = (length strbuf + 15) div 16"
  using hexdump_from_rows [OF assms, of 0 strbuf uninit] dump_rows_cover [of strbuf]
  by (simp add: hexdump_def dump_offsets_def comp_def)

text \<open>Upper-case hexadecimal text, as the library writes it, and a dump of three bytes.\<close>

definition upper_hex :: "byte list \<Rightarrow> string" where
  "upper_hex bs = concat (map (\<lambda>b. [(''0123456789ABCDEF'') ! unat (drop_bit 4 b), (''0123456789ABCDEF'') ! unat (b AND 0xf)]) bs)"

lemma length_upper_hex: "length (upper_hex bs) = 2 * length bs"
  by (induction bs) (simp_all add: upper_hex_def)

lemma upper_hex_no_null: "CHR 0x00 \<notin> set (upper_hex bs)"
proof -
  have m: "(0xf :: byte) = mask 4" by code_simp
  have "unat (drop_bit 4 b) < 16" "unat (b AND 0xf) < 16" for b :: byte
    using unsigned_less [of b, where 'a = nat]
    by (simp_all add: m unat_div unat_mod drop_bit_eq_div take_bit_eq_mod flip: take_bit_eq_mask)
  moreover have "(''0123456789ABCDEF'') ! n \<noteq> CHR 0x00" if "n < 16" for n
    using nth_mem [of n "''0123456789ABCDEF''"] that by auto
  ultimately have "CHR 0x00 \<notin> {(''0123456789ABCDEF'') ! unat (drop_bit 4 b), (''0123456789ABCDEF'') ! unat (b AND 0xf)}"
    for b :: byte by fastforce
  then show ?thesis by (auto simp: upper_hex_def)
qed

theorem hexdump_terminates_witness:
  "hexdump upper_hex (\<lambda>_ _. CHR ''?'') [0x45, 0x89, 0xfc] = Inr (''0000: 4589FC'' @ newline)"
proof -
  have "dump_offsets [0x45, 0x89, 0xfc] = [0]"
    "dump_line upper_hex [0x45, 0x89, 0xfc] 0 = ''0000: 4589FC'' @ newline"
    by code_simp+
  then show ?thesis
    using hexdump_terminates [OF length_upper_hex upper_hex_no_null, of "\<lambda>_ _. CHR ''?''" "[0x45, 0x89, 0xfc]"] by simp
qed

end
