(* ===== verification/Tracker_Errors.thy ===== *)
theory Tracker_Errors
  imports Tracker_Props
begin

text \<open>
  What happens on messages outside the normal course: the assertions of the tracker that a packet can
  trip, the entries it can leave behind, and which of two connections answers for a peer that both name.
\<close>

section \<open>Assertions a packet can trip\<close>

lemma process_carries:
  assumes "carries env self (p, dir) m"
  shows "process env self p dir t = message_step m t"
  using assms process_decode by (auto simp: carries_def)

text \<open>
  A zero communication identifier aborts the process: any RTU, DREQ or DREP, any REP from the network
  and any REQ from the host that names the host's flow by identifier 0 trips the assertion at the head of
  \<^verbatim>\<open>get_flow\<close>, in every state of the tables.
\<close>

lemma zero_identifier_aborts:
  assumes "carries env self (p, dir) m" "msg_id m = 0"
    and "msg_kind m \<in> {Kind_RTU, Kind_DREQ, Kind_DREP} \<or> (dir, msg_kind m) \<in> {(CTCM_FROM_NET, Kind_REP),
      (CTCM_FROM_HOST, Kind_REQ)}"
  shows "process env self p dir t = Inl Assertion_failed"
proof -
  have "msg_dir m = dir" using assms(1) by (auto simp: carries_def decode_def elim!: bind_res_InrE split: option.splits)
  then have "lookup_peer m = cm_flow_key_null" using assms(3) by (auto simp: lookup_peer_def)
  then show ?thesis
    using process_carries [OF assms(1)] assms(2) by (simp add: message_step_def get_flow_def)
qed

text \<open>
  A peer that reuses one of its identifiers aborts the process: if a REP answers a
  pending request of the host with a peer key that another tracked flow still has, the two lookups of
  \<^verbatim>\<open>add_new_flow\<close> disagree and its assertion fails.
\<close>

lemma reply_with_taken_identifier_aborts:
  assumes "carries env self (p, CTCM_FROM_NET) (rep_msg CTCM_FROM_NET lid peer rq)"
    and "lid \<noteq> 0" "local_map t lid = Some a" "fstate (heap t a) = REQ_SENT"
    and "remote_map t peer = Some b" "b \<noteq> a"
  shows "process env self p CTCM_FROM_NET t = Inl Assertion_failed"
  using process_carries [OF assms(1)] assms(2-)
  by (simp add: message_step_known rep_msg_def react_def apply_reaction_def add_new_flow_def upd_flow_def Let_def)

text \<open>
  A REQ of the peer that repeats an identifier with another QPN, while the first is still
  unanswered, aborts the process.
\<close>

lemma changed_request_aborts:
  assumes "carries env self (p, CTCM_FROM_NET) (req_msg CTCM_FROM_NET 0 peer rq)"
    and "cm_flow_key_bool peer" "remote_map t peer = Some a" "fstate (heap t a) = REQ_RCVD"
    and "remote_qpn (heap t a) \<noteq> rq"
  shows "process env self p CTCM_FROM_NET t = Inl Assertion_failed"
  using process_carries [OF assms(1)] assms(2-)
  by (simp add: message_step_def lookup_peer_def get_flow_def req_msg_def react_def apply_reaction_def)

text \<open>The flow a message finds by the name it gives.\<close>

definition found :: "cm_message \<Rightarrow> tracker \<Rightarrow> nat \<Rightarrow> bool" where
  "found m t st \<longleftrightarrow>
     (if msg_id m \<noteq> 0 then local_map t (msg_id m) = Some st
      else cm_flow_key_bool (lookup_peer m) \<and> remote_map t (lookup_peer m) = Some st)"

text \<open>
  The messages that trip an assertion: those that give no name; those that give a new identifier to a peer's flow that has
  one; a repeated REQ with another QPN; a reply under a peer name that another flow has, or to a flow that has
  another peer name.
\<close>

inductive trips :: "cm_message \<Rightarrow> tracker \<Rightarrow> bool" for m t where
  trips_unnamed: "msg_id m = 0 \<Longrightarrow> \<not> cm_flow_key_bool (lookup_peer m) \<Longrightarrow> trips m t"
| trips_other_id: "msg_id m \<noteq> 0 \<Longrightarrow> local_map t (msg_id m) = None \<Longrightarrow> remote_map t (lookup_peer m) = Some st \<Longrightarrow>
    local_id (heap t st) \<noteq> 0 \<Longrightarrow> trips m t"
| trips_other_qpn: "found m t st \<Longrightarrow> react (msg_dir m) (msg_kind m) REQ_RCVD = Requested REQ_RCVD \<Longrightarrow>
    fstate (heap t st) = REQ_RCVD \<Longrightarrow> remote_qpn (heap t st) \<noteq> msg_qpn m \<Longrightarrow> trips m t"
| trips_taken_peer: "found m t st \<Longrightarrow> react (msg_dir m) (msg_kind m) (fstate (heap t st)) = Replied s \<Longrightarrow>
    remote_map t (msg_peer m) = Some other \<Longrightarrow> other \<noteq> st \<Longrightarrow> trips m t"
| trips_other_peer: "found m t st \<Longrightarrow> react (msg_dir m) (msg_kind m) (fstate (heap t st)) = Replied s \<Longrightarrow>
    remote_map t (msg_peer m) = None \<Longrightarrow> cm_flow_key_bool (msg_peer m) \<Longrightarrow>
    cm_flow_key_bool (remote_id (heap t st)) \<Longrightarrow> trips m t"

inductive_simps trips_iff: "trips m t"

lemma found_unique: "found m t st \<Longrightarrow> found m t st' \<longleftrightarrow> st' = st"
  by (auto simp: found_def split: if_splits)

lemma message_step_found:
  "found m t st \<Longrightarrow> message_step m t = apply_reaction m (react (msg_dir m) (msg_kind m) (fstate (heap t st))) t st"
  by (auto simp: message_step_def get_flow_def found_def split: if_splits)

lemma found_bound: "tracker_inv t \<Longrightarrow> found m t st \<Longrightarrow> st < next_ptr t"
  unfolding found_def by (metis local_mapD(1) remote_mapD(1))

lemma add_new_flow_aborts:
  assumes inv: "tracker_inv t" and st: "if lid \<noteq> 0 then local_map t lid = Some st else remote_map t rid = Some st"
  shows "(\<exists>e. add_new_flow t lid rid = Inl e) \<longleftrightarrow>
    (case remote_map t rid of Some other \<Rightarrow> other \<noteq> st
     | None \<Rightarrow> cm_flow_key_bool rid \<and> cm_flow_key_bool (remote_id (heap t st)))"
proof (cases "lid = 0")
  case True
  then show ?thesis using st inv by (auto simp: add_new_flow_def link_local_def link_remote_def)
next
  case False
  then have l: "local_map t lid = Some st" using st by simp
  show ?thesis
    using l local_mapD(3) [OF inv l] remote_mapD(3) [OF inv, of rid st]
    by (cases "remote_map t rid") (auto simp: add_new_flow_def link_local_def link_remote_def assert_res_def)
qed

lemma found_aborts:
  assumes inv: "tracker_inv t" and st: "found m t st"
  shows "(\<exists>e. message_step m t = Inl e) \<longleftrightarrow> trips m t"
proof -
  have named: "msg_id m \<noteq> 0 \<or> cm_flow_key_bool (lookup_peer m)" "msg_id m \<noteq> 0 \<Longrightarrow> local_map t (msg_id m) \<noteq> None"
    using st by (auto simp: found_def split: if_splits)
  show ?thesis
  proof (cases "react (msg_dir m) (msg_kind m) (fstate (heap t st))")
    case (Requested s)
    then have "s = REQ_RCVD \<and> fstate (heap t st) = REQ_RCVD \<longleftrightarrow>
        fstate (heap t st) = REQ_RCVD \<and> react (msg_dir m) (msg_kind m) REQ_RCVD = Requested REQ_RCVD"
      by auto
    then show ?thesis
      using Requested named found_unique [OF st]
      by (auto simp: message_step_found [OF st] trips_iff apply_reaction_def assert_res_def)
  next
    case (Replied s)
    have lt: "st < next_ptr t" by (rule found_bound [OF inv st])
    have "lookup_peer m = msg_peer m \<or> msg_id m \<noteq> 0"
      using named(1) by (auto simp: lookup_peer_def)
    then have "if msg_id m \<noteq> 0 then local_map t (msg_id m) = Some st else remote_map t (msg_peer m) = Some st"
      using st by (auto simp: found_def)
    from add_new_flow_aborts [OF inv this] show ?thesis
      using Replied named found_unique [OF st]
      by (auto simp: message_step_found [OF st] trips_iff replied_eq [OF lt] bind_res_eq_Inl_iff split: option.splits)
  next
    case Forget
    have "msg_id m \<noteq> 0 \<or> cm_flow_key_bool (msg_peer m)" using named(1) by (auto simp: lookup_peer_def split: if_splits)
    then show ?thesis
      using Forget named found_unique [OF st]
      by (auto simp: message_step_found [OF st] trips_iff apply_reaction_def erase_flow_def Let_def split: option.splits)
  qed (use named found_unique [OF st] in \<open>auto simp: message_step_found [OF st] trips_iff apply_reaction_def\<close>)
qed


lemma get_flow_aborts:
  assumes "tracker_inv t"
  shows "(\<exists>e. get_flow t lid rid = Inl e) \<longleftrightarrow> lid = 0 \<and> \<not> cm_flow_key_bool rid \<or>
    lid \<noteq> 0 \<and> local_map t lid = None \<and> (\<exists>st. remote_map t rid = Some st \<and> local_id (heap t st) \<noteq> 0)"
  using assms
  by (auto simp: get_flow_def add_new_flow_def link_local_def link_remote_def new_flow_state_def cm_flow_key_null_def
      cm_flow_key_bool_def assert_res_def bind_res_def Let_def split: option.splits)

lemma unfound_local:
  assumes "tracker_inv t" "\<not> (\<exists>st. found m t st)"
  shows "local_map t (msg_id m) = None"
proof (cases "msg_id m = 0")
  case False
  then have "local_map t (msg_id m) \<noteq> Some a" for a using assms(2) by (auto simp: found_def)
  then show ?thesis by auto
qed (use assms(1) in simp)

lemma created_does_not_trip:
  assumes inv: "tracker_inv t" and unknown: "\<not> (\<exists>st. found m t st)" and m: "proper_message m"
    and get: "get_flow t (msg_id m) (lookup_peer m) = Inr (t1, st)"
  shows "\<not> trips m t1"
proof -
  have i1: "tracker_inv t1" and st: "found m t1 st"
    using get_flow_spec [OF inv get] by (auto simp: found_def)
  have named: "msg_id m \<noteq> 0 \<or> cm_flow_key_bool (lookup_peer m)" "msg_id m \<noteq> 0 \<Longrightarrow> local_map t1 (msg_id m) \<noteq> None"
    using st by (auto simp: found_def split: if_splits)
  have l: "local_map t (msg_id m) = None" by (rule unfound_local [OF inv unknown])
  show ?thesis
  proof (cases "\<exists>a. remote_map t (lookup_peer m) = Some a")
    case True
    then obtain a where a: "remote_map t (lookup_peer m) = Some a" by blast
    have key: "cm_flow_key_bool (lookup_peer m)" using remote_mapD(2) [OF inv a] .
    then have id: "msg_id m \<noteq> 0" using unknown a by (auto simp: found_def)
    have "lookup_peer m = msg_peer m" using key by (auto simp: lookup_peer_def cm_flow_key_bool_def cm_flow_key_null_def split: if_splits)
    then have st': "remote_map t1 (msg_peer m) = Some st"
      using get id l a by (auto simp: get_flow_def add_new_flow_def link_local_def link_remote_def res_Inr_iffs)
    have "react (msg_dir m) (msg_kind m) REQ_RCVD \<noteq> Requested REQ_RCVD"
      using m id by (cases "msg_dir m"; cases "msg_kind m") (auto simp: react_def proper_message_def)
    then show ?thesis using named st' found_unique [OF st] by (auto simp: trips_iff)
  next
    case False
    then have none: "remote_map t (lookup_peer m) = None" by auto
    then have "fstate (heap t1 st) = IDLE"
      using get none l by (auto simp: get_flow_def add_new_flow_def link_local_def link_remote_def res_Inr_iffs
          new_flow_state_def split: if_splits)
    moreover have "react (msg_dir m) (msg_kind m) IDLE \<noteq> Replied s" for s
      by (cases "msg_dir m"; cases "msg_kind m") (simp_all add: react_def)
    ultimately show ?thesis using named found_unique [OF st] by (auto simp: trips_iff)
  qed
qed

lemma message_step_aborts:
  assumes inv: "tracker_inv t" and m: "proper_message m"
  shows "(\<exists>e. message_step m t = Inl e) \<longleftrightarrow> trips m t"
proof (cases "\<exists>st. found m t st")
  case False
  then have trips: "trips m t \<longleftrightarrow> (\<exists>e. get_flow t (msg_id m) (lookup_peer m) = Inl e)"
    by (auto simp: trips_iff get_flow_aborts [OF inv])
  show ?thesis
  proof (cases "get_flow t (msg_id m) (lookup_peer m)")
    case (Inr r)
    then obtain t1 st where get: "get_flow t (msg_id m) (lookup_peer m) = Inr (t1, st)" by (cases r) simp
    have i1: "tracker_inv t1" and st: "found m t1 st"
      using get_flow_spec [OF inv get] by (auto simp: found_def)
    have "message_step m t = message_step m t1" using get message_step_found [OF st] by (simp add: message_step_def)
    then show ?thesis
      using found_aborts [OF i1 st] created_does_not_trip [OF inv False m get] trips get by auto
  qed (use trips in \<open>auto simp: message_step_def\<close>)
qed (use found_aborts [OF inv] in blast)

text \<open>
  C35: When a packet aborts the process: with consistent tables, a packet that carries a CM message trips an assertion exactly
  in the five cases of \<open>trips\<close>, and in all other cases it is processed normally.
\<close>

theorem aborts_exactly:
  assumes "tracker_inv t" "carries env self (p, dir) m"
  shows "(\<exists>e. process env self p dir t = Inl e) \<longleftrightarrow> trips m t"
  using message_step_aborts [OF assms(1)] decode_proper [of env self p dir m] process_carries [OF assms(2)] assms(2)
  by (simp add: carries_def)

text \<open>An RTU from the network with the receiver's identifier zero.\<close>

definition zero_rtu :: rte_mbuf where
  "zero_rtu = sample [10, 0, 0, 2] [10, 0, 0, 1] 0x14 (ids_body [0, 0, 0, 9] [0, 0, 0, 0])"

definition pending_request :: tracker where
  "pending_request =
     new_tracker\<lparr>remote_map := [(0x0200000a, 9) \<mapsto> 0],
       heap := (\<lambda>_. new_flow_state)(0 := new_flow_state\<lparr>fstate := REQ_RCVD, remote_id := (0x0200000a, 9), remote_qpn := 0x203\<rparr>),
       next_ptr := 1\<rparr>"

lemma pending_request_inv: "tracker_inv pending_request"
  by (auto intro!: tracker_invI simp: pending_request_def new_tracker_def local_ok_def remote_ok_def mapped_ok_def qpn_ok_def
      states_ok_def dead_states_def mapped_def new_flow_state_def cm_flow_key_bool_def)

theorem aborts_exactly_witness:
  "(\<exists>e. process sample_dpdk sample_parser zero_rtu CTCM_FROM_NET one_connection = Inl e) \<and>
   (\<exists>e. process sample_dpdk sample_parser
     (sample [10, 0, 0, 2] [10, 0, 0, 1] 0x10 (req_body [0, 0, 0, 9] [0, 2, 4])) CTCM_FROM_NET pending_request = Inl e) \<and>
   \<not> (\<exists>e. process sample_dpdk sample_parser
     (sample [10, 0, 0, 2] [10, 0, 0, 1] 0x10 (req_body [0, 0, 0, 9] [0, 2, 3])) CTCM_FROM_NET pending_request = Inl e)"
proof -
  let ?req = "\<lambda>q. sample [10, 0, 0, 2] [10, 0, 0, 1] 0x10 (req_body [0, 0, 0, 9] [0, 2, q])"
  have zero: "carries sample_dpdk sample_parser (zero_rtu, CTCM_FROM_NET) (ids_msg Kind_RTU CTCM_FROM_NET 0 (0x0200000a, 9))"
    by (simp add: zero_rtu_def sample_eval del: of_le_bytes.simps)
  have other: "carries sample_dpdk sample_parser (?req 4, CTCM_FROM_NET) (req_msg CTCM_FROM_NET 0 (0x0200000a, 9) 0x204)"
    and same: "carries sample_dpdk sample_parser (?req 3, CTCM_FROM_NET) (req_msg CTCM_FROM_NET 0 (0x0200000a, 9) 0x203)"
    by (simp_all add: sample_eval del: of_le_bytes.simps)
  have "trips (ids_msg Kind_RTU CTCM_FROM_NET 0 (0x0200000a, 9)) one_connection"
    by (rule trips_unnamed) (simp_all add: ids_msg_def lookup_peer_def)
  moreover have "found (req_msg CTCM_FROM_NET 0 (0x0200000a, 9) q) pending_request 0" for q
    by (simp add: found_def req_msg_def lookup_peer_def pending_request_def cm_flow_key_bool_def)
  then have "trips (req_msg CTCM_FROM_NET 0 (0x0200000a, 9) q) pending_request \<longleftrightarrow> q \<noteq> 0x203" for q
    using found_unique [of "req_msg CTCM_FROM_NET 0 (0x0200000a, 9) q" pending_request 0]
    by (auto simp: trips_iff req_msg_def react_def pending_request_def lookup_peer_def cm_flow_key_bool_def)
  ultimately show ?thesis
    using aborts_exactly [OF one_connection_inv zero] aborts_exactly [OF pending_request_inv other]
      aborts_exactly [OF pending_request_inv same] by simp
qed

section \<open>Entries left behind\<close>

lemma create_unknown:
  assumes "tracker_inv t" "lid \<noteq> 0" "local_map t lid = None"
  shows "get_flow t lid cm_flow_key_null = Inr
    (t\<lparr>local_map := (local_map t)(lid \<mapsto> next_ptr t),
       heap := (heap t)(next_ptr t := new_flow_state\<lparr>local_id := lid\<rparr>), next_ptr := Suc (next_ptr t)\<rparr>, next_ptr t)"
  using assms by (simp add: get_flow_def add_new_flow_def link_local_def link_remote_def upd_flow_def Let_def)

text \<open>
  C36: Four kinds of messages about an unknown connection create an entry: an RTU or a DREP of either direction, and a REP or a DREQ from the network, for
  a non-zero identifier the tracker does not know adds an idle flow under that identifier and changes nothing else; the same packet
  once more changes nothing, so the entry does not go away with it.  In particular a repeated DREP re-creates the entry that the
  first one removed.
\<close>

theorem unknown_identifier_adds_idle_flow:
  assumes "tracker_inv t" "carries env self (p, dir) m" "msg_id m \<noteq> 0" "local_map t (msg_id m) = None"
    and "msg_kind m \<in> {Kind_RTU, Kind_DREP} \<or> (dir, msg_kind m) \<in> {(CTCM_FROM_NET, Kind_REP), (CTCM_FROM_NET, Kind_DREQ)}"
  shows "\<exists>t'. process env self p dir t = Inr t' \<and> local_map t' = (local_map t)(msg_id m \<mapsto> next_ptr t) \<and>
    heap t' (next_ptr t) = new_flow_state\<lparr>local_id := msg_id m\<rparr> \<and> (\<forall>a < next_ptr t. heap t' a = heap t a) \<and>
    remote_map t' = remote_map t \<and> qpn_map t' = qpn_map t \<and> process env self p dir t' = Inr t'"
proof -
  have d: "msg_dir m = dir" using assms(2) by (auto simp: carries_def decode_def elim!: bind_res_InrE split: option.splits)
  then have "lookup_peer m = cm_flow_key_null" using assms(5) by (auto simp: lookup_peer_def)
  moreover have "react (msg_dir m) (msg_kind m) IDLE = Ignore"
    using assms(5) d by (cases dir; cases "msg_kind m") (simp_all add: react_def)
  ultimately show ?thesis
    using process_carries [OF assms(2)] create_unknown [OF assms(1,3,4)] assms(3)
    by (simp add: message_step_def apply_reaction_def get_flow_known)
qed

theorem unknown_identifier_adds_idle_flow_witness:
  "\<exists>t'. process sample_dpdk sample_parser (fst (teardown_packets ! 1)) CTCM_FROM_HOST new_tracker = Inr t' \<and>
     local_map t' 7 = Some 0 \<and> fstate (heap t' 0) = IDLE"
proof -
  have "carries sample_dpdk sample_parser (fst (teardown_packets ! 1), CTCM_FROM_HOST)
      (ids_msg Kind_DREP CTCM_FROM_HOST 7 (0x0200000a, 9))"
    using teardown_packets_carry by (simp add: teardown_packets_def carries_def)
  from unknown_identifier_adds_idle_flow [OF tracker_inv_new this]
  show ?thesis by (fastforce simp: ids_msg_def new_tracker_def)
qed

text \<open>
  C37: A DREP that names another peer identifier leaves the connection's entry in the remote table: it
  ends the connection, but a later REQ of the peer under the old identifier finds the dead flow and is
  ignored, so that connection is never tracked.
\<close>

theorem mismatched_drep_blocks_peer:
  assumes inv: "tracker_inv t" and flow: "lid \<noteq> 0" "local_map t lid = Some st" "remote_map t peer = Some st"
      "fstate (heap t st) \<in> {DREQ_SENT, DREQ_RCVD}" and other: "other \<noteq> peer"
    and drep: "carries env self (p1, d) (ids_msg Kind_DREP d lid other)"
    and req: "carries env self (p2, CTCM_FROM_NET) (req_msg CTCM_FROM_NET 0 peer rq)"
  shows "\<exists>t'. process env self p1 d t = Inr t' \<and> local_map t' lid = None \<and> remote_map t' peer = Some st \<and>
    \<not> in_qpn_map (heap t' st) \<and> process env self p2 CTCM_FROM_NET t' = Inr t'"
proof -
  have "react d Kind_DREP (fstate (heap t st)) = Forget" using flow(4) by (cases d) (auto simp: react_def)
  then obtain t' where t': "message_step (ids_msg Kind_DREP d lid other) t = Inr t'"
    "local_map t' lid = None" "remote_map t' peer = Some st" "\<not> in_qpn_map (heap t' st)"
    "fstate (heap t' st) = fstate (heap t st)"
    using forget_known [OF inv, of "ids_msg Kind_DREP d lid other" st] flow other by (auto simp: ids_msg_def)
  have "cm_flow_key_bool peer" using remote_mapD(2) [OF inv flow(3)] .
  then have "message_step (req_msg CTCM_FROM_NET 0 peer rq) t' = Inr t'"
    using t'(3,5) flow(4)
    by (auto simp: message_step_def lookup_peer_def get_flow_def req_msg_def react_def apply_reaction_def)
  then show ?thesis using t' process_carries [OF drep] process_carries [OF req] by auto
qed

definition closing_connection :: tracker where
  "closing_connection = upd_flow one_connection 0 (fstate_update (\<lambda>_. DREQ_RCVD))"

lemma closing_connection_inv: "tracker_inv closing_connection"
  unfolding closing_connection_def
  by (intro tracker_inv_upd [OF one_connection_inv])
    (auto simp: dead_states_def live_states_def one_connection_def with_connection_def)

theorem mismatched_drep_blocks_peer_witness:
  "\<exists>t'. process sample_dpdk sample_parser
       (sample [10, 0, 0, 1] [10, 0, 0, 2] 0x16 (ids_body [0, 0, 0, 7] [0, 0, 0, 1])) CTCM_FROM_HOST closing_connection = Inr t' \<and>
     remote_map t' (0x0200000a, 9) = Some 0 \<and>
     process sample_dpdk sample_parser
       (sample [10, 0, 0, 2] [10, 0, 0, 1] 0x10 (req_body [0, 0, 0, 9] [0, 2, 4])) CTCM_FROM_NET t' = Inr t'"
proof -
  let ?p1 = "sample [10, 0, 0, 1] [10, 0, 0, 2] 0x16 (ids_body [0, 0, 0, 7] [0, 0, 0, 1])"
  let ?p2 = "sample [10, 0, 0, 2] [10, 0, 0, 1] 0x10 (req_body [0, 0, 0, 9] [0, 2, 4])"
  have "carries sample_dpdk sample_parser (?p1, CTCM_FROM_HOST) (ids_msg Kind_DREP CTCM_FROM_HOST 7 (0x0200000a, 1))"
    "carries sample_dpdk sample_parser (?p2, CTCM_FROM_NET) (req_msg CTCM_FROM_NET 0 (0x0200000a, 9) 0x204)"
    by (simp_all add: sample_eval del: of_le_bytes.simps)
  from mismatched_drep_blocks_peer [OF closing_connection_inv _ _ _ _ _ this, where st = 0] show ?thesis
    by (auto simp: closing_connection_def)
qed

section \<open>Two connections with the same peer address and QPN\<close>

text \<open>
  C38: The first registration wins: when a flow becomes established for a peer address and QPN that
  already have an entry, the flow is established but not registered: the query keeps answering the QPN of the
  earlier connection.
\<close>

theorem first_registration_wins:
  assumes "carries env self (p, dir) m" "msg_kind m = Kind_RTU" "msg_id m \<noteq> 0" "local_map t (msg_id m) = Some st"
    and "fstate (heap t st) = (case dir of CTCM_FROM_HOST \<Rightarrow> REP_RCVD | CTCM_FROM_NET \<Rightarrow> REP_SENT)"
    and "qpn_map t (get_flow_key (heap t st)) = Some q"
  shows "\<exists>t'. process env self p dir t = Inr t' \<and> fstate (heap t' st) = ESTABLISHED \<and>
    in_qpn_map (heap t' st) = in_qpn_map (heap t st) \<and> qpn_map t' = qpn_map t \<and>
    get_source_qpn t' (get_flow_key (heap t' st)) = q"
proof -
  have d: "msg_dir m = dir" using assms(1) by (auto simp: carries_def decode_def elim!: bind_res_InrE split: option.splits)
  have "react dir Kind_RTU (fstate (heap t st)) = Established" using assms(5) by (cases dir) (simp_all add: react_def)
  then show ?thesis
    using process_carries [OF assms(1)] assms(2-4,6) d
    by (simp add: message_step_known apply_reaction_def on_established_def Let_def flow_value_def get_flow_key_def
        get_source_qpn_def)
qed

definition duplicate_peer :: tracker where
  "duplicate_peer =
     one_connection\<lparr>local_map := (local_map one_connection)(8 \<mapsto> 1),
       heap := (heap one_connection)(1 := new_flow_state\<lparr>fstate := REP_RCVD, local_id := 8, remote_id := (0x0200000a, 5),
         local_qpn := 0x104, remote_qpn := 0x203\<rparr>),
       next_ptr := 2\<rparr>"

theorem first_registration_wins_witness:
  "\<exists>t'. process sample_dpdk sample_parser
       (sample [10, 0, 0, 1] [10, 0, 0, 2] 0x14 (ids_body [0, 0, 0, 8] [0, 0, 0, 5])) CTCM_FROM_HOST duplicate_peer = Inr t' \<and>
     fstate (heap t' 1) = ESTABLISHED \<and> qpn_map t' = qpn_map duplicate_peer"
proof -
  let ?p = "sample [10, 0, 0, 1] [10, 0, 0, 2] 0x14 (ids_body [0, 0, 0, 8] [0, 0, 0, 5])"
  have "carries sample_dpdk sample_parser (?p, CTCM_FROM_HOST) (ids_msg Kind_RTU CTCM_FROM_HOST 8 (0x0200000a, 5))"
    by (simp add: sample_eval del: of_le_bytes.simps)
  moreover have "qpn_map duplicate_peer (get_flow_key (heap duplicate_peer 1)) = Some 0x102"
    by (simp add: duplicate_peer_def get_flow_key_def one_connection_def with_connection_def)
  ultimately show ?thesis
    using first_registration_wins [of sample_dpdk sample_parser ?p CTCM_FROM_HOST
        "ids_msg Kind_RTU CTCM_FROM_HOST 8 (0x0200000a, 5)" duplicate_peer 1 "0x102"]
    by (auto simp: ids_msg_def duplicate_peer_def)
qed

end
