(* ===== verification/Two_Ends.thy ===== *)
theory Two_Ends
  imports Lifecycle
begin

text \<open>
  Two hosts that both run the tracker on the same packets: what one sees leave, the other sees arrive.
  \<open>mirror\<close> is the message of the other end, and the decoders of the two ends agree on it.
\<close>

fun opposite :: "ctcm_direction \<Rightarrow> ctcm_direction" where
  "opposite CTCM_FROM_HOST = CTCM_FROM_NET"
| "opposite CTCM_FROM_NET = CTCM_FROM_HOST"

lemma opposite_opposite [simp]: "opposite (opposite d) = d"
  by (cases d) simp_all

lemma rows_opposite: "own_row (opposite d) k = peer_row d k" "peer_row (opposite d) k = own_row d k"
  by (cases d; simp)+

definition mirror :: "in_addr_t \<Rightarrow> cm_message \<Rightarrow> cm_message" where
  "mirror addr m =
     \<lparr>msg_dir = opposite (msg_dir m), msg_kind = msg_kind m, msg_id = snd (msg_peer m),
      msg_peer = (addr, msg_id m), msg_qpn = msg_qpn m\<rparr>"

lemma peer_key_eq: "peer_key d env p rid = map_res (\<lambda>k. (fst k, rid)) (peer_key d env p 0)"
  by (cases d) (simp_all add: from_dest_def from_src_def bind_res_def map_res_def split: sum.split)

lemma decode_mirror:
  assumes "decode env self p d = Inr (Some m)" "peer_key (opposite d) env p 0 = Inr (addr, 0)"
  shows "decode env self p (opposite d) = Inr (Some (mirror addr m))"
proof -
  have k: "peer_key (opposite d) env p rid = Inr (addr, rid)" for rid
    using assms(2) by (subst peer_key_eq) simp
  have s: "b = rid" if "peer_key d env p rid = Inr (a, b)" for rid a b
    using that by (subst (asm) peer_key_eq) (auto simp: map_res_eq_Inr_iff)
  show ?thesis
    using assms(1) k
    by (auto simp: decode_def rows_opposite mirror_def dest!: s elim!: bind_res_InrE split: option.splits)
qed

lemma carries_mirror:
  assumes "carries env self (p, d) m" "peer_key (opposite d) env p 0 = Inr (addr, 0)"
  shows "carries env self (p, opposite d) (mirror addr m)"
  using assms decode_mirror by (simp add: carries_def)

text \<open>
  C10: Both ends agree: if host A opens a connection to host B and each runs the tracker on the
  same REQ, REP and RTU packets, then afterwards A's tracker answers A's QPN for B's
  address and QPN, and B's tracker answers B's QPN for A's address and QPN.
\<close>

theorem both_ends_agree:
  assumes ids: "ida \<noteq> 0" "idb \<noteq> 0" "ip_a \<noteq> 0" "ip_b \<noteq> 0" "qa \<noteq> 0" "qb \<noteq> 0"
    and at_a: "carries env self (req, CTCM_FROM_HOST) (req_msg CTCM_FROM_HOST ida (ip_b, 0) qa)"
      "carries env self (rep, CTCM_FROM_NET) (rep_msg CTCM_FROM_NET ida (ip_b, idb) qb)"
      "carries env self (rtu, CTCM_FROM_HOST) (ids_msg Kind_RTU CTCM_FROM_HOST ida (ip_b, idb))"
    and from_a: "from_src env req 0 = Inr (ip_a, 0)" "from_dest env rep 0 = Inr (ip_a, 0)"
      "from_src env rtu 0 = Inr (ip_a, 0)"
  shows "\<exists>ta tb.
    run (packet_step env self) [(req, CTCM_FROM_HOST), (rep, CTCM_FROM_NET), (rtu, CTCM_FROM_HOST)] new_tracker = Inr ta \<and>
    run (packet_step env self) [(req, CTCM_FROM_NET), (rep, CTCM_FROM_HOST), (rtu, CTCM_FROM_NET)] new_tracker = Inr tb \<and>
    get_source_qpn ta (ip_b, qb) = qa \<and> get_source_qpn tb (ip_a, qa) = qb"
proof -
  have fresh: "fresh_connection new_tracker ida (ip_b, idb) qa qb" "fresh_connection new_tracker idb (ip_a, ida) qb qa"
    using ids by (simp_all add: fresh_connection_def new_tracker_def cm_flow_key_bool_def)
  have "carries env self (req, CTCM_FROM_NET) (req_msg CTCM_FROM_NET 0 (ip_a, ida) qa)"
    "carries env self (rep, CTCM_FROM_HOST) (rep_msg CTCM_FROM_HOST idb (ip_a, ida) qb)"
    "carries env self (rtu, CTCM_FROM_NET) (ids_msg Kind_RTU CTCM_FROM_NET idb (ip_a, ida))"
    using carries_mirror [OF at_a(1), of ip_a] carries_mirror [OF at_a(2), of ip_a]
      carries_mirror [OF at_a(3), of ip_a] from_a
    by (simp_all add: mirror_def msg_defs)
  then have b: "list_all2 (carries env self) [(req, CTCM_FROM_NET), (rep, CTCM_FROM_HOST), (rtu, CTCM_FROM_NET)]
      [req_msg CTCM_FROM_NET 0 (ip_a, ida) qa, rep_msg CTCM_FROM_HOST idb (ip_a, ida) qb,
       ids_msg Kind_RTU CTCM_FROM_NET idb (ip_a, ida)]" by simp
  have a: "list_all2 (carries env self) [(req, CTCM_FROM_HOST), (rep, CTCM_FROM_NET), (rtu, CTCM_FROM_HOST)]
      [req_msg CTCM_FROM_HOST ida (ip_b, 0) qa, rep_msg CTCM_FROM_NET ida (ip_b, idb) qb,
       ids_msg Kind_RTU CTCM_FROM_HOST ida (ip_b, idb)]" using at_a by simp
  show ?thesis
    unfolding run_packets [OF a] run_packets [OF b] active_messages [OF tracker_inv_new fresh(1)]
      passive_messages [OF tracker_inv_new fresh(2)]
    by (simp add: with_connection_query)
qed

theorem both_ends_agree_witness:
  "\<exists>ta tb. run (packet_step sample_dpdk sample_parser) active_packets new_tracker = Inr ta \<and>
     run (packet_step sample_dpdk sample_parser) (map (\<lambda>(p, d). (p, opposite d)) active_packets) new_tracker = Inr tb \<and>
     get_source_qpn ta (0x0200000a, 0x203) = 0x102 \<and> get_source_qpn tb (0x0100000a, 0x102) = 0x203"
proof -
  let ?p1 = "fst (active_packets ! 0)" and ?p2 = "fst (active_packets ! 1)" and ?p3 = "fst (active_packets ! 2)"
  have es: "active_packets = [(?p1, CTCM_FROM_HOST), (?p2, CTCM_FROM_NET), (?p3, CTCM_FROM_HOST)]"
    by (simp add: active_packets_def)
  have c: "carries sample_dpdk sample_parser (?p1, CTCM_FROM_HOST) (req_msg CTCM_FROM_HOST 7 (0x0200000a, 0) 0x102)"
    "carries sample_dpdk sample_parser (?p2, CTCM_FROM_NET) (rep_msg CTCM_FROM_NET 7 (0x0200000a, 9) 0x203)"
    "carries sample_dpdk sample_parser (?p3, CTCM_FROM_HOST) (ids_msg Kind_RTU CTCM_FROM_HOST 7 (0x0200000a, 9))"
    using active_packets_carry by (simp_all add: active_packets_def)
  have "from_src sample_dpdk ?p1 0 = Inr (0x0100000a, 0)" "from_dest sample_dpdk ?p2 0 = Inr (0x0100000a, 0)"
    "from_src sample_dpdk ?p3 0 = Inr (0x0100000a, 0)"
    using sample_peer [of _ _ CTCM_FROM_NET] sample_peer [of _ _ CTCM_FROM_HOST] sample_addrs
    by (simp_all add: active_packets_def del: of_le_bytes.simps)
  from both_ends_agree [OF _ _ _ _ _ _ c this] show ?thesis by (subst (1 2) es) simp
qed

end
