(* ===== verification/Connections.thy ===== *)
theory Connections
  imports Ctcm
begin

text \<open>
  What the tracker is for, without hash tables and pointers: a set of connections.

  A connection has the fields of a \<^verbatim>\<open>flow_state\<close> and says under which of its two names it can be found.  A message
  is looked up by name among the connections, and the reaction of the state machine replaces that connection by its
  successor.  There are no addresses, so nothing is shared, and no query table: an answer is the QPN of the registered
  connection with the key asked for.  \<open>connections\<close> reads this set off the tables of a tracker, each operation of the tracker is
  the operation on the set, and so is every run of the library.
\<close>

section \<open>The machine on sets of connections\<close>

record conn =
  flow :: flow_state
  in_local :: bool
  in_remote :: bool

text \<open>The connections with a given name, and those a query finds.\<close>

definition idle_conn :: conn where
  "idle_conn = \<lparr>flow = new_flow_state, in_local = False, in_remote = False\<rparr>"

definition named_locally :: "conn set \<Rightarrow> id_t \<Rightarrow> conn set" where
  "named_locally C lid = {c \<in> C. in_local c \<and> local_id (flow c) = lid}"

definition named_remotely :: "conn set \<Rightarrow> cm_flow_key \<Rightarrow> conn set" where
  "named_remotely C rid = {c \<in> C. in_remote c \<and> remote_id (flow c) = rid}"

definition registered :: "conn set \<Rightarrow> flow_key \<Rightarrow> conn set" where
  "registered C k = {c \<in> C. in_qpn_map (flow c) \<and> get_flow_key (flow c) = k}"

definition answer :: "conn set \<Rightarrow> flow_key \<Rightarrow> qpn_t" where
  "answer C k = (if registered C k = {} then 0 else local_qpn (flow (the_elem (registered C k))))"

definition replace_conn :: "conn set \<Rightarrow> conn \<Rightarrow> conn \<Rightarrow> conn set" where
  "replace_conn C c c' = insert c' (C - {c})"

text \<open>
  Giving a connection the names it does not have yet.  A name that is taken is left alone; a connection that has another
  name of that kind already is the failed assertion of \<^verbatim>\<open>add_new_flow\<close>.
\<close>

definition conn_link :: "conn set \<Rightarrow> conn \<Rightarrow> id_t \<Rightarrow> cm_flow_key \<Rightarrow> (conn set \<times> conn) res" where
  "conn_link C c lid rid =
     (let new_local = (named_locally C lid = {} \<and> lid \<noteq> 0);
          new_remote = (named_remotely C rid = {} \<and> cm_flow_key_bool rid);
          c' = c\<lparr>flow := (flow c)\<lparr>local_id := if new_local then lid else local_id (flow c),
                                  remote_id := if new_remote then rid else remote_id (flow c)\<rparr>,
                 in_local := in_local c \<or> new_local, in_remote := in_remote c \<or> new_remote\<rparr>
      in bind_res (assert_res ((new_local \<longrightarrow> local_id (flow c) = 0) \<and>
           (new_remote \<longrightarrow> \<not> cm_flow_key_bool (remote_id (flow c))))) (\<lambda>_.
         Inr (replace_conn C c c', c')))"

definition conn_add :: "conn set \<Rightarrow> id_t \<Rightarrow> cm_flow_key \<Rightarrow> (conn set \<times> conn) res" where
  "conn_add C lid rid =
     (let L = named_locally C lid; R = named_remotely C rid
      in if L = {} \<and> R = {}
         then bind_res (assert_res (lid \<noteq> 0 \<or> cm_flow_key_bool rid)) (\<lambda>_. conn_link C idle_conn lid rid)
         else bind_res (assert_res (L = {} \<or> R = {} \<or> L = R)) (\<lambda>_.
           conn_link C (the_elem (L \<union> R)) lid rid))"

definition conn_find :: "conn set \<Rightarrow> id_t \<Rightarrow> cm_flow_key \<Rightarrow> conn set" where
  "conn_find C lid rid = (if lid \<noteq> 0 then named_locally C lid else named_remotely C rid)"

definition conn_get :: "conn set \<Rightarrow> id_t \<Rightarrow> cm_flow_key \<Rightarrow> (conn set \<times> conn) res" where
  "conn_get C lid rid =
     bind_res (assert_res (lid \<noteq> 0 \<or> cm_flow_key_bool rid)) (\<lambda>_.
       if conn_find C lid rid = {} then conn_add C lid rid else Inr (C, the_elem (conn_find C lid rid)))"

definition conn_update :: "conn set \<Rightarrow> conn \<Rightarrow> (flow_state \<Rightarrow> flow_state) \<Rightarrow> conn set" where
  "conn_update C c f = replace_conn C c (c\<lparr>flow := f (flow c)\<rparr>)"

definition conn_register :: "conn set \<Rightarrow> conn \<Rightarrow> conn set" where
  "conn_register C c =
     (if local_qpn (flow c) = 0 \<or> remote_qpn (flow c) = 0 \<or> registered C (get_flow_key (flow c)) \<noteq> {} then C
      else conn_update C c (in_qpn_map_update (\<lambda>_. True)))"

text \<open>
  A connection that loses both names is gone.  The names are those of the message, so another connection may lose
  its remote name with it.
\<close>

definition unlist :: "id_t \<Rightarrow> cm_flow_key \<Rightarrow> conn \<Rightarrow> conn" where
  "unlist lid rid c =
     c\<lparr>in_local := (in_local c \<and> local_id (flow c) \<noteq> lid), in_remote := (in_remote c \<and> remote_id (flow c) \<noteq> rid)\<rparr>"

definition conn_erase :: "conn set \<Rightarrow> conn \<Rightarrow> id_t \<Rightarrow> cm_flow_key \<Rightarrow> conn set" where
  "conn_erase C c lid rid =
     {d \<in> unlist lid rid ` conn_update C c (in_qpn_map_update (\<lambda>_. False)). in_local d \<or> in_remote d}"

definition conn_react :: "cm_message \<Rightarrow> conn set \<Rightarrow> conn \<Rightarrow> conn set res" where
  "conn_react m C c =
     (case react (msg_dir m) (msg_kind m) (fstate (flow c)) of
        Ignore \<Rightarrow> Inr C
      | Requested s \<Rightarrow>
          bind_res (assert_res (s = REQ_RCVD \<and> fstate (flow c) = REQ_RCVD \<longrightarrow> remote_qpn (flow c) = msg_qpn m)) (\<lambda>_.
          Inr (conn_update C c (\<lambda>f. set_qpn (msg_dir m) (msg_qpn m) (f\<lparr>fstate := s\<rparr>))))
      | Replied s \<Rightarrow>
          bind_res (conn_add C (msg_id m) (msg_peer m)) (\<lambda>(C, c).
          Inr (conn_update C c (\<lambda>f. set_qpn (msg_dir m) (msg_qpn m) (f\<lparr>fstate := s\<rparr>))))
      | Established \<Rightarrow>
          Inr (conn_register (conn_update C c (fstate_update (\<lambda>_. ESTABLISHED)))
            (c\<lparr>flow := (flow c)\<lparr>fstate := ESTABLISHED\<rparr>\<rparr>))
      | Closing s \<Rightarrow> Inr (conn_update C c (fstate_update (\<lambda>_. s)))
      | Forget \<Rightarrow> Inr (conn_erase C c (msg_id m) (msg_peer m)))"

text \<open>One message.\<close>

definition conn_step :: "cm_message \<Rightarrow> conn set \<Rightarrow> conn set res" where
  "conn_step m C = bind_res (conn_get C (msg_id m) (lookup_peer m)) (\<lambda>(C, c). conn_react m C c)"

section \<open>The connections of a tracker\<close>

text \<open>The connection at an address; the objects no table refers to are not connections.\<close>

definition conn_at :: "tracker \<Rightarrow> nat \<Rightarrow> conn" where
  "conn_at t a =
     \<lparr>flow = heap t a, in_local = (local_map t (local_id (heap t a)) = Some a),
      in_remote = (remote_map t (remote_id (heap t a)) = Some a)\<rparr>"

definition listed :: "tracker \<Rightarrow> nat \<Rightarrow> bool" where
  "listed t a \<longleftrightarrow> in_local (conn_at t a) \<or> in_remote (conn_at t a)"

definition connections :: "tracker \<Rightarrow> conn set" where
  "connections t = conn_at t ` {a. listed t a}"

lemma conn_at_simps [simp]:
  "flow (conn_at t a) = heap t a"
  "in_local (conn_at t a) \<longleftrightarrow> local_map t (local_id (heap t a)) = Some a"
  "in_remote (conn_at t a) \<longleftrightarrow> remote_map t (remote_id (heap t a)) = Some a"
  by (simp_all add: conn_at_def)

lemma conn_at_inject:
  assumes "listed t a" "conn_at t a = conn_at t b"
  shows "a = b"
proof -
  have h: "heap t a = heap t b" using arg_cong [OF assms(2), of flow] by (simp only: conn_at_simps)
  from assms(1) consider "local_map t (local_id (heap t a)) = Some a" | "remote_map t (remote_id (heap t a)) = Some a"
    by (auto simp: listed_def)
  then show ?thesis
  proof cases
    case 1
    moreover from this have "local_map t (local_id (heap t b)) = Some b"
      using arg_cong [OF assms(2), of in_local] by (simp only: conn_at_simps simp_thms)
    ultimately show ?thesis by (metis h option.inject)
  next
    case 2
    moreover from this have "remote_map t (remote_id (heap t b)) = Some b"
      using arg_cong [OF assms(2), of in_remote] by (simp only: conn_at_simps simp_thms)
    ultimately show ?thesis by (metis h option.inject)
  qed
qed

lemma listed_bound: "tracker_inv t \<Longrightarrow> listed t a \<Longrightarrow> a < next_ptr t"
  unfolding listed_def conn_at_simps by (blast dest: local_mapD(1) remote_mapD(1))

lemma listed_local: "tracker_inv t \<Longrightarrow> local_map t l = Some a \<Longrightarrow> listed t a"
  using local_mapD(3) by (auto simp: listed_def)

lemma listed_remote: "tracker_inv t \<Longrightarrow> remote_map t k = Some a \<Longrightarrow> listed t a"
  using remote_mapD(3) by (auto simp: listed_def)

lemma named_locally_connections:
  assumes "tracker_inv t"
  shows "named_locally (connections t) l = (case local_map t l of None \<Rightarrow> {} | Some a \<Rightarrow> {conn_at t a})"
proof (cases "local_map t l")
  case None
  then show ?thesis by (auto simp: named_locally_def connections_def)
next
  case (Some a)
  then have "conn_at t a \<in> connections t" using listed_local [OF assms] by (simp add: connections_def)
  moreover have "c = conn_at t a" if "c \<in> named_locally (connections t) l" for c
    using that Some by (auto simp: named_locally_def connections_def)
  ultimately show ?thesis using Some local_mapD(3) [OF assms Some] by (auto simp: named_locally_def)
qed

lemma named_remotely_connections:
  assumes "tracker_inv t"
  shows "named_remotely (connections t) k = (case remote_map t k of None \<Rightarrow> {} | Some a \<Rightarrow> {conn_at t a})"
proof (cases "remote_map t k")
  case None
  then show ?thesis by (auto simp: named_remotely_def connections_def)
next
  case (Some a)
  then have "conn_at t a \<in> connections t" using listed_remote [OF assms] by (simp add: connections_def)
  moreover have "c = conn_at t a" if "c \<in> named_remotely (connections t) k" for c
    using that Some by (auto simp: named_remotely_def connections_def)
  ultimately show ?thesis using Some remote_mapD(3) [OF assms Some] by (auto simp: named_remotely_def)
qed

lemma registered_connections:
  assumes inv: "tracker_inv t"
  shows "registered (connections t) k = conn_at t ` {a. mapped t a \<and> get_flow_key (heap t a) = k}"
  using listed_bound [OF inv] mappedD(5) [OF inv]
  by (auto simp: registered_def connections_def mapped_def listed_def)

lemma registered_connections_empty:
  assumes inv: "tracker_inv t"
  shows "registered (connections t) k = {} \<longleftrightarrow> qpn_map t k = None"
proof (cases "qpn_map t k")
  case None
  then show ?thesis using mappedD(4) [OF inv] by (auto simp: registered_connections [OF inv])
next
  case (Some q)
  then show ?thesis by (auto simp: registered_connections [OF inv] elim: qpn_mapE [OF inv])
qed

lemma answer_connections:
  assumes inv: "tracker_inv t"
  shows "answer (connections t) k = get_source_qpn t k"
proof (cases "qpn_map t k")
  case None
  then show ?thesis using registered_connections_empty [OF inv] by (simp add: answer_def get_source_qpn_def)
next
  case (Some q)
  then obtain a where a: "mapped t a" "get_flow_key (heap t a) = k" "local_qpn (heap t a) = q"
    using qpn_mapE [OF inv] by metis
  then have "registered (connections t) k = {conn_at t a}"
    using mapped_unique [OF inv] by (auto simp: registered_connections [OF inv])
  then show ?thesis using Some a(3) by (simp add: answer_def get_source_qpn_def)
qed

text \<open>A change of one object, listed before or not, replaces its connection.\<close>

lemma connections_replace:
  assumes "\<And>b. b \<noteq> a \<Longrightarrow> conn_at t' b = conn_at t b" "listed t' a"
  shows "connections t' = replace_conn (connections t) (conn_at t a) (conn_at t' a)"
proof -
  have l: "listed t' b \<longleftrightarrow> listed t b" if "b \<noteq> a" for b using assms(1) [OF that] by (simp add: listed_def)
  have "{b. listed t' b} = insert a {b. listed t b \<and> b \<noteq> a}" using assms(2) l by blast
  then have "connections t' = insert (conn_at t' a) (conn_at t' ` {b. listed t b \<and> b \<noteq> a})"
    by (simp add: connections_def)
  also have "conn_at t' ` {b. listed t b \<and> b \<noteq> a} = conn_at t ` {b. listed t b \<and> b \<noteq> a}"
    using assms(1) by (intro image_cong) auto
  also have "conn_at t ` {b. listed t b \<and> b \<noteq> a} = connections t - {conn_at t a}"
    unfolding connections_def by (auto dest: conn_at_inject)
  finally show ?thesis by (simp add: replace_conn_def)
qed

lemma connections_upd_flow:
  assumes "listed t st" "local_id (f (heap t st)) = local_id (heap t st)" "remote_id (f (heap t st)) = remote_id (heap t st)"
  shows "connections (upd_flow t st f) = conn_update (connections t) (conn_at t st) f"
    "conn_at (upd_flow t st f) st = (conn_at t st)\<lparr>flow := f (heap t st)\<rparr>" "listed (upd_flow t st f) st"
proof -
  show c: "conn_at (upd_flow t st f) st = (conn_at t st)\<lparr>flow := f (heap t st)\<rparr>"
    using assms by (simp add: conn_at_def)
  show l: "listed (upd_flow t st f) st" using assms(1) c by (simp add: listed_def)
  show "connections (upd_flow t st f) = conn_update (connections t) (conn_at t st) f"
    using connections_replace [of st "upd_flow t st f" t, OF _ l] c
    by (simp add: conn_update_def conn_at_def)
qed


section \<open>Lookup and creation\<close>

lemma connections_alloc:
  assumes inv: "tracker_inv t"
  shows "conn_at (alloc t) (next_ptr t) = idle_conn" "connections (alloc t) = connections t"
proof -
  have n: "\<not> listed (alloc t) (next_ptr t)"
    using listed_bound [OF inv] inv by (auto simp: listed_def new_flow_state_def dest: remote_mapD(1) [OF inv])
  show "conn_at (alloc t) (next_ptr t) = idle_conn"
    using n by (simp add: conn_at_def idle_conn_def listed_def)
  have same: "conn_at (alloc t) b = conn_at t b" if "b \<noteq> next_ptr t" for b using that by (simp add: conn_at_def)
  have "listed (alloc t) b \<longleftrightarrow> listed t b" for b
  proof (cases "b = next_ptr t")
    case True
    then show ?thesis using n listed_bound [OF inv, of b] by blast
  next
    case False
    then show ?thesis using same [OF False] by (simp only: listed_def)
  qed
  then have "{b. listed (alloc t) b} = {b. listed t b}" by simp
  then show "connections (alloc t) = connections t"
    unfolding connections_def using same listed_bound [OF inv] by (intro image_cong) force+
qed

abbreviation conn_result :: "(tracker \<times> nat) res \<Rightarrow> (conn set \<times> conn) res" where
  "conn_result \<equiv> map_res (\<lambda>(t, st). (connections t, conn_at t st))"

lemmas named_connections = named_locally_connections named_remotely_connections

lemma link_refines:
  assumes inv: "tracker_inv t"
    and ends_listed: "listed t st \<or> local_map t lid = None \<and> lid \<noteq> 0 \<or> remote_map t rid = None \<and> cm_flow_key_bool rid"
  shows "conn_result (bind_res (link_local t st lid (local_map t lid)) (\<lambda>t1.
      bind_res (link_remote t1 st rid (remote_map t rid)) (\<lambda>t2. Inr (t2, st)))) =
    conn_link (connections t) (conn_at t st) lid rid"
proof -
  let ?l = "local_map t lid = None \<and> lid \<noteq> 0" and ?r = "remote_map t rid = None \<and> cm_flow_key_bool rid"
  have new: "named_locally (connections t) lid = {} \<longleftrightarrow> local_map t lid = None"
    "named_remotely (connections t) rid = {} \<longleftrightarrow> remote_map t rid = None"
    by (simp_all add: named_connections [OF inv] split: option.splits)
  define t1 where "t1 = (if ?l then (upd_flow t st (local_id_update (\<lambda>_. lid)))\<lparr>local_map := (local_map t)(lid \<mapsto> st)\<rparr> else t)"
  define t2 where "t2 = (if ?r then (upd_flow t1 st (remote_id_update (\<lambda>_. rid)))\<lparr>remote_map := (remote_map t1)(rid \<mapsto> st)\<rparr> else t1)"
  have same: "remote_map t1 = remote_map t" "remote_id (heap t1 st) = remote_id (heap t st)" by (simp_all add: t1_def)
  show ?thesis
  proof (cases "(?l \<longrightarrow> local_id (heap t st) = 0) \<and> (?r \<longrightarrow> \<not> cm_flow_key_bool (remote_id (heap t st)))")
    case True
    have l: "link_local t st lid (local_map t lid) = Inr t1" "link_remote t1 st rid (remote_map t rid) = Inr t2"
      using True same by (auto simp: link_local_def link_remote_def t1_def t2_def)
    have c: "conn_at t2 st = (conn_at t st)\<lparr>flow := (heap t st)\<lparr>local_id := if ?l then lid else local_id (heap t st),
          remote_id := if ?r then rid else remote_id (heap t st)\<rparr>,
        in_local := in_local (conn_at t st) \<or> ?l, in_remote := in_remote (conn_at t st) \<or> ?r\<rparr>"
      using True by (auto simp: conn_at_def t2_def t1_def)
    have "conn_at t2 b = conn_at t b" if "b \<noteq> st" for b
      using True that by (auto simp: conn_at_def t2_def t1_def)
    moreover have "listed t2 st" using ends_listed unfolding listed_def c by auto
    ultimately have "connections t2 = replace_conn (connections t) (conn_at t st) (conn_at t2 st)"
      by (rule connections_replace)
    then show ?thesis using True l c by (simp add: conn_link_def new Let_def)
  next
    case False
    then have "bind_res (link_local t st lid (local_map t lid)) (\<lambda>t1.
      bind_res (link_remote t1 st rid (remote_map t rid)) (\<lambda>t2. Inr (t2, st))) = Inl Assertion_failed"
      by (cases "local_id (heap t st) = 0") (auto simp: link_local_def link_remote_def)
    moreover have "conn_link (connections t) (conn_at t st) lid rid = Inl Assertion_failed"
      using False by (simp add: conn_link_def new Let_def)
    ultimately show ?thesis by simp
  qed
qed

lemma conn_link_known:
  assumes "c \<in> C" "named_locally C lid \<noteq> {} \<or> lid = 0" "named_remotely C rid \<noteq> {} \<or> \<not> cm_flow_key_bool rid"
  shows "conn_link C c lid rid = Inr (C, c)"
  using assms by (elim disjE) (simp_all add: conn_link_def Let_def replace_conn_def insert_absorb)

lemma add_new_flow_refines:
  assumes inv: "tracker_inv t"
  shows "conn_result (add_new_flow t lid rid) = conn_add (connections t) lid rid"
proof (cases "local_map t lid"; cases "remote_map t rid")
  assume none: "local_map t lid = None" "remote_map t rid = None"
  show ?thesis
  proof (cases "lid \<noteq> 0 \<or> cm_flow_key_bool rid")
    case True
    then show ?thesis
      using link_refines [OF tracker_inv_alloc [OF inv], of "next_ptr t" lid rid] none
      by (simp add: add_new_flow_def conn_add_def named_connections [OF inv] connections_alloc [OF inv] alloc_def [symmetric])
  qed (use none in \<open>simp add: add_new_flow_def conn_add_def named_connections [OF inv]\<close>)
next
  fix l
  assume "local_map t lid = Some l" "remote_map t rid = None"
  then show ?thesis
    using link_refines [OF inv, of l lid rid] listed_local [OF inv]
    by (simp add: add_new_flow_def conn_add_def named_connections [OF inv])
next
  fix r
  assume "local_map t lid = None" "remote_map t rid = Some r"
  then show ?thesis
    using link_refines [OF inv, of r lid rid] listed_remote [OF inv]
    by (simp add: add_new_flow_def conn_add_def named_connections [OF inv])
next
  fix l r
  assume both: "local_map t lid = Some l" "remote_map t rid = Some r"
  then have "conn_at t l = conn_at t r \<longleftrightarrow> l = r"
    using conn_at_inject [OF listed_local [OF inv both(1)]] by blast
  moreover have "conn_at t l \<in> connections t"
    using listed_local [OF inv both(1)] by (simp add: connections_def)
  ultimately show ?thesis
    using both local_mapD(3) [OF inv both(1)] remote_mapD(3) [OF inv both(2)]
    by (cases "l = r") (simp_all add: add_new_flow_def conn_add_def named_connections [OF inv] conn_link_known)
qed

lemma get_flow_refines:
  assumes inv: "tracker_inv t"
  shows "conn_result (get_flow t lid rid) = conn_get (connections t) lid rid"
  using add_new_flow_refines [OF inv, of lid rid]
  by (cases "lid \<noteq> 0 \<or> cm_flow_key_bool rid")
    (auto simp: get_flow_def conn_get_def conn_find_def named_connections [OF inv] split: option.splits)


section \<open>Reactions\<close>

lemma conn_at_qpn_map [simp]: "conn_at (t\<lparr>qpn_map := q\<rparr>) a = conn_at t a"
  by (simp add: conn_at_def)

lemma listed_qpn_map [simp]: "listed (t\<lparr>qpn_map := q\<rparr>) a \<longleftrightarrow> listed t a"
  by (simp add: listed_def)

lemma connections_qpn_map [simp]: "connections (t\<lparr>qpn_map := q\<rparr>) = connections t"
  by (simp add: connections_def)

lemma replied_refines:
  assumes inv: "tracker_inv t" and st: "listed t st"
    and found: "if msg_id m \<noteq> 0 then local_map t (msg_id m) = Some st else remote_map t (msg_peer m) = Some st"
    and idle: "fstate (heap t st) \<notin> live_states"
  shows "map_res connections (apply_reaction m (Replied s) t st) =
    bind_res (conn_add (connections t) (msg_id m) (msg_peer m)) (\<lambda>(C, c).
      Inr (conn_update C c (\<lambda>f. set_qpn (msg_dir m) (msg_qpn m) (f\<lparr>fstate := s\<rparr>))))"
proof -
  define f where "f = (\<lambda>f. set_qpn (msg_dir m) (msg_qpn m) (f\<lparr>fstate := s\<rparr>))"
  note lt = listed_bound [OF inv st]
  note app = replied_eq [OF lt, of m s, folded f_def]
  show ?thesis
  proof (cases "add_new_flow t (msg_id m) (msg_peer m)")
    case (Inl e)
    then have "conn_add (connections t) (msg_id m) (msg_peer m) = Inl e"
      using add_new_flow_refines [OF inv, of "msg_id m" "msg_peer m"] by simp
    then show ?thesis using app Inl by simp
  next
    case (Inr r)
    then obtain t1 x where add: "add_new_flow t (msg_id m) (msg_peer m) = Inr (t1, x)" by (cases r) simp
    have x: "x = st" using add_new_flow_existing [OF _ add, of st] found inv by (auto split: if_splits)
    have "\<not> mapped t a" if "local_map t (msg_id m) = Some a" for a
      using that found not_live_unmapped [OF inv idle] inv by (auto split: if_splits)
    note spec = add_new_flow_spec [OF inv add this]
    have "listed t1 st"
      using spec found x remote_mapD(2) [OF inv, of "msg_peer m"]
      by (cases "msg_id m = 0") (auto intro: listed_local listed_remote)
    then have "connections (upd_flow t1 st f) = conn_update (connections t1) (conn_at t1 st) f"
      by (rule connections_upd_flow(1)) (cases "msg_dir m"; simp add: f_def)+
    moreover have "conn_add (connections t) (msg_id m) (msg_peer m) = Inr (connections t1, conn_at t1 st)"
      using add_new_flow_refines [OF inv, of "msg_id m" "msg_peer m"] add x by simp
    ultimately show ?thesis using app add by (simp add: f_def)
  qed
qed

lemma on_established_refines:
  assumes inv: "tracker_inv t" and st: "listed t st"
  shows "connections (on_established t st) = conn_register (connections t) (conn_at t st)"
proof (cases "local_qpn (heap t st) = 0 \<or> remote_qpn (heap t st) = 0 \<or> qpn_map t (get_flow_key (heap t st)) \<noteq> None")
  case True
  then show ?thesis
    by (auto simp: Let_def on_established_def conn_register_def registered_connections_empty [OF inv] flow_value_def)
next
  case False
  then show ?thesis
    using connections_upd_flow(1) [of "t\<lparr>qpn_map := _\<rparr>" st "in_qpn_map_update (\<lambda>_. True)"] st
    by (simp add: Let_def on_established_def conn_register_def registered_connections_empty [OF inv] flow_value_def)
qed

lemma connections_unlisted:
  assumes "t' = t\<lparr>local_map := (local_map t)(lid := None), remote_map := (remote_map t)(rid := None)\<rparr>"
  shows "connections t' = {d \<in> unlist lid rid ` connections t. in_local d \<or> in_remote d}"
proof -
  have c: "conn_at t' a = unlist lid rid (conn_at t a)" for a by (auto simp: conn_at_def unlist_def assms)
  have "listed t' a \<longleftrightarrow> listed t a \<and> (in_local (unlist lid rid (conn_at t a)) \<or> in_remote (unlist lid rid (conn_at t a)))" for a
    unfolding listed_def c by (auto simp: unlist_def)
  then show ?thesis unfolding connections_def c by auto
qed

lemma erase_flow_refines:
  assumes inv: "tracker_inv t" and found: "(if lid \<noteq> 0 then local_map t lid else remote_map t rid) = Some st"
  shows "map_res connections (erase_flow t lid rid) = Inr (conn_erase (connections t) (conn_at t st) lid rid)"
proof -
  have st: "listed t st" using found listed_local [OF inv] listed_remote [OF inv] by (auto split: if_splits)
  have ok: "lid \<noteq> 0 \<or> cm_flow_key_bool rid" using found remote_mapD(2) [OF inv, of rid st] by (auto split: if_splits)
  define t1 where "t1 = (if in_qpn_map (heap t st) then on_disconnected t st else t)"
  have "connections t1 = conn_update (connections t) (conn_at t st) (in_qpn_map_update (\<lambda>_. False)) \<and>
      local_map t1 = local_map t \<and> remote_map t1 = remote_map t"
  proof (cases "in_qpn_map (heap t st)")
    case True
    then have "mapped t st" using listed_bound [OF inv st] by (simp add: mapped_def)
    then show ?thesis
      using on_disconnected_inv(2) [OF inv] True st connections_upd_flow(1) [of "t\<lparr>qpn_map := _\<rparr>" st "in_qpn_map_update (\<lambda>_. False)"]
      by (simp add: t1_def)
  next
    case False
    then have noop: "(conn_at t st)\<lparr>flow := (heap t st)\<lparr>in_qpn_map := False\<rparr>\<rparr> = conn_at t st" by (simp add: conn_at_def)
    have "conn_at t st \<in> connections t" using st by (simp add: connections_def)
    then have "conn_update (connections t) (conn_at t st) (in_qpn_map_update (\<lambda>_. False)) = connections t"
      unfolding conn_update_def replace_conn_def conn_at_simps noop by blast
    then show ?thesis using False by (simp add: t1_def)
  qed
  then show ?thesis
    using connections_unlisted [OF refl, where t = t1 and lid = lid and rid = rid] found ok
    by (simp add: erase_flow_def conn_erase_def t1_def Let_def)
qed

lemma apply_reaction_refines:
  assumes inv: "tracker_inv t" and st: "listed t st"
    and found: "if msg_id m \<noteq> 0 then local_map t (msg_id m) = Some st else remote_map t (msg_peer m) = Some st"
  shows "map_res connections (apply_reaction m (react (msg_dir m) (msg_kind m) (fstate (heap t st))) t st) =
    conn_react m (connections t) (conn_at t st)"
proof (cases "react (msg_dir m) (msg_kind m) (fstate (heap t st))")
  case (Requested s)
  then show ?thesis
    using connections_upd_flow(1) [OF st, of "\<lambda>f. set_qpn (msg_dir m) (msg_qpn m) (f\<lparr>fstate := s\<rparr>)"]
    by (cases "msg_dir m") (simp_all add: apply_reaction_def conn_react_def assert_res_def)
next
  case (Replied s)
  then show ?thesis
    using replied_refines [OF inv st found] react_Replied [OF Replied] by (simp add: conn_react_def)
next
  case Established
  let ?t1 = "upd_flow t st (fstate_update (\<lambda>_. ESTABLISHED))"
  note lt = listed_bound [OF inv st]
  have "\<not> in_qpn_map (heap t st)"
    using not_live_unmapped [OF inv] react_Established [OF Established] lt by (auto simp: mapped_def)
  then have i1: "tracker_inv ?t1" by (intro tracker_inv_upd [OF inv lt]) (auto simp: dead_states_def)
  note c1 = connections_upd_flow [OF st, of "fstate_update (\<lambda>_. ESTABLISHED)"]
  show ?thesis
    using on_established_refines [OF i1 c1(3)] c1 Established by (simp add: apply_reaction_def conn_react_def)
next
  case (Closing s)
  then show ?thesis
    using connections_upd_flow(1) [OF st, of "fstate_update (\<lambda>_. s)"] by (simp add: apply_reaction_def conn_react_def)
next
  case Forget
  then show ?thesis
    using erase_flow_refines [OF inv, of "msg_id m" "msg_peer m" st] found
    by (simp add: apply_reaction_def conn_react_def split: if_splits)
qed (simp_all add: apply_reaction_def conn_react_def)

text \<open>One message: the tables and the set of connections move together, aborts included.\<close>

lemma message_step_refines:
  assumes inv: "tracker_inv t"
  shows "map_res connections (message_step m t) = conn_step m (connections t)"
proof (cases "get_flow t (msg_id m) (lookup_peer m)")
  case (Inl e)
  then show ?thesis
    by (simp add: message_step_def conn_step_def get_flow_refines [OF inv, symmetric])
next
  case (Inr r)
  then obtain t1 st where get: "get_flow t (msg_id m) (lookup_peer m) = Inr (t1, st)" by (cases r) simp
  note found = found_by_message [OF inv get]
  have i1: "tracker_inv t1" using get_flow_spec [OF inv get] by simp
  have "listed t1 st" using found listed_local [OF i1] listed_remote [OF i1] by (auto split: if_splits)
  from apply_reaction_refines [OF i1 this found] show ?thesis
    using get by (simp add: message_step_def conn_step_def get_flow_refines [OF inv, symmetric])
qed


section \<open>Sequences of messages and packets\<close>

lemma connections_new: "connections new_tracker = {}"
  by (simp add: connections_def listed_def new_tracker_def)

interpretation message_connections: simulation message_step new_tracker tracker_inv conn_step connections "\<lambda>_. True"
  by unfold_locales (simp add: message_step_refines)

text \<open>What a packet handed to the library means for the connections.\<close>

definition conn_packet :: "dpdk \<Rightarrow> parser_context \<Rightarrow> rte_mbuf \<times> ctcm_direction \<Rightarrow> conn set \<Rightarrow> conn set res" where
  "conn_packet env self e C =
     (if carries_cm (fst e)
      then bind_res (decode env self (parsed self (fst e)) (snd e)) (\<lambda>dm.
        case dm of None \<Rightarrow> Inr C | Some m \<Rightarrow> conn_step m C)
      else Inr C)"

interpretation context_connections: simulation "handle_packet env" \<open>\<lparr>parser = self, ctx_tracker = new_tracker\<rparr>\<close>
    "\<lambda>c. parser c = self \<and> tracked env self (ctx_tracker c)" "conn_packet env self" "\<lambda>c. connections (ctx_tracker c)"
    "\<lambda>e. roomy env (fst e)"
  for env self
proof unfold_locales
  fix c :: ctcm_context and e :: "rte_mbuf \<times> ctcm_direction"
  assume c: "parser c = self \<and> tracked env self (ctx_tracker c)" and e: "roomy env (fst e)"
  have inv: "tracker_inv (ctx_tracker c)" using c packet_machine.reachable_inv by blast
  obtain p dir where p: "e = (p, dir)" by (cases e)
  show "map_res (\<lambda>c. connections (ctx_tracker c)) (handle_packet env e c) = conn_packet env self e (connections (ctx_tracker c))"
  proof (cases "carries_cm p")
    case True
    have "roomy env p" using e p by simp
    then obtain dm where dm: "decode env self (parsed self p) dir = Inr dm"
      using decode_complete [OF parsed_complete [OF _ True]] by blast
    have "map_res (\<lambda>c. connections (ctx_tracker c)) (bind_res r (\<lambda>t. Inr (c\<lparr>ctx_tracker := t\<rparr>))) = map_res connections r" for r
      by (cases r) simp_all
    then show ?thesis
      using True e p c dm handle_packet_eq [OF roomy_reaches_mad, of env p dir c] process_decode [OF dm] message_step_refines [OF inv]
      by (simp add: conn_packet_def split: option.splits)
  qed (use e p handle_packet_eq [OF roomy_reaches_mad, of env p dir c] in \<open>simp add: conn_packet_def\<close>)
qed

text \<open>
  C2: The library is its set of connections: started by \<^verbatim>\<open>ctcm_create\<close> and given any sequence of UDP/IPv4 packets with
  room for a message, it aborts exactly when the abstract machine on sets of connections does, and otherwise
  \<^verbatim>\<open>ctcm_query_ipv4\<close> answers, for every address and QPN, what that set says.  The three hash tables, the shared flow objects
  and their addresses do not show.
\<close>

theorem library_implements_connections:
  assumes "ctcm_create env = Inr ctcm" "\<forall>e\<in>set es. roomy env (fst e)"
  shows "map_res (\<lambda>c ip q. ctcm_query_ipv4 c ip q) (run (handle_packet env) es ctcm) =
    map_res (\<lambda>C ip q. answer C (ip, q)) (run (conn_packet env (parser ctcm)) es {})"
proof -
  obtain self where ctcm: "ctcm = \<lparr>parser = self, ctx_tracker = new_tracker\<rparr>"
    using assms(1) by (auto simp: ctcm_create_def elim: bind_res_InrE)
  have sim: "run (conn_packet env self) es {} = map_res (\<lambda>c. connections (ctx_tracker c)) (run (handle_packet env) es ctcm)"
    using context_connections.run_from_init_simulates [of es env self] assms(2) ctcm connections_new by simp
  show ?thesis
  proof (cases "run (handle_packet env) es ctcm")
    case (Inr c)
    then have "tracker_inv (ctx_tracker c)"
      using context_machine.run_from_init_inv [of env es self c] packet_machine.reachable_inv ctcm by auto
    then show ?thesis using Inr sim ctcm by (simp add: answer_connections ctcm_query_ipv4_def)
  qed (use sim ctcm in simp)
qed

theorem library_implements_connections_witness:
  "\<exists>C. run (conn_packet sample_dpdk sample_parser) active_raw {} = Inr C \<and> answer C (0x0200000a, 0x203) = 0x102 \<and>
     answer C (0x0300000a, 0x203) = 0"
proof -
  let ?c = "sample_context\<lparr>ctx_tracker := with_connection new_tracker 7 (0x0200000a, 9) 0x102 0x203\<rparr>"
  have self: "parser sample_context = sample_parser" by (simp add: sample_context_def)
  have "roomy sample_dpdk (fst e)" if "e \<in> set active_raw" for e
    using that active_raw_carry by (auto simp: in_set_conv_nth list_all2_conv_all_nth raw_carries_def)
  then have "map_res (\<lambda>C ip q. answer C (ip, q)) (run (conn_packet sample_dpdk sample_parser) active_raw {}) =
      Inr (\<lambda>ip q. ctcm_query_ipv4 ?c ip q)"
    using library_implements_connections [OF create_sample, of active_raw] active_raw_run self by simp
  then obtain C where C: "run (conn_packet sample_dpdk sample_parser) active_raw {} = Inr C"
    "(\<lambda>ip q. ctcm_query_ipv4 ?c ip q) = (\<lambda>ip q. answer C (ip, q))"
    by (cases "run (conn_packet sample_dpdk sample_parser) active_raw {}") simp_all
  have "answer C (ip, q) = ctcm_query_ipv4 ?c ip q" for ip q by (rule fun_cong [OF fun_cong [OF C(2)], symmetric])
  then show ?thesis
    using C(1) by (simp add: ctcm_query_ipv4_def get_source_qpn_def with_connection_def new_tracker_def)
qed

end
