(* ===== verification/Forgotten.thy ===== *)
theory Forgotten
  imports Connections
begin

text \<open>
  The life of a flow object after the tracker has forgotten it.  The code holds flows by \<^verbatim>\<open>shared_ptr\<close> in its two identifier
  tables, so an object is freed when the last entry for it goes; the heap of the model keeps it.  That makes no difference:
  an object that no table refers to is never looked up, changed or entered in a table again, whatever packets follow.
\<close>

section \<open>Who can get an entry\<close>

text \<open>Between two states the identifier tables gain entries for one object at most.\<close>

definition entries_only :: "nat \<Rightarrow> tracker \<Rightarrow> tracker \<Rightarrow> bool" where
  "entries_only st t t' \<longleftrightarrow>
     (\<forall>l b. local_map t' l = Some b \<longrightarrow> b = st \<or> local_map t l = Some b) \<and>
     (\<forall>k b. remote_map t' k = Some b \<longrightarrow> b = st \<or> remote_map t k = Some b)"

lemma entries_only_trans: "entries_only st t t1 \<Longrightarrow> entries_only st t1 t' \<Longrightarrow> entries_only st t t'"
  unfolding entries_only_def by blast

lemma entries_only_same [simp]:
  "local_map t' = local_map t \<Longrightarrow> remote_map t' = remote_map t \<Longrightarrow> entries_only st t t'"
  by (simp add: entries_only_def)

lemma link_entries:
  "link_local t st lid it = Inr t' \<Longrightarrow> entries_only st t t'"
  "link_remote t st rid it = Inr t' \<Longrightarrow> entries_only st t t'"
  by (auto simp: link_local_def link_remote_def entries_only_def res_Inr_iffs split: if_splits)

lemma add_new_flow_entries:
  assumes "add_new_flow t lid rid = Inr (t', st)"
  shows "entries_only st t t' \<and> (local_map t lid = Some st \<or> remote_map t rid = Some st \<or> st = next_ptr t)"
proof -
  have lk: "entries_only x t t2"
    if "link_local (t0 :: tracker) x lid it = Inr t1" "link_remote t1 x rid it' = Inr t2"
      "local_map t0 = local_map t" "remote_map t0 = remote_map t" for x t0 t1 t2 it it'
    using entries_only_trans [OF link_entries(1) [OF that(1)] link_entries(2) [OF that(2)]] that(3,4)
    by (simp add: entries_only_def)
  show ?thesis
    using assms by (auto simp: add_new_flow_def Let_def res_Inr_iffs split: option.splits if_splits intro!: lk)
qed

lemma apply_reaction_entries:
  assumes inv: "tracker_inv t" and st: "st < next_ptr t"
    and found: "if msg_id m \<noteq> 0 then local_map t (msg_id m) = Some st else remote_map t (msg_peer m) = Some st"
    and app: "apply_reaction m r t st = Inr t'"
  shows "entries_only st t t'"
proof (cases r)
  case (Replied s)
  then obtain t2 x where t2: "add_new_flow t (msg_id m) (msg_peer m) = Inr (t2, x)"
    and t': "local_map t' = local_map t2" "remote_map t' = remote_map t2"
    using app by (auto simp: replied_eq [OF st] elim!: bind_res_InrE)
  have "local_map t (msg_id m) = Some st \<or> msg_id m = 0 \<and> local_map t 0 = None \<and> remote_map t (msg_peer m) = Some st"
    using found inv by (auto split: if_splits)
  then show ?thesis
    using add_new_flow_existing [OF _ t2, of st] add_new_flow_entries [OF t2] t' by (simp add: entries_only_def)
next
  case Forget
  then have "erase_flow t (msg_id m) (msg_peer m) = Inr t'" using app by (simp add: apply_reaction_def)
  with inv show ?thesis by (cases rule: erase_flow_cases) (auto simp: entries_only_def split: if_splits)
next
  case Established
  then show ?thesis using app by (auto simp: apply_reaction_def on_established_def Let_def split: option.splits)
qed (use app in \<open>auto simp: apply_reaction_def elim!: bind_res_InrE\<close>)

lemma get_flow_entries:
  assumes "get_flow t lid rid = Inr (t', st)"
  shows "entries_only st t t' \<and> (local_map t lid = Some st \<or> remote_map t rid = Some st \<or> st = next_ptr t)"
  using assms add_new_flow_entries
  by (auto simp: get_flow_def res_Inr_iffs entries_only_def split: option.splits if_splits)


text \<open>One message and an object no table refers to.\<close>

lemma message_step_unlisted:
  assumes inv: "tracker_inv t" and a: "a < next_ptr t" "\<not> listed t a" and step: "message_step m t = Inr t'"
  shows "a < next_ptr t' \<and> \<not> listed t' a \<and> heap t' a = heap t a"
  using step
proof (rule message_stepE)
  fix t1 st
  assume get: "get_flow t (msg_id m) (lookup_peer m) = Inr (t1, st)"
    and app: "apply_reaction m (react (msg_dir m) (msg_kind m) (fstate (heap t1 st))) t1 st = Inr t'"
  note g = get_flow_entries [OF get]
  have "st \<noteq> a" using g a listed_local [OF inv] listed_remote [OF inv] by blast
  have w: "works_on st t t'" using message_works_on [OF inv get app] by blast
  have "st < next_ptr t1" "tracker_inv t1" using get_flow_spec [OF inv get] by (auto simp: table_ext_def)
  then have "entries_only st t t'"
    using g apply_reaction_entries [OF _ _ found_by_message [OF inv get] app] entries_only_trans by blast
  moreover have h: "heap t' a = heap t a" using w a(1) \<open>st \<noteq> a\<close> by (simp add: works_on_def)
  ultimately have "\<not> listed t' a"
    using a(2) \<open>st \<noteq> a\<close> unfolding listed_def conn_at_simps entries_only_def by metis
  then show ?thesis using w a(1) h by (auto simp: works_on_def)
qed

section \<open>Forgotten for good\<close>

text \<open>
  C17: No use after free: once neither identifier table refers to a flow object, no later packet makes a table refer to it
  again, gives it an entry in the query table or changes any of its fields; a new connection under the same identifiers gets an
  object of its own.
\<close>

theorem forgotten_flows_stay_forgotten:
  assumes "tracked env self t" "a < next_ptr t" "\<not> listed t a" "run (packet_step env self) es t = Inr t'"
  shows "\<not> listed t' a \<and> \<not> mapped t' a \<and> heap t' a = heap t a"
proof -
  have "tracker_inv t" by (rule packet_machine.reachable_inv [OF assms(1)])
  then have "tracker_inv t' \<and> \<not> listed t' a \<and> heap t' a = heap t a"
    using assms(2-)
  proof (induction es arbitrary: t)
    case (Cons e es)
    obtain t1 where t1: "packet_step env self e t = Inr t1" "run (packet_step env self) es t1 = Inr t'"
      using Cons.prems(4) by (auto elim: bind_res_InrE)
    have "a < next_ptr t1 \<and> \<not> listed t1 a \<and> heap t1 a = heap t a"
      using process_simulates [OF t1(1) [unfolded packet_step_def]] message_step_unlisted [OF Cons.prems(1-3)]
        Cons.prems(2,3) by metis
    then show ?case
      using Cons.IH [OF packet_machine.step_inv [OF Cons.prems(1) t1(1)] _ _ t1(2)] by simp
  qed simp
  then show ?thesis using mappedD(5) [of t' a] by (auto simp: listed_def)
qed

text \<open>The objects of a state are objects of every later one.\<close>

lemma run_keeps_objects:
  assumes "tracker_inv t" "run (packet_step env self) es t = Inr t'" "a < next_ptr t"
  shows "a < next_ptr t'"
  using assms
proof (induction es arbitrary: t)
  case (Cons e es)
  then obtain t1 where "packet_step env self e t = Inr t1" "run (packet_step env self) es t1 = Inr t'"
    by (auto elim: bind_res_InrE)
  then show ?case using Cons step_progress [of t env self e t1 a] packet_machine.step_inv [of t env self e t1] by blast
qed simp

text \<open>The sample connection is closed and opened again: the second connection is another object.\<close>

lemma closed_connection:
  obtains t where "run (packet_step sample_dpdk sample_parser) (active_packets @ teardown_packets) new_tracker = Inr t"
    "local_map t = Map.empty" "remote_map t = Map.empty" "qpn_map t = Map.empty" "0 < next_ptr t"
proof -
  obtain t where t: "run (packet_step sample_dpdk sample_parser) teardown_packets one_connection = Inr t"
    "local_map t = Map.empty" "remote_map t = Map.empty" "qpn_map t = Map.empty"
    using teardown_messages [OF one_connection_inv, of 7 0 CTCM_FROM_NET "(0x0200000a, 9)" CTCM_FROM_HOST
        "(0x0200000a, 9)"] run_packets [OF teardown_packets_carry, of one_connection]
    by (auto simp: one_connection_def with_connection_def new_tracker_def get_flow_key_def fun_upd_idem)
  moreover have "0 < next_ptr t" using run_keeps_objects [OF one_connection_inv t(1), of 0] by simp
  ultimately show thesis using that [of t] one_connection_run by (simp add: run_append)
qed

theorem forgotten_flows_stay_forgotten_witness:
  "\<exists>t t'. run (packet_step sample_dpdk sample_parser) (active_packets @ teardown_packets) new_tracker = Inr t \<and>
     run (packet_step sample_dpdk sample_parser) active_packets t = Inr t' \<and> get_source_qpn t' (0x0200000a, 0x203) = 0x102 \<and>
     \<not> listed t' 0 \<and> heap t' 0 = heap t 0"
proof -
  obtain t where t: "run (packet_step sample_dpdk sample_parser) (active_packets @ teardown_packets) new_tracker = Inr t"
    "local_map t = Map.empty" "remote_map t = Map.empty" "qpn_map t = Map.empty" "0 < next_ptr t"
    by (rule closed_connection)
  let ?t' = "with_connection t 7 (0x0200000a, 9) 0x102 0x203"
  have reach: "tracked sample_dpdk sample_parser t" using t(1) by (auto simp: reachable_iff_run)
  have "fresh_connection t 7 (0x0200000a, 9) 0x102 0x203"
    using t fresh_in_new_tracker by (simp add: fresh_connection_def)
  then have t': "run (packet_step sample_dpdk sample_parser) active_packets t = Inr ?t'"
    unfolding run_packets [OF active_packets_carry] by (rule active_messages [OF packet_machine.reachable_inv [OF reach]])
  have "\<not> listed t 0" using t by (simp add: listed_def)
  from forgotten_flows_stay_forgotten [OF reach t(5) this t'] have "\<not> listed ?t' 0 \<and> heap ?t' 0 = heap t 0" by blast
  then show ?thesis using t(1) t' by (intro exI [of _ t] exI [of _ ?t']) (simp add: with_connection_def get_source_qpn_def)
qed

end
