(* ===== verification/Interleaving.thy ===== *)
theory Interleaving
  imports Forgotten
begin

text \<open>
  Many connections at once.  The packets of one connection reach the tracker mixed with those of
  others: \<open>ends_answer\<close> says which messages can take an answer away, \<open>foreign\<close> which have
  nothing to do with a given connection and do not compete for its query key.  An answer lasts through all messages
  that do not end it, and a handshake succeeds in every interleaving with foreign messages.
\<close>

section \<open>Which flow a message works on\<close>

lemma get_flow_result:
  assumes "tracker_inv t" "get_flow t lid rid = Inr (t', st)"
  shows "st = next_ptr t \<or> lid \<noteq> 0 \<and> local_map t lid = Some st \<or> cm_flow_key_bool rid \<and> remote_map t rid = Some st"
proof -
  have "st = next_ptr t \<or> local_map t lid = Some st \<or> remote_map t rid = Some st"
    using assms
    by (auto simp: get_flow_def add_new_flow_def Let_def res_Inr_iffs split: option.splits if_splits)
  then show ?thesis using local_mapD(2) [OF assms(1)] remote_mapD(2) [OF assms(1)] by blast
qed

text \<open>An object that already has a local identifier cannot be given another one.\<close>

lemma get_flow_named:
  assumes inv: "tracker_inv t" and get: "get_flow t lid rid = Inr (t', st)"
    and a: "st < next_ptr t" "local_id (heap t st) \<noteq> 0"
  shows "lid = local_id (heap t st) \<or> lid = 0 \<and> rid = remote_id (heap t st) \<and> cm_flow_key_bool rid"
proof -
  have "local_map t lid = Some st \<or> lid = 0 \<and> remote_map t rid = Some st"
    using get a inv
    by (auto simp: get_flow_def add_new_flow_def link_local_def Let_def res_Inr_iffs
        split: option.splits if_splits)
  then show ?thesis using local_mapD(3) [OF inv] remote_mapD(2,3) [OF inv] by blast
qed

section \<open>How long an answer lasts\<close>

definition ends_answer :: "id_t \<Rightarrow> cm_flow_key \<Rightarrow> cm_message \<Rightarrow> bool" where
  "ends_answer lid peer m \<longleftrightarrow>
     msg_kind m = Kind_DREP \<and> msg_id m = lid \<or>
     msg_kind m = Kind_REJ \<and> msg_dir m = CTCM_FROM_NET \<and> (msg_id m = lid \<or> msg_id m = 0 \<and> msg_peer m = peer)"

lemma react_live:
  assumes "s \<in> live_states" "react dir k s \<noteq> Forget"
  shows "react dir k s = Ignore \<or> (\<exists>s'. react dir k s = Closing s')"
  using assms by (cases dir; cases k) (auto simp: react_def live_states_def)

lemma react_live_Forget:
  "s \<in> live_states \<Longrightarrow> react dir k s = Forget \<Longrightarrow> k = Kind_DREP \<or> k = Kind_REJ \<and> dir = CTCM_FROM_NET"
  by (cases dir; cases k) (auto simp: react_def live_states_def split: if_splits)

text \<open>What an answered flow keeps.\<close>

definition same_answer :: "flow_state \<Rightarrow> flow_state \<Rightarrow> bool" where
  "same_answer s s' \<longleftrightarrow> in_qpn_map s' = in_qpn_map s \<and> local_id s' = local_id s \<and> remote_id s' = remote_id s \<and>
     local_qpn s' = local_qpn s \<and> remote_qpn s' = remote_qpn s"

lemma get_flow_known_eq:
  assumes inv: "tracker_inv t" and get: "get_flow t lid rid = Inr (t', st)"
    and a: "mapped t st"
  shows "t' = t"
proof -
  note m = mappedD(5,6) [OF inv a]
  have "lid = local_id (heap t st) \<or> lid = 0 \<and> rid = remote_id (heap t st)"
    using get_flow_named [OF inv get] m a by (auto simp: mapped_def)
  then show ?thesis
  proof
    assume "lid = 0 \<and> rid = remote_id (heap t st)"
    then show ?thesis
      using get a inv
      by (auto simp: get_flow_def add_new_flow_def Let_def mapped_def res_Inr_iffs split: option.splits)
  qed (use get m in \<open>simp add: get_flow_def\<close>)
qed

lemma answer_step:
  assumes inv: "tracker_inv t" and a: "mapped t a" and step: "message_step m t = Inr t'"
    and m: "\<not> ends_answer (local_id (heap t a)) (remote_id (heap t a)) m"
  shows "mapped t' a \<and> same_answer (heap t a) (heap t' a)"
  using step
proof (rule message_stepE)
  fix t1 st
  assume get: "get_flow t (msg_id m) (lookup_peer m) = Inr (t1, st)"
    and app: "apply_reaction m (react (msg_dir m) (msg_kind m) (fstate (heap t1 st))) t1 st = Inr t'"
  show ?thesis
  proof (cases "st = a")
    case True
    have t1: "t1 = t" using get_flow_known_eq [OF inv] get a True by simp
    have live: "fstate (heap t a) \<in> live_states" by (rule mappedD(1) [OF inv a])
    have named: "msg_id m = local_id (heap t a) \<or>
        msg_id m = 0 \<and> lookup_peer m = remote_id (heap t a) \<and> cm_flow_key_bool (lookup_peer m)"
      using get_flow_named [OF inv get] True a mappedD(6) [OF inv a] by (simp add: mapped_def)
    have "react (msg_dir m) (msg_kind m) (fstate (heap t a)) \<noteq> Forget"
    proof
      assume "react (msg_dir m) (msg_kind m) (fstate (heap t a)) = Forget"
      from react_live_Forget [OF live this] show False
        using named m by (auto simp: ends_answer_def lookup_peer_def)
    qed
    from react_live [OF live this] show ?thesis
      using app a True t1 by (auto simp: apply_reaction_def same_answer_def mapped_def)
  next
    case False
    then show ?thesis
      using message_works_on [OF inv get app] a by (auto simp: works_on_def mapped_def same_answer_def)
  qed
qed

text \<open>The messages in a sequence of packets; packets with other attributes carry none.\<close>

fun messages_of :: "dpdk \<Rightarrow> parser_context \<Rightarrow> (rte_mbuf \<times> ctcm_direction) list \<Rightarrow> cm_message list" where
  "messages_of env self [] = []"
| "messages_of env self (e # es) =
     (case decode env self (fst e) (snd e) of
        Inr (Some m) \<Rightarrow> m # messages_of env self es
      | _ \<Rightarrow> messages_of env self es)"

lemma run_messages_of:
  assumes "\<forall>e\<in>set es. complete_cm_packet env self (fst e)"
  shows "run (packet_step env self) es t = run message_step (messages_of env self es) t"
  using assms
proof (induction es arbitrary: t)
  case (Cons e es)
  obtain dm where dm: "decode env self (fst e) (snd e) = Inr dm"
    using decode_complete [of env self "fst e" "snd e"] Cons.prems by auto
  then show ?case
    using Cons process_decode [OF dm]
    by (cases dm) (auto simp: packet_step_def intro: bind_res_cong)
qed simp

lemma messages_of_proper: "m \<in> set (messages_of env self es) \<Longrightarrow> proper_message m"
  by (induction es) (auto split: sum.splits option.splits dest: decode_proper)

lemma answer_run:
  assumes "tracker_inv t" "mapped t a"
    and "\<forall>m\<in>set ms. \<not> ends_answer (local_id (heap t a)) (remote_id (heap t a)) m"
    and "run message_step ms t = Inr t'"
  shows "tracker_inv t' \<and> mapped t' a \<and> same_answer (heap t a) (heap t' a)"
  using assms
proof (induction ms arbitrary: t)
  case (Cons m ms)
  obtain t1 where t1: "message_step m t = Inr t1" "run message_step ms t1 = Inr t'"
    using Cons.prems(4) by (auto elim: bind_res_InrE)
  have s: "mapped t1 a" "same_answer (heap t a) (heap t1 a)"
    using answer_step [OF Cons.prems(1,2) t1(1)] Cons.prems(3) by auto
  have "tracker_inv t1" by (rule message_step_inv [OF Cons.prems(1) t1(1)])
  from Cons.IH [OF this s(1) _ t1(2)] show ?case
    using s(2) Cons.prems(3) by (auto simp: same_answer_def)
qed (simp add: same_answer_def)

text \<open>
  C9: An answer lasts: once a connection is in the query table, no sequence of packets
  takes its answer away or changes it unless one of them is a DREP that names the host's identifier or a
  REJ from the network that names the connection.  REQ, REP, RTU and DREQ messages, retransmitted or forged,
  the host's own REJ and everything other connections do leave the answer as it is.
\<close>

theorem answer_lasts:
  assumes "tracked env self t" "local_map t lid = Some a" "in_qpn_map (heap t a)"
    and complete: "\<forall>e\<in>set es. complete_cm_packet env self (fst e)"
    and keeps: "\<forall>m\<in>set (messages_of env self es). \<not> ends_answer lid (remote_id (heap t a)) m"
    and run: "run (packet_step env self) es t = Inr t'"
  shows "get_source_qpn t' (get_flow_key (heap t a)) = local_qpn (heap t a) \<and> local_qpn (heap t a) \<noteq> 0"
proof -
  have inv: "tracker_inv t" by (rule packet_machine.reachable_inv [OF assms(1)])
  have a: "mapped t a" "local_id (heap t a) = lid"
    using local_mapD [OF inv assms(2)] assms(3) by (simp_all add: mapped_def)
  have t': "tracker_inv t'" "mapped t' a" "same_answer (heap t a) (heap t' a)"
    using answer_run [OF inv a(1) _ run [unfolded run_messages_of [OF complete]]] keeps a(2) by auto
  then show ?thesis
    using mappedD(2) [OF inv a(1)] mappedD(4) [OF t'(1,2)]
    by (simp add: get_source_qpn_def get_flow_key_def same_answer_def)
qed

lemma messages_of_carries: "list_all2 (carries env self) es ms \<Longrightarrow> messages_of env self es = ms"
  by (induction rule: list_all2_induct) (auto simp: carries_def)

lemma active_packets_complete:
  "\<forall>e\<in>set active_packets. complete_cm_packet sample_dpdk sample_parser (fst e)"
  by (simp add: active_packets_def complete_sample req_body_def rep_body_def ids_body_def)

text \<open>A whole second open of the same connection, replayed by both sides.\<close>

lemma replay_ignored:
  "run (packet_step sample_dpdk sample_parser) active_packets one_connection = Inr one_connection"
  unfolding run_packets [OF active_packets_carry]
  by (simp add: message_step_known msg_defs react_def apply_reaction_def)

theorem answer_lasts_witness:
  "\<exists>t'. run (packet_step sample_dpdk sample_parser) active_packets one_connection = Inr t' \<and>
     get_source_qpn t' (0x0200000a, 0x203) = 0x102"
proof -
  have "local_qpn (heap one_connection 0) = 0x102"
    by (simp add: one_connection_def with_connection_def new_tracker_def)
  then show ?thesis
    using answer_lasts [OF one_connection_reachable _ _ active_packets_complete _ replay_ignored, of 7 0]
      replay_ignored
    by (simp add: messages_of_carries [OF active_packets_carry] ends_answer_def msg_defs)
qed

section \<open>What a flow knows of its peer\<close>

lemma get_flow_remote_id:
  assumes "tracker_inv t" "get_flow t lid rid = Inr (t', st)" "st < next_ptr t"
  shows "remote_id (heap t' st) = remote_id (heap t st)"
  using assms
  by (auto simp: get_flow_def add_new_flow_def link_local_def link_remote_def Let_def res_Inr_iffs
      split: option.splits if_splits)

lemma apply_reaction_keeps_remote:
  assumes "apply_reaction m r t st = Inr t'" "\<And>s. r \<noteq> Requested s" "\<And>s. r \<noteq> Replied s"
  shows "remote_id (heap t' st) = remote_id (heap t st) \<and> remote_qpn (heap t' st) = remote_qpn (heap t st)"
  using assms
  by (cases r)
    (auto simp: apply_reaction_def on_established_def erase_flow_def on_disconnected_def Let_def res_Inr_iffs
      split: option.splits if_splits)

text \<open>A flow whose REQ came from the network knows its peer.\<close>

definition requests_named :: "tracker \<Rightarrow> bool" where
  "requests_named t \<longleftrightarrow>
     (\<forall>a < next_ptr t. fstate (heap t a) = REQ_RCVD \<longrightarrow> cm_flow_key_bool (remote_id (heap t a)))"

lemma proper_net_req:
  assumes "proper_message m" "msg_dir m = CTCM_FROM_NET" "msg_kind m = Kind_REQ"
  shows "msg_id m = 0"
  using assms by (simp add: proper_message_def)

lemma requested_from_net:
  assumes inv: "tracker_inv t" and "proper_message m" "msg_dir m = CTCM_FROM_NET" "msg_kind m = Kind_REQ"
    and get: "get_flow t (msg_id m) (lookup_peer m) = Inr (t1, st)"
  shows "cm_flow_key_bool (msg_peer m) \<and> remote_id (heap t1 st) = msg_peer m"
proof -
  have g: "tracker_inv t1" "remote_map t1 (msg_peer m) = Some st"
    using get_flow_spec [OF inv get] proper_net_req [OF assms(2-4)] assms(3,4) by (auto simp: lookup_peer_def)
  then show ?thesis using remote_mapD(2,3) by blast
qed

lemma react_stays_REQ_RCVD:
  assumes "next_state (react dir k s) s = REQ_RCVD" "\<not> (dir = CTCM_FROM_NET \<and> k = Kind_REQ)"
  shows "s = REQ_RCVD \<and> (react dir k s = Ignore \<or> react dir k s = Forget)"
  using assms by (cases dir; cases k) (auto simp: react_def split: if_splits)

lemma requests_named_step:
  assumes inv: "tracker_inv t" and named: "requests_named t" and proper: "proper_message m"
    and step: "message_step m t = Inr t'"
  shows "requests_named t'"
  using step
proof (rule message_stepE)
  fix t1 st
  assume get: "get_flow t (msg_id m) (lookup_peer m) = Inr (t1, st)"
    and app: "apply_reaction m (react (msg_dir m) (msg_kind m) (fstate (heap t1 st))) t1 st = Inr t'" (is "apply_reaction m ?r _ _ = _")
  have w: "works_on st t t'" "fstate (heap t' st) = next_state ?r (fstate (object_at t st))"
    using message_works_on [OF inv get app] by auto
  have "cm_flow_key_bool (remote_id (heap t' st))" if st: "fstate (heap t' st) = REQ_RCVD"
  proof (cases "msg_dir m = CTCM_FROM_NET \<and> msg_kind m = Kind_REQ")
    case True
    then have "?r = Ignore \<or> ?r = Requested REQ_RCVD" by (simp add: react_def)
    then have "remote_id (heap t' st) = remote_id (heap t1 st)"
      using app True by (auto simp: apply_reaction_def res_Inr_iffs)
    then show ?thesis using requested_from_net [OF inv proper _ _ get] True by simp
  next
    case False
    have "fstate (heap t1 st) = fstate (object_at t st)"
      using get_flow_spec [OF inv get] by (simp add: table_ext_def only_ids_def)
    then have st': "fstate (object_at t st) = REQ_RCVD" "?r = Ignore \<or> ?r = Forget"
      using react_stays_REQ_RCVD [OF _ False] st w(2) by metis+
    then have old: "st < next_ptr t" by (auto simp: object_at_def split: if_splits)
    then show ?thesis
      using apply_reaction_keeps_remote [OF app] st'(2) get_flow_remote_id [OF inv get old] st'(1) named
      by (auto simp: requests_named_def object_at_def)
  qed
  then show ?thesis
    unfolding requests_named_def by (metis works_onE [OF w(1)] named requests_named_def)
qed

section \<open>Messages of other connections\<close>

text \<open>The flows an identifier table still refers to that would be registered under a query key.\<close>

definition holders :: "flow_key \<Rightarrow> tracker \<Rightarrow> nat set" where
  "holders k t = {a. listed t a \<and> get_flow_key (heap t a) = k}"

text \<open>A message that may put another flow under the key: it announces the QPN for that address, or names no peer.\<close>

definition takes_key :: "flow_key \<Rightarrow> cm_message \<Rightarrow> bool" where
  "takes_key k m \<longleftrightarrow> msg_dir m = CTCM_FROM_NET \<and> msg_kind m \<in> {Kind_REQ, Kind_REP} \<and> msg_qpn m = snd k \<and>
     (fst (msg_peer m) = fst k \<or> \<not> cm_flow_key_bool (msg_peer m))"

definition foreign :: "id_t \<Rightarrow> cm_flow_key \<Rightarrow> qpn_t \<Rightarrow> cm_message \<Rightarrow> bool" where
  "foreign lid peer rq m \<longleftrightarrow> msg_id m \<noteq> lid \<and> msg_peer m \<noteq> peer \<and> \<not> takes_key (fst peer, rq) m"

lemma replied_from_net:
  assumes "local_map t (msg_id m) = Some st" "apply_reaction m (Replied s) t st = Inr t'"
    and "msg_dir m = CTCM_FROM_NET"
  shows "remote_qpn (heap t' st) = msg_qpn m \<and> (cm_flow_key_bool (msg_peer m) \<longrightarrow> remote_id (heap t' st) = msg_peer m)"
  using assms
  by (auto simp: apply_reaction_def add_new_flow_def link_local_def link_remote_def Let_def res_Inr_iffs
      split: option.splits if_splits)

lemma replied_from_host:
  assumes inv: "tracker_inv t" and bool: "cm_flow_key_bool (remote_id (heap t st))"
    and found: "if msg_id m \<noteq> 0 then local_map t (msg_id m) = Some st else remote_map t (msg_peer m) = Some st"
    and app: "apply_reaction m (Replied s) t st = Inr t'" and "msg_dir m = CTCM_FROM_HOST"
  shows "remote_qpn (heap t' st) = remote_qpn (heap t st) \<and> remote_id (heap t' st) = remote_id (heap t st)"
  using assms
  by (auto simp: apply_reaction_def add_new_flow_def link_local_def link_remote_def Let_def res_Inr_iffs
      split: option.splits if_splits)

text \<open>How a message can change what the flow it works on knows of its peer.\<close>

lemma message_peer_change:
  assumes inv: "tracker_inv t" and named: "requests_named t" and proper: "proper_message m"
    and get: "get_flow t (msg_id m) (lookup_peer m) = Inr (t1, st)"
    and app: "apply_reaction m (react (msg_dir m) (msg_kind m) (fstate (heap t1 st))) t1 st = Inr t'"
  shows "remote_qpn (heap t' st) = remote_qpn (heap t1 st) \<and> remote_id (heap t' st) = remote_id (heap t1 st) \<or>
    msg_dir m = CTCM_FROM_NET \<and> msg_kind m \<in> {Kind_REQ, Kind_REP} \<and> remote_qpn (heap t' st) = msg_qpn m \<and>
    (cm_flow_key_bool (msg_peer m) \<longrightarrow> remote_id (heap t' st) = msg_peer m)"
proof (cases "react (msg_dir m) (msg_kind m) (fstate (heap t1 st))")
  case (Requested s)
  note k = react_Requested [OF Requested]
  show ?thesis
    using app Requested k requested_from_net [OF inv proper _ _ get]
    by (cases "msg_dir m") (auto simp: apply_reaction_def res_Inr_iffs)
next
  case (Replied s)
  note k = react_Replied [OF Replied] and g = get_flow_spec [OF inv get]
  show ?thesis
  proof (cases "msg_dir m")
    case CTCM_FROM_NET
    then have "local_map t1 (msg_id m) = Some st" using g k by (auto simp: lookup_peer_def)
    then show ?thesis using replied_from_net [of t1 m st s t'] app Replied CTCM_FROM_NET k by simp
  next
    case CTCM_FROM_HOST
    have "fstate (heap t1 st) = REQ_RCVD"
      using Replied k CTCM_FROM_HOST tracker_invD(5) [of t1] g
      by (auto simp: react_def states_ok_def dead_states_def table_ext_def split: if_splits)
    moreover from this have "st < next_ptr t" 
      using g by (auto simp: table_ext_def object_at_def only_ids_def split: if_splits)
    ultimately have "cm_flow_key_bool (remote_id (heap t1 st))"
      using named get_flow_remote_id [OF inv get] g
      by (auto simp: requests_named_def table_ext_def object_at_def only_ids_def)
    from replied_from_host [OF _ this found_by_message [OF inv get]] show ?thesis
      using app Replied g CTCM_FROM_HOST by simp
  qed
qed (use apply_reaction_keeps_remote [OF app] in simp_all)

lemma worked_on_holder:
  assumes inv: "tracker_inv t" and named: "requests_named t" and proper: "proper_message m"
    and get: "get_flow t (msg_id m) (lookup_peer m) = Inr (t1, st)"
    and app: "apply_reaction m (react (msg_dir m) (msg_kind m) (fstate (heap t1 st))) t1 st = Inr t'"
    and k: "\<not> takes_key k m" "snd k \<noteq> 0" and st: "get_flow_key (heap t' st) = k"
  shows "st \<in> holders k t"
proof -
  have "remote_qpn (heap t1 st) = snd k" "remote_id (heap t' st) = remote_id (heap t1 st)"
    using message_peer_change [OF inv named proper get app] st k(1)
    by (auto simp: takes_key_def get_flow_key_def)
  moreover from this(1) have old: "st < next_ptr t"
    using get_flow_spec [OF inv get] k(2) by (auto simp: table_ext_def object_at_def only_ids_def split: if_splits)
  moreover have "listed t st"
    using get_flow_entries [OF get] old listed_local [OF inv] listed_remote [OF inv] by blast
  ultimately show ?thesis
    using get_flow_remote_id [OF inv get] get_flow_spec [OF inv get] st
    by (auto simp: holders_def get_flow_key_def table_ext_def object_at_def only_ids_def)
qed

lemma holders_step:
  assumes inv: "tracker_inv t" and named: "requests_named t" and proper: "proper_message m"
    and step: "message_step m t = Inr t'" and k: "\<not> takes_key k m" "snd k \<noteq> 0"
  shows "holders k t' \<subseteq> holders k t"
  using step
proof (rule message_stepE)
  fix t1 st
  assume get: "get_flow t (msg_id m) (lookup_peer m) = Inr (t1, st)"
    and app: "apply_reaction m (react (msg_dir m) (msg_kind m) (fstate (heap t1 st))) t1 st = Inr t'"
  have w: "works_on st t t'" using message_works_on [OF inv get app] by simp
  have "a \<in> holders k t" if a: "listed t' a" "get_flow_key (heap t' a) = k" "a \<noteq> st" for a
  proof -
    have "a < next_ptr t'" by (rule listed_bound [OF message_step_inv [OF inv step] a(1)])
    then have "a < next_ptr t" "heap t' a = heap t a" using works_onE [OF w] a(3) by blast+
    then show ?thesis using message_step_unlisted [OF inv _ _ step] a(1,2) by (auto simp: holders_def)
  qed
  then show ?thesis
    using worked_on_holder [OF inv named proper get app k] by (auto simp: holders_def)
qed

lemma add_new_flow_maps:
  assumes "add_new_flow t lid rid = Inr (t', st)"
  shows "l \<noteq> lid \<Longrightarrow> local_map t' l = local_map t l" "k \<noteq> rid \<Longrightarrow> remote_map t' k = remote_map t k"
  using assms
  by (auto simp: add_new_flow_def link_local_def link_remote_def Let_def res_Inr_iffs
      split: option.splits if_splits)

lemma get_flow_maps:
  assumes "get_flow t lid rid = Inr (t', st)"
  shows "l \<noteq> lid \<Longrightarrow> local_map t' l = local_map t l" "k \<noteq> rid \<Longrightarrow> remote_map t' k = remote_map t k"
  using assms by (auto simp: get_flow_def res_Inr_iffs split: option.splits dest: add_new_flow_maps)

lemma erase_flow_maps:
  assumes "erase_flow t lid rid = Inr t'"
  shows "l \<noteq> lid \<Longrightarrow> local_map t' l = local_map t l" "k \<noteq> rid \<Longrightarrow> remote_map t' k = remote_map t k"
  using assms
  by (auto simp: erase_flow_def on_disconnected_def Let_def res_Inr_iffs split: option.splits if_splits)

lemma on_established_maps [simp]:
  "local_map (on_established t st) = local_map t" "remote_map (on_established t st) = remote_map t"
  by (simp_all add: on_established_def Let_def split: option.splits)

lemma apply_reaction_maps:
  assumes "apply_reaction m r t st = Inr t'"
  shows "l \<noteq> msg_id m \<Longrightarrow> local_map t' l = local_map t l" "k \<noteq> msg_peer m \<Longrightarrow> remote_map t' k = remote_map t k"
  using assms
  by (cases r; cases "msg_dir m"; auto simp: apply_reaction_def erase_flow_maps elim!: bind_res_InrE
      dest: add_new_flow_maps)+

lemma foreign_not_worked_on:
  assumes inv: "tracker_inv t" and get: "get_flow t (msg_id m) (lookup_peer m) = Inr (t1, st)"
    and m: "msg_id m \<noteq> lid" "msg_peer m \<noteq> peer" and peer: "cm_flow_key_bool peer"
    and a: "a < next_ptr t" "local_id (heap t a) \<in> {0, lid}" "remote_id (heap t a) \<in> {cm_flow_key_null, peer}"
  shows "st \<noteq> a"
proof -
  have "peer \<noteq> lookup_peer m" using m(2) peer by (auto simp: lookup_peer_def)
  then show ?thesis
    using get_flow_result [OF inv get] a m(1) local_mapD(3) [OF inv, of "msg_id m" a]
      remote_mapD(2,3) [OF inv, of "lookup_peer m" a] by auto
qed

text \<open>A foreign message leaves the identifiers, the object and the query entry of a connection alone.\<close>

lemma foreign_step:
  assumes inv: "tracker_inv t" and step: "message_step m t = Inr t'"
    and m: "msg_id m \<noteq> lid" "msg_peer m \<noteq> peer" and peer: "cm_flow_key_bool peer"
  shows "local_map t' lid = local_map t lid" "remote_map t' peer = remote_map t peer"
    "a < next_ptr t \<Longrightarrow> local_id (heap t a) \<in> {0, lid} \<Longrightarrow> remote_id (heap t a) \<in> {cm_flow_key_null, peer} \<Longrightarrow>
      heap t' a = heap t a \<and> a < next_ptr t'"
proof -
  obtain t1 st where get: "get_flow t (msg_id m) (lookup_peer m) = Inr (t1, st)"
    and app: "apply_reaction m (react (msg_dir m) (msg_kind m) (fstate (heap t1 st))) t1 st = Inr t'"
    using step by (rule message_stepE)
  have p: "peer \<noteq> lookup_peer m" using m(2) peer by (auto simp: lookup_peer_def)
  show "local_map t' lid = local_map t lid" "remote_map t' peer = remote_map t peer"
    using get_flow_maps [OF get] apply_reaction_maps [OF app] m p by metis+
  have w: "works_on st t t'" using message_works_on [OF inv get app] by simp
  show "heap t' a = heap t a \<and> a < next_ptr t'"
    if "a < next_ptr t" "local_id (heap t a) \<in> {0, lid}" "remote_id (heap t a) \<in> {cm_flow_key_null, peer}"
    using foreign_not_worked_on [OF inv get m peer that] w that(1) by (auto simp: works_on_def)
qed

lemma foreign_step_query:
  assumes inv: "tracker_inv t" and named: "requests_named t" and proper: "proper_message m"
    and step: "message_step m t = Inr t'"
    and m: "msg_id m \<noteq> lid" "msg_peer m \<noteq> peer" and peer: "cm_flow_key_bool peer"
    and k: "\<not> takes_key k m" "snd k \<noteq> 0"
    and own: "\<And>a. a \<in> holders k t \<Longrightarrow>
      local_id (heap t a) \<in> {0, lid} \<and> remote_id (heap t a) \<in> {cm_flow_key_null, peer}"
  shows "qpn_map t' k = qpn_map t k"
  using step
proof (rule message_stepE)
  fix t1 st
  assume get: "get_flow t (msg_id m) (lookup_peer m) = Inr (t1, st)"
    and app: "apply_reaction m (react (msg_dir m) (msg_kind m) (fstate (heap t1 st))) t1 st = Inr t'"
  have "get_flow_key (heap t' st) \<noteq> k"
  proof
    assume "get_flow_key (heap t' st) = k"
    from worked_on_holder [OF inv named proper get app k this] have "st \<in> holders k t" .
    then show False
      using own foreign_not_worked_on [OF inv get m peer, of st] listed_bound [OF inv] by (auto simp: holders_def)
  qed
  then show ?thesis using message_works_on [OF inv get app] unfolding works_on_def by metis
qed

section \<open>Stages of a handshake\<close>

text \<open>
  How far the connection has come: not known yet, or known as a flow object with given contents, which is the
  only one under its query key.
\<close>

definition connection_stage :: "id_t \<Rightarrow> cm_flow_key \<Rightarrow> qpn_t \<Rightarrow> flow_state option \<Rightarrow> tracker \<Rightarrow> bool" where
  "connection_stage lid peer rq fo t \<longleftrightarrow> lid \<noteq> 0 \<and> cm_flow_key_bool peer \<and> rq \<noteq> 0 \<and>
     (case fo of
        None \<Rightarrow> local_map t lid = None \<and> remote_map t peer = None \<and> qpn_map t (fst peer, rq) = None \<and>
          holders (fst peer, rq) t = {}
      | Some f \<Rightarrow> \<exists>a. a < next_ptr t \<and> heap t a = f \<and> local_id f \<in> {0, lid} \<and> remote_id f \<in> {cm_flow_key_null, peer} \<and>
          local_map t lid = (if local_id f = lid then Some a else None) \<and>
          remote_map t peer = (if remote_id f = peer then Some a else None) \<and>
          qpn_map t (fst peer, rq) = (if in_qpn_map f then Some (local_qpn f) else None) \<and>
          holders (fst peer, rq) t \<subseteq> {a})"

lemma foreign_keeps_stage:
  assumes inv: "tracker_inv t" and named: "requests_named t" and proper: "proper_message m"
    and step: "message_step m t = Inr t'" and m: "foreign lid peer rq m" and st: "connection_stage lid peer rq fo t"
  shows "connection_stage lid peer rq fo t'"
proof -
  have c: "lid \<noteq> 0" "cm_flow_key_bool peer" "rq \<noteq> 0" using st by (auto simp: connection_stage_def)
  have f: "msg_id m \<noteq> lid" "msg_peer m \<noteq> peer" "\<not> takes_key (fst peer, rq) m" using m by (auto simp: foreign_def)
  note fs = foreign_step [OF inv step f(1,2) c(2)]
  have h: "holders (fst peer, rq) t' \<subseteq> holders (fst peer, rq) t"
    using holders_step [OF inv named proper step f(3)] c(3) by simp
  note q = foreign_step_query [OF inv named proper step f(1,2) c(2) f(3)]
  show ?thesis
  proof (cases fo)
    case None
    then show ?thesis using st fs(1,2) q h c(3) by (auto simp: connection_stage_def)
  next
    case (Some s)
    then obtain a where a: "a < next_ptr t" "heap t a = s" "local_id s \<in> {0, lid}" "remote_id s \<in> {cm_flow_key_null, peer}"
      "local_map t lid = (if local_id s = lid then Some a else None)"
      "remote_map t peer = (if remote_id s = peer then Some a else None)"
      "qpn_map t (fst peer, rq) = (if in_qpn_map s then Some (local_qpn s) else None)" "holders (fst peer, rq) t \<subseteq> {a}"
      using st by (auto simp: connection_stage_def)
    moreover have "heap t' a = s" "a < next_ptr t'" using fs(3) [of a] a(1-4) by auto
    moreover have "qpn_map t' (fst peer, rq) = qpn_map t (fst peer, rq)" using q c(3) a(2,3,4,8) by auto
    ultimately show ?thesis
      using Some c fs(1,2) h unfolding connection_stage_def by (auto intro!: exI [of _ a])
  qed
qed

interpretation handshakes: staged_system message_step "\<lambda>t. tracker_inv t \<and> requests_named t" proper_message
  "connection_stage lid peer rq" "foreign lid peer rq"
  by unfold_locales (auto intro: message_step_inv requests_named_step foreign_keeps_stage)

section \<open>A handshake among other traffic\<close>

abbreviation flow_of :: "flow_state_name \<Rightarrow> id_t \<Rightarrow> cm_flow_key \<Rightarrow> qpn_t \<Rightarrow> qpn_t \<Rightarrow> bool \<Rightarrow> flow_state" where
  "flow_of s lid peer q rq b \<equiv>
     \<lparr>fstate = s, local_id = lid, remote_id = peer, local_qpn = q, remote_qpn = rq, in_qpn_map = b\<rparr>"

definition active_own :: "id_t \<Rightarrow> cm_flow_key \<Rightarrow> qpn_t \<Rightarrow> qpn_t \<Rightarrow> cm_flow_key \<Rightarrow> cm_flow_key \<Rightarrow> cm_message list" where
  "active_own lid peer q rq peer0 peer1 =
     [req_msg CTCM_FROM_HOST lid peer0 q, rep_msg CTCM_FROM_NET lid peer rq, ids_msg Kind_RTU CTCM_FROM_HOST lid peer1]"

definition passive_own :: "id_t \<Rightarrow> cm_flow_key \<Rightarrow> qpn_t \<Rightarrow> qpn_t \<Rightarrow> cm_flow_key \<Rightarrow> cm_message list" where
  "passive_own lid peer q rq peer1 =
     [req_msg CTCM_FROM_NET 0 peer rq, rep_msg CTCM_FROM_HOST lid peer q, ids_msg Kind_RTU CTCM_FROM_NET lid peer1]"

lemma active_req_stage:
  assumes "tracker_inv t" "connection_stage lid peer rq None t"
  shows "\<exists>t'. message_step (req_msg CTCM_FROM_HOST lid peer0 q) t = Inr t' \<and>
    connection_stage lid peer rq (Some (flow_of REQ_SENT lid cm_flow_key_null q 0 False)) t'"
  using assms
  by (auto simp: connection_stage_def msg_defs step_simps new_flow_state_def holders_def listed_def get_flow_key_def less_Suc_eq split: if_splits
      intro!: exI [of _ "next_ptr t"])

lemma passive_req_stage:
  assumes "tracker_inv t" "connection_stage lid peer rq None t"
  shows "\<exists>t'. message_step (req_msg CTCM_FROM_NET 0 peer rq) t = Inr t' \<and>
    connection_stage lid peer rq (Some (flow_of REQ_RCVD 0 peer 0 rq False)) t'"
  using assms
  by (auto simp: connection_stage_def msg_defs step_simps new_flow_state_def holders_def listed_def get_flow_key_def less_Suc_eq split: if_splits
      intro!: exI [of _ "next_ptr t"])

lemma active_rep_stage:
  assumes "tracker_inv t" "connection_stage lid peer rq (Some (flow_of REQ_SENT lid cm_flow_key_null q 0 False)) t"
  shows "\<exists>t'. message_step (rep_msg CTCM_FROM_NET lid peer rq) t = Inr t' \<and>
    connection_stage lid peer rq (Some (flow_of REP_RCVD lid peer q rq False)) t'"
  using assms
  by (auto simp: connection_stage_def msg_defs step_simps holders_def listed_def subset_iff get_flow_key_def split: if_splits)

lemma passive_rep_stage:
  assumes "tracker_inv t" "connection_stage lid peer rq (Some (flow_of REQ_RCVD 0 peer 0 rq False)) t"
  shows "\<exists>t'. message_step (rep_msg CTCM_FROM_HOST lid peer q) t = Inr t' \<and>
    connection_stage lid peer rq (Some (flow_of REP_SENT lid peer q rq False)) t'"
  using assms
  by (auto simp: connection_stage_def msg_defs step_simps holders_def listed_def subset_iff get_flow_key_def split: if_splits)

lemma rtu_stage:
  assumes "tracker_inv t" "q \<noteq> 0"
    and "connection_stage lid peer rq (Some (flow_of s lid peer q rq False)) t"
    and "(d, s) \<in> {(CTCM_FROM_HOST, REP_RCVD), (CTCM_FROM_NET, REP_SENT)}"
  shows "\<exists>t'. message_step (ids_msg Kind_RTU d lid peer1) t = Inr t' \<and>
    connection_stage lid peer rq (Some (flow_of ESTABLISHED lid peer q rq True)) t'"
  using assms
  by (auto simp: connection_stage_def msg_defs step_simps holders_def listed_def subset_iff on_established_def flow_value_def get_flow_key_def
      split: if_splits)

lemma active_advances:
  assumes "q \<noteq> 0"
  shows "advances message_step (\<lambda>t. tracker_inv t \<and> requests_named t) (connection_stage lid peer rq) None
    (active_own lid peer q rq peer0 peer1) (Some (flow_of ESTABLISHED lid peer q rq True))"
  unfolding active_own_def
  by (intro advances_ConsI) (assumption | rule active_req_stage active_rep_stage rtu_stage [OF _ assms] | simp)+

lemma passive_advances:
  assumes "q \<noteq> 0"
  shows "advances message_step (\<lambda>t. tracker_inv t \<and> requests_named t) (connection_stage lid peer rq) None
    (passive_own lid peer q rq peer1) (Some (flow_of ESTABLISHED lid peer q rq True))"
  unfolding passive_own_def
  by (intro advances_ConsI) (assumption | rule passive_req_stage passive_rep_stage rtu_stage [OF _ assms] | simp)+

interpretation named_machine: invariant_system "packet_step env self" new_tracker
  "\<lambda>t. tracker_inv t \<and> requests_named t"
proof
  show "tracker_inv new_tracker \<and> requests_named new_tracker"
    using tracker_inv_new by (simp add: requests_named_def new_tracker_def)
  fix t e t'
  assume t: "tracker_inv t \<and> requests_named t" and step: "packet_step env self e t = Inr t'"
  then show "tracker_inv t' \<and> requests_named t'"
    using process_simulates [of env self "fst e" "snd e" t t'] requests_named_step packet_machine.step_inv
    by (auto simp: packet_step_def)
qed

lemma established_stage:
  assumes "connection_stage lid peer rq (Some (flow_of ESTABLISHED lid peer q rq True)) t"
  shows "get_source_qpn t (fst peer, rq) = q \<and>
    (\<exists>a. local_map t lid = Some a \<and> remote_map t peer = Some a \<and> fstate (heap t a) = ESTABLISHED)"
  using assms by (auto simp: connection_stage_def get_source_qpn_def)

text \<open>
  C8: A handshake succeeds among other traffic: let the packets of an active or a passive open of a new
  connection (its identifier, peer key and query key are in no table, and no flow that a table still refers to has the
  same peer address and peer QPN) reach the tracker in order, interleaved in any way with packets of other connections in any
  state.  The other packets name neither the connection's identifier nor its peer key, and none of those from the network
  announces the same peer address and QPN, or that QPN without naming a peer: whichever flow is established first under a query
  key keeps it.  Then the run ends with the connection established and its query answered by the host's QPN, unless one of
  the other packets makes the tracker abort; the packets of the handshake themselves never do.
\<close>

theorem handshake_among_traffic:
  assumes "tracked env self t" and fresh: "fresh_connection t lid peer q rq" "holders (fst peer, rq) t = {}"
    and complete: "\<forall>e\<in>set es. complete_cm_packet env self (fst e)"
    and own: "own = active_own lid peer q rq peer0 peer1 \<or> own = passive_own lid peer q rq peer1"
    and mixed: "messages_of env self es \<in> shuffles own noise" "\<forall>m\<in>set noise. foreign lid peer rq m"
  shows "case run (packet_step env self) es t of
      Inr t' \<Rightarrow> get_source_qpn t' (fst peer, rq) = q \<and>
        (\<exists>a. local_map t' lid = Some a \<and> remote_map t' peer = Some a \<and> fstate (heap t' a) = ESTABLISHED)
    | Inl err \<Rightarrow> \<exists>us m vs s. messages_of env self es = us @ m # vs \<and> foreign lid peer rq m \<and>
        run message_step us t = Inr s \<and> message_step m s = Inl err"
proof -
  have inv: "tracker_inv t \<and> requests_named t" by (rule named_machine.reachable_inv [OF assms(1)])
  have q: "q \<noteq> 0" and st: "connection_stage lid peer rq None t"
    using fresh by (simp_all add: fresh_connection_def connection_stage_def)
  have adv: "advances message_step (\<lambda>t. tracker_inv t \<and> requests_named t) (connection_stage lid peer rq) None own
      (Some (flow_of ESTABLISHED lid peer q rq True))"
    using own active_advances [OF q] passive_advances [OF q] by blast
  have "\<forall>m\<in>set (messages_of env self es). proper_message m" using messages_of_proper by blast
  from handshakes.interleaved [OF mixed(1) inv this mixed(2) st adv] show ?thesis
    unfolding run_messages_of [OF complete] by (auto split: sum.splits dest: established_stage)
qed

text \<open>A REQ from 10.0.0.3 (identifier 5, with the QPN number 0x203 too) arrives in the middle of the active open.\<close>

definition other_req :: "rte_mbuf \<times> ctcm_direction" where
  "other_req = (sample [10, 0, 0, 3] [10, 0, 0, 1] 0x10 (req_body [0, 0, 0, 5] [0, 2, 3]), CTCM_FROM_NET)"

definition mixed_packets :: "(rte_mbuf \<times> ctcm_direction) list" where
  "mixed_packets = [active_packets ! 0, other_req, active_packets ! 1, active_packets ! 2]"

lemma other_req_carries:
  "carries sample_dpdk sample_parser other_req (req_msg CTCM_FROM_NET 0 (0x0300000a, 5) 0x203)"
proof -
  have "(of_le_bytes [10, 0, 0, 3] :: u32) = 0x0300000a" by code_simp
  then show ?thesis by (simp add: other_req_def sample_eval del: of_le_bytes.simps)
qed

lemma mixed_packets_carry:
  "list_all2 (carries sample_dpdk sample_parser) mixed_packets
     [req_msg CTCM_FROM_HOST 7 (0x0200000a, 0) 0x102, req_msg CTCM_FROM_NET 0 (0x0300000a, 5) 0x203,
      rep_msg CTCM_FROM_NET 7 (0x0200000a, 9) 0x203, ids_msg Kind_RTU CTCM_FROM_HOST 7 (0x0200000a, 9)]"
  using active_packets_carry other_req_carries by (simp add: mixed_packets_def active_packets_def)

lemma mixed_packets_complete: "\<forall>e\<in>set mixed_packets. complete_cm_packet sample_dpdk sample_parser (fst e)"
  using active_packets_complete
  by (auto simp: mixed_packets_def active_packets_def other_req_def complete_sample req_body_def)

text \<open>The same connection has been opened and closed before; the object of its first life is in no table.\<close>

lemma mixed_packets_run:
  assumes "local_map t = Map.empty" "remote_map t = Map.empty" "qpn_map t = Map.empty"
  shows "\<exists>t'. run (packet_step sample_dpdk sample_parser) mixed_packets t = Inr t'"
  unfolding run_packets [OF mixed_packets_carry]
  by (simp add: assms msg_defs step_simps new_flow_state_def cm_flow_key_bool_def cm_flow_key_null_def)

theorem handshake_among_traffic_witness:
  "\<exists>t t'. run (packet_step sample_dpdk sample_parser) (active_packets @ teardown_packets) new_tracker = Inr t \<and>
     run (packet_step sample_dpdk sample_parser) mixed_packets t = Inr t' \<and>
     get_source_qpn t' (0x0200000a, 0x203) = 0x102"
proof -
  obtain t where t: "run (packet_step sample_dpdk sample_parser) (active_packets @ teardown_packets) new_tracker = Inr t"
    "local_map t = Map.empty" "remote_map t = Map.empty" "qpn_map t = Map.empty" "0 < next_ptr t"
    by (rule closed_connection)
  obtain t' where t': "run (packet_step sample_dpdk sample_parser) mixed_packets t = Inr t'"
    using mixed_packets_run [OF t(2-4)] by blast
  have start: "tracked sample_dpdk sample_parser t" "fresh_connection t 7 (0x0200000a, 9) 0x102 0x203"
    "holders (fst (0x0200000a, 9), 0x203) t = {}"
    using t fresh_in_new_tracker
    by (auto simp: reachable_iff_run fresh_connection_def holders_def listed_def)
  have mixed: "messages_of sample_dpdk sample_parser mixed_packets \<in>
      shuffles (active_own 7 (0x0200000a, 9) 0x102 0x203 (0x0200000a, 0) (0x0200000a, 9))
        [req_msg CTCM_FROM_NET 0 (0x0300000a, 5) 0x203]"
    by (simp add: messages_of_carries [OF mixed_packets_carry] active_own_def Cons_in_shuffles_iff)
  show ?thesis
    using handshake_among_traffic [OF start mixed_packets_complete disjI1 [OF refl] mixed] t(1) t'
    by (auto simp: foreign_def takes_key_def msg_defs cm_flow_key_bool_def)
qed

end
