(* ===== verification/Provenance.thy ===== *)
theory Provenance
  imports Interleaving
begin

text \<open>
  Where the answers of the tracker come from: every QPN and every peer key a flow holds was carried by
  a message the tracker has seen, in the direction and kind that may announce it, and a peer's QPN came with the peer's key.
\<close>

section \<open>What one message can teach\<close>

definition announces :: "ctcm_direction \<Rightarrow> qpn_t \<Rightarrow> cm_message \<Rightarrow> bool" where
  "announces dir q m \<longleftrightarrow> msg_dir m = dir \<and> msg_kind m \<in> {Kind_REQ, Kind_REP} \<and> msg_qpn m = q"

definition learns :: "cm_message \<Rightarrow> flow_state \<Rightarrow> flow_state \<Rightarrow> bool" where
  "learns m s s' \<longleftrightarrow>
     (local_qpn s' = local_qpn s \<or> announces CTCM_FROM_HOST (local_qpn s') m) \<and>
     (remote_id s' = remote_id s \<or> remote_id s' = msg_peer m)"

definition tables_learn :: "cm_message \<Rightarrow> tracker \<Rightarrow> tracker \<Rightarrow> bool" where
  "tables_learn m t t' \<longleftrightarrow> (\<forall>a. learns m (object_at t a) (object_at t' a))"

lemma learns_refl [simp]: "learns m s s"
  by (simp add: learns_def)

lemma learns_trans: "learns m s s1 \<Longrightarrow> learns m s1 s' \<Longrightarrow> learns m s s'"
  unfolding learns_def by metis

lemma tables_learn_refl [simp]: "tables_learn m t t"
  by (simp add: tables_learn_def)

lemma tables_learn_trans: "tables_learn m t t1 \<Longrightarrow> tables_learn m t1 t' \<Longrightarrow> tables_learn m t t'"
  unfolding tables_learn_def using learns_trans by blast

lemma tables_learn_upd: "(\<And>s. learns m s (f s)) \<Longrightarrow> tables_learn m t (upd_flow t st f)"
  by (simp add: tables_learn_def object_at_def)

lemma tables_learn_maps [simp]:
  "tables_learn m t (t'\<lparr>local_map := l\<rparr>) \<longleftrightarrow> tables_learn m t t'"
  "tables_learn m t (t'\<lparr>remote_map := r\<rparr>) \<longleftrightarrow> tables_learn m t t'"
  "tables_learn m t (t'\<lparr>qpn_map := q\<rparr>) \<longleftrightarrow> tables_learn m t t'"
  by (simp_all add: tables_learn_def object_at_def)

lemma object_at_alloc [simp]: "object_at (alloc t) a = object_at t a"
  by (auto simp: object_at_def)

lemma tables_learn_alloc [simp]: "tables_learn m t (alloc t)"
  by (simp add: tables_learn_def)

lemma link_local_learns: "link_local t st lid it = Inr t' \<Longrightarrow> tables_learn m t t'"
  by (auto simp: link_local_def res_Inr_iffs learns_def intro!: tables_learn_upd split: if_splits)

lemma link_remote_learns:
  "link_remote t st rid it = Inr t' \<Longrightarrow> cm_flow_key_bool rid \<longrightarrow> rid = msg_peer m \<Longrightarrow> tables_learn m t t'"
  by (auto simp: link_remote_def res_Inr_iffs learns_def intro!: tables_learn_upd split: if_splits)

lemma add_new_flow_learns:
  assumes add: "add_new_flow t lid rid = Inr (t', st)" and rid: "cm_flow_key_bool rid \<longrightarrow> rid = msg_peer m"
  shows "tables_learn m t t'"
proof -
  have link: "tables_learn m t0 t'"
    if "link_local t0 x lid i = Inr t1" "link_remote t1 x rid j = Inr t'" for t0 t1 x i j
    using tables_learn_trans [OF link_local_learns [OF that(1)] link_remote_learns [OF that(2) rid]] .
  show ?thesis
    using add tables_learn_trans [OF tables_learn_alloc link]
    by (auto simp: add_new_flow_def Let_def alloc_def [symmetric] elim!: bind_res_InrE
        intro: link split: option.splits)
qed

lemma get_flow_learns:
  assumes "get_flow t (msg_id m) (lookup_peer m) = Inr (t', st)"
  shows "tables_learn m t t'"
proof -
  have "cm_flow_key_bool (lookup_peer m) \<longrightarrow> lookup_peer m = msg_peer m"
    by (simp add: lookup_peer_def)
  then show ?thesis
    using assms add_new_flow_learns [of t "msg_id m" "lookup_peer m" t' st m]
    by (auto simp: get_flow_def elim!: bind_res_InrE split: option.splits if_splits)
qed

lemma on_established_learns: "tables_learn m t (on_established t st)"
  by (auto simp: on_established_def Let_def learns_def upd_flow_def object_at_def tables_learn_def
      split: option.splits)

lemma erase_flow_learns: "erase_flow t lid rid = Inr t' \<Longrightarrow> tables_learn m t t'"
  by (auto simp: erase_flow_def on_disconnected_def Let_def learns_def upd_flow_def object_at_def
      tables_learn_def elim!: bind_res_InrE split: option.splits if_splits)

lemma replied_learns:
  assumes k: "msg_kind m = Kind_REP" and app: "apply_reaction m (Replied s') t st = Inr t'"
  shows "tables_learn m t t'"
proof -
  have l: "learns m f (set_qpn (msg_dir m) (msg_qpn m) f)" "learns m f (f\<lparr>fstate := s'\<rparr>)"
    "learns m f (set_qpn (msg_dir m) (msg_qpn m) (f\<lparr>fstate := s'\<rparr>))" for f
    using k by (cases "msg_dir m"; auto simp: learns_def announces_def)+
  have up: "tables_learn m t (upd_flow t st (set_qpn (msg_dir m) (msg_qpn m)))"
    "tables_learn m t (upd_flow t st (fstate_update (\<lambda>_. s')))"
    "tables_learn m t (upd_flow t st (\<lambda>f. set_qpn (msg_dir m) (msg_qpn m) (f\<lparr>fstate := s'\<rparr>)))" for t
    by (rule tables_learn_upd, rule l)+
  show ?thesis
  proof (cases "msg_dir m")
    case CTCM_FROM_HOST
    then obtain t1 x where "add_new_flow (upd_flow t st (fstate_update (\<lambda>_. s'))) (msg_id m) (msg_peer m) = Inr (t1, x)"
      "t' = upd_flow t1 st (set_qpn (msg_dir m) (msg_qpn m))"
      using app by (auto simp: apply_reaction_def elim!: bind_res_InrE)
    then show ?thesis using up(1,2) add_new_flow_learns tables_learn_trans by metis
  next
    case CTCM_FROM_NET
    then obtain x where "add_new_flow (upd_flow t st (\<lambda>f. set_qpn (msg_dir m) (msg_qpn m) (f\<lparr>fstate := s'\<rparr>)))
        (msg_id m) (msg_peer m) = Inr (t', x)"
      using app by (auto simp: apply_reaction_def elim!: bind_res_InrE)
    then show ?thesis using up(3) add_new_flow_learns tables_learn_trans by metis
  qed
qed

lemma apply_reaction_learns:
  assumes app: "apply_reaction m (react (msg_dir m) (msg_kind m) s) t st = Inr t'"
  shows "tables_learn m t t'"
proof (cases "react (msg_dir m) (msg_kind m) s")
  case (Requested s')
  have "learns m f (set_qpn (msg_dir m) (msg_qpn m) (f\<lparr>fstate := s'\<rparr>))" for f
    using react_Requested [OF Requested] by (cases "msg_dir m") (auto simp: learns_def announces_def)
  then show ?thesis
    using app Requested by (auto simp: apply_reaction_def intro: tables_learn_upd elim!: bind_res_InrE)
next
  case (Replied s')
  then show ?thesis using replied_learns react_Replied [OF Replied] app by simp
next
  case Established
  have "tables_learn m t (upd_flow t st (fstate_update (\<lambda>_. ESTABLISHED)))"
    by (rule tables_learn_upd) (simp add: learns_def)
  then show ?thesis
    using app Established on_established_learns tables_learn_trans by (auto simp: apply_reaction_def)
next
  case (Closing s')
  then show ?thesis
    using app by (auto simp: apply_reaction_def learns_def intro: tables_learn_upd)
qed (use app erase_flow_learns in \<open>auto simp: apply_reaction_def\<close>)

lemma message_step_learns: "message_step m t = Inr t' \<Longrightarrow> tables_learn m t t'"
  using get_flow_learns apply_reaction_learns tables_learn_trans
  by (fastforce simp: message_step_def elim!: bind_res_InrE)

section \<open>Runs\<close>

definition learned :: "cm_message set \<Rightarrow> flow_state \<Rightarrow> bool" where
  "learned M s \<longleftrightarrow>
     (local_qpn s \<noteq> 0 \<longrightarrow> (\<exists>m \<in> M. announces CTCM_FROM_HOST (local_qpn s) m)) \<and>
     (remote_id s \<noteq> cm_flow_key_null \<longrightarrow> (\<exists>m \<in> M. msg_peer m = remote_id s))"

definition all_learned :: "cm_message set \<Rightarrow> tracker \<Rightarrow> bool" where
  "all_learned M t \<longleftrightarrow> (\<forall>a. learned M (object_at t a))"

lemma all_learned_new: "all_learned M new_tracker"
  by (simp add: all_learned_def learned_def object_at_def new_tracker_def)

lemma learned_step:
  assumes "learned M s" "learns m s s'" "m \<in> M"
  shows "learned M s'"
proof -
  have "local_qpn s' \<noteq> 0 \<longrightarrow> (\<exists>m \<in> M. announces CTCM_FROM_HOST (local_qpn s') m)"
    "remote_id s' \<noteq> cm_flow_key_null \<longrightarrow> (\<exists>m \<in> M. msg_peer m = remote_id s')"
    using assms unfolding learned_def learns_def by metis+
  then show ?thesis by (simp add: learned_def)
qed

lemma all_learned_step:
  assumes "all_learned M t" "message_step m t = Inr t'" "m \<in> M"
  shows "all_learned M t'"
  using assms(1,3) message_step_learns [OF assms(2)] learned_step
  unfolding all_learned_def tables_learn_def by blast

lemma all_learned_run:
  assumes "run message_step ms t = Inr t'" "all_learned M t" "set ms \<subseteq> M"
  shows "all_learned M t'"
  using assms
  by (induction ms arbitrary: t) (auto elim!: bind_res_InrE intro: all_learned_step)

text \<open>The peer's QPN of a flow came in a message that named the flow's peer, unless it named none.\<close>

definition announced_by_peer :: "cm_message set \<Rightarrow> flow_state \<Rightarrow> bool" where
  "announced_by_peer M s \<longleftrightarrow> remote_qpn s \<noteq> 0 \<longrightarrow>
     (\<exists>m \<in> M. announces CTCM_FROM_NET (remote_qpn s) m \<and> (cm_flow_key_bool (msg_peer m) \<longrightarrow> msg_peer m = remote_id s))"

lemma announced_by_peer_step:
  assumes inv: "tracker_inv t" and named: "requests_named t" and proper: "proper_message m"
    and step: "message_step m t = Inr t'" and m: "m \<in> M"
    and old: "\<forall>a < next_ptr t. announced_by_peer M (heap t a)"
  shows "\<forall>a < next_ptr t'. announced_by_peer M (heap t' a)"
  using step
proof (rule message_stepE)
  fix t1 st
  assume get: "get_flow t (msg_id m) (lookup_peer m) = Inr (t1, st)"
    and app: "apply_reaction m (react (msg_dir m) (msg_kind m) (fstate (heap t1 st))) t1 st = Inr t'"
  have w: "works_on st t t'" using message_works_on [OF inv get app] by simp
  have qpn: "remote_qpn (heap t1 st) = remote_qpn (object_at t st)"
    using get_flow_spec [OF inv get] by (simp add: table_ext_def only_ids_def)
  have "announced_by_peer M (heap t' st)"
    using message_peer_change [OF inv named proper get app]
  proof
    assume same: "remote_qpn (heap t' st) = remote_qpn (heap t1 st) \<and> remote_id (heap t' st) = remote_id (heap t1 st)"
    show ?thesis
    proof (cases "st < next_ptr t")
      case True
      then show ?thesis
        using same qpn get_flow_remote_id [OF inv get] old by (simp add: announced_by_peer_def object_at_def)
    qed (use same qpn in \<open>simp add: announced_by_peer_def object_at_def\<close>)
  qed (use m in \<open>auto simp: announced_by_peer_def announces_def\<close>)
  then show ?thesis using old by (auto elim!: works_onE [OF w])
qed

lemma announced_by_peer_run:
  assumes "tracker_inv t \<and> requests_named t" "\<forall>m\<in>set ms. proper_message m" "set ms \<subseteq> M"
    and "\<forall>a < next_ptr t. announced_by_peer M (heap t a)" "run message_step ms t = Inr t'"
  shows "\<forall>a < next_ptr t'. announced_by_peer M (heap t' a)"
  using assms
proof (induction ms arbitrary: t)
  case (Cons m ms)
  then obtain t1 where t1: "message_step m t = Inr t1" "run message_step ms t1 = Inr t'"
    by (auto elim: bind_res_InrE)
  have "tracker_inv t1 \<and> requests_named t1"
    using Cons.prems(1,2) t1(1) message_step_inv requests_named_step by auto
  then show ?case
    using Cons.IH [of t1] Cons.prems t1 announced_by_peer_step [of t m t1 M] by auto
qed simp

text \<open>
  C18: Answers are learned, never invented: after any sequence of packets that reach the last byte a handler reads,
  if a query for an address and a QPN returns a QPN, then one of the host's own REQ or REP messages in that sequence
  carried the returned QPN, and one of the REQ or REP messages from the network carried the QPN asked for and came from the address
  asked for, unless that message named no peer (its sender's identifier is 0).  In every case the address (unless
  it is 0.0.0.0) is the peer address of one of the packets.
\<close>

theorem answers_are_learned:
  assumes complete: "\<forall>e\<in>set es. complete_cm_packet env self (fst e)"
    and run: "run (packet_step env self) es new_tracker = Inr t"
    and answer: "get_source_qpn t (ip, rq) = q" "q \<noteq> 0"
  shows "(\<exists>m \<in> set (messages_of env self es). announces CTCM_FROM_HOST q m) \<and>
    (\<exists>m \<in> set (messages_of env self es). announces CTCM_FROM_NET rq m \<and>
      (cm_flow_key_bool (msg_peer m) \<longrightarrow> fst (msg_peer m) = ip)) \<and>
    (ip = 0 \<or> (\<exists>m \<in> set (messages_of env self es). fst (msg_peer m) = ip))"
proof -
  let ?M = "set (messages_of env self es)"
  note ms = run [unfolded run_messages_of [OF complete]]
  have inv: "tracker_inv t" by (rule packet_machine.run_from_init_inv [OF run])
  have "qpn_map t (ip, rq) = Some q" using answer by (simp add: get_source_qpn_def split: option.splits)
  then obtain a where a: "mapped t a" "get_flow_key (heap t a) = (ip, rq)" "local_qpn (heap t a) = q"
    using qpn_mapE [OF inv] by blast
  have o: "object_at t a = heap t a" "a < next_ptr t" using a(1) by (simp_all add: mapped_def object_at_def)
  have k: "remote_qpn (heap t a) = rq" "fst (remote_id (heap t a)) = ip" using a(2) by (simp_all add: get_flow_key_def)
  have l: "learned ?M (heap t a)"
    using all_learned_run [OF ms all_learned_new] o(1) by (metis all_learned_def order_refl)
  have "announced_by_peer ?M (heap t a)"
    using announced_by_peer_run [OF named_machine.init_inv _ order_refl _ ms] messages_of_proper o(2)
    by (auto simp: new_tracker_def)
  then have "\<exists>m \<in> ?M. announces CTCM_FROM_NET rq m \<and> (cm_flow_key_bool (msg_peer m) \<longrightarrow> fst (msg_peer m) = ip)"
    using k mappedD(3) [OF inv a(1)] by (auto simp: announced_by_peer_def)
  moreover have "\<exists>m \<in> ?M. announces CTCM_FROM_HOST q m"
    using l mappedD(2) [OF inv a(1)] a(3) by (auto simp: learned_def)
  moreover have "ip = 0 \<or> (\<exists>m \<in> ?M. fst (msg_peer m) = ip)"
  proof (cases "remote_id (heap t a) = cm_flow_key_null")
    case True
    then show ?thesis using k(2) by (simp add: cm_flow_key_null_def)
  next
    case False
    then obtain m where "m \<in> ?M" "msg_peer m = remote_id (heap t a)" using l by (auto simp: learned_def)
    then show ?thesis using k(2) by metis
  qed
  ultimately show ?thesis by blast
qed

theorem answers_are_learned_witness:
  "\<exists>m \<in> set (messages_of sample_dpdk sample_parser active_packets).
     announces CTCM_FROM_NET 0x203 m \<and> (cm_flow_key_bool (msg_peer m) \<longrightarrow> fst (msg_peer m) = 0x0200000a)"
  using answers_are_learned [OF active_packets_complete one_connection_run one_connection_facts(6)] by simp

end
