(* ===== verification/Retransmission.thy ===== *)
theory Retransmission
  imports Interleaving
begin

text \<open>
  CM messages are sent again when an answer is late.  For the tracker a repeated REQ, REP, RTU or DREQ changes nothing; a repeated
  REJ or DREP is different, see \<open>unknown_identifier_adds_idle_flow\<close>.
\<close>

definition repeatable :: "cm_kind \<Rightarrow> bool" where
  "repeatable k \<longleftrightarrow> k \<in> {Kind_REQ, Kind_REP, Kind_RTU, Kind_DREQ}"

lemma react_repeated:
  assumes "repeatable k"
  shows "react d k (next_state (react d k s) s) = Ignore \<or>
    (\<exists>s'. react d k s = Requested s' \<and> react d k s' = Requested s') \<or>
    (\<exists>s'. react d k s = Closing s' \<and> react d k s' = Closing s')"
  using assms by (cases d; cases k) (auto simp: repeatable_def react_def)

lemma react_repeatable: "repeatable k \<Longrightarrow> react d k s \<noteq> Forget"
  by (cases d; cases k) (auto simp: repeatable_def react_def)

lemma react_requested_rcvd: "react d k s = Requested REQ_RCVD \<Longrightarrow> d = CTCM_FROM_NET"
  by (cases d; cases k) (auto simp: react_def split: if_splits)

text \<open>The identifiers of a message lead to the flow it has been applied to.\<close>

lemma found_after_reaction:
  assumes inv: "tracker_inv t" and "if msg_id m \<noteq> 0 then local_map t (msg_id m) = Some st else remote_map t (msg_peer m) = Some st"
    and "apply_reaction m r t st = Inr t'" "r \<noteq> Forget"
  shows "if msg_id m \<noteq> 0 then local_map t' (msg_id m) = Some st else remote_map t' (msg_peer m) = Some st"
  using assms
  by (cases r; cases "msg_dir m")
    (auto simp: apply_reaction_def add_new_flow_def link_local_def link_remote_def Let_def res_Inr_iffs
      split: option.splits if_splits)

lemma upd_flow_twice: "(\<And>s. f (f s) = f s) \<Longrightarrow> upd_flow (upd_flow t st f) st f = upd_flow t st f"
  by (simp add: upd_flow_def)

lemma apply_reaction_repeated:
  assumes k: "repeatable (msg_kind m)" and r: "r = react (msg_dir m) (msg_kind m) (fstate (heap t st))"
    and app: "apply_reaction m r t st = Inr t'"
  shows "apply_reaction m (react (msg_dir m) (msg_kind m) (next_state r (fstate (heap t st)))) t' st = Inr t'"
proof -
  from react_repeated [OF k, of "msg_dir m" "fstate (heap t st)"]
  consider "react (msg_dir m) (msg_kind m) (next_state r (fstate (heap t st))) = Ignore"
    | s where "r = Requested s" "react (msg_dir m) (msg_kind m) s = Requested s"
    | s where "r = Closing s" "react (msg_dir m) (msg_kind m) s = Closing s" unfolding r by blast
  then show ?thesis
  proof cases
    case 1
    then show ?thesis by (simp add: apply_reaction_def)
  next
    case 2
    then have t': "t' = upd_flow t st (\<lambda>f. set_qpn (msg_dir m) (msg_qpn m) (f\<lparr>fstate := s\<rparr>))"
      using app by (auto simp: apply_reaction_def elim!: bind_res_InrE)
    have "s = REQ_RCVD \<Longrightarrow> remote_qpn (heap t' st) = msg_qpn m"
      using react_requested_rcvd 2(2) t' by fastforce
    moreover have "upd_flow t' st (\<lambda>f. set_qpn (msg_dir m) (msg_qpn m) (f\<lparr>fstate := s\<rparr>)) = t'"
      unfolding t' by (rule upd_flow_twice) (cases "msg_dir m"; simp)
    ultimately show ?thesis using 2 by (simp add: apply_reaction_def)
  next
    case 3
    then have "t' = upd_flow t st (fstate_update (\<lambda>_. s))" using app by (simp add: apply_reaction_def)
    then show ?thesis using 3 upd_flow_twice [of "fstate_update (\<lambda>_. s)"] by (simp add: apply_reaction_def)
  qed
qed

lemma message_step_repeated:
  assumes inv: "tracker_inv t" and k: "repeatable (msg_kind m)" and step: "message_step m t = Inr t'"
  shows "message_step m t' = Inr t'"
  using step
proof (rule message_stepE)
  fix t1 st
  assume get: "get_flow t (msg_id m) (lookup_peer m) = Inr (t1, st)"
    and app: "apply_reaction m (react (msg_dir m) (msg_kind m) (fstate (heap t1 st))) t1 st = Inr t'" (is "apply_reaction m ?r _ _ = _")
  note g = get_flow_spec [OF inv get]
  have "if msg_id m \<noteq> 0 then local_map t' (msg_id m) = Some st else remote_map t' (msg_peer m) = Some st"
    using g react_repeatable [OF k]
    by (intro found_after_reaction [OF _ found_by_message [OF inv get] app]) auto
  then have "get_flow t' (msg_id m) (lookup_peer m) = Inr (t', st)"
    using g by (auto simp: get_flow_def lookup_peer_def split: if_splits)
  moreover have "fstate (heap t' st) = next_state ?r (fstate (heap t1 st))"
    using message_works_on [OF inv get app] g by (simp add: table_ext_def only_ids_def)
  ultimately show ?thesis using apply_reaction_repeated [OF k refl app] by (simp add: message_step_def)
qed

text \<open>
  C20: Retransmission is harmless: once a REQ, REP, RTU or DREQ has been processed in a reachable state, processing
  the same packet again succeeds and leaves the tables, the flows and hence every answer as they are.
\<close>

theorem retransmission_is_harmless:
  assumes "tracked env self t" "decode env self p dir = Inr (Some m)" "repeatable (msg_kind m)"
    and "process env self p dir t = Inr t'"
  shows "process env self p dir t' = Inr t'"
  using assms message_step_repeated [OF packet_machine.reachable_inv [OF assms(1)]]
  by (simp add: process_decode)

theorem retransmission_is_harmless_witness:
  "\<exists>t. process sample_dpdk sample_parser req_from_host CTCM_FROM_HOST new_tracker = Inr t \<and> t \<noteq> new_tracker \<and>
     process sample_dpdk sample_parser req_from_host CTCM_FROM_HOST t = Inr t"
proof -
  obtain t where t: "process sample_dpdk sample_parser req_from_host CTCM_FROM_HOST new_tracker = Inr t"
    "local_map t 7 = Some 0"
    by (rule req_from_host_reachable)
  then have "t \<noteq> new_tracker" by (auto simp: new_tracker_def)
  then show ?thesis
    using retransmission_is_harmless [OF reach_init req_from_host_decode _ t(1)] t(1) by (auto simp: repeatable_def)
qed

end
