(* ===== verification/Logging.thy ===== *)
theory Logging
  imports Samples
begin

text \<open>
  \<^verbatim>\<open>src/logging.h\<close> and the log lines of \<^verbatim>\<open>src/cm_connection_tracker.cpp\<close>: what the library hands to DPDK's \<^verbatim>\<open>rte_log\<close>, in order.

  A computation with output is a list of calls and a result; \<open>Tracker\<close> has the same functions without the calls.  The
  level and the log type are DPDK's constants and the text of \<^verbatim>\<open>BOOST_CURRENT_FUNCTION\<close> is the compiler's; they are the fields of
  \<open>log_env\<close>.  The output is not read back, so what matters of it is that writing it changes nothing, and that the
  arguments of every call fit its format, since a mismatch is undefined behaviour.  One line does not: \<^verbatim>\<open>dreq_sent\<close> prints an
  unsigned identifier as a signed number.
\<close>

section \<open>Calls and computations with output\<close>

text \<open>
  An argument is a string, an \<^verbatim>\<open>unsigned int\<close>, or an \<^verbatim>\<open>int\<close>; the bytes, the 16-bit numbers and the enumerators among the arguments are
  promoted to \<^verbatim>\<open>int\<close>.
\<close>

datatype log_arg = Log_str string | Log_uint u32 | Log_int int

record rte_log_call =
  log_level :: u32
  log_type :: u32
  log_format :: string
  log_args :: "log_arg list"

record log_env =
  RTE_LOG_DEBUG :: u32
  RTE_LOGTYPE_USER1 :: u32
  BOOST_CURRENT_FUNCTION :: "string \<Rightarrow> string"

definition CTCM_PREFIX :: string where
  "CTCM_PREFIX = ''conntrack-cm: ''"

definition CTCM_LOGTYPE :: "log_env \<Rightarrow> u32" where
  "CTCM_LOGTYPE le = RTE_LOGTYPE_USER1 le"

definition log_debug :: "log_env \<Rightarrow> string \<Rightarrow> log_arg list \<Rightarrow> rte_log_call" where
  "log_debug le fmt args =
     \<lparr>log_level = RTE_LOG_DEBUG le, log_type = CTCM_LOGTYPE le, log_format = CTCM_PREFIX @ fmt, log_args = args\<rparr>"

text \<open>The end of a line, and an enumerator as the integer it is passed as.\<close>

definition newline :: string where
  "newline = [CHR 0x0A]"

definition Log_state :: "flow_state_name \<Rightarrow> log_arg" where
  "Log_state s = Log_int (int (flow_state_num s))"

type_synonym 'a logged = "rte_log_call list \<times> 'a res"

definition quiet :: "'a res \<Rightarrow> 'a logged" where
  "quiet r = ([], r)"

definition log_then :: "rte_log_call \<Rightarrow> 'a logged \<Rightarrow> 'a logged" where
  "log_then l m = (l # fst m, snd m)"

definition bind_log :: "'a logged \<Rightarrow> ('a \<Rightarrow> 'b logged) \<Rightarrow> 'b logged" where
  "bind_log m f = (case snd m of Inl e \<Rightarrow> (fst m, Inl e) | Inr x \<Rightarrow> (fst m @ fst (f x), snd (f x)))"

text \<open>
  \<^verbatim>\<open>inet_ntoa\<close>: the address in dotted notation.  The first number is the first byte in memory, which is the lowest of the
  word on a little-endian host.
\<close>

fun decimal :: "nat \<Rightarrow> string" where
  "decimal n = (if n < 10 then [char_of (48 + n)] else decimal (n div 10) @ [char_of (48 + n mod 10)])"

definition inet_ntoa :: "in_addr_t \<Rightarrow> string" where
  "inet_ntoa a =
     decimal (unat (a AND 0xff)) @ ''.'' @ decimal (unat (drop_bit 8 a AND 0xff)) @ ''.'' @
     decimal (unat (drop_bit 16 a AND 0xff)) @ ''.'' @ decimal (unat (drop_bit 24 a AND 0xff))"

lemma inet_ntoa_sample: "inet_ntoa 0x0200000a = ''10.0.0.2''"
  by code_simp

declare decimal.simps [simp del]

section \<open>The flow tables\<close>

definition flow_state_log :: "log_env \<Rightarrow> string \<Rightarrow> string \<Rightarrow> flow_state \<Rightarrow> rte_log_call" where
  "flow_state_log le func msg s =
     log_debug le (''%s:%s state: %s, IDs: (0x%x, 0x%x), QPNs: (0x%x, 0x%x)'' @ newline)
       [Log_str func, Log_str msg, Log_str (state_names ! flow_state_num (fstate s)), Log_uint (local_id s),
        Log_uint (snd (remote_id s)), Log_uint (local_qpn s), Log_uint (remote_qpn s)]"

definition logged_add_new_flow :: "log_env \<Rightarrow> tracker \<Rightarrow> id_t \<Rightarrow> cm_flow_key \<Rightarrow> (tracker \<times> nat) logged" where
  "logged_add_new_flow le t lid rid =
     log_then (log_debug le (''add_new_flow(0x%x, 0x%x)'' @ newline) [Log_uint lid, Log_uint (snd rid)])
     (let local_it = local_map t lid;
          remote_it = remote_map t rid;
          link = (\<lambda>t st.
            bind_log (quiet (link_local t st lid local_it)) (\<lambda>t.
            bind_log (quiet (link_remote t st rid remote_it)) (\<lambda>t. quiet (Inr (t, st)))))
      in case (local_it, remote_it) of
           (Some l, Some r) \<Rightarrow>
             bind_log (quiet (assert_res (l = r))) (\<lambda>_.
             bind_log (quiet (assert_res (local_id (heap t l) = lid \<and> remote_id (heap t l) = rid))) (\<lambda>_.
             log_then (log_debug le ''%s'' [Log_str (''Warning: adding an already existing entry'' @ newline)])
             (quiet (Inr (t, l)))))
         | (None, None) \<Rightarrow>
             bind_log (quiet (assert_res (lid \<noteq> 0 \<or> cm_flow_key_bool rid))) (\<lambda>_.
             log_then (log_debug le ''%s'' [Log_str (''New flow_state{}'' @ newline)])
             (link (t\<lparr>heap := (heap t)(next_ptr t := new_flow_state), next_ptr := Suc (next_ptr t)\<rparr>) (next_ptr t)))
         | (Some l, None) \<Rightarrow>
             log_then (log_debug le (''flow_state in local: local_id 0x%x, remote_id 0x%x'' @ newline)
               [Log_uint (local_id (heap t l)), Log_uint (snd (remote_id (heap t l)))])
             (link t l)
         | (None, Some r) \<Rightarrow>
             log_then (log_debug le (''flow_state in remote: local_id 0x%x, remote_id 0x%x'' @ newline)
               [Log_uint (local_id (heap t r)), Log_uint (snd (remote_id (heap t r)))])
             (link t r))"

definition logged_get_flow :: "log_env \<Rightarrow> tracker \<Rightarrow> id_t \<Rightarrow> cm_flow_key \<Rightarrow> (tracker \<times> nat) logged" where
  "logged_get_flow le t lid rid =
     bind_log (quiet (assert_res (lid \<noteq> 0 \<or> cm_flow_key_bool rid))) (\<lambda>_.
       case (if lid \<noteq> 0 then local_map t lid else remote_map t rid) of
         None \<Rightarrow> logged_add_new_flow le t lid rid
       | Some st \<Rightarrow> quiet (Inr (t, st)))"

definition bad_qpns :: "log_env \<Rightarrow> flow_state \<Rightarrow> rte_log_call" where
  "bad_qpns le s =
     log_debug le (''Bad QPNs local: 0x%x remote: 0x%x'' @ newline) [Log_uint (local_qpn s), Log_uint (remote_qpn s)]"

definition logged_on_established :: "log_env \<Rightarrow> tracker \<Rightarrow> nat \<Rightarrow> tracker logged" where
  "logged_on_established le t st =
     (let s = heap t st
      in if local_qpn s = 0 \<or> remote_qpn s = 0 then log_then (bad_qpns le s) (quiet (Inr t))
         else case qpn_map t (fst (flow_value s)) of
                Some _ \<Rightarrow>
                  log_then (log_debug le (''QP already in table: 0x%x'' @ newline) [Log_uint (local_qpn s)]) (quiet (Inr t))
              | None \<Rightarrow>
                  log_then (log_debug le (''Established: local: 0x%x, remote: %s:0x%x'' @ newline)
                    [Log_uint (local_qpn s), Log_str (inet_ntoa (fst (remote_id s))), Log_uint (remote_qpn s)])
                  (quiet (Inr (upd_flow (t\<lparr>qpn_map := (qpn_map t)(fst (flow_value s) \<mapsto> snd (flow_value s))\<rparr>) st
                    (in_qpn_map_update (\<lambda>_. True))))))"

definition logged_on_disconnected :: "log_env \<Rightarrow> tracker \<Rightarrow> nat \<Rightarrow> tracker logged" where
  "logged_on_disconnected le t st =
     (let s = heap t st
      in if local_qpn s = 0 \<or> remote_qpn s = 0 then log_then (bad_qpns le s) (quiet (Inr t))
         else case qpn_map t (get_flow_key s) of
                None \<Rightarrow>
                  log_then (log_debug le (''QP was not in table: 0x%x'' @ newline) [Log_uint (local_qpn s)]) (quiet (Inr t))
              | Some _ \<Rightarrow>
                  log_then (log_debug le (''Disconnected: local: 0x%x, remote: 0x%x'' @ newline)
                    [Log_uint (local_qpn s), Log_uint (remote_qpn s)])
                  (quiet (Inr (upd_flow (t\<lparr>qpn_map := (qpn_map t)(get_flow_key s := None)\<rparr>) st
                    (in_qpn_map_update (\<lambda>_. False))))))"

definition logged_erase_flow :: "log_env \<Rightarrow> tracker \<Rightarrow> id_t \<Rightarrow> cm_flow_key \<Rightarrow> tracker logged" where
  "logged_erase_flow le t lid rid =
     bind_log (quiet (assert_res (lid \<noteq> 0 \<or> cm_flow_key_bool rid))) (\<lambda>_.
       case (if lid \<noteq> 0 then local_map t lid else remote_map t rid) of
         None \<Rightarrow>
           log_then (log_debug le (''Unknown ID erased: 0x%x, 0x%x'' @ newline) [Log_uint lid, Log_uint (snd rid)])
           (quiet (Inr t))
       | Some st \<Rightarrow>
           bind_log (if in_qpn_map (heap t st) then logged_on_disconnected le t st else quiet (Inr t)) (\<lambda>t'.
           quiet (Inr (t'\<lparr>local_map := (local_map t')(lid := None),
                         remote_map := (remote_map t')(rid := None)\<rparr>))))"

section \<open>Handlers\<close>

type_synonym logged_handler = "log_env \<Rightarrow> dpdk \<Rightarrow> parser_context \<Rightarrow> rte_mbuf \<Rightarrow> tracker \<Rightarrow> tracker logged"

text \<open>The line at the head of every handler, and the one of a switch without a case for the state.\<close>

definition log_entry :: "log_env \<Rightarrow> string \<Rightarrow> tracker \<Rightarrow> nat \<Rightarrow> rte_log_call" where
  "log_entry le func t st = flow_state_log le (BOOST_CURRENT_FUNCTION le func) [] (heap t st)"

definition log_unexpected :: "log_env \<Rightarrow> string \<Rightarrow> tracker \<Rightarrow> nat \<Rightarrow> tracker logged" where
  "log_unexpected le what t st =
     log_then (log_debug le (what @ '' -> unexpected state: 0x%x'' @ newline) [Log_state (fstate (heap t st))]) (quiet (Inr t))"

definition logged_req_sent :: logged_handler where
  "logged_req_sent le env self p t =
     bind_log (quiet (cm_msg self p)) (\<lambda>msg.
     bind_log (quiet (IBA_GET_u32 CM_REQ_LOCAL_COMM_ID p msg)) (\<lambda>lid.
     bind_log (logged_get_flow le t lid cm_flow_key_null) (\<lambda>(t, st).
     log_then (log_entry le ''req_sent'' t st) (
     if fstate (heap t st) \<in> {IDLE, REQ_SENT}
     then bind_log (quiet (IBA_GET_u32 CM_REQ_LOCAL_QPN p msg)) (\<lambda>qpn.
       let t = upd_flow t st (\<lambda>s. s\<lparr>fstate := REQ_SENT, local_qpn := qpn\<rparr>)
       in log_then (log_entry le ''req_sent'' t st) (quiet (Inr t)))
     else log_unexpected le ''CM req'' t st))))"

definition logged_req_received :: logged_handler where
  "logged_req_received le env self p t =
     bind_log (quiet (cm_msg self p)) (\<lambda>msg.
     bind_log (quiet (IBA_GET_u32 CM_REQ_LOCAL_COMM_ID p msg)) (\<lambda>rid.
     bind_log (quiet (from_src env p rid)) (\<lambda>remote_flow.
     bind_log (logged_get_flow le t 0 remote_flow) (\<lambda>(t, st).
     log_then (log_entry le ''req_received'' t st) (
     if fstate (heap t st) \<in> {REQ_RCVD, IDLE}
     then bind_log (quiet (IBA_GET_u32 CM_REQ_LOCAL_QPN p msg)) (\<lambda>qpn.
       bind_log (quiet (assert_res (fstate (heap t st) = REQ_RCVD \<longrightarrow> remote_qpn (heap t st) = qpn))) (\<lambda>_.
       let t = upd_flow t st (\<lambda>s. s\<lparr>fstate := REQ_RCVD, remote_qpn := qpn\<rparr>)
       in log_then (log_entry le ''req_received'' t st) (quiet (Inr t))))
     else log_unexpected le ''CM req received'' t st)))))"

definition logged_rej_sent :: logged_handler where
  "logged_rej_sent le env self p t =
     bind_log (quiet (cm_msg self p)) (\<lambda>msg.
     bind_log (quiet (IBA_GET_u32 CM_REJ_LOCAL_COMM_ID p msg)) (\<lambda>lid.
     bind_log (quiet (IBA_GET_u32 CM_REJ_REMOTE_COMM_ID p msg)) (\<lambda>rid.
     bind_log (quiet (from_dest env p rid)) (\<lambda>remote_flow.
     bind_log (logged_get_flow le t lid remote_flow) (\<lambda>(t, st).
     log_then (log_entry le ''rej_sent'' t st) (
     if fstate (heap t st) \<in> {IDLE, REQ_RCVD, REQ_SENT, MRA_REQ_RCVD, MRA_REQ_SENT, REP_RCVD, MRA_REP_SENT}
     then (if fstate (heap t st) = IDLE
        then log_then (log_debug le (''CM[0x%x] rej: warning IDLE state or not found.'' @ newline) [Log_uint lid])
        else id)
       (bind_log (logged_erase_flow le t lid remote_flow) (\<lambda>t.
       log_then (log_debug le (''CM rej -> IDLE. local ID = 0x%x'' @ newline) [Log_uint lid]) (quiet (Inr t))))
     else if fstate (heap t st) \<in> {REP_SENT, MRA_REP_RCVD}
     then bind_log (logged_erase_flow le t lid remote_flow) (\<lambda>t.
       log_then (log_debug le (''CM rej -> IDLE. local ID = 0x%x'' @ newline) [Log_uint lid]) (quiet (Inr t)))
     else log_unexpected le ''CM rej'' t st))))))"

definition logged_rej_received :: logged_handler where
  "logged_rej_received le env self p t =
     bind_log (quiet (cm_msg self p)) (\<lambda>msg.
     bind_log (quiet (IBA_GET_u32 CM_REJ_REMOTE_COMM_ID p msg)) (\<lambda>lid.
     bind_log (quiet (IBA_GET_u32 CM_REJ_LOCAL_COMM_ID p msg)) (\<lambda>rid.
     bind_log (quiet (from_src env p rid)) (\<lambda>remote_flow.
     bind_log (logged_get_flow le t lid remote_flow) (\<lambda>(t, st).
     log_then (log_entry le ''rej_received'' t st) (
     if fstate (heap t st) \<in> {IDLE, REQ_SENT, MRA_REQ_RCVD, REP_SENT, MRA_REP_RCVD, MRA_REQ_SENT}
     then (if fstate (heap t st) = IDLE
        then log_then (log_debug le (''CM[0x%x] rej received: warning IDLE state or not found.'' @ newline) [Log_uint lid])
        else id)
       (bind_log (logged_erase_flow le t lid remote_flow) (\<lambda>t.
       log_then (log_debug le (''CM rej received -> IDLE. local ID = 0x%x'' @ newline) [Log_uint lid]) (quiet (Inr t))))
     else if fstate (heap t st) \<in> {DREQ_SENT, REP_RCVD, MRA_REP_SENT, ESTABLISHED}
     then bind_log (logged_erase_flow le t lid remote_flow) (\<lambda>t.
       log_then (log_debug le (''CM rej received -> IDLE. local ID = 0x%x'' @ newline) [Log_uint lid]) (quiet (Inr t)))
     else log_unexpected le ''CM rej received'' t st))))))"

definition logged_rep_sent :: logged_handler where
  "logged_rep_sent le env self p t =
     bind_log (quiet (cm_msg self p)) (\<lambda>msg.
     bind_log (quiet (IBA_GET_u32 CM_REP_LOCAL_COMM_ID p msg)) (\<lambda>lid.
     bind_log (quiet (IBA_GET_u32 CM_REP_REMOTE_COMM_ID p msg)) (\<lambda>rid.
     bind_log (quiet (from_dest env p rid)) (\<lambda>remote_flow.
     bind_log (logged_get_flow le t lid remote_flow) (\<lambda>(t, st).
     log_then (log_entry le ''rep_sent'' t st) (
     if fstate (heap t st) \<in> {REQ_RCVD, MRA_REQ_SENT}
     then bind_log (logged_add_new_flow le (upd_flow t st (fstate_update (\<lambda>_. REP_SENT))) lid remote_flow) (\<lambda>(t, _).
       bind_log (quiet (IBA_GET_u32 CM_REP_LOCAL_QPN p msg)) (\<lambda>qpn.
       let t = upd_flow t st (local_qpn_update (\<lambda>_. qpn))
       in log_then (log_debug le (''CM rep -> REP_SENT. local ID = 0x%x, qpn = 0x%x'' @ newline) [Log_uint lid, Log_uint (local_qpn (heap t st))])
          (quiet (Inr t))))
     else if fstate (heap t st) = REP_SENT
     then log_then (log_debug le (''CM rep -> REP_SENT duplicate. local ID = 0x%x, qpn = 0x%x'' @ newline) [Log_uint lid, Log_uint (local_qpn (heap t st))])
       (quiet (Inr t))
     else log_unexpected le ''CM rep'' t st))))))"

definition logged_rep_received :: logged_handler where
  "logged_rep_received le env self p t =
     bind_log (quiet (cm_msg self p)) (\<lambda>msg.
     bind_log (quiet (IBA_GET_u32 CM_REP_REMOTE_COMM_ID p msg)) (\<lambda>lid.
     bind_log (quiet (IBA_GET_u32 CM_REP_LOCAL_COMM_ID p msg)) (\<lambda>rid.
     bind_log (quiet (from_src env p rid)) (\<lambda>remote_flow.
     bind_log (logged_get_flow le t lid cm_flow_key_null) (\<lambda>(t, st).
     log_then (log_entry le ''rep_received'' t st) (
     if fstate (heap t st) \<in> {REQ_SENT, MRA_REQ_RCVD}
     then bind_log (quiet (IBA_GET_u32 CM_REP_LOCAL_QPN p msg)) (\<lambda>qpn.
       bind_log (logged_add_new_flow le
           (upd_flow t st (\<lambda>s. s\<lparr>fstate := REP_RCVD, remote_qpn := qpn\<rparr>)) lid remote_flow) (\<lambda>(t, _).
       log_then (log_debug le
           (''CM rep received -> REP_SENT. local ID = 0x%x, remote ID = 0x%x, local qpn = 0x%x remote qpn = 0x%x'' @ newline)
           [Log_uint lid, Log_uint rid, Log_uint (local_qpn (heap t st)), Log_uint (remote_qpn (heap t st))])
         (quiet (Inr t))))
     else log_unexpected le ''CM rep received'' t st))))))"

definition logged_rtu_sent :: logged_handler where
  "logged_rtu_sent le env self p t =
     bind_log (quiet (cm_msg self p)) (\<lambda>msg.
     bind_log (quiet (IBA_GET_u32 CM_RTU_LOCAL_COMM_ID p msg)) (\<lambda>lid.
     bind_log (logged_get_flow le t lid cm_flow_key_null) (\<lambda>(t, st).
     log_then (log_entry le ''rtu_sent'' t st) (
     if fstate (heap t st) \<in> {REP_RCVD, MRA_REP_SENT}
     then bind_log (logged_on_established le (upd_flow t st (fstate_update (\<lambda>_. ESTABLISHED))) st) (\<lambda>t.
       log_then (log_debug le (''CM rtu -> ESTABLISHED. local ID = 0x%x, qpn = 0x%x'' @ newline) [Log_uint lid, Log_uint (local_qpn (heap t st))])
         (quiet (Inr t)))
     else log_unexpected le ''CM rtu'' t st))))"

definition logged_rtu_received :: logged_handler where
  "logged_rtu_received le env self p t =
     bind_log (quiet (cm_msg self p)) (\<lambda>msg.
     bind_log (quiet (IBA_GET_u32 CM_RTU_REMOTE_COMM_ID p msg)) (\<lambda>lid.
     bind_log (logged_get_flow le t lid cm_flow_key_null) (\<lambda>(t, st).
     log_then (log_entry le ''rtu_received'' t st) (
     if fstate (heap t st) \<in> {REP_SENT, MRA_REP_RCVD}
     then bind_log (logged_on_established le (upd_flow t st (fstate_update (\<lambda>_. ESTABLISHED))) st) (\<lambda>t.
       log_then (log_debug le (''CM rtu received -> ESTABLISHED. local ID = 0x%x, qpn = 0x%x'' @ newline) [Log_uint lid, Log_uint (local_qpn (heap t st))])
         (quiet (Inr t)))
     else log_unexpected le ''CM rtu received'' t st))))"

definition idle_dreq_line :: "log_env \<Rightarrow> id_t \<Rightarrow> rte_log_call" where
  "idle_dreq_line le lid = log_debug le (''CM[%d] dreq (IDLE): maybe we missed some states?'' @ newline) [Log_uint lid]"

definition logged_dreq_sent :: logged_handler where
  "logged_dreq_sent le env self p t =
     bind_log (quiet (cm_msg self p)) (\<lambda>msg.
     bind_log (quiet (IBA_GET_u32 CM_DREQ_LOCAL_COMM_ID p msg)) (\<lambda>lid.
     bind_log (logged_get_flow le t lid cm_flow_key_null) (\<lambda>(t, st).
     log_then (log_entry le ''dreq_sent'' t st) (
     if fstate (heap t st) \<in> {IDLE, ESTABLISHED, DREQ_SENT, DREQ_RCVD}
     then (if fstate (heap t st) = IDLE
        then log_then (idle_dreq_line le lid)
        else id)
       (log_then (log_debug le (''CM dreq -> DREQ_SENT. local ID = 0x%x'' @ newline) [Log_uint lid])
       (quiet (Inr (upd_flow t st (fstate_update (\<lambda>_. DREQ_SENT))))))
     else log_unexpected le ''CM dreq'' t st))))"

definition logged_dreq_received :: logged_handler where
  "logged_dreq_received le env self p t =
     bind_log (quiet (cm_msg self p)) (\<lambda>msg.
     bind_log (quiet (IBA_GET_u32 CM_DREQ_REMOTE_COMM_ID p msg)) (\<lambda>lid.
     bind_log (logged_get_flow le t lid cm_flow_key_null) (\<lambda>(t, st).
     log_then (log_entry le ''dreq_received'' t st) (
     if fstate (heap t st) \<in> {REP_SENT, DREQ_SENT, ESTABLISHED, MRA_REP_RCVD, TIMEWAIT, DREQ_RCVD}
     then log_then (log_debug le (''CM dreq received -> DREQ_RCVD. local ID = 0x%x'' @ newline) [Log_uint lid])
       (quiet (Inr (upd_flow t st (fstate_update (\<lambda>_. DREQ_RCVD)))))
     else log_unexpected le ''CM dreq received'' t st))))"

definition logged_drep_sent :: logged_handler where
  "logged_drep_sent le env self p t =
     bind_log (quiet (cm_msg self p)) (\<lambda>msg.
     bind_log (quiet (IBA_GET_u32 CM_DREP_LOCAL_COMM_ID p msg)) (\<lambda>lid.
     bind_log (quiet (IBA_GET_u32 CM_DREP_REMOTE_COMM_ID p msg)) (\<lambda>rid.
     bind_log (quiet (from_dest env p rid)) (\<lambda>remote_flow.
     bind_log (logged_get_flow le t lid cm_flow_key_null) (\<lambda>(t, st).
     log_then (log_entry le ''drep_sent'' t st) (
     if fstate (heap t st) \<in> {DREQ_SENT, DREQ_RCVD}
     then bind_log (logged_erase_flow le t lid remote_flow) (\<lambda>t.
       log_then (log_debug le (''CM drep -> IDLE. local ID = 0x%x'' @ newline) [Log_uint lid]) (quiet (Inr t)))
     else log_unexpected le ''CM drep'' t st))))))"

definition logged_drep_received :: logged_handler where
  "logged_drep_received le env self p t =
     bind_log (quiet (cm_msg self p)) (\<lambda>msg.
     bind_log (quiet (IBA_GET_u32 CM_DREP_REMOTE_COMM_ID p msg)) (\<lambda>lid.
     bind_log (quiet (IBA_GET_u32 CM_DREP_LOCAL_COMM_ID p msg)) (\<lambda>rid.
     bind_log (quiet (from_src env p rid)) (\<lambda>remote_flow.
     bind_log (logged_get_flow le t lid cm_flow_key_null) (\<lambda>(t, st).
     log_then (log_entry le ''drep_received'' t st) (
     if fstate (heap t st) \<in> {DREQ_SENT, DREQ_RCVD}
     then bind_log (logged_erase_flow le t lid remote_flow) (\<lambda>t.
       log_then (log_debug le (''CM drep received -> IDLE. local ID = 0x%x'' @ newline) [Log_uint lid]) (quiet (Inr t)))
     else log_unexpected le ''CM drep received'' t st))))))"

section \<open>Dispatch\<close>

definition logged_host_handlers :: "logged_handler option list" where
  "logged_host_handlers =
     (replicate (unat CM_MAX_ATTR_ID) None)
       [unat CM_REQ_ATTR_ID := Some logged_req_sent,
        unat CM_REJ_ATTR_ID := Some logged_rej_sent,
        unat CM_REP_ATTR_ID := Some logged_rep_sent,
        unat CM_RTU_ATTR_ID := Some logged_rtu_sent,
        unat CM_DREQ_ATTR_ID := Some logged_dreq_sent,
        unat CM_DREP_ATTR_ID := Some logged_drep_sent]"

definition logged_net_handlers :: "logged_handler option list" where
  "logged_net_handlers =
     (replicate (unat CM_MAX_ATTR_ID) None)
       [unat CM_REQ_ATTR_ID := Some logged_req_received,
        unat CM_REJ_ATTR_ID := Some logged_rej_received,
        unat CM_REP_ATTR_ID := Some logged_rep_received,
        unat CM_RTU_ATTR_ID := Some logged_rtu_received,
        unat CM_DREQ_ATTR_ID := Some logged_dreq_received,
        unat CM_DREP_ATTR_ID := Some logged_drep_received]"

text \<open>The four bytes of the MAD header that are printed for an unknown attribute.\<close>

definition log_mad_header :: "log_env \<Rightarrow> parser_context \<Rightarrow> rte_mbuf \<Rightarrow> unit logged" where
  "log_mad_header le self p =
     bind_log (quiet (cm_msg self p)) (\<lambda>hdr.
     bind_log (quiet (load (buf p) (hdr + offsetof ib_mad_hdr ''base_version''))) (\<lambda>base_version :: u8.
     bind_log (quiet (load (buf p) (hdr + offsetof ib_mad_hdr ''mgmt_class''))) (\<lambda>mgmt_class :: u8.
     bind_log (quiet (load (buf p) (hdr + offsetof ib_mad_hdr ''class_version''))) (\<lambda>class_version :: u8.
     bind_log (quiet (load (buf p) (hdr + offsetof ib_mad_hdr ''method''))) (\<lambda>mad_method :: u8.
     log_then (log_debug le
         (''RoCE MAD packet: '' @ newline @
          ''base_version: 0x%x, mgmt_class: 0x%x, class_version: 0x%x, method: 0x%x'' @ newline)
         [Log_int (uint base_version), Log_int (uint mgmt_class), Log_int (uint class_version), Log_int (uint mad_method)])
     (quiet (Inr ())))))))"

definition logged_process_packet :: "logged_handler option list \<Rightarrow> logged_handler" where
  "logged_process_packet handlers le env self p t =
     bind_log (quiet (get_attr_id self p)) (\<lambda>attr_id.
       case (if attr_id < CM_MAX_ATTR_ID then handlers ! unat attr_id else None) of
         Some h \<Rightarrow> h le env self p t
       | None \<Rightarrow>
           log_then (log_debug le (''Unknown attr_id received in %s: 0x%x'' @ newline)
             [Log_str (BOOST_CURRENT_FUNCTION le ''process_packet''), Log_int (uint attr_id)])
           (bind_log (log_mad_header le self p) (\<lambda>_. quiet (Inr t))))"

definition logged_process :: "log_env \<Rightarrow> dpdk \<Rightarrow> parser_context \<Rightarrow> rte_mbuf \<Rightarrow> ctcm_direction \<Rightarrow> tracker \<Rightarrow> tracker logged" where
  "logged_process le env self p dir t =
     (case dir of
        CTCM_FROM_HOST \<Rightarrow> logged_process_packet logged_host_handlers le env self p t
      | CTCM_FROM_NET \<Rightarrow> logged_process_packet logged_net_handlers le env self p t)"

section \<open>Writing the log changes nothing\<close>

lemma bind_res_id [simp]: "bind_res m Inr = m"
  by (cases m) simp_all

lemma snd_logged [simp]:
  "snd (quiet r) = r" "snd (log_then l m) = snd m" "snd (bind_log m f) = bind_res (snd m) (\<lambda>x. snd (f x))"
  by (simp_all add: quiet_def log_then_def bind_log_def bind_res_def split: sum.split)

lemma snd_log_unexpected [simp]: "snd (log_unexpected le what t st) = Inr t"
  by (simp add: log_unexpected_def)

lemma logged_add_new_flow_result [simp]: "snd (logged_add_new_flow le t lid rid) = add_new_flow t lid rid"
  by (simp add: logged_add_new_flow_def add_new_flow_def Let_def split: option.split)

lemma logged_get_flow_result [simp]: "snd (logged_get_flow le t lid rid) = get_flow t lid rid"
  by (auto simp: logged_get_flow_def get_flow_def intro!: bind_res_cong split: option.split)

lemma logged_on_established_result [simp]: "snd (logged_on_established le t st) = Inr (on_established t st)"
  by (simp add: logged_on_established_def on_established_def Let_def split: option.split)

lemma logged_on_disconnected_result [simp]: "snd (logged_on_disconnected le t st) = Inr (on_disconnected t st)"
  by (simp add: logged_on_disconnected_def on_disconnected_def Let_def split: option.split)

lemma logged_erase_flow_result [simp]: "snd (logged_erase_flow le t lid rid) = erase_flow t lid rid"
  by (auto simp: logged_erase_flow_def erase_flow_def Let_def intro!: bind_res_cong split: option.split)

lemmas logged_handler_defs = logged_req_sent_def logged_req_received_def logged_rej_sent_def logged_rej_received_def
  logged_rep_sent_def logged_rep_received_def logged_rtu_sent_def logged_rtu_received_def logged_dreq_sent_def
  logged_dreq_received_def logged_drep_sent_def logged_drep_received_def

lemma logged_handler_results:
  "snd (logged_req_sent le env self p t) = req_sent env self p t"
  "snd (logged_req_received le env self p t) = req_received env self p t"
  "snd (logged_rej_sent le env self p t) = rej_sent env self p t"
  "snd (logged_rej_received le env self p t) = rej_received env self p t"
  "snd (logged_rep_sent le env self p t) = rep_sent env self p t"
  "snd (logged_rep_received le env self p t) = rep_received env self p t"
  "snd (logged_rtu_sent le env self p t) = rtu_sent env self p t"
  "snd (logged_rtu_received le env self p t) = rtu_received env self p t"
  "snd (logged_dreq_sent le env self p t) = dreq_sent env self p t"
  "snd (logged_dreq_received le env self p t) = dreq_received env self p t"
  "snd (logged_drep_sent le env self p t) = drep_sent env self p t"
  "snd (logged_drep_received le env self p t) = drep_received env self p t"
  by (auto simp: logged_handler_defs req_sent_def req_received_def rej_sent_def rej_received_def rep_sent_def
      rep_received_def rtu_sent_def rtu_received_def dreq_sent_def dreq_received_def drep_sent_def drep_received_def
      Let_def split_beta intro!: bind_res_cong)

lemma log_mad_header_result:
  assumes "get_attr_id self p = Inr a"
  shows "snd (log_mad_header le self p) = Inr ()"
proof -
  obtain hdr w where hdr: "cm_msg self p = Inr hdr" and w: "load (buf p) (hdr + 16) = Inr (w :: u16)"
    using assms by (auto simp: get_attr_id_def mad_attr_id_def res_Inr_iffs layout_simps)
  then have "\<exists>b :: u8. load (buf p) (hdr + i) = Inr b" if "i < 4" for i
    using that by (auto simp: load_def split: if_splits)
  from this [of 0] this [of 1] this [of 2] this [of 3] show ?thesis
    using hdr by (auto simp: log_mad_header_def layout_simps)
qed

lemma logged_handlers_match:
  assumes "i < unat CM_MAX_ATTR_ID"
  shows "map_option (\<lambda>h. snd (h le env self p t)) (logged_host_handlers ! i) =
      map_option (\<lambda>h. h env self p t) (host_handlers ! i)"
    "map_option (\<lambda>h. snd (h le env self p t)) (logged_net_handlers ! i) =
      map_option (\<lambda>h. h env self p t) (net_handlers ! i)"
  using assms
  by (simp_all add: logged_host_handlers_def host_handlers_def logged_net_handlers_def net_handlers_def cm_attr_defs
      nth_list_update logged_handler_results)

lemma logged_process_packet_result:
  assumes "\<And>i. i < unat CM_MAX_ATTR_ID \<Longrightarrow>
    map_option (\<lambda>h. snd (h le env self p t)) (lhs ! i) = map_option (\<lambda>h. h env self p t) (hs ! i)"
  shows "snd (logged_process_packet lhs le env self p t) = process_packet hs env self p t"
proof (cases "get_attr_id self p")
  case (Inr a)
  have "unat a < unat CM_MAX_ATTR_ID" if "a < CM_MAX_ATTR_ID" using that by (simp add: word_less_nat_alt)
  then show ?thesis
    using assms [of "unat a"] log_mad_header_result [OF Inr, of le] Inr
    by (cases "a < CM_MAX_ATTR_ID"; cases "lhs ! unat a"; cases "hs ! unat a")
      (auto simp: logged_process_packet_def process_packet_def)
qed (simp add: logged_process_packet_def process_packet_def)

lemma logged_process_result: "snd (logged_process le env self p dir t) = process env self p dir t"
  by (cases dir) (simp_all add: logged_process_def process_def logged_process_packet_result logged_handlers_match)

section \<open>Arguments fit formats\<close>

text \<open>
  The conversions of a format in order, and the arguments they accept.  \<^verbatim>\<open>%x\<close> expects an \<^verbatim>\<open>unsigned int\<close> and \<^verbatim>\<open>%d\<close> an \<^verbatim>\<open>int\<close>; as
  the C standard has it for variable arguments, the other signedness will do if the value can be represented in both types.
\<close>

fun conversions :: "string \<Rightarrow> char list" where
  "conversions (c # d # cs) =
     (if c \<noteq> CHR ''%'' then conversions (d # cs) else if d = CHR ''%'' then conversions cs else d # conversions cs)"
| "conversions _ = []"

fun accepts :: "char \<Rightarrow> log_arg \<Rightarrow> bool" where
  "accepts c (Log_str _) \<longleftrightarrow> c = CHR ''s''"
| "accepts c (Log_uint w) \<longleftrightarrow> c = CHR ''x'' \<or> c = CHR ''d'' \<and> w < 0x80000000"
| "accepts c (Log_int i) \<longleftrightarrow> c = CHR ''d'' \<or> c = CHR ''x'' \<and> 0 \<le> i"

definition well_formed_log :: "rte_log_call \<Rightarrow> bool" where
  "well_formed_log l \<longleftrightarrow> list_all2 accepts (conversions (log_format l)) (log_args l)"

text \<open>All calls fit, but for the line of \<^verbatim>\<open>dreq_sent\<close>.\<close>

definition fits_or_idle_dreq :: "rte_log_call \<Rightarrow> bool" where
  "fits_or_idle_dreq l \<longleftrightarrow> well_formed_log l \<or> (\<exists>le lid. l = idle_dreq_line le lid)"

definition logs_fit :: "'a logged \<Rightarrow> bool" where
  "logs_fit m \<longleftrightarrow> list_all fits_or_idle_dreq (fst m)"

named_theorems fits "computations whose log calls fit"

lemma logs_fit_quiet [fits]: "logs_fit (quiet r)"
  by (simp add: logs_fit_def quiet_def)

lemma logs_fit_then [fits]: "well_formed_log l \<Longrightarrow> logs_fit m \<Longrightarrow> logs_fit (log_then l m)"
  by (simp add: logs_fit_def log_then_def fits_or_idle_dreq_def)

lemma logs_fit_idle_dreq [fits]: "logs_fit m \<Longrightarrow> logs_fit (log_then (idle_dreq_line le lid) m)"
  by (auto simp: logs_fit_def log_then_def fits_or_idle_dreq_def)

lemma logs_fit_bind [fits]: "logs_fit m \<Longrightarrow> (\<And>x. snd m = Inr x \<Longrightarrow> logs_fit (f x)) \<Longrightarrow> logs_fit (bind_log m f)"
  by (simp add: logs_fit_def bind_log_def split: sum.split)

text \<open>A format without conversions in front of one with them.\<close>

lemma conversions_append:
  assumes "CHR ''%'' \<notin> set xs"
  shows "conversions (xs @ ys) = conversions ys"
  using assms
proof (induction xs)
  case (Cons c xs)
  then show ?case by (cases "xs @ ys") auto
qed simp

lemma well_formed_log_debug:
  "well_formed_log (log_debug le fmt args) \<longleftrightarrow> list_all2 accepts (conversions fmt) args"
  using conversions_append [of CTCM_PREFIX fmt] by (simp add: well_formed_log_def log_debug_def CTCM_PREFIX_def)

lemma flow_state_log_fits [fits]: "well_formed_log (flow_state_log le func msg s)"
  by (simp add: flow_state_log_def well_formed_log_debug newline_def)

lemma log_entry_fits [fits]: "well_formed_log (log_entry le func t st)"
  unfolding log_entry_def by (rule flow_state_log_fits)

lemma log_unexpected_fits:
  "CHR ''%'' \<notin> set what \<Longrightarrow> logs_fit (log_unexpected le what t st)"
  unfolding log_unexpected_def
  by (intro fits) (simp add: well_formed_log_debug newline_def Log_state_def conversions_append)

lemmas line_simps = well_formed_log_debug newline_def bad_qpns_def

lemma logged_add_new_flow_fits [fits]: "logs_fit (logged_add_new_flow le t lid rid)"
  unfolding logged_add_new_flow_def Let_def
  by (auto intro!: fits simp: line_simps split: option.split)

lemma logged_get_flow_fits [fits]: "logs_fit (logged_get_flow le t lid rid)"
  unfolding logged_get_flow_def by (auto intro!: fits split: option.split)

lemma logged_on_established_fits [fits]: "logs_fit (logged_on_established le t st)"
  unfolding logged_on_established_def Let_def by (auto intro!: fits simp: line_simps split: option.split)

lemma logged_on_disconnected_fits [fits]: "logs_fit (logged_on_disconnected le t st)"
  unfolding logged_on_disconnected_def Let_def by (auto intro!: fits simp: line_simps split: option.split)

lemma logged_erase_flow_fits [fits]: "logs_fit (logged_erase_flow le t lid rid)"
  unfolding logged_erase_flow_def by (auto intro!: fits simp: line_simps split: option.split)

lemma logged_handlers_fit [fits]:
  "logs_fit (logged_req_sent le env self p t)"
  "logs_fit (logged_req_received le env self p t)"
  "logs_fit (logged_rej_sent le env self p t)"
  "logs_fit (logged_rej_received le env self p t)"
  "logs_fit (logged_rep_sent le env self p t)"
  "logs_fit (logged_rep_received le env self p t)"
  "logs_fit (logged_rtu_sent le env self p t)"
  "logs_fit (logged_rtu_received le env self p t)"
  "logs_fit (logged_dreq_sent le env self p t)"
  "logs_fit (logged_dreq_received le env self p t)"
  "logs_fit (logged_drep_sent le env self p t)"
  "logs_fit (logged_drep_received le env self p t)"
  unfolding logged_handler_defs Let_def
  by (auto intro!: fits log_unexpected_fits simp: line_simps)

lemma log_mad_header_fits [fits]: "logs_fit (log_mad_header le self p)"
  unfolding log_mad_header_def by (intro fits) (simp add: line_simps)

lemma handler_tables_fit:
  assumes "i < unat CM_MAX_ATTR_ID"
  shows "logged_host_handlers ! i = Some h \<Longrightarrow> logs_fit (h le env self p t)"
    "logged_net_handlers ! i = Some h \<Longrightarrow> logs_fit (h le env self p t)"
  using assms
  by (auto simp: logged_host_handlers_def logged_net_handlers_def cm_attr_defs nth_list_update split: if_splits intro!: fits)

lemma logged_process_packet_fits:
  assumes "\<And>i h. i < unat CM_MAX_ATTR_ID \<Longrightarrow> hs ! i = Some h \<Longrightarrow> logs_fit (h le env self p t)"
  shows "logs_fit (logged_process_packet hs le env self p t)"
  unfolding logged_process_packet_def using assms
  by (auto intro!: fits simp: line_simps word_less_nat_alt split: option.split)

lemma logged_process_fits: "logs_fit (logged_process le env self p dir t)"
  by (cases dir) (auto simp: logged_process_def intro!: logged_process_packet_fits dest: handler_tables_fit)

lemma idle_dreq_line_fits: "well_formed_log (idle_dreq_line le lid) \<longleftrightarrow> lid < 0x80000000"
  by (simp add: idle_dreq_line_def well_formed_log_debug newline_def)

text \<open>
  C21: The arguments of every log call fit its format, with one exception: for any packet in any state of the tables, each call the
  tracker makes has as many arguments as conversions, of the type and signedness the conversion expects, unless it is the warning
  of \<^verbatim>\<open>dreq_sent\<close> about an idle flow; that one prints the identifier with \<^verbatim>\<open>%d\<close> and fits exactly for identifiers below 2^31.
\<close>

theorem log_arguments_fit:
  assumes "l \<in> set (fst (logged_process le env self p dir t))"
  shows "well_formed_log l \<longleftrightarrow> (\<forall>le' lid. l = idle_dreq_line le' lid \<longrightarrow> lid < 0x80000000)"
proof -
  have "well_formed_log l \<or> (\<exists>le' lid. l = idle_dreq_line le' lid)"
    using logged_process_fits [of le env self p dir t] assms
    by (auto simp: logs_fit_def list_all_iff fits_or_idle_dreq_def)
  then show ?thesis using idle_dreq_line_fits by blast
qed

text \<open>A DREQ of the host with the identifier 0x80000001, which the tracker does not know.\<close>

definition high_dreq :: rte_mbuf where
  "high_dreq = sample [10, 0, 0, 1] [10, 0, 0, 2] 0x15 (ids_body [0x80, 0, 0, 1] [0, 0, 0, 9])"

lemma high_dreq_logs:
  "idle_dreq_line le 0x80000001 \<in> set (fst (logged_process le sample_dpdk sample_parser high_dreq CTCM_FROM_HOST new_tracker))"
proof -
  have len: "length (ids_body [0x80, 0, 0, 1] [0, 0, 0, 9]) = 36" by (simp add: ids_body_def)
  have "get_attr_id sample_parser high_dreq = Inr 0x15" "cm_msg sample_parser high_dreq = Inr 62"
    using sample_attr [of "[10, 0, 0, 1]" "[10, 0, 0, 2]"] sample_fields(4) [of "[10, 0, 0, 1]" "[10, 0, 0, 2]"]
    by (simp_all add: high_dreq_def cm_msg_def)
  moreover have "IBA_GET_u32 CM_DREQ_LOCAL_COMM_ID high_dreq 62 = Inr 0x80000001"
    using sample_row [of "[10, 0, 0, 1]" "[10, 0, 0, 2]" "ids_body [0x80, 0, 0, 1] [0, 0, 0, 9]" 0 32] len
    by (simp add: high_dreq_def tracker_row_defs body_row_def ids_body_def be_nat_def)
  ultimately show ?thesis
    by (simp add: logged_process_def logged_process_packet_def logged_host_handlers_def cm_attr_defs logged_dreq_sent_def
        bind_log_def quiet_def log_then_def logged_get_flow_def logged_add_new_flow_def new_tracker_def link_local_def
        link_remote_def new_flow_state_def cm_flow_key_null_def cm_flow_key_bool_def upd_flow_def Let_def)
qed

theorem log_arguments_fit_witness:
  "\<exists>l \<in> set (fst (logged_process \<lparr>RTE_LOG_DEBUG = 8, RTE_LOGTYPE_USER1 = 24, BOOST_CURRENT_FUNCTION = id\<rparr> sample_dpdk
     sample_parser high_dreq CTCM_FROM_HOST new_tracker)). \<not> well_formed_log l"
proof -
  let ?le = "\<lparr>RTE_LOG_DEBUG = 8, RTE_LOGTYPE_USER1 = 24, BOOST_CURRENT_FUNCTION = id\<rparr>"
  have "\<not> well_formed_log (idle_dreq_line ?le 0x80000001)"
  proof
    assume "well_formed_log (idle_dreq_line ?le 0x80000001)"
    then have "(0x80000001 :: u32) < 0x80000000" using log_arguments_fit [OF high_dreq_logs] by blast
    then show False by simp
  qed
  then show ?thesis using high_dreq_logs by blast
qed
text \<open>Every state has its own name in the table from which the names are printed.\<close>

lemma state_names_distinct: "distinct state_names"
  by (simp add: state_names_def)

end
