(* ===== verification/Spec2Isabelle.thy ===== *)
theory Spec2Isabelle
  imports Rxe_Pkt Bitfield_Members Wire_Sizes Cnp_Test Tracker_Errors Two_Ends Provenance Retransmission Logging Connections Sessions Forgotten
begin

text \<open>
  \<^bold>\<open>libconntrack-cm\<close>: a verification development for the library that follows RDMA connection
  management on RoCE v2 and answers which local queue pair belongs to a remote one.

  \<^bold>\<open>The program.\<close>  A data path hands every packet to \<^verbatim>\<open>ctcm_parse_packet\<close> and \<^verbatim>\<open>ctcm_process_packet\<close>
  (\<^verbatim>\<open>src/main.cpp\<close>).  The parser (\<^verbatim>\<open>src/parser.cpp\<close>) recognises UDP packets to port 4791 that carry a BTH, a DETH to
  QP 1 and a MAD of the CM class, and records the offsets of BTH and MAD in two dynamic fields of the
  packet (\<^verbatim>\<open>include/libconntrack-cm.h\<close>).  The tracker (\<^verbatim>\<open>src/cm_connection_tracker.cpp\<close>) dispatches on direction and attribute
  to twelve handlers, which read the identifiers and QPNs of the message through the field tables of
  \<^verbatim>\<open>src/ibta_vol1_c12.h\<close> and \<^verbatim>\<open>src/iba.h\<close> and drive one state machine per flow.  A flow is found by the host's
  communication identifier or by the peer's address and identifier; while it is established or closing, a
  third table maps the peer's address and QPN to the host's QPN, and \<^verbatim>\<open>ctcm_query_ipv4\<close> reads that table.  With the
  answer, \<^verbatim>\<open>src/cnp.cpp\<close> builds congestion notification packets.

  \<^bold>\<open>The theories\<close>, in the order in which they build on each other:

  \<^item> \<open>Prelude\<close>: machine types, the result type (an abort, an access outside the buffer and an exception are
    values), its sequencing operator and the rules that carry the proofs.
  \<^item> \<open>Bytes\<close>, \<open>Field_Access\<close>, \<open>C_Layout\<close>: memory as a list of bytes, loads and stores of a little-endian host, byte
    order conversions (locale \<open>net_order\<close>), the contract of a header field (locales \<open>field_access\<close>, \<open>disjoint_fields\<close>),
    struct layout.
  \<^item> \<open>Build_Bug\<close>: the compile-time checks of \<^verbatim>\<open>build_bug.h\<close> as values, with the macros \<^verbatim>\<open>__OPTIMIZE__\<close> and \<^verbatim>\<open>__CHECKER__\<close> as arguments.
  \<^item> \<open>Bitfield\<close>, \<open>Bitfield_Ops\<close>, \<open>Bitfield_Members\<close>, \<open>Iba\<close>, \<open>Ib_Mad\<close>, \<open>Cm_Msgs\<close>: the macros of \<^verbatim>\<open>bitfield.h\<close> and \<^verbatim>\<open>iba.h\<close>, the
    functions \<^verbatim>\<open>bitfield.h\<close> generates for each width and byte order, the MAD header, and every row of every CM message; the rows the tracker reads are instances of \<open>field_access\<close>.
  \<^item> \<open>Ib_Mad_Defs\<close>, \<open>Wire_Sizes\<close>: the other constants and structures of \<^verbatim>\<open>ib_mad.h\<close>, \<^verbatim>\<open>ib_pack.h\<close> and \<^verbatim>\<open>rxe_hdr.h\<close>, and that the layouts
    and lengths they announce agree.
  \<^item> \<open>Rxe_Opcode\<close>, \<open>Rxe_Hdr\<close>, \<open>Rxe_Pkt\<close>: opcodes, the accessors of the transport headers, and their versions on
    packets (\<^verbatim>\<open>rxe_hdr.h\<close>, \<^verbatim>\<open>rxe_opcode.h\<close>, \<^verbatim>\<open>ib_pack.h\<close>).
  \<^item> \<open>Mbuf\<close>, \<open>Parser\<close>: packets, the dynamic-field slots (locale \<open>header_slot\<close>), \<^verbatim>\<open>parse_packet\<close> and the constructor.
  \<^item> \<open>Tracker\<close>: the flow tables, the handlers and the dispatch, as in the code; flow objects live in an
    explicit heap because the two identifier tables and the handlers share them.
  \<^item> \<open>Tracker_Msg\<close>: the specification of the tracker: CM messages, the reading of a packet as a message
    (\<open>decode\<close>), the state machine of a flow as a table (\<open>react\<close>) and its effect on the tables (\<open>message_step\<close>), with the
    lemmas that the handlers implement it.
  \<^item> \<open>Runs\<close>, \<open>Tracker_Inv\<close>: sequences of calls (locale \<open>invariant_system\<close>), abstractions of them (locale \<open>simulation\<close>) and interleavings (locale \<open>staged_system\<close>),
    the invariant of the tables and its preservation by every operation, message and packet.
  \<^item> \<open>Lifecycle\<close>, \<open>Tracker_Props\<close>, \<open>Tracker_Errors\<close>, \<open>Two_Ends\<close>: handshakes, tear-down and rejection; refinement,
    safety, invariant, queries and the state machine; aborts and entries left behind; the trackers of both
    hosts of a connection.
  \<^item> \<open>Logging\<close>: the functions of the tracker with the calls of \<^verbatim>\<open>rte_log\<close> they make, in order, with formats and arguments.
  \<^item> \<open>Cnp\<close>, \<open>Cnp_Test\<close>: the template, the pseudo packet of the invariant CRC and the completion of a CNP; the test of \<^verbatim>\<open>tests/test_cnp.cpp\<close>
    with its fixture and its hexadecimal dump.
  \<^item> \<open>Ctcm\<close>, \<open>Sessions\<close>: the library interface, and the properties from raw packets to query answers; creation and destruction of
    contexts.
  \<^item> \<open>Connections\<close>: the specification without tables and pointers: a set of connections, the abstraction of the tables to it, one commuting
    lemma per operation, and the library as an instance of the locale \<open>simulation\<close> of \<open>Runs\<close>.
  \<^item> \<open>Forgotten\<close>: flow objects that no table refers to any more.
  \<^item> \<open>Interleaving\<close>: many connections at once: which messages can end an answer, and a handshake in the midst of
    packets of other connections that do not compete for its query key (an instance of \<open>staged_system\<close>).
  \<^item> \<open>Provenance\<close>, \<open>Retransmission\<close>: where answers come from; messages that arrive again.
  \<^item> \<open>Dpdk_Instance\<close>, \<open>Samples\<close>: a concrete environment and concrete packets, on which the theorems
    with hypotheses are exercised.

  \<^bold>\<open>State.\<close>  \<open>tracker\<close> has the three hash maps as partial maps (the code never iterates over them), the heap
  of flow objects and the next free address.  \<open>rte_mbuf\<close> has the fields of DPDK's packet that the
  library uses; a pointer into the packet is an offset, a null pointer \<open>None\<close>.  Loads and stores outside the buffer
  are the error \<open>Out_of_bounds\<close>, failed assertions \<open>Assertion_failed\<close>; both end the call, as they do in the
  program (assertions are active: the build does not define \<^verbatim>\<open>NDEBUG\<close>).

  \<^bold>\<open>What is shown.\<close>  The tracker implements the state machine on every packet with a whole message, and the library as
  a whole behaves as a machine on a set of connections; its tables are consistent after every sequence of packets
  and bounded by the number of packets, so that queries are answered exactly for the registered flows;
  the handshake of a new connection leads to an answer, also among the packets of other connections, unless one of them announces the
  same peer address and QPN; the answer lasts until a DREP or a
  rejection by the peer; tear-down and rejection take it back, and leave no entry if they name both identifiers of the
  connection; flows only move forward; one packet
  works on one flow; an object that has left the identifier tables, which the code frees then and the model keeps in its heap, is never
  used again; a repeated REQ, REP, RTU or DREQ changes nothing; answers stem from the packets seen; handlers stay inside the buffer if it
  holds a whole message, and do not if it ends before the identifiers, which the parser's length test allows;
  a message aborts the process in five cases and no others; the arguments of the log calls fit their formats but for one line.  The parser
  accepts exactly the packets of \<open>carries_cm\<close>, a condition on the bytes that admits a MAD header cut off by up to four bytes.  The field tables are free of overlaps, and writing and reading a field are
  inverse; the compile-time field check accepts exactly the masks of one run of bits, the generated bit-field functions agree with
  the macros, and the MAD structures have the announced layout.  The CNP code writes the expected bytes and the CRC of exactly the invariant fields, which
  a receiver can verify; the repository's test passes in the sample environment, and its dump ends
  for every input.  The theorems of \<open>Tracker_Errors\<close>, three in \<open>Parser\<close> and \<open>Rxe_Hdr\<close> and one each in \<open>Ctcm\<close> and \<open>Logging\<close> state behaviour that a
  maintainer should know of: packets that abort the process or are read beyond their end, entries that stay, a setter that overwrites its
  neighbours, a format that does not fit its argument.

  \<^bold>\<open>Bounds.\<close>  No definition needs fuel: the loops of the library run over two constants, and the loop of \<^verbatim>\<open>hexdump\<close> has the
  bytes left as its measure.  A CM message is whole if 60
  bytes from the MAD header are in the buffer, since the last row a handler reads is the local QPN of a REQ at
  bytes 56 to 59.  Header offsets are 16 bits wide in the dynamic fields, hence the bound 65536 in \<open>roomy\<close>.

  \<^bold>\<open>Not modelled.\<close>  DPDK, Boost and the C library are not part of the repository: packet-type constants, registration of dynamic
  fields, append and CRC are the fields of the record \<open>dpdk\<close>, and the opcode table that \<^verbatim>\<open>rxe_opcode.h\<close> only declares is an
  argument.  The layout of \<^verbatim>\<open>union ib_gid\<close> comes from the verbs library and is an argument.  Functions that the headers declare and no source
  defines (packing of unpacked headers, \<^verbatim>\<open>ib_response_mad\<close>) have no definition here.  What \<^verbatim>\<open>rte_log\<close> does with a
  call is DPDK's.  What the results of \<^verbatim>\<open>rte_eal_init\<close> and \<^verbatim>\<open>rte_eal_cleanup\<close> are and which text \<^verbatim>\<open>boost::algorithm::hex\<close> writes are arguments of
  the test.  Of the repository's own code this leaves declarations, include guards, attributes and the typedefs \<^verbatim>\<open>s32\<close> and \<^verbatim>\<open>s64\<close>, which nothing
  uses.
\<close>

end
